(* ===== verification/RustStr.thy ===== *)
theory RustStr
  imports Prelude
begin

text \<open>
  The string functions of the Rust standard library that the program calls. A Rust string
  is its UTF-8 byte sequence, so it is a \<open>string\<close> here: one \<open>char\<close> is one byte, \<open>len()\<close> is
  \<open>length\<close> and \<open>as_bytes\<close> changes nothing but the type. Functions that work on Rust
  characters (\<open>trim\<close>, \<open>split_whitespace\<close>, \<open>chars\<close>) go through \<open>str_chars\<close>, which cuts the
  bytes into encoded characters; the white space characters are those of Unicode's
  \<open>White_Space\<close> property.
\<close>

section \<open>Bytes and encoded characters\<close>

definition byte_of :: "char \<Rightarrow> u8" where
  "byte_of c = word_of_nat (of_char c)"

definition char_of_byte :: "u8 \<Rightarrow> char" where
  "char_of_byte b = char_of (unat b)"

definition as_bytes :: "string \<Rightarrow> bytes" where
  "as_bytes s = map byte_of s"

definition of_bytes :: "bytes \<Rightarrow> string" where
  "of_bytes bs = map char_of_byte bs"

lemma unat_byte_of [simp]: "unat (byte_of c) = of_char c"
  by (simp add: byte_of_def unat_of_nat)

lemma char_of_byte_of [simp]: "char_of_byte (byte_of c) = c"
  by (simp add: char_of_byte_def)

lemma byte_of_char_of_byte [simp]: "byte_of (char_of_byte b) = b"
proof -
  have "unat b < 2 ^ LENGTH(8)"
    by (rule unsigned_less)
  then show ?thesis
    by (simp add: byte_of_def char_of_byte_def)
qed

lemma of_bytes_as_bytes [simp]: "of_bytes (as_bytes s) = s"
  by (simp add: of_bytes_def as_bytes_def comp_def)

lemma as_bytes_of_bytes [simp]: "as_bytes (of_bytes bs) = bs"
  by (simp add: of_bytes_def as_bytes_def comp_def)

lemma as_bytes_append [simp]: "as_bytes (s @ t) = as_bytes s @ as_bytes t"
  by (simp add: as_bytes_def)

lemma as_bytes_inject [simp]: "as_bytes s = as_bytes t \<longleftrightarrow> s = t"
  by (metis of_bytes_as_bytes)

lemma length_as_bytes [simp]: "length (as_bytes s) = length s"
  by (simp add: as_bytes_def)

text \<open>A byte of the form 10xxxxxx continues an encoded character.\<close>

fun is_cont :: "char \<Rightarrow> bool" where
  "is_cont (Char b0 b1 b2 b3 b4 b5 b6 b7) = (b7 \<and> \<not> b6)"

fun is_ascii :: "char \<Rightarrow> bool" where
  "is_ascii (Char b0 b1 b2 b3 b4 b5 b6 b7) = (\<not> b7)"

lemma is_ascii_not_cont [simp]: "is_ascii c \<Longrightarrow> \<not> is_cont c"
  by (cases c) auto

text \<open>The encoded characters of a string: an ASCII byte is one, any other byte takes the
  continuation bytes that follow it. On the UTF-8 strings Rust has this is \<open>chars()\<close>.\<close>

function str_chars :: "string \<Rightarrow> string list" where
  "str_chars [] = []"
| "str_chars (c # cs) = (if is_ascii c then [c] # str_chars cs
     else (c # takeWhile is_cont cs) # str_chars (dropWhile is_cont cs))"
  by pat_completeness auto
termination
  by (relation "measure length") (auto simp: length_dropWhile_le le_imp_less_Suc)

text \<open>A list of encoded characters is well formed when joining it and cutting it again
  gives it back.\<close>

definition enc_char :: "string \<Rightarrow> bool" where
  "enc_char c \<longleftrightarrow> c \<noteq> [] \<and> (if is_ascii (hd c) then tl c = [] else list_all is_cont (tl c))"

fun wf_chars :: "string list \<Rightarrow> bool" where
  "wf_chars [] = True"
| "wf_chars (c # cs) =
     (enc_char c \<and> wf_chars cs \<and> (cs = [] \<or> is_ascii (hd c) \<or> \<not> is_cont (hd (hd cs))))"

lemma concat_str_chars [simp]: "concat (str_chars s) = s"
  by (induction s rule: str_chars.induct) auto

lemma dropWhile_lead: "dropWhile p s = [] \<or> \<not> p (hd (dropWhile p s))"
  by (induction s) auto

lemma str_chars_hd: "s \<noteq> [] \<Longrightarrow> str_chars s \<noteq> [] \<and> hd (hd (str_chars s)) = hd s"
  by (cases s) auto

lemma str_chars_Nil_iff [simp]: "str_chars s = [] \<longleftrightarrow> s = []"
  by (cases s) auto

lemma wf_str_chars [simp]: "wf_chars (str_chars s)"
proof (induction s rule: str_chars.induct)
  case (2 c cs)
  let ?r = "dropWhile is_cont cs"
  have "list_all is_cont (takeWhile is_cont cs)"
    by (auto simp: list_all_iff dest: set_takeWhileD)
  moreover have "?r = [] \<or> \<not> is_cont (hd (hd (str_chars ?r)))"
    using dropWhile_lead [of is_cont cs] str_chars_hd [of ?r] by metis
  ultimately show ?case
    using 2 by (auto simp: enc_char_def simp del: dropWhile_eq_Nil_conv)
qed simp

lemma str_chars_enc_append:
  assumes "enc_char c" and "s = [] \<or> is_ascii (hd c) \<or> \<not> is_cont (hd s)"
  shows "str_chars (c @ s) = c # str_chars s"
proof -
  from assms(1) obtain a as where c: "c = a # as"
    by (cases c) (auto simp: enc_char_def)
  show ?thesis
  proof (cases "is_ascii a")
    case False
    then have as: "list_all is_cont as"
      using assms(1) c by (simp add: enc_char_def)
    then have "takeWhile is_cont (as @ s) = as" and "dropWhile is_cont (as @ s) = s"
      using assms(2) c False
      by (cases s; auto simp: list_all_iff takeWhile_append2 dropWhile_append2)+
    with c False show ?thesis by simp
  qed (use assms c in \<open>auto simp: enc_char_def\<close>)
qed

lemma wf_chars_hd_concat: "wf_chars cs \<Longrightarrow> cs \<noteq> [] \<Longrightarrow> concat cs \<noteq> [] \<and> hd (concat cs) = hd (hd cs)"
  by (cases cs) (auto simp: enc_char_def)

lemma str_chars_concat [simp]: "wf_chars cs \<Longrightarrow> str_chars (concat cs) = cs"
proof (induction cs)
  case (Cons c cs)
  then have "concat cs = [] \<or> is_ascii (hd c) \<or> \<not> is_cont (hd (concat cs))"
    using wf_chars_hd_concat [of cs] by (cases "cs = []") auto
  with Cons show ?case
    by (simp add: str_chars_enc_append)
qed simp

lemma wf_chars_drop: "wf_chars cs \<Longrightarrow> wf_chars (drop n cs)"
  by (induction cs arbitrary: n) (auto simp: drop_Cons split: nat.splits)

lemma wf_chars_take: "wf_chars cs \<Longrightarrow> wf_chars (take n cs)"
  by (induction cs arbitrary: n) (auto simp: take_Cons split: nat.splits)

lemma wf_chars_append:
  "wf_chars cs \<Longrightarrow> wf_chars ds \<Longrightarrow> ds = [] \<or> \<not> is_cont (hd (hd ds)) \<Longrightarrow> wf_chars (cs @ ds)"
  by (induction cs) (auto simp: hd_append)

lemma str_chars_append:
  assumes "t = [] \<or> \<not> is_cont (hd t)"
  shows "str_chars (s @ t) = str_chars s @ str_chars t"
proof -
  have "wf_chars (str_chars s @ str_chars t)"
    using assms str_chars_hd [of t] by (metis wf_chars_append wf_str_chars str_chars.simps(1))
  then show ?thesis
    using str_chars_concat [of "str_chars s @ str_chars t"] by simp
qed

lemma str_chars_mid: "is_ascii c \<Longrightarrow> str_chars (s @ c # t) = str_chars s @ [c] # str_chars t"
  by (simp add: str_chars_append)

lemma str_chars_ascii: "list_all is_ascii s \<Longrightarrow> str_chars s = map (\<lambda>c. [c]) s"
  by (induction s) auto

lemma str_chars_ascii_mem: "is_ascii c \<Longrightarrow> c \<in> set s \<Longrightarrow> [c] \<in> set (str_chars s)"
  by (auto simp: str_chars_mid dest!: split_list)

lemma str_chars_snoc: "is_ascii c \<Longrightarrow> str_chars (s @ [c]) = str_chars s @ [[c]]"
  by (simp add: str_chars_mid)

section \<open>White space: trim and split_whitespace\<close>

definition white_space :: "string list" where
  "white_space =
     [[CHR 0x09], [CHR 0x0A], [CHR 0x0B], [CHR 0x0C], [CHR 0x0D], [CHR 0x20],
      [CHR 0xC2, CHR 0x85], [CHR 0xC2, CHR 0xA0],
      [CHR 0xE1, CHR 0x9A, CHR 0x80],
      [CHR 0xE2, CHR 0x80, CHR 0x80], [CHR 0xE2, CHR 0x80, CHR 0x81],
      [CHR 0xE2, CHR 0x80, CHR 0x82], [CHR 0xE2, CHR 0x80, CHR 0x83],
      [CHR 0xE2, CHR 0x80, CHR 0x84], [CHR 0xE2, CHR 0x80, CHR 0x85],
      [CHR 0xE2, CHR 0x80, CHR 0x86], [CHR 0xE2, CHR 0x80, CHR 0x87],
      [CHR 0xE2, CHR 0x80, CHR 0x88], [CHR 0xE2, CHR 0x80, CHR 0x89],
      [CHR 0xE2, CHR 0x80, CHR 0x8A], [CHR 0xE2, CHR 0x80, CHR 0xA8],
      [CHR 0xE2, CHR 0x80, CHR 0xA9], [CHR 0xE2, CHR 0x80, CHR 0xAF],
      [CHR 0xE2, CHR 0x81, CHR 0x9F], [CHR 0xE3, CHR 0x80, CHR 0x80]]"

definition is_whitespace :: "string \<Rightarrow> bool" where
  "is_whitespace c \<longleftrightarrow> List.member white_space c"

definition trim_by :: "('a \<Rightarrow> bool) \<Rightarrow> 'a list \<Rightarrow> 'a list" where
  "trim_by p xs = rev (dropWhile p (rev (dropWhile p xs)))"

definition str_trim :: "string \<Rightarrow> string" where
  "str_trim s = concat (trim_by is_whitespace (str_chars s))"

function words_by :: "('a \<Rightarrow> bool) \<Rightarrow> 'a list \<Rightarrow> 'a list list" where
  "words_by p [] = []"
| "words_by p (x # xs) =
     (if p x then words_by p xs
      else (x # takeWhile (\<lambda>y. \<not> p y) xs) # words_by p (dropWhile (\<lambda>y. \<not> p y) xs))"
  by pat_completeness auto
termination
  by (relation "measure (\<lambda>(p, xs). length xs)") (auto simp: length_dropWhile_le le_imp_less_Suc)

definition split_whitespace :: "string \<Rightarrow> string list" where
  "split_whitespace s = map concat (words_by is_whitespace (str_chars s))"

lemma is_whitespace_ascii [simp]:
  "is_whitespace [c] \<longleftrightarrow>
     c \<in> {CHR 0x09, CHR 0x0A, CHR 0x0B, CHR 0x0C, CHR 0x0D, CHR 0x20}"
  by (simp add: is_whitespace_def white_space_def)

lemma trim_by_idem [simp]: "trim_by p (trim_by p xs) = trim_by p xs"
proof -
  let ?y = "dropWhile p (rev (dropWhile p xs))"
  have "dropWhile p (rev ?y) = rev ?y"
  proof (cases "?y = []")
    case False
    have "\<exists>zs. rev (dropWhile p xs) = zs @ ?y"
      by (metis takeWhile_dropWhile_id)
    then obtain zs where "dropWhile p xs = rev ?y @ rev zs"
      by (metis rev_append rev_rev_ident)
    then have "hd (rev ?y) = hd (dropWhile p xs)" and "dropWhile p xs \<noteq> []"
      using False by (metis hd_append rev_is_Nil_conv, force)
    then have "\<not> p (hd (rev ?y))"
      using dropWhile_lead [of p xs] by metis
    then show ?thesis
      using False by (metis dropWhile_eq_self_iff)
  next
    case True
    then show ?thesis by (metis dropWhile.simps(1) rev.simps(1))
  qed
  then show ?thesis
    by (simp add: trim_by_def dropWhile_idem)
qed

lemma trim_by_take_drop: "\<exists>m n. trim_by p xs = take m (drop n xs)"
proof -
  have "dropWhile p xs = drop (length (takeWhile p xs)) xs"
    by (rule dropWhile_eq_drop)
  moreover have "rev (dropWhile p (rev ys)) =
      take (length ys - length (takeWhile p (rev ys))) ys" for ys
    by (simp add: dropWhile_eq_drop rev_drop)
  ultimately show ?thesis
    unfolding trim_by_def by metis
qed

lemma trim_by_id_iff:
  "trim_by p xs = xs \<longleftrightarrow> xs = [] \<or> \<not> p (hd xs) \<and> \<not> p (last xs)"
proof (cases "xs = []")
  case False
  show ?thesis
  proof
    assume eq: "trim_by p xs = xs"
    then have "length (dropWhile p xs) = length xs"
      unfolding trim_by_def
      by (metis length_dropWhile_le length_rev le_antisym)
    then have d: "dropWhile p xs = xs"
      by (metis append_self_conv2 length_0_conv add_cancel_left_left length_append
          takeWhile_dropWhile_id)
    with eq have "dropWhile p (rev xs) = rev xs"
      by (metis trim_by_def rev_rev_ident)
    with d False show "xs = [] \<or> \<not> p (hd xs) \<and> \<not> p (last xs)"
      by (metis dropWhile_eq_self_iff hd_rev rev_is_Nil_conv)
  next
    assume "xs = [] \<or> \<not> p (hd xs) \<and> \<not> p (last xs)"
    with False have "dropWhile p xs = xs" and "dropWhile p (rev xs) = rev xs"
      by (simp_all add: dropWhile_eq_self_iff hd_rev)
    then show "trim_by p xs = xs"
      by (simp add: trim_by_def)
  qed
qed (simp add: trim_by_def)

lemma trim_by_Nil_iff: "trim_by p xs = [] \<longleftrightarrow> list_all p xs"
proof -
  have "trim_by p xs = [] \<longleftrightarrow> (\<forall>x\<in>set (dropWhile p xs). p x)"
    by (simp add: trim_by_def)
  also have "\<dots> \<longleftrightarrow> dropWhile p xs = []"
    using dropWhile_lead [of p xs] by (metis hd_in_set list.set(1) empty_iff)
  finally show ?thesis
    by (simp add: list_all_iff)
qed

lemma str_chars_trim: "str_chars (str_trim s) = trim_by is_whitespace (str_chars s)"
proof -
  obtain m n where "trim_by is_whitespace (str_chars s) = take m (drop n (str_chars s))"
    using trim_by_take_drop by blast
  then have "wf_chars (trim_by is_whitespace (str_chars s))"
    by (simp add: wf_chars_take wf_chars_drop)
  then show ?thesis
    by (simp add: str_trim_def)
qed

lemma str_trim_idem [simp]: "str_trim (str_trim s) = str_trim s"
  by (simp add: str_trim_def [of "str_trim s"] str_chars_trim) (simp add: str_trim_def)

lemma str_trim_Nil [simp]: "str_trim [] = []"
  by (simp add: str_trim_def trim_by_def)

lemma str_trim_id_iff:
  "str_trim s = s \<longleftrightarrow>
     s = [] \<or> \<not> is_whitespace (hd (str_chars s)) \<and> \<not> is_whitespace (last (str_chars s))"
  by (metis str_chars_trim str_chars_Nil_iff trim_by_id_iff concat_str_chars)

lemma set_str_trim: "set (str_trim s) \<subseteq> set s"
proof -
  have "set (trim_by is_whitespace (str_chars s)) \<subseteq> set (str_chars s)"
    by (auto simp: trim_by_def dest!: set_dropWhileD)
  then have "set (concat (trim_by is_whitespace (str_chars s))) \<subseteq> set (concat (str_chars s))"
    unfolding set_concat by blast
  then show ?thesis
    by (simp only: str_trim_def concat_str_chars)
qed

lemma str_trim_last:
  assumes "str_trim (s @ [c]) = s @ [c]" and "is_ascii c"
  shows "\<not> is_whitespace [c]"
  using assms by (simp add: str_trim_id_iff str_chars_snoc del: is_whitespace_ascii)

lemma str_trim_hd:
  assumes "str_trim (c # s) = c # s" and "is_ascii c"
  shows "\<not> is_whitespace [c]"
  using assms by (simp add: str_trim_id_iff del: is_whitespace_ascii)

section \<open>Words and join\<close>

fun str_join :: "string \<Rightarrow> string list \<Rightarrow> string" where
  "str_join sep [] = []"
| "str_join sep [x] = x"
| "str_join sep (x # y # ys) = x @ sep @ str_join sep (y # ys)"

definition is_word :: "string \<Rightarrow> bool" where
  "is_word w \<longleftrightarrow> w \<noteq> [] \<and> list_all (\<lambda>c. \<not> is_whitespace c) (str_chars w)"

abbreviation word_list :: "string list \<Rightarrow> bool" where
  "word_list ws \<equiv> list_all is_word ws"

lemma takeWhile_append_all:
  "list_all p zs \<Longrightarrow> takeWhile (\<lambda>y. \<not> p y) (ys @ zs) = takeWhile (\<lambda>y. \<not> p y) ys"
proof (induction ys)
  case Nil
  then show ?case by (cases zs) auto
qed auto

lemma words_by_all: "list_all p zs \<Longrightarrow> words_by p zs = []"
  by (induction zs) auto

lemma words_by_append_all: "list_all p zs \<Longrightarrow> words_by p (ys @ zs) = words_by p ys"
proof (induction p ys rule: words_by.induct)
  case (1 p)
  then show ?case by (simp add: words_by_all)
next
  case (2 p x xs)
  show ?case
  proof (cases "p x")
    case False
    have "dropWhile (\<lambda>y. \<not> p y) (xs @ zs) = dropWhile (\<lambda>y. \<not> p y) xs @ zs"
    proof (cases "\<forall>y\<in>set xs. \<not> p y")
      case True
      have "dropWhile (\<lambda>y. \<not> p y) zs = zs"
        using "2.prems" by (cases zs) auto
      with True show ?thesis by (simp add: dropWhile_append)
    next
      case False
      then show ?thesis by (auto simp: dropWhile_append)
    qed
    with False 2 show ?thesis by (simp add: takeWhile_append_all)
  qed (use 2 in simp)
qed

lemma words_by_dropWhile: "words_by p (dropWhile p xs) = words_by p xs"
  by (induction xs) auto

lemma words_by_trim_by: "words_by p (trim_by p xs) = words_by p xs"
proof -
  let ?ys = "dropWhile p xs"
  have "?ys = rev (dropWhile p (rev ?ys)) @ rev (takeWhile p (rev ?ys))"
    by (metis rev_append rev_rev_ident takeWhile_dropWhile_id)
  moreover have "list_all p (rev (takeWhile p (rev ?ys)))"
    by (auto simp: list_all_iff dest: set_takeWhileD)
  ultimately have "words_by p ?ys = words_by p (rev (dropWhile p (rev ?ys)))"
    by (metis words_by_append_all)
  then show ?thesis
    by (simp add: trim_by_def words_by_dropWhile)
qed

lemma split_whitespace_trim [simp]: "split_whitespace (str_trim s) = split_whitespace s"
  by (simp add: split_whitespace_def str_chars_trim words_by_trim_by)

lemma concat_words_by: "concat (words_by p xs) = filter (\<lambda>x. \<not> p x) xs"
proof (induction p xs rule: words_by.induct)
  case (2 p x xs)
  have "takeWhile (\<lambda>y. \<not> p y) xs = filter (\<lambda>y. \<not> p y) (takeWhile (\<lambda>y. \<not> p y) xs)"
    by (metis (mono_tags, lifting) filter_True set_takeWhileD)
  then have "takeWhile (\<lambda>y. \<not> p y) xs @ filter (\<lambda>y. \<not> p y) (dropWhile (\<lambda>y. \<not> p y) xs)
      = filter (\<lambda>y. \<not> p y) xs"
    by (metis filter_append takeWhile_dropWhile_id)
  with 2 show ?case by simp
qed simp

lemma words_by_nonempty: "w \<in> set (words_by p xs) \<Longrightarrow> w \<noteq> [] \<and> set w \<subseteq> {x \<in> set xs. \<not> p x}"
proof (induction p xs rule: words_by.induct)
  case (2 p x xs)
  then show ?case
    by (auto split: if_splits dest: set_takeWhileD set_dropWhileD)
qed simp

lemma words_by_word_sep:
  "xs \<noteq> [] \<Longrightarrow> list_all (\<lambda>x. \<not> p x) xs \<Longrightarrow> p s \<Longrightarrow>
   words_by p (xs @ s # ys) = xs # words_by p ys"
  by (cases xs) (auto simp: list_all_iff takeWhile_append2 dropWhile_append2)

lemma words_by_word: "xs \<noteq> [] \<Longrightarrow> list_all (\<lambda>x. \<not> p x) xs \<Longrightarrow> words_by p xs = [xs]"
proof (cases xs)
  case (Cons y ys)
  assume "list_all (\<lambda>x. \<not> p x) xs"
  with Cons have "takeWhile (\<lambda>x. \<not> p x) ys = ys" and "dropWhile (\<lambda>x. \<not> p x) ys = []"
    by (auto simp: list_all_iff takeWhile_eq_all_conv)
  with Cons \<open>list_all (\<lambda>x. \<not> p x) xs\<close> show ?thesis
    by (simp del: dropWhile_eq_Nil_conv)
qed simp

lemma str_join_not_Nil: "x \<noteq> [] \<Longrightarrow> str_join sep (x # xs) \<noteq> []"
  by (cases xs) auto

lemma split_whitespace_join: "word_list ws \<Longrightarrow> split_whitespace (str_join '' '' ws) = ws"
proof (induction "'' ''" ws rule: str_join.induct)
  case 1
  then show ?case by (simp add: split_whitespace_def)
next
  case (2 x)
  then show ?case
    by (simp add: split_whitespace_def is_word_def words_by_word)
next
  case (3 x y ys)
  then show ?case
    by (simp add: split_whitespace_def is_word_def words_by_word_sep str_chars_mid)
qed

lemma wf_chars_words_by: "wf_chars cs \<Longrightarrow> g \<in> set (words_by p cs) \<Longrightarrow> wf_chars g"
proof (induction p cs rule: words_by.induct)
  case (2 p x xs)
  have "wf_chars (dropWhile (\<lambda>y. \<not> p y) xs)"
    using "2.prems"(1) by (simp add: dropWhile_eq_drop wf_chars_drop)
  moreover have "wf_chars (x # takeWhile (\<lambda>y. \<not> p y) xs)"
    using wf_chars_take [OF "2.prems"(1), of "Suc (length (takeWhile (\<lambda>y. \<not> p y) xs))"]
    by (simp flip: takeWhile_eq_take)
  ultimately show ?case
    using 2 by (auto split: if_splits)
qed simp

lemma word_list_split_whitespace: "word_list (split_whitespace s)"
proof -
  have "is_word (concat g)" if g: "g \<in> set (words_by is_whitespace (str_chars s))" for g
    using wf_chars_words_by [OF wf_str_chars g] words_by_nonempty [OF g]
      wf_chars_hd_concat [of g] by (auto simp: is_word_def list_all_iff)
  then show ?thesis
    by (auto simp: split_whitespace_def list_all_iff)
qed

lemma split_whitespace_Nil_iff: "split_whitespace s = [] \<longleftrightarrow> str_trim s = []"
proof -
  have "words_by is_whitespace cs = [] \<longleftrightarrow> list_all is_whitespace cs" for cs
    by (induction cs) auto
  then show ?thesis
    by (metis split_whitespace_def map_is_Nil_conv str_chars_Nil_iff str_chars_trim
        trim_by_Nil_iff)
qed

lemma is_word_ascii: "is_word w \<Longrightarrow> is_ascii c \<Longrightarrow> c \<in> set w \<Longrightarrow> \<not> is_whitespace [c]"
  using str_chars_ascii_mem [of c w] by (auto simp: is_word_def list_all_iff)

lemma str_chars_join_ends:
  "word_list (w # ws) \<Longrightarrow>
     last (str_chars (str_join '' '' (w # ws))) = last (str_chars (last (w # ws)))
   \<and> hd (str_chars (str_join '' '' (w # ws))) = hd (str_chars w)"
proof (induction ws arbitrary: w)
  case (Cons y ys)
  then have "w \<noteq> []" and "str_join '' '' (y # ys) \<noteq> []"
    by (auto simp: is_word_def str_join_not_Nil)
  with Cons show ?case
    by (simp add: str_chars_mid)
qed simp

lemma str_trim_join: "word_list ws \<Longrightarrow> str_trim (str_join '' '' ws) = str_join '' '' ws"
proof (cases ws)
  case (Cons v vs)
  assume wl: "word_list ws"
  then have "is_word v" and "is_word (last ws)"
    by (auto simp: list_all_iff Cons)
  with str_chars_join_ends [of v vs] wl show ?thesis
    by (auto simp: Cons str_trim_id_iff is_word_def list_all_iff)
qed simp

end
