(* ===== verification/RustText.thy ===== *)
theory RustText
  imports RustStr
begin

text \<open>
  Text functions of the standard library on strings: splitting at a delimiter and into
  lines, ASCII case, decimal numbers (\<open>parse\<close> and \<open>to_string\<close> of the unsigned types) and
  the validity test of \<open>str::from_utf8\<close>.
\<close>

section \<open>Splitting\<close>

abbreviation nl :: char where "nl \<equiv> CHR 0x0A"
abbreviation cr :: char where "cr \<equiv> CHR 0x0D"

text \<open>\<open>s.split(c)\<close>: always at least one part.\<close>

fun split_on :: "char \<Rightarrow> string \<Rightarrow> string list" where
  "split_on c [] = [[]]"
| "split_on c (x # xs) =
     (if x = c then [] # split_on c xs
      else case split_on c xs of [] \<Rightarrow> [[x]] | p # ps \<Rightarrow> (x # p) # ps)"

fun split_once :: "char \<Rightarrow> string \<Rightarrow> (string \<times> string) option" where
  "split_once c [] = None"
| "split_once c (x # xs) =
     (if x = c then Some ([], xs)
      else map_option (\<lambda>(a, b). (x # a, b)) (split_once c xs))"

definition rsplit_once :: "char \<Rightarrow> string \<Rightarrow> (string \<times> string) option" where
  "rsplit_once c s = map_option (\<lambda>(a, b). (rev b, rev a)) (split_once c (rev s))"

definition strip_cr :: "string \<Rightarrow> string" where
  "strip_cr l = (if l \<noteq> [] \<and> last l = cr then butlast l else l)"

text \<open>\<open>s.lines()\<close>: a line ends with a line feed or a carriage return and a line feed; the
  last line may lack its end, and then keeps a trailing carriage return.\<close>

definition str_lines :: "string \<Rightarrow> string list" where
  "str_lines s = (let ps = split_on nl s in
     map strip_cr (butlast ps) @ (if last ps = [] then [] else [last ps]))"

lemma split_on_not_Nil [simp]: "split_on c s \<noteq> []"
  by (induction s) (auto split: list.splits)

lemma split_on_notin: "c \<notin> set s \<Longrightarrow> split_on c s = [s]"
  by (induction s) auto

lemma split_on_append:
  "c \<notin> set s \<Longrightarrow> split_on c (s @ c # t) = s # split_on c t"
  by (induction s) auto

lemma split_on_join_set: "p \<in> set (split_on c s) \<Longrightarrow> c \<notin> set p \<and> set p \<subseteq> set s"
proof (induction s arbitrary: p)
  case (Cons x xs)
  show ?case
  proof (cases "x = c")
    case True
    with Cons show ?thesis by auto
  next
    case False
    obtain q qs where qs: "split_on c xs = q # qs"
      by (cases "split_on c xs") auto
    then have q: "c \<notin> set q \<and> set q \<subseteq> set xs" and
      rest: "\<And>p. p \<in> set qs \<Longrightarrow> c \<notin> set p \<and> set p \<subseteq> set xs"
      using Cons.IH by auto
    from Cons.prems False qs have "p = x # q \<or> p \<in> set qs"
      by simp
    with q rest False show ?thesis by auto
  qed
qed simp

lemma split_once_Some:
  "split_once c s = Some (a, b) \<longleftrightarrow> s = a @ c # b \<and> c \<notin> set a"
proof (induction s arbitrary: a)
  case (Cons x xs)
  show ?case
  proof (cases a)
    case Nil
    then show ?thesis by auto
  next
    case (Cons y ys)
    then show ?thesis using Cons.IH [of ys] by auto
  qed
qed simp

lemma split_once_None [simp]: "split_once c s = None \<longleftrightarrow> c \<notin> set s"
  by (induction s) auto

lemma split_once_notin [simp]: "c \<notin> set s \<Longrightarrow> split_once c s = None"
  by simp

lemma split_once_append [simp]: "c \<notin> set a \<Longrightarrow> split_once c (a @ c # b) = Some (a, b)"
  by (simp add: split_once_Some)

lemma rsplit_once_Some:
  "rsplit_once c s = Some (a, b) \<longleftrightarrow> s = a @ c # b \<and> c \<notin> set b"
proof -
  have "rsplit_once c s = Some (a, b) \<longleftrightarrow> split_once c (rev s) = Some (rev b, rev a)"
    by (auto simp: rsplit_once_def)
  also have "\<dots> \<longleftrightarrow> s = a @ c # b \<and> c \<notin> set b"
    by (auto simp: split_once_Some rev_eq_append_conv)
  finally show ?thesis .
qed

lemma rsplit_once_None [simp]: "rsplit_once c s = None \<longleftrightarrow> c \<notin> set s"
  by (simp add: rsplit_once_def)

lemma str_lines_Nil [simp]: "str_lines [] = []"
  by (simp add: str_lines_def)

lemma str_lines_line:
  "nl \<notin> set l \<Longrightarrow> str_lines (l @ nl # t) = strip_cr l # str_lines t"
  by (simp add: str_lines_def split_on_append Let_def)

lemma str_lines_last: "nl \<notin> set l \<Longrightarrow> l \<noteq> [] \<Longrightarrow> str_lines l = [l]"
  by (simp add: str_lines_def split_on_notin)

lemma strip_cr_id: "l = [] \<or> last l \<noteq> cr \<Longrightarrow> strip_cr l = l"
  by (auto simp: strip_cr_def)

lemma set_strip_cr: "set (strip_cr l) \<subseteq> set l"
  by (auto simp: strip_cr_def dest: in_set_butlastD)

lemma str_lines_no_nl: "l \<in> set (str_lines s) \<Longrightarrow> nl \<notin> set l \<and> set l \<subseteq> set s"
proof -
  assume "l \<in> set (str_lines s)"
  then have "(\<exists>p \<in> set (split_on nl s). l = strip_cr p) \<or> l \<in> set (split_on nl s)"
    by (auto simp: str_lines_def Let_def dest: in_set_butlastD split: if_splits)
  then show ?thesis
    using split_on_join_set [of _ nl s] set_strip_cr by blast
qed

text \<open>Lines written out with a line feed after each are read back.\<close>

definition line_ok :: "string \<Rightarrow> bool" where
  "line_ok l \<longleftrightarrow> nl \<notin> set l \<and> (l = [] \<or> last l \<noteq> cr)"

lemma str_lines_concat: "list_all line_ok ls \<Longrightarrow> str_lines (concat (map (\<lambda>l. l @ [nl]) ls)) = ls"
  by (induction ls) (auto simp: line_ok_def str_lines_line strip_cr_id)

lemma str_lines_join:
  "list_all line_ok ls \<Longrightarrow> ls = [] \<or> last ls \<noteq> [] \<Longrightarrow> str_lines (str_join [nl] ls) = ls"
proof (induction "[nl]" ls rule: str_join.induct)
  case (2 x)
  then show ?case by (simp add: line_ok_def str_lines_last)
next
  case (3 x y ys)
  then show ?case by (simp add: line_ok_def str_lines_line strip_cr_id)
qed simp

section \<open>ASCII case\<close>

definition ascii_lower :: "char \<Rightarrow> char" where
  "ascii_lower c = (if 65 \<le> (of_char c :: nat) \<and> of_char c \<le> (90 :: nat)
     then char_of (of_char c + 32 :: nat) else c)"

definition ascii_upper :: "char \<Rightarrow> char" where
  "ascii_upper c = (if 97 \<le> (of_char c :: nat) \<and> of_char c \<le> (122 :: nat)
     then char_of (of_char c - 32 :: nat) else c)"

definition is_ascii_alphanumeric :: "char \<Rightarrow> bool" where
  "is_ascii_alphanumeric c \<longleftrightarrow> (let n = of_char c :: nat in
     48 \<le> n \<and> n \<le> 57 \<or> 65 \<le> n \<and> n \<le> 90 \<or> 97 \<le> n \<and> n \<le> 122)"

definition to_ascii_lowercase :: "string \<Rightarrow> string" where
  "to_ascii_lowercase s = map ascii_lower s"

definition eq_ignore_ascii_case :: "string \<Rightarrow> string \<Rightarrow> bool" where
  "eq_ignore_ascii_case s t \<longleftrightarrow> to_ascii_lowercase s = to_ascii_lowercase t"

lemma eq_ignore_ascii_case_refl [simp]: "eq_ignore_ascii_case s s"
  by (simp add: eq_ignore_ascii_case_def)

section \<open>Decimal numbers\<close>

text \<open>\<open>str::parse\<close> of an unsigned type takes an optional plus sign and at least one digit,
  and fails when the value does not fit.\<close>

definition digit_val :: "char \<Rightarrow> nat option" where
  "digit_val c = (if 48 \<le> (of_char c :: nat) \<and> of_char c \<le> (57 :: nat)
     then Some (of_char c - 48) else None)"

fun digits_val :: "nat \<Rightarrow> string \<Rightarrow> nat option" where
  "digits_val acc [] = Some acc"
| "digits_val acc (c # cs) =
     (case digit_val c of None \<Rightarrow> None | Some d \<Rightarrow> digits_val (10 * acc + d) cs)"

definition strip_plus :: "string \<Rightarrow> string" where
  "strip_plus s = (case s of [] \<Rightarrow> [] | c # r \<Rightarrow> if c = CHR ''+'' then r else s)"

definition parse_uint :: "nat \<Rightarrow> string \<Rightarrow> nat option" where
  "parse_uint bound s =
     (if strip_plus s = [] then None
      else case digits_val 0 (strip_plus s) of None \<Rightarrow> None
        | Some n \<Rightarrow> if n < bound then Some n else None)"

definition parse_u16 :: "string \<Rightarrow> u16 option" where
  "parse_u16 s = map_option word_of_nat (parse_uint (2 ^ 16) s)"

definition parse_u32 :: "string \<Rightarrow> u32 option" where
  "parse_u32 s = map_option word_of_nat (parse_uint (2 ^ 32) s)"

definition parse_u64 :: "string \<Rightarrow> u64 option" where
  "parse_u64 s = map_option word_of_nat (parse_uint (2 ^ 64) s)"

fun show_nat :: "nat \<Rightarrow> string" where
  "show_nat n = (if n < 10 then [char_of (48 + n)]
     else show_nat (n div 10) @ [char_of (48 + n mod 10)])"

declare show_nat.simps [simp del]

definition show_word :: "'a::len word \<Rightarrow> string" where
  "show_word w = show_nat (unat w)"

lemma digit_val_char [simp]: "d < 10 \<Longrightarrow> digit_val (char_of (48 + d)) = Some d"
  by (simp add: digit_val_def)

lemma digits_val_append:
  "digits_val a (s @ t) = (case digits_val a s of None \<Rightarrow> None | Some b \<Rightarrow> digits_val b t)"
  by (induction s arbitrary: a) (auto split: option.splits)

lemma digits_val_show_nat: "digits_val 0 (show_nat n) = Some n"
proof (induction n rule: show_nat.induct)
  case (1 n)
  then show ?case
    by (subst show_nat.simps) (auto simp: digits_val_append)
qed

lemma show_nat_digits: "c \<in> set (show_nat n) \<Longrightarrow> digit_val c \<noteq> None"
proof (induction n rule: show_nat.induct)
  case (1 n)
  then show ?case
    by (subst (asm) (2) show_nat.simps) (auto split: if_splits)
qed

lemma show_nat_not_Nil [simp]: "show_nat n \<noteq> []"
  by (subst show_nat.simps) simp

lemma digit_val_ascii: "digit_val c \<noteq> None \<Longrightarrow>
    is_ascii c \<and> \<not> is_whitespace [c] \<and> c \<notin> {CHR ''+'', CHR ''='', CHR '':'', nl, cr}"
  by (auto simp: digit_val_def split: if_splits) (cases c; auto split: if_splits)

lemma show_nat_chars: "c \<in> set (show_nat n) \<Longrightarrow>
    is_ascii c \<and> \<not> is_whitespace [c] \<and> c \<notin> {CHR ''+'', CHR ''='', CHR '':'', nl, cr}"
  using show_nat_digits digit_val_ascii by blast

lemma strip_plus_show_nat: "strip_plus (show_nat n) = show_nat n"
  using show_nat_chars [of _ n] by (cases "show_nat n") (auto simp: strip_plus_def)

lemma parse_uint_show_nat [simp]: "n < b \<Longrightarrow> parse_uint b (show_nat n) = Some n"
  by (simp add: parse_uint_def strip_plus_show_nat digits_val_show_nat)

lemma show_nat_inject [simp]: "show_nat m = show_nat n \<longleftrightarrow> m = n"
  by (metis digits_val_show_nat option.inject)

lemma show_word_inject [simp]: "show_word v = show_word w \<longleftrightarrow> v = w"
  by (simp add: show_word_def word_unat_eq_iff)

lemma parse_u16_show [simp]: "parse_u16 (show_word w) = Some w"
proof -
  have "unat w < 2 ^ LENGTH(16)" by (rule unsigned_less)
  then show ?thesis by (simp add: parse_u16_def show_word_def)
qed

lemma parse_u32_show [simp]: "parse_u32 (show_word w) = Some w"
proof -
  have "unat w < 2 ^ LENGTH(32)" by (rule unsigned_less)
  then show ?thesis by (simp add: parse_u32_def show_word_def)
qed

lemma parse_u64_show [simp]: "parse_u64 (show_word w) = Some w"
proof -
  have "unat w < 2 ^ LENGTH(64)" by (rule unsigned_less)
  then show ?thesis by (simp add: parse_u64_def show_word_def)
qed

lemma show_word_not_Nil [simp]: "show_word w \<noteq> []"
  by (simp add: show_word_def)

lemmas show_word_chars = show_nat_chars [of _ "unat w" for w, folded show_word_def]

section \<open>Substrings\<close>

fun str_contains :: "string \<Rightarrow> string \<Rightarrow> bool" where
  "str_contains [] pat \<longleftrightarrow> pat = []"
| "str_contains (c # s) pat \<longleftrightarrow> take (length pat) (c # s) = pat \<or> str_contains s pat"

lemma str_contains_iff: "str_contains s pat \<longleftrightarrow> (\<exists>xs ys. s = xs @ pat @ ys)"
proof (induction s)
  case (Cons c s)
  have "(\<exists>xs ys. c # s = xs @ pat @ ys) \<longleftrightarrow> (\<exists>ys. c # s = pat @ ys) \<or> (\<exists>xs ys. s = xs @ pat @ ys)"
    by (auto simp: Cons_eq_append_conv)
  moreover have "(\<exists>ys. c # s = pat @ ys) \<longleftrightarrow> take (length pat) (c # s) = pat"
    by (metis append_eq_conv_conj append_take_drop_id)
  ultimately show ?case using Cons by simp
qed simp

section \<open>UTF-8 validity\<close>

text \<open>The well-formed byte sequences: the range of the first byte and what each of the
  following ones has to satisfy.\<close>

definition in_range :: "nat \<Rightarrow> nat \<Rightarrow> char \<Rightarrow> bool" where
  "in_range lo hi c \<longleftrightarrow> lo \<le> of_char c \<and> of_char c \<le> hi"

definition utf8_rows :: "(nat \<times> nat \<times> (char \<Rightarrow> bool) list) list" where
  "utf8_rows =
     [(0x00, 0x7F, []),
      (0xC2, 0xDF, [is_cont]),
      (0xE0, 0xE0, [in_range 0xA0 0xBF, is_cont]),
      (0xE1, 0xEC, [is_cont, is_cont]),
      (0xED, 0xED, [in_range 0x80 0x9F, is_cont]),
      (0xEE, 0xEF, [is_cont, is_cont]),
      (0xF0, 0xF0, [in_range 0x90 0xBF, is_cont, is_cont]),
      (0xF1, 0xF3, [is_cont, is_cont, is_cont]),
      (0xF4, 0xF4, [in_range 0x80 0x8F, is_cont, is_cont])]"

fun match_all :: "('a \<Rightarrow> bool) list \<Rightarrow> 'a list \<Rightarrow> bool" where
  "match_all [] s = True"
| "match_all (p # ps) [] = False"
| "match_all (p # ps) (c # s) = (p c \<and> match_all ps s)"

fun utf8_len :: "string \<Rightarrow> nat" where
  "utf8_len [] = 0"
| "utf8_len (c # s) =
     (case find (\<lambda>(lo, hi, ps). in_range lo hi c) utf8_rows of None \<Rightarrow> 0
      | Some (lo, hi, ps) \<Rightarrow> if match_all ps s then Suc (length ps) else 0)"

function utf8_valid :: "string \<Rightarrow> bool" where
  "utf8_valid s = (if s = [] then True else if utf8_len s = 0 then False
     else utf8_valid (drop (utf8_len s) s))"
  by pat_completeness auto
termination
  by (relation "measure length") auto

declare utf8_valid.simps [simp del]

definition from_utf8 :: "bytes \<Rightarrow> string option" where
  "from_utf8 bs = (if utf8_valid (of_bytes bs) then Some (of_bytes bs) else None)"

lemma match_all_append: "match_all ps s \<Longrightarrow> match_all ps (s @ t) \<and> length ps \<le> length s"
  by (induction ps s rule: match_all.induct) auto

lemma utf8_len_append:
  "0 < utf8_len s \<Longrightarrow> utf8_len (s @ t) = utf8_len s \<and> utf8_len s \<le> length s"
proof (cases s)
  case (Cons c r)
  assume len: "0 < utf8_len s"
  let ?row = "find (\<lambda>(lo, hi, ps). in_range lo hi c) utf8_rows"
  from len Cons obtain row where row: "?row = Some row"
    by (cases ?row) simp_all
  obtain lo hi ps where "row = (lo, hi, ps)"
    by (cases row)
  with row len Cons have "?row = Some (lo, hi, ps)" and "match_all ps r"
    by (simp_all split: if_splits)
  then show ?thesis
    using match_all_append [of ps r t] Cons by simp
qed simp

lemma utf8_valid_Nil [simp]: "utf8_valid []"
  by (simp add: utf8_valid.simps)

lemma utf8_valid_append [intro]: "utf8_valid s \<Longrightarrow> utf8_valid t \<Longrightarrow> utf8_valid (s @ t)"
proof (induction s rule: utf8_valid.induct)
  case (1 s)
  show ?case
  proof (cases "s = []")
    case False
    with "1.prems" have s: "0 < utf8_len s" "utf8_valid (drop (utf8_len s) s)"
      by (simp_all add: utf8_valid.simps [of s] split: if_splits)
    then have "utf8_valid (drop (utf8_len s) s @ t)"
      using 1 False by simp
    with s utf8_len_append [OF s(1), of t] show ?thesis
      by (simp add: utf8_valid.simps [of "s @ t"])
  qed (use "1.prems" in simp)
qed

lemma utf8_valid_ascii_Cons [simp]: "is_ascii c \<Longrightarrow> utf8_valid (c # s) \<longleftrightarrow> utf8_valid s"
proof -
  assume "is_ascii c"
  then have "in_range 0x00 0x7F c"
    by (cases c) (auto simp: in_range_def)
  then show ?thesis
    by (simp add: utf8_valid.simps [of "c # s"] utf8_rows_def)
qed

lemma utf8_valid_ascii: "list_all is_ascii s \<Longrightarrow> utf8_valid s"
  by (induction s) auto

lemma from_utf8_as_bytes [simp]: "utf8_valid s \<Longrightarrow> from_utf8 (as_bytes s) = Some s"
  by (simp add: from_utf8_def)

lemma utf8_valid_show_word [simp]: "utf8_valid (show_word w)"
  by (rule utf8_valid_ascii) (use show_word_chars in \<open>auto simp: list_all_iff\<close>)

lemma str_trim_show_word [simp]: "str_trim (show_word w) = show_word w"
proof -
  have "list_all is_ascii (show_word w)"
    using show_word_chars by (auto simp: list_all_iff)
  then show ?thesis
    using show_word_chars [of _ w]
    by (simp add: str_trim_id_iff str_chars_ascii hd_map last_map hd_in_set last_in_set
        del: is_whitespace_ascii)
qed

section \<open>The characters of a valid string\<close>

lemma match_all_take: "match_all ps s \<Longrightarrow> match_all ps (take (length ps) s)"
  by (induction ps s rule: match_all.induct) auto

lemma match_all_list_all:
  "match_all ps s \<Longrightarrow> \<forall>p\<in>set ps. \<forall>c. p c \<longrightarrow> q c \<Longrightarrow> list_all q (take (length ps) s)"
  by (induction ps s rule: match_all.induct) auto

lemma of_bool_le_1: "of_bool b \<le> (1 :: nat)"
  by simp

lemma is_cont_range: "is_cont c \<longleftrightarrow> 0x80 \<le> (of_char c :: nat) \<and> (of_char c :: nat) \<le> 0xBF"
proof (cases c)
  case (Char b0 b1 b2 b3 b4 b5 b6 b7)
  show ?thesis
    unfolding Char
    using of_bool_le_1 [of b0] of_bool_le_1 [of b1] of_bool_le_1 [of b2] of_bool_le_1 [of b3]
      of_bool_le_1 [of b4] of_bool_le_1 [of b5]
    by (cases b6; cases b7) (simp_all add: of_char_Char del: of_bool_less_eq_one)
qed

lemma is_ascii_range: "is_ascii c \<longleftrightarrow> (of_char c :: nat) < 0x80"
proof (cases c)
  case (Char b0 b1 b2 b3 b4 b5 b6 b7)
  show ?thesis
    unfolding Char
    using of_bool_le_1 [of b0] of_bool_le_1 [of b1] of_bool_le_1 [of b2] of_bool_le_1 [of b3]
      of_bool_le_1 [of b4] of_bool_le_1 [of b5] of_bool_le_1 [of b6]
    by (cases b7) (simp_all add: of_char_Char del: of_bool_less_eq_one)
qed

lemma utf8_rows_cont:
  assumes "(lo, hi, ps) \<in> set utf8_rows"
  shows "\<forall>p\<in>set ps. \<forall>c. p c \<longrightarrow> is_cont c" and "hi < 0x80 \<and> ps = [] \<or> 0xBF < lo"
  using assms by (auto simp: utf8_rows_def in_range_def is_cont_range)

lemma utf8_len_row:
  assumes "0 < utf8_len (c # r)"
  obtains ps where "utf8_len (c # r) = Suc (length ps)" and "match_all ps r"
    and "utf8_len (c # take (length ps) r) = Suc (length ps)"
    and "list_all is_cont (take (length ps) r)" and "if is_ascii c then ps = [] else \<not> is_cont c"
proof -
  let ?row = "find (\<lambda>(lo, hi, ps). in_range lo hi c) utf8_rows"
  from assms obtain row where row: "?row = Some row"
    by (cases ?row) simp_all
  obtain lo hi ps where "row = (lo, hi, ps)"
    by (cases row)
  with row assms have find: "?row = Some (lo, hi, ps)" and m: "match_all ps r"
    by (simp_all split: if_splits)
  then have mem: "(lo, hi, ps) \<in> set utf8_rows" and "in_range lo hi c"
    by (auto simp: find_Some_iff dest: nth_mem)
  note rows = utf8_rows_cont [OF mem]
  show thesis
  proof (rule that [of ps])
    show "list_all is_cont (take (length ps) r)"
      using match_all_list_all [OF m] rows(1) by blast
    show "if is_ascii c then ps = [] else \<not> is_cont c"
      using rows(2) \<open>in_range lo hi c\<close> by (auto simp: in_range_def is_ascii_range is_cont_range)
  qed (use find m match_all_take in simp_all)
qed

lemma utf8_valid_hd: "utf8_valid (c # r) \<Longrightarrow> \<not> is_cont c"
proof
  assume "utf8_valid (c # r)" and "is_cont c"
  then have "0 < utf8_len (c # r)"
    by (simp add: utf8_valid.simps [of "c # r"] split: if_splits)
  then obtain ps :: "(char \<Rightarrow> bool) list" where "if is_ascii c then ps = [] else \<not> is_cont c"
    using utf8_len_row by blast
  with \<open>is_cont c\<close> show False
    by (auto split: if_splits)
qed

lemma utf8_valid_chars: "utf8_valid s \<Longrightarrow> list_all utf8_valid (str_chars s)"
proof (induction s rule: utf8_valid.induct)
  case (1 s)
  show ?case
  proof (cases s)
    case (Cons c r)
    with 1 have len: "0 < utf8_len (c # r)" and rest: "utf8_valid (drop (utf8_len (c # r)) (c # r))"
      by (simp_all add: utf8_valid.simps [of "c # r"] split: if_splits)
    from len obtain ps where n: "utf8_len (c # r) = Suc (length ps)"
      and "match_all ps r" and n': "utf8_len (c # take (length ps) r) = Suc (length ps)"
      and cont: "list_all is_cont (take (length ps) r)" and c: "if is_ascii c then ps = [] else \<not> is_cont c"
      by (rule utf8_len_row)
    let ?c = "c # take (length ps) r" and ?r = "drop (length ps) r"
    have "enc_char ?c"
      using cont c by (auto simp: enc_char_def)
    moreover have "?r = [] \<or> \<not> is_cont (hd ?r)"
      using rest n utf8_valid_hd by (cases ?r) auto
    ultimately have "str_chars (?c @ ?r) = ?c # str_chars ?r"
      by (intro str_chars_enc_append) auto
    moreover have "utf8_valid ?c"
      using n' by (simp add: utf8_valid.simps [of ?c])
    moreover have "list_all utf8_valid (str_chars ?r)"
      using 1(1) Cons len rest n by simp
    ultimately show ?thesis
      using Cons by simp
  qed simp
qed

lemma utf8_valid_concat: "list_all utf8_valid cs \<Longrightarrow> utf8_valid (concat cs)"
  by (induction cs) auto

lemma utf8_valid_trim: "utf8_valid s \<Longrightarrow> utf8_valid (str_trim s)"
  unfolding str_trim_def
  using utf8_valid_chars [of s]
  by (intro utf8_valid_concat) (auto simp: trim_by_def list_all_iff dest!: set_dropWhileD)

lemma utf8_valid_words: "utf8_valid s \<Longrightarrow> list_all utf8_valid (split_whitespace s)"
  using utf8_valid_chars [of s] words_by_nonempty [of _ is_whitespace "str_chars s"]
  by (fastforce simp: split_whitespace_def list_all_iff intro!: utf8_valid_concat)

lemma utf8_valid_join: "utf8_valid sep \<Longrightarrow> list_all utf8_valid ws \<Longrightarrow> utf8_valid (str_join sep ws)"
  by (induction sep ws rule: str_join.induct) auto

section \<open>Lossy decoding\<close>

text \<open>\<open>String::from_utf8_lossy\<close> replaces every maximal piece of an ill-formed sequence by the
  replacement character.\<close>

fun match_len :: "('a \<Rightarrow> bool) list \<Rightarrow> 'a list \<Rightarrow> nat" where
  "match_len (p # ps) (c # s) = (if p c then Suc (match_len ps s) else 0)"
| "match_len _ _ = 0"

fun utf8_skip :: "string \<Rightarrow> nat" where
  "utf8_skip [] = 1"
| "utf8_skip (c # s) =
     (case find (\<lambda>(lo, hi, ps). in_range lo hi c) utf8_rows of None \<Rightarrow> 1
      | Some (lo, hi, ps) \<Rightarrow> Suc (match_len ps s))"

definition replacement_char :: string where
  "replacement_char = [CHR 0xEF, CHR 0xBF, CHR 0xBD]"

function utf8_lossy :: "string \<Rightarrow> string" where
  "utf8_lossy s = (if s = [] then []
     else if 0 < utf8_len s then take (utf8_len s) s @ utf8_lossy (drop (utf8_len s) s)
     else replacement_char @ utf8_lossy (drop (utf8_skip s) s))"
  by pat_completeness auto
termination
proof (relation "measure length")
  fix s :: string
  assume "s \<noteq> []"
  then have "0 < utf8_skip s"
    by (cases s) (auto split: option.splits)
  with \<open>s \<noteq> []\<close> show "(drop (utf8_skip s) s, s) \<in> measure length"
    by simp
qed auto

declare utf8_lossy.simps [simp del]

definition from_utf8_lossy :: "bytes \<Rightarrow> string" where
  "from_utf8_lossy bs = utf8_lossy (of_bytes bs)"

lemma utf8_lossy_valid: "utf8_valid s \<Longrightarrow> utf8_lossy s = s"
proof (induction s rule: utf8_lossy.induct)
  case (1 s)
  then show ?case
    by (subst utf8_lossy.simps) (auto simp: utf8_valid.simps [of s] split: if_splits)
qed

lemma from_utf8_lossy_valid [simp]: "utf8_valid s \<Longrightarrow> from_utf8_lossy (as_bytes s) = s"
  by (simp add: from_utf8_lossy_def utf8_lossy_valid)

section \<open>Evaluation on literals\<close>

lemmas str_eval [rust_str] = str_trim_def trim_by_def rsplit_once_def parse_u16_def parse_uint_def
  strip_plus_def digit_val_def

end
