(* ===== verification/SshKeys.thy ===== *)
theory SshKeys
  imports RustText
begin

text \<open>
  The module \<open>ssh_keys.rs\<close>: parsing and normalising one OpenSSH public key line. The
  contract the other modules rely on is the locale \<open>key_normalizer\<close>: a normalised key is
  one line, is a fixed point of the function and never looks like a comment or a marker.
\<close>

record PublicKeyRecord =
  algorithm :: string
  key_data :: string
  comment :: "string option"
  original :: string

datatype PublicKeyError = EmptyInput | InvalidFormat | UnsupportedAlgorithm | KeyReadFailed string

definition is_supported_algorithm :: "string \<Rightarrow> bool" where
  "is_supported_algorithm value \<longleftrightarrow>
     List.member [''ssh-ed25519'', ''ssh-rsa'', ''ecdsa-sha2-nistp256'',
       ''ecdsa-sha2-nistp384'', ''ecdsa-sha2-nistp521''] value"

definition parse_public_key :: "string \<Rightarrow> PublicKeyError + PublicKeyRecord" where
  "parse_public_key input =
     (let trimmed = str_trim input in
      if trimmed = [] then Inl EmptyInput
      else let parts = split_whitespace trimmed in
        if length parts < 2 then Inl InvalidFormat
        else let algorithm = parts ! 0 in
          if \<not> is_supported_algorithm algorithm then Inl UnsupportedAlgorithm
          else let key_data = parts ! 1 in
            if key_data = [] then Inl InvalidFormat
            else let comment = (if 2 < length parts then Some (str_join '' '' (drop 2 parts))
                                else None)
              in Inr \<lparr>algorithm = algorithm, key_data = key_data, comment = comment,
                     original = trimmed\<rparr>)"

definition normalize_public_key :: "string \<Rightarrow> PublicKeyError + string" where
  "normalize_public_key input =
     and_then (parse_public_key input) (\<lambda>record.
       let normalized = algorithm record @ '' '' @ key_data record in
       Inr (case comment record of None \<Rightarrow> normalized
            | Some c \<Rightarrow> normalized @ '' '' @ str_trim c))"

text \<open>The file system answers \<open>read_to_string\<close> with the content or a failure.\<close>

definition read_local_public_key ::
  "(string \<Rightarrow> string option) \<Rightarrow> string \<Rightarrow> PublicKeyError + string" where
  "read_local_public_key read_to_string path =
     and_then (ok_or (read_to_string path) (KeyReadFailed path)) normalize_public_key"

section \<open>The normal form\<close>

lemma parse_public_key_words:
  assumes "split_whitespace s = a # k # ws" and "is_supported_algorithm a"
  shows "parse_public_key s = Inr \<lparr>algorithm = a, key_data = k,
    comment = (if ws = [] then None else Some (str_join '' '' ws)), original = str_trim s\<rparr>"
proof -
  have "str_trim s \<noteq> []"
    using assms(1) split_whitespace_Nil_iff [of s] by auto
  moreover have "k \<noteq> []"
    using word_list_split_whitespace [of s] assms(1) by (simp add: is_word_def)
  ultimately show ?thesis
    using assms by (auto simp: parse_public_key_def Let_def)
qed

lemma parse_public_key_InrD:
  assumes "parse_public_key s = Inr r"
  obtains a k ws where "split_whitespace s = a # k # ws" and "is_supported_algorithm a"
proof -
  from assms have "\<not> length (split_whitespace s) < 2"
    and "is_supported_algorithm (split_whitespace s ! 0)"
    by (auto simp: parse_public_key_def Let_def split: if_splits)
  then show thesis
    using that by (cases "split_whitespace s"; cases "tl (split_whitespace s)") auto
qed

lemma normalize_public_key_words:
  assumes "split_whitespace s = a # k # ws" and "is_supported_algorithm a"
  shows "normalize_public_key s = Inr (str_join '' '' (split_whitespace s))"
proof -
  have "word_list ws"
    using word_list_split_whitespace [of s] assms(1) by simp
  then show ?thesis
    using parse_public_key_words [OF assms] assms(1)
    by (cases ws) (auto simp: normalize_public_key_def str_trim_join)
qed

lemma normalize_public_key_InrD:
  assumes "normalize_public_key s = Inr n"
  shows "n = str_join '' '' (split_whitespace s)"
    and "\<exists>a k ws. split_whitespace s = a # k # ws \<and> is_supported_algorithm a"
proof -
  from assms obtain r where "parse_public_key s = Inr r"
    by (auto simp: normalize_public_key_def)
  then obtain a k ws where w: "split_whitespace s = a # k # ws" "is_supported_algorithm a"
    by (rule parse_public_key_InrD)
  then show "\<exists>a k ws. split_whitespace s = a # k # ws \<and> is_supported_algorithm a"
    by blast
  from normalize_public_key_words [OF w] assms show "n = str_join '' '' (split_whitespace s)"
    by simp
qed

lemma split_whitespace_normal:
  "normalize_public_key s = Inr n \<Longrightarrow> split_whitespace n = split_whitespace s"
  by (metis normalize_public_key_InrD(1) split_whitespace_join word_list_split_whitespace)

lemma normalize_idem_aux: "normalize_public_key s = Inr n \<Longrightarrow> normalize_public_key n = Inr n"
  by (metis normalize_public_key_InrD normalize_public_key_words split_whitespace_normal)

lemma str_join_set: "set (str_join sep ws) \<subseteq> set sep \<union> \<Union> (set ` set ws)"
  by (induction sep ws rule: str_join.induct) auto

lemma supported_algorithm_hd: "is_supported_algorithm a \<Longrightarrow> hd a \<in> {CHR ''s'', CHR ''e''}"
  by (auto simp: is_supported_algorithm_def)

lemma normal_key_chars:
  assumes "normalize_public_key s = Inr n" and "c \<in> set n" and "is_ascii c" and "is_whitespace [c]"
  shows "c = CHR '' ''"
proof -
  have "word_list (split_whitespace s)"
    by (rule word_list_split_whitespace)
  then have "c \<notin> set w" if "w \<in> set (split_whitespace s)" for w
    using that assms(3,4) is_word_ascii by (auto simp: list_all_iff simp del: is_whitespace_ascii)
  moreover have "c \<in> set '' '' \<union> \<Union> (set ` set (split_whitespace s))"
    using normalize_public_key_InrD(1) [OF assms(1)] assms(2) str_join_set by blast
  ultimately show ?thesis by auto
qed

lemma utf8_valid_normalize:
  "normalize_public_key s = Inr n \<Longrightarrow> utf8_valid s \<Longrightarrow> utf8_valid n"
  using normalize_public_key_InrD(1) [of s n] utf8_valid_words [of s]
  by (auto intro!: utf8_valid_join)

section \<open>The contract of a key normaliser\<close>

text \<open>What the managed block, the announcements and the key exchange need from the
  normalisation of a key, whatever it does inside.\<close>

locale key_normalizer =
  fixes normalize :: "string \<Rightarrow> 'e + string"
  assumes normal_idem: "normalize s = Inr n \<Longrightarrow> normalize n = Inr n"
    and normal_trim: "normalize s = Inr n \<Longrightarrow> str_trim n = n"
    and normal_line: "normalize s = Inr n \<Longrightarrow> n \<noteq> [] \<and> line_ok n"
    and normal_no_comment: "normalize s = Inr n \<Longrightarrow> hd n \<noteq> CHR ''#''"
begin

definition normal :: "string \<Rightarrow> bool" where
  "normal n \<longleftrightarrow> (\<exists>s. normalize s = Inr n)"

lemma normal_fixed: "normal n \<longleftrightarrow> normalize n = Inr n"
  by (auto simp: normal_def dest: normal_idem)

lemma normal_not_marker: "normal n \<Longrightarrow> str_trim n \<noteq> CHR ''#'' # m"
  unfolding normal_def by (metis normal_trim normal_no_comment list.sel(1))

lemma normal_lines: "list_all normal ns \<Longrightarrow> list_all line_ok ns \<and> [] \<notin> set ns"
  using normal_line by (fastforce simp: normal_def list_all_iff)

end

interpretation ssh: key_normalizer normalize_public_key
proof
  fix s n
  assume n: "normalize_public_key s = Inr n"
  then show "normalize_public_key n = Inr n"
    by (rule normalize_idem_aux)
  from normalize_public_key_InrD [OF n] obtain a k ws
    where w: "split_whitespace s = a # k # ws" "is_supported_algorithm a"
      and eq: "n = str_join '' '' (a # k # ws)"
    by auto
  show "str_trim n = n"
    using str_trim_join [OF word_list_split_whitespace, of s] w(1) eq by simp
  have "a \<noteq> []"
    using word_list_split_whitespace [of s] w(1) by (simp add: is_word_def)
  then have "n \<noteq> []" and hd: "hd n = hd a"
    using eq by auto
  show "hd n \<noteq> CHR ''#''"
    using supported_algorithm_hd [OF w(2)] hd by auto
  have "last n \<noteq> cr" and "nl \<notin> set n"
    using normal_key_chars [OF n, of "last n"] normal_key_chars [OF n, of nl] \<open>n \<noteq> []\<close>
    by auto
  with \<open>n \<noteq> []\<close> show "n \<noteq> [] \<and> line_ok n"
    by (simp add: line_ok_def)
qed

section \<open>Properties\<close>

text \<open>\<open>parse_public_key\<close> is decided by the white space separated words of its input: no
  word is an empty input, one word is a format error, an unknown first word is an unsupported
  algorithm, and otherwise the record holds the first word, the second word and the rest
  joined by single spaces. (The check for an empty second word never fires.)\<close>

lemma parse_public_key_spec:
  "parse_public_key s =
     (case split_whitespace s of [] \<Rightarrow> Inl EmptyInput
      | [a] \<Rightarrow> Inl InvalidFormat
      | a # k # ws \<Rightarrow>
          if is_supported_algorithm a
          then Inr \<lparr>algorithm = a, key_data = k,
                 comment = (if ws = [] then None else Some (str_join '' '' ws)),
                 original = str_trim s\<rparr>
          else Inl UnsupportedAlgorithm)"
proof (cases "split_whitespace s")
  case Nil
  then have "str_trim s = []"
    by (simp add: split_whitespace_Nil_iff)
  with Nil show ?thesis by (simp add: parse_public_key_def)
next
  case (Cons a rest)
  then have "str_trim s \<noteq> []"
    using split_whitespace_Nil_iff [of s] by auto
  with Cons show ?thesis
    using parse_public_key_words [of s a]
    by (cases rest) (auto simp: parse_public_key_def Let_def)
qed

text \<open>C28: A normalised key is a fixed point of \<open>normalize_public_key\<close>, and parsing it gives the
  algorithm, the key data and the comment of the key it was made from.\<close>

theorem normalize_public_key_roundtrip:
  assumes "normalize_public_key s = Inr n" and "parse_public_key s = Inr r"
  shows "normalize_public_key n = Inr n \<and> parse_public_key n = Inr (r\<lparr>original := n\<rparr>)"
proof
  show "normalize_public_key n = Inr n"
    using assms(1) by (rule ssh.normal_idem)
next
  obtain a k ws where w: "split_whitespace s = a # k # ws" "is_supported_algorithm a"
    using normalize_public_key_InrD(2) [OF assms(1)] by blast
  then have "split_whitespace n = a # k # ws"
    using split_whitespace_normal [OF assms(1)] by simp
  then show "parse_public_key n = Inr (r\<lparr>original := n\<rparr>)"
    using parse_public_key_words [OF w] parse_public_key_words [of n a k ws] w(2) assms(2)
      ssh.normal_trim [OF assms(1)] by auto
qed

theorem normalize_public_key_roundtrip_witness:
  "normalize_public_key ''ssh-rsa AAAA me'' = Inr ''ssh-rsa AAAA me''
   \<and> parse_public_key ''ssh-rsa AAAA me'' = Inr \<lparr>algorithm = ''ssh-rsa'', key_data = ''AAAA'',
       comment = Some ''me'', original = ''ssh-rsa AAAA me''\<rparr>"
proof -
  have n: "normalize_public_key ''  ssh-rsa   AAAA me '' = Inr ''ssh-rsa AAAA me''"
    by code_simp
  have p: "parse_public_key ''  ssh-rsa   AAAA me '' = Inr \<lparr>algorithm = ''ssh-rsa'',
      key_data = ''AAAA'', comment = Some ''me'', original = ''ssh-rsa   AAAA me''\<rparr>"
    by code_simp
  show ?thesis
    using normalize_public_key_roundtrip [OF n p] by simp
qed

end
