(* ===== verification/FileSys.thy ===== *)
theory FileSys
  imports RustText
begin

text \<open>
  Paths and the file operations of the standard library that the program calls. Every
  operation takes a description of the faults the operating system injects, so a statement
  over all such descriptions covers every call that can fail, the metadata call behind \<open>exists()\<close>
  and \<open>is_dir()\<close> included: the library turns its failure into the answer \<open>false\<close>. A description is a
  function of the call with its arguments, so that the same call made twice by one operation has
  the same fate. Each operation of the program returns at its first failing call without cleaning
  up, so failing at a call also leaves what a crash at that call would leave.
\<close>

section \<open>Paths\<close>

text \<open>A path is its components; the current directory components the library drops are
  not there.\<close>

record path =
  absolute :: bool
  components :: "string list"

definition path_of :: "string \<Rightarrow> path" where
  "path_of s = \<lparr>absolute = (s \<noteq> [] \<and> hd s = CHR ''/''),
     components = (case split_on (CHR ''/'') s of [] \<Rightarrow> [] | c # cs \<Rightarrow>
       filter (\<lambda>d. d \<noteq> []) [c] @ filter (\<lambda>d. d \<noteq> [] \<and> d \<noteq> ''.'') cs)\<rparr>"

definition path_parent :: "path \<Rightarrow> path option" where
  "path_parent p = (if components p = [] then None
     else Some (p\<lparr>components := butlast (components p)\<rparr>))"

definition path_file_name :: "path \<Rightarrow> string option" where
  "path_file_name p = (if components p = [] then None
     else if last (components p) \<in> {''.'', ''..''} then None
     else Some (last (components p)))"

text \<open>\<open>join\<close> with a relative argument; an absolute argument replaces the path.\<close>

definition path_join :: "path \<Rightarrow> string \<Rightarrow> path" where
  "path_join p s = (let q = path_of s in
     if absolute q \<or> \<not> absolute p \<and> components p = [] then q
     else p\<lparr>components := components p @ filter (\<lambda>d. d \<noteq> ''.'') (components q)\<rparr>)"

text \<open>A \<open>PathBuf\<close> is the string it was made from, which is what a message displays; \<open>push\<close> adds
  a separator when there is none. The file operations see it through \<open>path_of\<close>.\<close>

type_synonym pathbuf = string

definition pathbuf_join :: "pathbuf \<Rightarrow> string \<Rightarrow> pathbuf" where
  "pathbuf_join p s =
     (if s \<noteq> [] \<and> hd s = CHR ''/'' then s
      else if p \<noteq> [] \<and> last p \<noteq> CHR ''/'' then p @ ''/'' @ s
      else p @ s)"

definition path_with_file_name :: "path \<Rightarrow> string \<Rightarrow> path" where
  "path_with_file_name p name =
     path_join (case path_file_name p of None \<Rightarrow> p
       | Some _ \<Rightarrow> p\<lparr>components := butlast (components p)\<rparr>) name"

definition path_ancestors :: "path \<Rightarrow> path set" where
  "path_ancestors p =
     set (map (\<lambda>n. p\<lparr>components := take n (components p)\<rparr>) [0..<Suc (length (components p))])"

section \<open>The file system and its faults\<close>

text \<open>The two permission masks the program sets, written in octal in the source.\<close>

abbreviation mode_0700 :: nat where "mode_0700 \<equiv> 7 * 8 * 8"
abbreviation mode_0600 :: nat where "mode_0600 \<equiv> 6 * 8 * 8"

record fs =
  files :: "path \<rightharpoonup> string"
  modes :: "path \<rightharpoonup> nat"
  dirs :: "path set"

datatype syscall = CreateDirAll path | SetPermissions path nat | ReadToString path
  | OpenTruncate path | OpenAppend path | WriteAll path | SyncAll path
  | Rename path path | OpenRead path | RemoveFile path | ReadDir path | RemoveDirAll path | Stat path

text \<open>Which calls fail, how many bytes a failing write leaves behind and which directories
  a failing \<open>create_dir_all\<close> has made.\<close>

record faults =
  fails :: "syscall \<Rightarrow> bool"
  written :: "path \<Rightarrow> nat"
  made :: "path \<Rightarrow> path set"

type_synonym ('e, 'a) io = "fs \<Rightarrow> ('e + 'a) \<times> fs"

definition io_return :: "'a \<Rightarrow> ('e, 'a) io" where
  "io_return v = (\<lambda>s. (Inr v, s))"

definition io_lift :: "'e + 'a \<Rightarrow> ('e, 'a) io" where
  "io_lift r = (\<lambda>s. (r, s))"

definition io_bind :: "('e, 'a) io \<Rightarrow> ('a \<Rightarrow> ('e, 'b) io) \<Rightarrow> ('e, 'b) io" where
  "io_bind m f = (\<lambda>s. case m s of (Inl e, s') \<Rightarrow> (Inl e, s') | (Inr v, s') \<Rightarrow> f v s')"

definition io_map_err :: "('e \<Rightarrow> 'f) \<Rightarrow> ('e, 'a) io \<Rightarrow> ('f, 'a) io" where
  "io_map_err g m = (\<lambda>s. case m s of (r, s') \<Rightarrow> (map_err g r, s'))"

text \<open>\<open>Path::exists\<close> and \<open>Path::is_dir\<close> are \<open>false\<close> when the metadata cannot be read, for whatever
  reason. \<open>there\<close> is what is the case.\<close>

definition there :: "fs \<Rightarrow> path \<Rightarrow> bool" where
  "there s p \<longleftrightarrow> files s p \<noteq> None \<or> p \<in> dirs s"

definition fs_exists :: "faults \<Rightarrow> fs \<Rightarrow> path \<Rightarrow> bool" where
  "fs_exists os s p \<longleftrightarrow> \<not> fails os (Stat p) \<and> there s p"

definition fs_is_dir :: "faults \<Rightarrow> fs \<Rightarrow> path \<Rightarrow> bool" where
  "fs_is_dir os s p \<longleftrightarrow> \<not> fails os (Stat p) \<and> p \<in> dirs s"

text \<open>\<open>create_dir_all\<close> does not succeed where a file is in the way, and opening a directory for
  writing fails.\<close>

definition fs_create_dir_all :: "faults \<Rightarrow> path \<Rightarrow> (unit, unit) io" where
  "fs_create_dir_all os p = (\<lambda>s.
     if fails os (CreateDirAll p) \<or> (\<exists>q\<in>path_ancestors p. files s q \<noteq> None)
     then (Inl (), s\<lparr>dirs := dirs s \<union> (made os p \<inter> path_ancestors p)\<rparr>)
     else (Inr (), s\<lparr>dirs := dirs s \<union> path_ancestors p\<rparr>))"

definition fs_set_permissions :: "faults \<Rightarrow> path \<Rightarrow> nat \<Rightarrow> (unit, unit) io" where
  "fs_set_permissions os p m = (\<lambda>s.
     if fails os (SetPermissions p m) then (Inl (), s)
     else (Inr (), s\<lparr>modes := (modes s)(p \<mapsto> m)\<rparr>))"

definition fs_read_to_string :: "faults \<Rightarrow> path \<Rightarrow> (unit, string) io" where
  "fs_read_to_string os p = (\<lambda>s. case files s p of None \<Rightarrow> (Inl (), s)
     | Some c \<Rightarrow> if fails os (ReadToString p) \<or> \<not> utf8_valid c then (Inl (), s) else (Inr c, s))"

text \<open>\<open>create(true).truncate(true).write(true)\<close>: the file exists and is empty afterwards; a
  file that was there keeps its mode, a new one gets the given mode.\<close>

definition fs_open_truncate :: "faults \<Rightarrow> path \<Rightarrow> nat \<Rightarrow> (unit, unit) io" where
  "fs_open_truncate os p m = (\<lambda>s.
     if fails os (OpenTruncate p) \<or> p \<in> dirs s then (Inl (), s)
     else (Inr (), s\<lparr>files := (files s)(p \<mapsto> []),
       modes := (if files s p = None then (modes s)(p \<mapsto> m) else modes s)\<rparr>))"

definition fs_open_append :: "faults \<Rightarrow> path \<Rightarrow> nat \<Rightarrow> (unit, unit) io" where
  "fs_open_append os p m = (\<lambda>s.
     if fails os (OpenAppend p) \<or> p \<in> dirs s then (Inl (), s)
     else (Inr (), if files s p = None
       then s\<lparr>files := (files s)(p \<mapsto> []), modes := (modes s)(p \<mapsto> m)\<rparr> else s))"

text \<open>Writing to a file just opened with truncation.\<close>

definition fs_write_all :: "faults \<Rightarrow> path \<Rightarrow> string \<Rightarrow> (unit, unit) io" where
  "fs_write_all os p c = (\<lambda>s.
     if fails os (WriteAll p) then (Inl (), s\<lparr>files := (files s)(p \<mapsto> take (written os p) c)\<rparr>)
     else (Inr (), s\<lparr>files := (files s)(p \<mapsto> c)\<rparr>))"

definition fs_sync_all :: "faults \<Rightarrow> path \<Rightarrow> (unit, unit) io" where
  "fs_sync_all os p = (\<lambda>s. (if fails os (SyncAll p) then Inl () else Inr (), s))"

definition fs_rename :: "faults \<Rightarrow> path \<Rightarrow> path \<Rightarrow> (unit, unit) io" where
  "fs_rename os p q = (\<lambda>s.
     if fails os (Rename p q) \<or> files s p = None then (Inl (), s)
     else (Inr (), s\<lparr>files := (files s)(q := files s p, p := None),
       modes := (modes s)(q := modes s p, p := None)\<rparr>))"

definition fs_open_read :: "faults \<Rightarrow> path \<Rightarrow> (unit, unit) io" where
  "fs_open_read os p = (\<lambda>s. (if fails os (OpenRead p) then Inl () else Inr (), s))"

definition fs_remove_file :: "faults \<Rightarrow> path \<Rightarrow> (unit, unit) io" where
  "fs_remove_file os p = (\<lambda>s.
     if fails os (RemoveFile p) \<or> files s p = None then (Inl (), s)
     else (Inr (), s\<lparr>files := (files s)(p := None), modes := (modes s)(p := None)\<rparr>))"

text \<open>\<open>remove_dir_all\<close>; what a failing call has already removed is not modelled.\<close>

definition fs_remove_dir_all :: "faults \<Rightarrow> path \<Rightarrow> (unit, unit) io" where
  "fs_remove_dir_all os p = (\<lambda>s.
     if fails os (RemoveDirAll p) \<or> p \<notin> dirs s then (Inl (), s)
     else (Inr (), s\<lparr>files := (\<lambda>q. if p \<in> path_ancestors q then None else files s q),
       modes := (\<lambda>q. if p \<in> path_ancestors q then None else modes s q),
       dirs := {q \<in> dirs s. p \<notin> path_ancestors q}\<rparr>))"

text \<open>\<open>fs::write\<close> creates or truncates the file and writes the whole content.\<close>

definition fs_write :: "nat \<Rightarrow> faults \<Rightarrow> path \<Rightarrow> string \<Rightarrow> (unit, unit) io" where
  "fs_write default_mode os p c = io_bind (fs_open_truncate os p default_mode) (\<lambda>_. fs_write_all os p c)"

text \<open>What iterating over a directory yields: the names of its entries, or an error for an entry
  that cannot be read. Which entries and in which order is the argument \<open>listing\<close>.\<close>

definition fs_read_dir :: "faults \<Rightarrow> (unit + string) list \<Rightarrow> path \<Rightarrow> (unit, (unit + string) list) io" where
  "fs_read_dir os listing p = (\<lambda>s.
     (if fails os (ReadDir p) \<or> p \<notin> dirs s then Inl () else Inr listing, s))"

lemma not_there [simp]: "\<not> there s p \<Longrightarrow> \<not> fs_exists os s p"
  by (simp add: fs_exists_def)

lemmas fs_ops = io_return_def io_lift_def io_bind_def io_map_err_def fs_create_dir_all_def
  fs_set_permissions_def fs_read_to_string_def fs_open_truncate_def fs_open_append_def
  fs_write_all_def fs_sync_all_def fs_rename_def fs_open_read_def fs_remove_file_def
  fs_read_dir_def

text \<open>The calls that change no file content.\<close>

lemma files_frame [simp]:
  "files (snd (fs_create_dir_all os p s)) = files s"
  "files (snd (fs_set_permissions os p m s)) = files s"
  "snd (fs_read_to_string os p s) = s"
  "snd (fs_sync_all os p s) = s"
  "snd (fs_open_read os p s) = s"
  "snd (fs_read_dir os listing p s) = s"
  by (auto simp: fs_ops split: option.splits)

lemma io_bind_snd:
  "snd (io_bind m f s) = (case fst (m s) of Inl e \<Rightarrow> snd (m s) | Inr v \<Rightarrow> snd (f v (snd (m s))))"
  by (auto simp: io_bind_def split: prod.splits sum.splits)

lemma io_bind_fst:
  "fst (io_bind m f s) = (case fst (m s) of Inl e \<Rightarrow> Inl e | Inr v \<Rightarrow> fst (f v (snd (m s))))"
  by (auto simp: io_bind_def split: prod.splits sum.splits)

lemma io_map_err_snd [simp]: "snd (io_map_err g m s) = snd (m s)"
  by (simp add: io_map_err_def split: prod.splits)

lemma io_map_err_fst [simp]: "fst (io_map_err g m s) = map_err g (fst (m s))"
  by (simp add: io_map_err_def split: prod.splits)

lemma io_bind_read:
  "snd (m s) = s \<Longrightarrow> io_bind m f s = (case fst (m s) of Inl e \<Rightarrow> (Inl e, s) | Inr v \<Rightarrow> f v s)"
  by (auto simp: io_bind_def split: prod.splits sum.splits)

lemma io_bind_lift:
  "io_bind (io_lift r) f s = (case r of Inl e \<Rightarrow> (Inl e, s) | Inr v \<Rightarrow> f v s)"
  by (auto simp: io_bind_def io_lift_def split: sum.splits)

lemma io_bind_lift_known [simp]: "io_bind (io_lift (Inr v)) f = f v" "io_bind (io_lift (Inl e)) f = io_lift (Inl e)"
  by (simp_all add: fun_eq_iff io_bind_def io_lift_def)

lemma io_bind_return [simp]: "io_bind (io_return v) f = f v"
  by (simp add: fun_eq_iff io_bind_def io_return_def)

section \<open>Conditions of file operations\<close>

text \<open>Started where \<open>P\<close> holds, an operation that returns \<open>v\<close> leaves \<open>Q v\<close> and one that fails, at
  whichever call, leaves \<open>E\<close>.\<close>

definition io_spec :: "(fs \<Rightarrow> bool) \<Rightarrow> ('e, 'a) io \<Rightarrow> ('a \<Rightarrow> fs \<Rightarrow> bool) \<Rightarrow> (fs \<Rightarrow> bool) \<Rightarrow> bool" where
  "io_spec P m Q E \<longleftrightarrow>
     (\<forall>s. P s \<longrightarrow> (case fst (m s) of Inl e \<Rightarrow> E (snd (m s)) | Inr v \<Rightarrow> Q v (snd (m s))))"

lemma io_specD:
  assumes "io_spec P m Q E" and "P s"
  shows "case fst (m s) of Inl e \<Rightarrow> E (snd (m s)) | Inr v \<Rightarrow> Q v (snd (m s))"
  using assms by (simp add: io_spec_def)

lemma io_spec_Inr: "io_spec P m Q E \<Longrightarrow> P s \<Longrightarrow> m s = (Inr v, s') \<Longrightarrow> Q v s'"
  by (drule (1) io_specD) simp

lemma io_spec_snd: "io_spec P m (\<lambda>_. E) E \<Longrightarrow> P s \<Longrightarrow> E (snd (m s))"
  by (drule (1) io_specD) (simp split: sum.splits)

lemma io_spec_bind [io_rules]:
  assumes "io_spec P m R E" and "\<And>v. io_spec (R v) (f v) Q E"
  shows "io_spec P (io_bind m f) Q E"
  unfolding io_spec_def
proof (intro allI impI)
  fix s
  assume "P s"
  note first = io_specD [OF assms(1) this]
  obtain r t where m: "m s = (r, t)" by fastforce
  show "case fst (io_bind m f s) of Inl e \<Rightarrow> E (snd (io_bind m f s)) | Inr v \<Rightarrow> Q v (snd (io_bind m f s))"
  proof (cases r)
    case (Inl e)
    with m first show ?thesis by (simp add: io_bind_def)
  next
    case (Inr v)
    with m have "io_bind m f s = f v t" by (simp add: io_bind_def)
    moreover have "R v t" using m Inr first by simp
    ultimately show ?thesis using io_specD [OF assms(2), of v t] by (simp only:)
  qed
qed

lemma io_spec_map_err [io_rules]: "io_spec P m Q E \<Longrightarrow> io_spec P (io_map_err g m) Q E"
  unfolding io_spec_def
proof (intro allI impI)
  fix s
  assume *: "\<forall>s. P s \<longrightarrow> (case fst (m s) of Inl e \<Rightarrow> E (snd (m s)) | Inr v \<Rightarrow> Q v (snd (m s)))" and "P s"
  then show "case fst (io_map_err g m s) of Inl e \<Rightarrow> E (snd (io_map_err g m s)) | Inr v \<Rightarrow> Q v (snd (io_map_err g m s))"
    using spec [OF *, of s] by (cases "fst (m s)") auto
qed

lemma io_spec_lift [io_rules]:
  "(\<And>v s. r = Inr v \<Longrightarrow> P s \<Longrightarrow> Q v s) \<Longrightarrow> (\<And>s. P s \<Longrightarrow> E s) \<Longrightarrow> io_spec P (io_lift r) Q E"
  by (cases r) (auto simp: io_spec_def io_lift_def)

lemma io_spec_return [io_rules]: "(\<And>s. P s \<Longrightarrow> Q v s) \<Longrightarrow> io_spec P (io_return v) Q E"
  by (simp add: io_spec_def io_return_def)

lemma io_spec_conseq:
  assumes "io_spec P m Q E" and "\<And>s. P' s \<Longrightarrow> P s" and "\<And>v s. Q v s \<Longrightarrow> Q' v s" and "\<And>s. E s \<Longrightarrow> E' s"
  shows "io_spec P' m Q' E'"
  unfolding io_spec_def
proof (intro allI impI)
  fix s
  assume "P' s"
  with io_specD [OF assms(1) assms(2)] assms(3,4)
  show "case fst (m s) of Inl e \<Rightarrow> E' (snd (m s)) | Inr v \<Rightarrow> Q' v (snd (m s))"
    by (fastforce split: sum.splits)
qed

text \<open>An operation that first looks at the file system.\<close>

lemma io_spec_look: "(\<And>s. P s \<Longrightarrow> io_spec P (f s) Q E) \<Longrightarrow> io_spec P (\<lambda>s. f s s) Q E"
  by (simp add: io_spec_def)

section \<open>Well formed paths\<close>

definition wf_path :: "path \<Rightarrow> bool" where
  "wf_path p \<longleftrightarrow> list_all (\<lambda>c. c \<noteq> [] \<and> CHR ''/'' \<notin> set c) (components p)"

lemma wf_path_of [simp]: "wf_path (path_of s)"
proof -
  have "CHR ''/'' \<notin> set c" if "c \<in> set (split_on (CHR ''/'') s)" for c
    using split_on_join_set [OF that] by simp
  then show ?thesis
    by (cases "split_on (CHR ''/'') s") (auto simp: wf_path_def path_of_def list_all_iff)
qed

lemma path_of_name:
  assumes "CHR ''/'' \<notin> set n" and "n \<noteq> []"
  shows "path_of n = \<lparr>absolute = False, components = [n]\<rparr>"
  using assms by (cases n) (auto simp: path_of_def split_on_notin simp del: split_on.simps)

lemma path_join_name:
  assumes "CHR ''/'' \<notin> set n" and "n \<noteq> []" and "n \<noteq> ''.''"
  shows "components (path_join p n) = components p @ [n]"
  using assms by (auto simp: path_join_def path_of_name Let_def)

text \<open>Joining a name that is one component appends it, on the strings and on the paths alike.\<close>

lemma split_on_append_sep: "split_on c (s @ c # t) = split_on c s @ split_on c t"
  by (induction s) (auto split: list.splits)

lemma path_of_sep:
  assumes "CHR ''/'' \<notin> set n" and "n \<noteq> ''.''"
  shows "path_of (q @ CHR ''/'' # n) = \<lparr>absolute = (q = [] \<or> hd q = CHR ''/''),
    components = components (path_of q) @ (if n = [] then [] else [n])\<rparr>"
proof -
  obtain c cs where "split_on (CHR ''/'') q = c # cs"
    by (meson split_on_not_Nil neq_Nil_conv)
  with assms have "split_on (CHR ''/'') (q @ CHR ''/'' # n) = c # cs @ [n]"
    by (simp add: split_on_append_sep split_on_notin)
  with \<open>split_on (CHR ''/'') q = c # cs\<close> assms(2) show ?thesis
    by (auto simp: path_of_def hd_append)
qed

lemma path_of_relative: "q \<noteq> [] \<Longrightarrow> hd q \<noteq> CHR ''/'' \<Longrightarrow> components (path_of q) \<noteq> []"
  by (cases q) (auto simp: path_of_def split: list.splits)

lemma path_of_join:
  assumes "CHR ''/'' \<notin> set n" and "n \<noteq> []" and "n \<noteq> ''.''"
  shows "path_of (pathbuf_join p n) = path_join (path_of p) n"
proof -
  have n: "hd n \<noteq> CHR ''/''" and q: "path_of n = \<lparr>absolute = False, components = [n]\<rparr>"
    using assms by (auto simp: neq_Nil_conv path_of_name)
  consider "p = []" | "p \<noteq> []" "last p \<noteq> CHR ''/''" | p' where "p = p' @ ''/''"
    by (metis append_butlast_last_id)
  then show ?thesis
  proof cases
    case 1
    with n show ?thesis
      by (simp add: pathbuf_join_def path_join_def q) (simp add: path_of_def)
  next
    case 2
    moreover have "absolute (path_of p) \<longleftrightarrow> hd p = CHR ''/''"
      using 2 by (simp add: path_of_def)
    ultimately show ?thesis
      using n assms path_of_relative [of p]
      by (auto simp: pathbuf_join_def path_join_def q path_of_sep)
  next
    case (3 p')
    then show ?thesis
      using n assms path_of_relative [of p'] path_of_sep [of n p'] path_of_sep [of "[]" p']
      by (auto simp: pathbuf_join_def path_join_def q Let_def)
  qed
qed

lemma path_ancestors_iff:
  "q \<in> path_ancestors p \<longleftrightarrow> (\<exists>n\<le>length (components p). q = p\<lparr>components := take n (components p)\<rparr>)"
  unfolding path_ancestors_def by (auto simp: less_Suc_eq_le simp del: upt_Suc)

lemma path_ancestors_parent: "path_parent p = Some d \<Longrightarrow> path_ancestors d \<subseteq> path_ancestors p"
proof
  fix q
  assume "path_parent p = Some d" and "q \<in> path_ancestors d"
  then obtain n where "n \<le> length (components p) - 1" and "q = p\<lparr>components := take n (butlast (components p))\<rparr>"
    unfolding path_ancestors_iff by (auto simp: path_parent_def split: if_splits)
  then show "q \<in> path_ancestors p"
    unfolding path_ancestors_iff by (intro exI [of _ n]) (simp add: butlast_conv_take min_absorb1)
qed

end
