(* ===== verification/AuthorizedKeys.thy ===== *)
theory AuthorizedKeys
  imports SshKeys FileSys
begin

text \<open>
  The module \<open>authorized_keys.rs\<close>: the managed block of the \<open>authorized_keys\<close> file. First
  the pure update of the text, then the file update with its directory, its temporary file
  and its permissions.
\<close>

section \<open>The update of the text\<close>

definition MANAGED_BEGIN :: string where
  "MANAGED_BEGIN = ''# ssh-key-sync begin''"

definition MANAGED_END :: string where
  "MANAGED_END = ''# ssh-key-sync end''"

datatype AuthorizedKeysError = MissingManagedEnd | InvalidPublicKey | ReadFailed path
  | WriteFailed path | SyncFailed path | RenameFailed path | SetPermissionsFailed path

fun normalize_and_dedup_loop ::
  "string set \<Rightarrow> string list \<Rightarrow> string list \<Rightarrow> AuthorizedKeysError + string list" where
  "normalize_and_dedup_loop seen output [] = Inr output"
| "normalize_and_dedup_loop seen output (key # keys) =
     and_then (map_err (\<lambda>_. InvalidPublicKey) (normalize_public_key key)) (\<lambda>normalized.
       if normalized \<in> seen then normalize_and_dedup_loop seen output keys
       else normalize_and_dedup_loop (insert normalized seen) (output @ [normalized]) keys)"

definition normalize_and_dedup :: "string list \<Rightarrow> AuthorizedKeysError + string list" where
  "normalize_and_dedup managed_keys = normalize_and_dedup_loop {} [] managed_keys"

definition append_managed_block :: "string list \<Rightarrow> string list \<Rightarrow> string list" where
  "append_managed_block output_lines keys = output_lines @ [MANAGED_BEGIN] @ keys @ [MANAGED_END]"

definition begin_index :: "string list \<Rightarrow> nat option" where
  "begin_index lines = position (\<lambda>line. str_trim line = MANAGED_BEGIN) lines"

definition end_index :: "string list \<Rightarrow> nat option" where
  "end_index lines = position (\<lambda>line. str_trim line = MANAGED_END) lines"

definition upsert_lines :: "string list \<Rightarrow> string list \<Rightarrow> string list" where
  "upsert_lines lines keys =
     (case (begin_index lines, end_index lines) of
        (Some b, Some e) \<Rightarrow> append_managed_block (take b lines) keys @ drop (e + 1) lines
      | _ \<Rightarrow> append_managed_block
               (lines @ (if lines \<noteq> [] \<and> last lines \<noteq> [] then [[]] else [])) keys)"

definition upsert_managed_block :: "string \<Rightarrow> string list \<Rightarrow> AuthorizedKeysError + string" where
  "upsert_managed_block existing_content managed_keys =
     and_then (normalize_and_dedup managed_keys) (\<lambda>normalized_keys.
       let lines = str_lines existing_content in
       if begin_index lines \<noteq> None \<and> end_index lines = None then Inl MissingManagedEnd
       else Inr (str_join [nl] (upsert_lines lines normalized_keys)))"

section \<open>The update of the file\<close>

definition read_existing_authorized_keys :: "faults \<Rightarrow> path \<Rightarrow> (AuthorizedKeysError, string) io" where
  "read_existing_authorized_keys os path = (\<lambda>s.
     if \<not> fs_exists os s path then (Inr [], s)
     else io_map_err (\<lambda>_. ReadFailed path) (fs_read_to_string os path) s)"

definition temp_path_near :: "path \<Rightarrow> path" where
  "temp_path_near path =
     path_with_file_name path (unwrap_or (path_file_name path) ''authorized_keys'' @ ''.tmp'')"

definition sync_parent_directory :: "faults \<Rightarrow> path \<Rightarrow> (AuthorizedKeysError, unit) io" where
  "sync_parent_directory os path =
     (case path_parent path of None \<Rightarrow> io_lift (Inl (SyncFailed path))
      | Some parent \<Rightarrow>
          io_bind (io_map_err (\<lambda>_. SyncFailed parent) (fs_open_read os parent)) (\<lambda>_.
            io_map_err (\<lambda>_. SyncFailed parent) (fs_sync_all os parent)))"

text \<open>The mode of a file the process creates without asking for one: \<open>0o666\<close> less its umask.\<close>

definition atomic_write :: "nat \<Rightarrow> faults \<Rightarrow> path \<Rightarrow> string \<Rightarrow> (AuthorizedKeysError, unit) io" where
  "atomic_write default_mode os path content =
     (let tmp_path = temp_path_near path in
      io_bind (io_map_err (\<lambda>_. WriteFailed tmp_path) (fs_open_truncate os tmp_path default_mode)) (\<lambda>_.
      io_bind (io_map_err (\<lambda>_. WriteFailed tmp_path) (fs_write_all os tmp_path content)) (\<lambda>_.
      io_bind (io_map_err (\<lambda>_. SyncFailed tmp_path) (fs_sync_all os tmp_path)) (\<lambda>_.
      io_bind (io_map_err (\<lambda>_. RenameFailed path) (fs_rename os tmp_path path)) (\<lambda>_.
        sync_parent_directory os path)))))"

definition set_ssh_dir_permissions :: "faults \<Rightarrow> path \<Rightarrow> (AuthorizedKeysError, unit) io" where
  "set_ssh_dir_permissions os path =
     io_map_err (\<lambda>_. SetPermissionsFailed path) (fs_set_permissions os path mode_0700)"

definition ensure_ssh_directory_permissions ::
  "faults \<Rightarrow> path \<Rightarrow> (AuthorizedKeysError, unit) io" where
  "ensure_ssh_directory_permissions os path =
     (case path_parent path of None \<Rightarrow> io_return ()
      | Some parent \<Rightarrow>
          io_bind (io_map_err (\<lambda>_. WriteFailed parent) (fs_create_dir_all os parent)) (\<lambda>_.
            set_ssh_dir_permissions os parent))"

definition set_authorized_keys_permissions :: "faults \<Rightarrow> path \<Rightarrow> (AuthorizedKeysError, unit) io" where
  "set_authorized_keys_permissions os path =
     io_map_err (\<lambda>_. SetPermissionsFailed path) (fs_set_permissions os path mode_0600)"

definition apply_managed_block_to_file ::
  "nat \<Rightarrow> faults \<Rightarrow> string \<Rightarrow> string list \<Rightarrow> (AuthorizedKeysError, string) io" where
  "apply_managed_block_to_file default_mode os authorized_keys_path managed_keys =
     (let path = path_of authorized_keys_path in
      io_bind (ensure_ssh_directory_permissions os path) (\<lambda>_.
      io_bind (read_existing_authorized_keys os path) (\<lambda>existing.
      io_bind (io_lift (upsert_managed_block existing managed_keys)) (\<lambda>updated.
      io_bind (atomic_write default_mode os path updated) (\<lambda>_.
      io_bind (set_authorized_keys_permissions os path) (\<lambda>_.
        io_return updated))))))"

section \<open>Normalised keys\<close>

lemma normalize_and_dedup_loop_Inr:
  "normalize_and_dedup_loop seen out ks = Inr ns \<longleftrightarrow>
     (\<exists>ms. map normalize_public_key ks = map Inr ms \<and> ns = out @ dedup seen ms)"
proof (induction ks arbitrary: seen out)
  case (Cons k ks)
  show ?case
  proof (cases "normalize_public_key k")
    case (Inr n)
    then have "(\<exists>ms. map normalize_public_key (k # ks) = map Inr ms \<and> ns = out @ dedup seen ms)
       \<longleftrightarrow> (\<exists>ms. map normalize_public_key ks = map Inr ms \<and> ns = out @ dedup seen (n # ms))"
      by (auto simp: Cons_eq_map_conv)
    with Inr Cons show ?thesis by simp
  qed (auto simp: Cons_eq_map_conv)
qed auto

lemma normalize_and_dedup_Inr:
  "normalize_and_dedup ks = Inr ns \<longleftrightarrow>
     (\<exists>ms. map normalize_public_key ks = map Inr ms \<and> ns = dedup {} ms)"
  by (simp add: normalize_and_dedup_def normalize_and_dedup_loop_Inr)

lemma normalize_and_dedup_loop_Inl:
  "normalize_and_dedup_loop seen out ks = Inl e \<longleftrightarrow>
     e = InvalidPublicKey \<and> (\<exists>k\<in>set ks. \<not> is_ok (normalize_public_key k))"
proof (induction ks arbitrary: seen out)
  case (Cons k ks)
  then show ?case
    by (cases "normalize_public_key k") auto
qed simp

lemma normalize_and_dedup_Inl:
  "normalize_and_dedup ks = Inl e \<longleftrightarrow>
     e = InvalidPublicKey \<and> (\<exists>k\<in>set ks. \<not> is_ok (normalize_public_key k))"
  by (simp add: normalize_and_dedup_def normalize_and_dedup_loop_Inl)

lemma normalize_and_dedup_normal:
  assumes "normalize_and_dedup ks = Inr ns"
  shows "distinct ns \<and> list_all ssh.normal ns \<and> set ns = {n. \<exists>k\<in>set ks. normalize_public_key k = Inr n}"
proof -
  from assms obtain ms where ms: "map normalize_public_key ks = map Inr ms" "ns = dedup {} ms"
    by (auto simp: normalize_and_dedup_Inr)
  from ms(1) have "Inr ` set ms = normalize_public_key ` set ks"
    by (metis list.set_map)
  then have "set ms = {n. \<exists>k\<in>set ks. normalize_public_key k = Inr n}"
    by (auto simp: set_eq_iff image_iff) (metis sum.inject(2))+
  then show ?thesis
    using ms(2) by (auto simp: set_dedup distinct_dedup list_all_iff ssh.normal_def)
qed

lemma normalize_and_dedup_fixed:
  assumes "distinct ns" and "list_all ssh.normal ns"
  shows "normalize_and_dedup ns = Inr ns"
proof -
  have "map normalize_public_key ns = map Inr ns"
    using assms(2) by (simp add: list_all_iff ssh.normal_fixed)
  then show ?thesis
    using dedup_id [of ns "{}"] assms(1) unfolding normalize_and_dedup_Inr
    by (metis inf_bot_right)
qed

section \<open>Positions of the markers\<close>

lemma trim_markers [simp]:
  "str_trim MANAGED_BEGIN = MANAGED_BEGIN" "str_trim MANAGED_END = MANAGED_END"
  by code_simp+

lemma markers_distinct [simp]: "MANAGED_BEGIN \<noteq> MANAGED_END" "MANAGED_END \<noteq> MANAGED_BEGIN"
  by (simp_all add: MANAGED_BEGIN_def MANAGED_END_def)

lemma markers_line_ok [simp]:
  "line_ok MANAGED_BEGIN" "line_ok MANAGED_END" "MANAGED_BEGIN \<noteq> []" "MANAGED_END \<noteq> []"
  "[] \<noteq> MANAGED_BEGIN" "[] \<noteq> MANAGED_END"
  by (simp_all add: MANAGED_BEGIN_def MANAGED_END_def line_ok_def)

lemma normal_not_begin: "ssh.normal n \<Longrightarrow> str_trim n \<noteq> MANAGED_BEGIN"
  and normal_not_end: "ssh.normal n \<Longrightarrow> str_trim n \<noteq> MANAGED_END"
  using ssh.normal_not_marker by (simp_all add: MANAGED_BEGIN_def MANAGED_END_def)

text \<open>The markers enclose a block, or there is none at all.\<close>

definition placed :: "string list \<Rightarrow> bool" where
  "placed lines = (case (begin_index lines, end_index lines) of
     (None, None) \<Rightarrow> True | (Some b, Some e) \<Rightarrow> b < e | _ \<Rightarrow> False)"

definition managed :: "string list \<Rightarrow> string list" where
  "managed lines = (case (begin_index lines, end_index lines) of
     (Some b, Some e) \<Rightarrow> take (e - Suc b) (drop (Suc b) lines) | _ \<Rightarrow> [])"

definition unmanaged :: "string list \<Rightarrow> string list" where
  "unmanaged lines = (case (begin_index lines, end_index lines) of
     (Some b, Some e) \<Rightarrow> take b lines @ drop (Suc e) lines | _ \<Rightarrow> lines)"

text \<open>The blank line that an update puts before a block that is new, unless the file is empty or ends
  in a blank line; and the lines outside the block once there is one.\<close>

definition separator :: "string list \<Rightarrow> string list" where
  "separator lines = (case (begin_index lines, end_index lines) of
     (Some b, Some e) \<Rightarrow> [] | _ \<Rightarrow> if lines \<noteq> [] \<and> last lines \<noteq> [] then [[]] else [])"

definition settled :: "string list \<Rightarrow> string list" where
  "settled lines = unmanaged lines @ separator lines"

lemma block_begin_index:
  assumes "\<forall>l\<in>set pre. str_trim l \<noteq> MANAGED_BEGIN"
  shows "begin_index (append_managed_block pre keys @ post) = Some (length pre)"
  using assms by (simp add: begin_index_def append_managed_block_def position_append_None)

lemma block_end_index:
  assumes "\<forall>l\<in>set pre. str_trim l \<noteq> MANAGED_END" and "list_all ssh.normal keys"
  shows "end_index (append_managed_block pre keys @ post) = Some (length pre + Suc (length keys))"
proof -
  have "\<forall>l\<in>set (pre @ MANAGED_BEGIN # keys). str_trim l \<noteq> MANAGED_END"
    using assms normal_not_end by (auto simp: list_all_iff)
  from position_append_None [OF this, of "MANAGED_END # post"] show ?thesis
    by (simp add: end_index_def append_managed_block_def)
qed

lemma begin_indexD: "begin_index ls = Some b \<Longrightarrow>
    b < length ls \<and> str_trim (ls ! b) = MANAGED_BEGIN \<and> (\<forall>l\<in>set (take b ls). str_trim l \<noteq> MANAGED_BEGIN)"
  by (auto simp: begin_index_def dest: position_SomeD)

lemma end_indexD: "end_index ls = Some e \<Longrightarrow>
    e < length ls \<and> str_trim (ls ! e) = MANAGED_END \<and> (\<forall>l\<in>set (take e ls). str_trim l \<noteq> MANAGED_END)"
  by (auto simp: end_index_def dest: position_SomeD)

text \<open>The lines before and after the block that an update keeps.\<close>

lemma upsert_lines_frame:
  assumes "placed ls"
  obtains pre post where "\<forall>keys. upsert_lines ls keys = append_managed_block pre keys @ post"
    and "settled ls = pre @ post"
    and "\<forall>l\<in>set pre. str_trim l \<noteq> MANAGED_BEGIN \<and> str_trim l \<noteq> MANAGED_END"
    and "post = [] \<or> ls \<noteq> [] \<and> last post = last ls"
    and "set pre \<union> set post \<subseteq> insert [] (set ls)"
proof (cases "begin_index ls")
  case None
  with assms have e: "end_index ls = None"
    by (auto simp: placed_def split: option.splits)
  let ?pre = "ls @ (if ls \<noteq> [] \<and> last ls \<noteq> [] then [[]] else [])"
  have "\<forall>l\<in>set ?pre. str_trim l \<noteq> MANAGED_BEGIN \<and> str_trim l \<noteq> MANAGED_END"
    using None e by (auto simp: begin_index_def end_index_def)
  then show thesis
    using that [of ?pre "[]"] None e by (auto simp: upsert_lines_def settled_def unmanaged_def separator_def)
next
  case (Some b)
  with assms obtain e where e: "end_index ls = Some e" and less: "b < e"
    by (auto simp: placed_def split: option.splits)
  have "set (take b ls) \<subseteq> set (take e ls)"
    using less by (simp add: set_take_subset_set_take)
  then have "\<forall>l\<in>set (take b ls). str_trim l \<noteq> MANAGED_BEGIN \<and> str_trim l \<noteq> MANAGED_END"
    using begin_indexD [OF Some] end_indexD [OF e] by auto
  moreover have "drop (Suc e) ls = [] \<or> ls \<noteq> [] \<and> last (drop (Suc e) ls) = last ls"
    by (cases "Suc e < length ls") auto
  moreover have "set (take b ls) \<union> set (drop (Suc e) ls) \<subseteq> insert [] (set ls)"
    by (auto dest: in_set_takeD in_set_dropD)
  ultimately show thesis
    using that [of "take b ls" "drop (Suc e) ls"] Some e
    by (simp add: upsert_lines_def settled_def unmanaged_def separator_def)
qed

section \<open>The managed block as a lens\<close>

text \<open>A well formed file: it has both markers, the begin marker first, or none; no line ends with a
  carriage return that \<open>lines\<close> has left there; and the last line is not blank.\<close>

definition doc_ok :: "string list \<Rightarrow> bool" where
  "doc_ok lines \<longleftrightarrow> placed lines \<and> list_all line_ok lines \<and> (lines = [] \<or> last lines \<noteq> [])"

lemma block_lens:
  fixes pre keys post
  defines "ls \<equiv> append_managed_block pre keys @ post"
  assumes "\<forall>l\<in>set pre. str_trim l \<noteq> MANAGED_BEGIN \<and> str_trim l \<noteq> MANAGED_END"
    and "list_all ssh.normal keys"
  shows "placed ls \<and> managed ls = keys \<and> settled ls = pre @ post \<and> separator ls = []
    \<and> (\<forall>keys'. upsert_lines ls keys' = append_managed_block pre keys' @ post)"
proof -
  have "begin_index ls = Some (length pre)" and "end_index ls = Some (length pre + Suc (length keys))"
    using assms block_begin_index [of pre keys post] block_end_index [of pre keys post] by auto
  then show ?thesis
    by (auto simp: placed_def managed_def settled_def unmanaged_def separator_def upsert_lines_def ls_def
        append_managed_block_def)
qed

lemma upsert_lines_ok:
  assumes "doc_ok ls" and "list_all ssh.normal keys"
  shows "doc_ok (upsert_lines ls keys)"
proof -
  from assms(1) have "placed ls" by (simp add: doc_ok_def)
  then obtain pre post where u: "\<forall>keys. upsert_lines ls keys = append_managed_block pre keys @ post"
    and "settled ls = pre @ post" and pre: "\<forall>l\<in>set pre. str_trim l \<noteq> MANAGED_BEGIN \<and> str_trim l \<noteq> MANAGED_END"
    and post: "post = [] \<or> ls \<noteq> [] \<and> last post = last ls"
    and sub: "set pre \<union> set post \<subseteq> insert [] (set ls)"
    by (rule upsert_lines_frame)
  have "list_all line_ok (pre @ keys @ post)"
    using sub assms ssh.normal_lines [OF assms(2)]
    by (auto simp: doc_ok_def list_all_iff line_ok_def)
  moreover have "post = [] \<or> last post \<noteq> []"
    using post sub assms(1) by (auto simp: doc_ok_def)
  ultimately show ?thesis
    using block_lens [OF pre assms(2), of post]
    by (auto simp: doc_ok_def u append_managed_block_def)
qed

locale managed_doc =
  fixes invar :: "'d \<Rightarrow> bool" and good :: "'k \<Rightarrow> bool"
    and put :: "'d \<Rightarrow> 'k \<Rightarrow> 'd" and get :: "'d \<Rightarrow> 'k" and rest :: "'d \<Rightarrow> 'r"
  assumes put_invar: "invar d \<Longrightarrow> good k \<Longrightarrow> invar (put d k)"
    and put_get: "invar d \<Longrightarrow> good k \<Longrightarrow> get (put d k) = k"
    and put_put: "invar d \<Longrightarrow> good k \<Longrightarrow> put (put d k) k' = put d k'"
    and put_rest: "invar d \<Longrightarrow> good k \<Longrightarrow> rest (put d k) = rest d"
begin

text \<open>A series of updates leaves what its last update alone would leave.\<close>

lemma run_last: "invar d \<Longrightarrow> list_all good ks \<Longrightarrow> foldl put d (ks @ [k]) = put d k"
proof (induction ks arbitrary: d)
  case (Cons x ks)
  then show ?case
    using put_invar [of d x] put_put [of d x k] by simp
qed simp

lemma run_laws:
  assumes "invar d" and "list_all good ks" and "good k"
  shows "get (foldl put d (ks @ [k])) = k \<and> rest (foldl put d (ks @ [k])) = rest d
    \<and> invar (foldl put d (ks @ [k]))"
  using assms by (simp only: run_last put_get put_rest put_invar)

end

interpretation block: managed_doc doc_ok "list_all ssh.normal" upsert_lines managed settled
proof
  fix ls k k'
  assume ok: "doc_ok ls" and k: "list_all ssh.normal k"
  then show "doc_ok (upsert_lines ls k)"
    by (rule upsert_lines_ok)
  from ok have "placed ls" by (simp add: doc_ok_def)
  then obtain pre post where u: "\<forall>keys. upsert_lines ls keys = append_managed_block pre keys @ post"
    and rest: "settled ls = pre @ post"
    and pre: "\<forall>l\<in>set pre. str_trim l \<noteq> MANAGED_BEGIN \<and> str_trim l \<noteq> MANAGED_END"
    and "post = [] \<or> ls \<noteq> [] \<and> last post = last ls" and "set pre \<union> set post \<subseteq> insert [] (set ls)"
    by (rule upsert_lines_frame)
  from block_lens [OF pre k, of post] show "managed (upsert_lines ls k) = k"
    and "upsert_lines (upsert_lines ls k) k' = upsert_lines ls k'"
    and "settled (upsert_lines ls k) = settled ls"
    by (simp_all add: u rest)
qed

lemma upsert_unmanaged:
  assumes "doc_ok ls" and "list_all ssh.normal k"
  shows "separator (upsert_lines ls k) = []" and "unmanaged (upsert_lines ls k) = unmanaged ls @ separator ls"
proof -
  have "placed ls" using assms(1) by (simp add: doc_ok_def)
  then show "separator (upsert_lines ls k) = []"
    by (rule upsert_lines_frame) (use block_lens [OF _ assms(2)] in simp)
  with block.put_rest [OF assms] show "unmanaged (upsert_lines ls k) = unmanaged ls @ separator ls"
    by (simp add: settled_def)
qed

lemma upsert_managed_block_Inr:
  "upsert_managed_block c ks = Inr out \<longleftrightarrow>
     (\<exists>ns. normalize_and_dedup ks = Inr ns
       \<and> (begin_index (str_lines c) = None \<or> end_index (str_lines c) \<noteq> None)
       \<and> out = str_join [nl] (upsert_lines (str_lines c) ns))"
  by (auto simp: upsert_managed_block_def Let_def)

lemma doc_ok_markers: "doc_ok ls \<Longrightarrow> begin_index ls = None \<or> end_index ls \<noteq> None"
  by (auto simp: doc_ok_def placed_def split: option.splits)

lemma str_lines_upsert:
  assumes "doc_ok (str_lines c)" and "upsert_managed_block c ks = Inr out"
  shows "\<exists>ns. normalize_and_dedup ks = Inr ns \<and> list_all ssh.normal ns
    \<and> str_lines out = upsert_lines (str_lines c) ns"
proof -
  from assms(2) obtain ns where ns: "normalize_and_dedup ks = Inr ns"
    and out: "out = str_join [nl] (upsert_lines (str_lines c) ns)"
    by (auto simp: upsert_managed_block_Inr)
  then have normal: "list_all ssh.normal ns"
    using normalize_and_dedup_normal by blast
  have "doc_ok (upsert_lines (str_lines c) ns)"
    using assms(1) normal by (rule block.put_invar)
  then have "str_lines out = upsert_lines (str_lines c) ns"
    unfolding out by (intro str_lines_join) (auto simp: doc_ok_def)
  with ns normal show ?thesis by blast
qed

section \<open>Properties of the text update\<close>

text \<open>C25: Update after update is the same as the last update alone, as text: the daemon's
  repeated cycles never accumulate anything, and repeating an update changes nothing. It
  holds for a file whose markers, if any, enclose a block, whose lines end without stray
  carriage returns and whose last line is not blank.\<close>

theorem upsert_last_wins:
  assumes "doc_ok (str_lines c)" and "upsert_managed_block c keys = Inr out"
  shows "upsert_managed_block out keys' = upsert_managed_block c keys'"
proof -
  from str_lines_upsert [OF assms] obtain ns where normal: "list_all ssh.normal ns"
    and out: "str_lines out = upsert_lines (str_lines c) ns"
    by blast
  have "doc_ok (str_lines out)"
    unfolding out using assms(1) normal by (rule block.put_invar)
  then show ?thesis
    using doc_ok_markers [of "str_lines out"] doc_ok_markers [OF assms(1)]
      block.put_put [OF assms(1) normal]
    by (auto simp: upsert_managed_block_def Let_def out)
qed

theorem upsert_last_wins_witness:
  "upsert_managed_block (''# ssh-key-sync begin'' @ [nl] @ ''ssh-rsa A'' @ [nl] @ ''# ssh-key-sync end'')
     [''ssh-rsa B''] = upsert_managed_block [] [''ssh-rsa B'']"
proof -
  have ok: "doc_ok (str_lines [])"
    by code_simp
  have "upsert_managed_block [] [''ssh-rsa  A''] =
      Inr (''# ssh-key-sync begin'' @ [nl] @ ''ssh-rsa A'' @ [nl] @ ''# ssh-key-sync end'')"
    by code_simp
  from upsert_last_wins [OF ok this] show ?thesis .
qed

text \<open>C7: After a successful update the managed block holds exactly the normalised keys, each
  once and in order of first appearance, and the lines outside the block are what they were, with
  the separating blank line before a block that is new. The result is again a well formed file, so
  that the next update adds no blank line. (A file is well formed when its markers, if any,
  enclose a block, its lines end without stray carriage returns and its last line is not blank.)\<close>

theorem upsert_contract:
  assumes "doc_ok (str_lines c)" and "upsert_managed_block c keys = Inr out"
  shows "normalize_and_dedup keys = Inr (managed (str_lines out))
    \<and> distinct (managed (str_lines out))
    \<and> set (managed (str_lines out)) = {n. \<exists>k\<in>set keys. normalize_public_key k = Inr n}
    \<and> unmanaged (str_lines out) = unmanaged (str_lines c) @ separator (str_lines c)
    \<and> separator (str_lines out) = [] \<and> doc_ok (str_lines out)"
proof -
  from str_lines_upsert [OF assms] obtain ns where ns: "normalize_and_dedup keys = Inr ns"
    and normal: "list_all ssh.normal ns" and out: "str_lines out = upsert_lines (str_lines c) ns"
    by blast
  show ?thesis
    using block.put_get [OF assms(1) normal] upsert_unmanaged [OF assms(1) normal]
      block.put_invar [OF assms(1) normal] normalize_and_dedup_normal [OF ns] ns
    by (simp add: out)
qed

theorem upsert_contract_witness:
  "managed (str_lines (''ssh-rsa M'' @ [nl, nl] @ ''# ssh-key-sync begin'' @ [nl] @ ''ssh-rsa A'' @ [nl]
      @ ''# ssh-key-sync end'')) = [''ssh-rsa A'']"
proof -
  have ok: "doc_ok (str_lines ''ssh-rsa M'')"
    by code_simp
  have up: "upsert_managed_block ''ssh-rsa M'' ['' ssh-rsa  A'', ''ssh-rsa A''] =
      Inr (''ssh-rsa M'' @ [nl, nl] @ ''# ssh-key-sync begin'' @ [nl] @ ''ssh-rsa A'' @ [nl]
      @ ''# ssh-key-sync end'')"
    by code_simp
  have n: "normalize_and_dedup ['' ssh-rsa  A'', ''ssh-rsa A''] = Inr [''ssh-rsa A'']"
    by code_simp
  show ?thesis
    using upsert_contract [OF ok up] n by auto
qed

text \<open>The update fails exactly when a key is not a public key, or when the file has a begin
  marker and no end marker; the key check comes first.\<close>

lemma upsert_errors:
  "upsert_managed_block c keys = Inl err \<longleftrightarrow>
     (if \<exists>k\<in>set keys. \<not> is_ok (normalize_public_key k) then err = InvalidPublicKey
      else err = MissingManagedEnd \<and> begin_index (str_lines c) \<noteq> None
        \<and> end_index (str_lines c) = None)"
proof (cases "normalize_and_dedup keys")
  case (Inl e)
  then have "e = InvalidPublicKey \<and> (\<exists>k\<in>set keys. \<not> is_ok (normalize_public_key k))"
    using normalize_and_dedup_Inl [of keys e] by blast
  with Inl show ?thesis
    by (auto simp: upsert_managed_block_def)
next
  case (Inr ns)
  then have "\<not> (\<exists>k\<in>set keys. \<not> is_ok (normalize_public_key k))"
    using normalize_and_dedup_Inl [of keys InvalidPublicKey] by auto
  with Inr show ?thesis
    by (auto simp: upsert_managed_block_def Let_def)
qed

subsection \<open>An end marker before the begin marker\<close>

definition stray :: "string list \<Rightarrow> nat \<Rightarrow> nat \<Rightarrow> bool" where
  "stray lines e b \<longleftrightarrow> end_index lines = Some e \<and> begin_index lines = Some b \<and> e < b
     \<and> list_all line_ok lines \<and> last lines \<noteq> []"

fun upsert_times :: "nat \<Rightarrow> string \<Rightarrow> string list \<Rightarrow> AuthorizedKeysError + string" where
  "upsert_times 0 c keys = Inr c"
| "upsert_times (Suc n) c keys = and_then (upsert_managed_block c keys) (\<lambda>out. upsert_times n out keys)"

lemma stray_upsert_lines:
  assumes "stray ls e b" and "list_all ssh.normal keys"
  shows "stray (upsert_lines ls keys) e b
    \<and> length (upsert_lines ls keys) = length ls + (b - e + length keys + 1)"
proof -
  from assms(1) have e: "end_index ls = Some e" and b: "begin_index ls = Some b" and less: "e < b"
    and ok: "list_all line_ok ls" "last ls \<noteq> []"
    by (auto simp: stray_def)
  have up: "upsert_lines ls keys = append_managed_block (take b ls) keys @ drop (Suc e) ls"
    by (simp add: upsert_lines_def e b)
  have len: "b < length ls" and "\<forall>l\<in>set (take b ls). str_trim l \<noteq> MANAGED_BEGIN"
    using begin_indexD [OF b] by auto
  then have "begin_index (upsert_lines ls keys) = Some b"
    using block_begin_index [of "take b ls" keys "drop (Suc e) ls"] by (simp add: up)
  moreover have "ls = take b ls @ drop b ls" and "e < length (take b ls)"
    using less len by auto
  then have "end_index (take b ls) = Some e"
    using e less unfolding end_index_def
    by (metis (lifting) position_append_Some position_append_None position_None option.exhaust
        option.inject position_SomeD nth_append length_take in_set_conv_nth)
  then have "end_index (upsert_lines ls keys) = Some e"
    unfolding end_index_def up append_managed_block_def append_assoc
    by (rule position_append_Some)
  moreover have "last (upsert_lines ls keys) \<noteq> []"
    using less len ok(2) by (simp add: up)
  moreover have "list_all line_ok (upsert_lines ls keys)"
    using ok(1) ssh.normal_lines [OF assms(2)]
    by (auto simp: up append_managed_block_def list_all_iff dest: in_set_takeD in_set_dropD)
  moreover have "length (upsert_lines ls keys) = length ls + (b - e + length keys + 1)"
    using less len by (simp add: up append_managed_block_def)
  ultimately show ?thesis
    using less by (simp add: stray_def)
qed

text \<open>C29: When the first end marker stands before the first begin marker, every update inserts a
  further block and repeats the lines between the two markers: after \<open>n\<close> updates the file has
  grown by \<open>n\<close> times the distance of the markers, the keys and one line.\<close>

theorem upsert_stray_end_grows:
  assumes "stray (str_lines c) e b" and "normalize_and_dedup keys = Inr ns"
  shows "\<exists>out. upsert_times n c keys = Inr out \<and> stray (str_lines out) e b
    \<and> length (str_lines out) = length (str_lines c) + n * (b - e + length ns + 1)"
  using assms(1)
proof (induction n arbitrary: c)
  case (Suc n)
  have normal: "list_all ssh.normal ns"
    using normalize_and_dedup_normal [OF assms(2)] by blast
  let ?out = "str_join [nl] (upsert_lines (str_lines c) ns)"
  have up: "upsert_managed_block c keys = Inr ?out"
    using assms(2) Suc.prems by (auto simp: upsert_managed_block_Inr stray_def)
  from stray_upsert_lines [OF Suc.prems normal]
  have st: "stray (upsert_lines (str_lines c) ns) e b"
    and len: "length (upsert_lines (str_lines c) ns) = length (str_lines c) + (b - e + length ns + 1)"
    by auto
  from st have lines: "str_lines ?out = upsert_lines (str_lines c) ns"
    by (intro str_lines_join) (auto simp: stray_def)
  from Suc.IH [of ?out] st len show ?case
    by (auto simp: up lines)
qed simp

theorem upsert_stray_end_grows_witness:
  "\<exists>out. upsert_times 3 (''# ssh-key-sync end'' @ [nl] @ ''ssh-rsa M'' @ [nl] @ ''# ssh-key-sync begin'') []
      = Inr out \<and> length (str_lines out) = 12"
proof -
  let ?c = "''# ssh-key-sync end'' @ [nl] @ ''ssh-rsa M'' @ [nl] @ ''# ssh-key-sync begin''"
  have c: "str_lines ?c = [MANAGED_END, ''ssh-rsa M'', MANAGED_BEGIN]"
    by code_simp
  have "stray [MANAGED_END, ''ssh-rsa M'', MANAGED_BEGIN] 0 2"
    by code_simp
  then have st: "stray (str_lines ?c) 0 2"
    by (simp only: c)
  have n: "normalize_and_dedup [] = Inr []"
    by code_simp
  from upsert_stray_end_grows [OF st n, of 3] show ?thesis
    unfolding c by auto
qed

text \<open>The update is not idempotent on a file that ends in a blank line after the block: every
  update removes one such line.\<close>

theorem upsert_eats_blank_line:
  "\<exists>c out out'. upsert_managed_block c [''ssh-rsa A''] = Inr out
     \<and> upsert_managed_block out [''ssh-rsa A''] = Inr out' \<and> out \<noteq> out'
     \<and> unmanaged (str_lines out) \<noteq> unmanaged (str_lines c)"
proof -
  let ?block = "''# ssh-key-sync begin'' @ [nl] @ ''ssh-rsa A'' @ [nl] @ ''# ssh-key-sync end''"
  have "upsert_managed_block (?block @ [nl, nl]) [''ssh-rsa A''] = Inr (?block @ [nl])"
    and "upsert_managed_block (?block @ [nl]) [''ssh-rsa A''] = Inr ?block"
    and "unmanaged (str_lines (?block @ [nl])) \<noteq> unmanaged (str_lines (?block @ [nl, nl]))"
    by code_simp+
  moreover have "?block @ [nl] \<noteq> ?block"
    by simp
  ultimately show ?thesis
    by blast
qed

section \<open>Replacing a file atomically\<close>

lemma temp_path_neq: "wf_path p \<Longrightarrow> temp_path_near p \<noteq> p"
proof -
  assume wf: "wf_path p"
  show ?thesis
  proof (cases "path_file_name p")
    case None
    have "components (temp_path_near p) = components p @ [''authorized_keys.tmp'']"
      by (simp add: temp_path_near_def path_with_file_name_def None path_join_name)
    then show ?thesis by (metis append_self_conv not_Cons_self2)
  next
    case (Some f)
    then have cs: "components p \<noteq> []" and f: "f = last (components p)"
      by (auto simp: path_file_name_def split: if_splits)
    then have "CHR ''/'' \<notin> set f" and "f \<noteq> []"
      using wf last_in_set [OF cs] by (auto simp: wf_path_def list_all_iff)
    then have "components (temp_path_near p) = butlast (components p) @ [f @ ''.tmp'']"
      by (simp add: temp_path_near_def path_with_file_name_def Some path_join_name)
    then show ?thesis
      using cs f by (metis append_self_conv last_snoc list.distinct(1))
  qed
qed

text \<open>The contract of a write that replaces a file in one step: the file has its old content
  or all of the new one whatever happens, and no file but it and a scratch file changes.\<close>

locale atomic_replacer =
  fixes valid :: "path \<Rightarrow> bool" and scratch :: "path \<Rightarrow> path"
    and replace :: "path \<Rightarrow> string \<Rightarrow> ('e, unit) io"
  assumes replace_frame: "q \<noteq> p \<Longrightarrow> q \<noteq> scratch p \<Longrightarrow> files (snd (replace p c s)) q = files s q"
    and replace_content: "valid p \<Longrightarrow> files (snd (replace p c s)) p \<in> {files s p, Some c}"
    and replace_ok: "valid p \<Longrightarrow> fst (replace p c s) = Inr () \<Longrightarrow>
      files (snd (replace p c s)) p = Some c \<and> files (snd (replace p c s)) (scratch p) = None"
begin

text \<open>A write followed by steps that change no content.\<close>

lemma replace_then_frame:
  assumes "\<And>v s. files (snd (k v s)) = files s" and "q \<noteq> p" and "q \<noteq> scratch p"
  shows "files (snd (io_bind (replace p c) k s)) q = files s q"
  using assms replace_frame by (auto simp: io_bind_snd split: sum.splits)

lemma replace_then_content:
  assumes "\<And>v s. files (snd (k v s)) = files s" and "valid p"
  shows "files (snd (io_bind (replace p c) k s)) p \<in> {files s p, Some c}"
  using assms replace_content [of p c s] by (auto simp: io_bind_snd split: sum.splits)

lemma replace_then_ok:
  assumes "\<And>v s. files (snd (k v s)) = files s" and "valid p"
    and "fst (io_bind (replace p c) k s) = Inr v"
  shows "files (snd (io_bind (replace p c) k s)) p = Some c
    \<and> files (snd (io_bind (replace p c) k s)) (scratch p) = None"
  using assms replace_ok [of p c s] by (auto simp: io_bind_snd io_bind_fst split: sum.splits)

end

lemma sync_parent_files [simp]: "snd (sync_parent_directory os p s) = s"
  by (auto simp: sync_parent_directory_def io_bind_snd io_lift_def split: option.splits sum.splits)

interpretation aw: atomic_replacer wf_path temp_path_near "atomic_write m os"
proof
  fix p q c s
  show "files (snd (atomic_write m os p c s)) q = files s q"
    if "q \<noteq> p" and "q \<noteq> temp_path_near p"
    using that by (auto simp: atomic_write_def Let_def io_bind_snd fs_open_truncate_def
        fs_write_all_def fs_rename_def split: sum.splits if_splits)
  assume "wf_path p"
  then have neq: "temp_path_near p \<noteq> p"
    by (rule temp_path_neq)
  then show "files (snd (atomic_write m os p c s)) p \<in> {files s p, Some c}"
    by (auto simp: atomic_write_def Let_def io_bind_snd fs_open_truncate_def
        fs_write_all_def fs_rename_def split: sum.splits if_splits)
  from neq show "files (snd (atomic_write m os p c s)) p = Some c
      \<and> files (snd (atomic_write m os p c s)) (temp_path_near p) = None"
    if "fst (atomic_write m os p c s) = Inr ()"
    using that by (auto simp: atomic_write_def Let_def io_bind_snd io_bind_fst fs_open_truncate_def
        fs_write_all_def fs_rename_def split: sum.splits if_splits)
qed

section \<open>Properties of the file update\<close>

lemma ensure_files [simp]: "files (snd (ensure_ssh_directory_permissions os p s)) = files s"
  by (auto simp: ensure_ssh_directory_permissions_def set_ssh_dir_permissions_def io_bind_snd
      io_return_def split: option.splits sum.splits)

lemma read_existing_state [simp]: "snd (read_existing_authorized_keys os p s) = s"
  by (simp add: read_existing_authorized_keys_def)

text \<open>What the update takes for the content of the file: nothing when the existence check fails.\<close>

definition seen_content :: "faults \<Rightarrow> path \<Rightarrow> fs \<Rightarrow> string" where
  "seen_content os p s = (if fails os (Stat p) then [] else unwrap_or (files s p) [])"

lemma seen_content_ok: "doc_ok (str_lines (unwrap_or (files s p) [])) \<Longrightarrow> doc_ok (str_lines (seen_content os p s))"
  by (simp add: seen_content_def doc_ok_def placed_def begin_index_def end_index_def)

lemma read_existing_Inr:
  "fst (read_existing_authorized_keys os p s) = Inr c \<Longrightarrow> c = seen_content os p s"
  by (auto simp: read_existing_authorized_keys_def seen_content_def fs_exists_def there_def fs_read_to_string_def
      split: if_splits option.splits)

lemma permissions_files [simp]: "files (snd (set_authorized_keys_permissions os p s)) = files s"
  by (simp add: set_authorized_keys_permissions_def)

text \<open>What is left to do once the new text is known.\<close>

definition apply_rest :: "faults \<Rightarrow> path \<Rightarrow> string \<Rightarrow> unit \<Rightarrow> (AuthorizedKeysError, string) io" where
  "apply_rest os p updated =
     (\<lambda>_. io_bind (set_authorized_keys_permissions os p) (\<lambda>_. io_return updated))"

lemma apply_rest_files [simp]: "files (snd (apply_rest os p u v s)) = files s"
  by (auto simp: apply_rest_def io_bind_snd io_return_def split: sum.splits)

lemma apply_unfold:
  "apply_managed_block_to_file m os name keys s =
     (case ensure_ssh_directory_permissions os (path_of name) s of (Inl e, s1) \<Rightarrow> (Inl e, s1)
      | (Inr _, s1) \<Rightarrow> (case fst (read_existing_authorized_keys os (path_of name) s1) of Inl e \<Rightarrow> (Inl e, s1)
        | Inr c \<Rightarrow> (case upsert_managed_block c keys of Inl e \<Rightarrow> (Inl e, s1)
          | Inr u \<Rightarrow> io_bind (atomic_write m os (path_of name) u) (apply_rest os (path_of name) u) s1)))"
proof (cases "ensure_ssh_directory_permissions os (path_of name) s")
  case (Pair r s1)
  then show ?thesis
    by (cases r) (simp_all add: apply_managed_block_to_file_def Let_def io_bind_read io_bind_lift
        apply_rest_def io_bind_def [of "ensure_ssh_directory_permissions os (path_of name)"]
        split: sum.split)
qed

lemma apply_effect:
  fixes m os name keys s
  defines "s' \<equiv> snd (apply_managed_block_to_file m os name keys s)" and "p \<equiv> path_of name"
  shows apply_frame: "q \<noteq> p \<Longrightarrow> q \<noteq> temp_path_near p \<Longrightarrow> files s' q = files s q"
    and apply_content: "files s' p = files s p
      \<or> (\<exists>new. upsert_managed_block (seen_content os p s) keys = Inr new \<and> files s' p = Some new)"
proof -
  obtain r s1 where pair: "ensure_ssh_directory_permissions os p s = (r, s1)" by fastforce
  then have s1: "files s1 = files s" "seen_content os p s1 = seen_content os p s"
    using ensure_files [of os p s] by (simp_all add: seen_content_def)
  show "files s' q = files s q" if "q \<noteq> p" and "q \<noteq> temp_path_near p"
    using that aw.replace_then_frame [of "apply_rest os p u" for u] unfolding s'_def p_def
    by (auto simp: apply_unfold pair [unfolded p_def] s1 split: sum.splits)
  show "files s' p = files s p
      \<or> (\<exists>new. upsert_managed_block (seen_content os p s) keys = Inr new \<and> files s' p = Some new)"
    using aw.replace_then_content [of "apply_rest os p u" p m os u s1 for u]
      read_existing_Inr [of os p s1] unfolding s'_def p_def
    by (auto simp: apply_unfold pair [unfolded p_def] s1 [unfolded p_def] split: sum.splits)
qed

lemma apply_dirs_ensure:
  "dirs (snd (apply_managed_block_to_file m os name keys s)) = dirs (snd (ensure_ssh_directory_permissions os (path_of name) s))"
proof -
  obtain r s1 where pair: "ensure_ssh_directory_permissions os (path_of name) s = (r, s1)" by fastforce
  have "dirs (snd (io_bind (atomic_write m os p u) (apply_rest os p u) s1)) = dirs s1" for p u
    by (auto simp: atomic_write_def apply_rest_def set_authorized_keys_permissions_def Let_def io_bind_snd io_return_def
        fs_open_truncate_def fs_write_all_def fs_rename_def fs_set_permissions_def split: sum.splits if_splits)
  then show ?thesis
    by (auto simp: apply_unfold pair split: sum.splits)
qed

lemma apply_dirs_mono: "dirs s \<subseteq> dirs (snd (apply_managed_block_to_file m os name keys s))"
  by (auto simp: apply_dirs_ensure ensure_ssh_directory_permissions_def set_ssh_dir_permissions_def fs_ops split: option.splits)

lemma apply_dirs_parent:
  "path_parent (path_of name) = Some d \<Longrightarrow> q \<notin> path_ancestors d \<Longrightarrow>
   q \<in> dirs (snd (apply_managed_block_to_file m os name keys s)) \<longleftrightarrow> q \<in> dirs s"
  by (auto simp: apply_dirs_ensure ensure_ssh_directory_permissions_def set_ssh_dir_permissions_def fs_ops split: if_splits)

lemma apply_dirs:
  "q \<notin> path_ancestors (path_of name) \<Longrightarrow>
   q \<in> dirs (snd (apply_managed_block_to_file m os name keys s)) \<longleftrightarrow> q \<in> dirs s"
proof (cases "path_parent (path_of name)")
  case (Some d)
  moreover assume "q \<notin> path_ancestors (path_of name)"
  ultimately show ?thesis
    using path_ancestors_parent [OF Some] apply_dirs_parent by blast
qed (simp add: apply_dirs_ensure ensure_ssh_directory_permissions_def io_return_def)

text \<open>C6: Whatever fails, and whenever: the \<open>authorized_keys\<close> file holds its old content or a complete
  updated text, and no other file changes but the temporary file beside it. The text is the update
  of the old content, except when the call that fails is the existence check of the file: then
  it is the update of an empty file.\<close>

theorem apply_managed_block_atomic:
  "(\<forall>q. q \<noteq> path_of name \<longrightarrow> q \<noteq> temp_path_near (path_of name) \<longrightarrow>
      files (snd (apply_managed_block_to_file m os name keys s)) q = files s q)
   \<and> (files (snd (apply_managed_block_to_file m os name keys s)) (path_of name) = files s (path_of name)
      \<or> (\<exists>new. upsert_managed_block
               (if fails os (Stat (path_of name)) then [] else unwrap_or (files s (path_of name)) []) keys = Inr new
           \<and> files (snd (apply_managed_block_to_file m os name keys s)) (path_of name) = Some new))"
  using apply_frame [of _ name m os keys s] apply_content [of m os name keys s] by (simp add: seen_content_def)

theorem apply_managed_block_atomic_witness:
  "files (snd (apply_managed_block_to_file 420
      \<lparr>fails = (\<lambda>c. c = WriteAll (path_of ''/h/k.tmp'')), written = (\<lambda>_. 5), made = (\<lambda>_. {})\<rparr>
      ''/h/k'' [''ssh-rsa A''] \<lparr>files = [path_of ''/h/k'' \<mapsto> ''ssh-rsa M'', path_of ''/x'' \<mapsto> ''y''],
        modes = Map.empty, dirs = {}\<rparr>)) (path_of ''/x'') = Some ''y''"
proof -
  have "path_of ''/x'' \<noteq> path_of ''/h/k''" "path_of ''/x'' \<noteq> temp_path_near (path_of ''/h/k'')"
    by code_simp+
  then show ?thesis
    using apply_managed_block_atomic [of "''/h/k''"] by simp
qed

lemma temp_path_length: "wf_path p \<Longrightarrow> length (components p) \<le> length (components (temp_path_near p))"
proof (cases "path_file_name p")
  case None
  then show ?thesis
    by (simp add: temp_path_near_def path_with_file_name_def path_join_name)
next
  case (Some f)
  assume "wf_path p"
  with Some have cs: "components p \<noteq> []" and "CHR ''/'' \<notin> set f" "f \<noteq> []"
    using last_in_set [of "components p"]
    by (auto simp: path_file_name_def wf_path_def list_all_iff split: if_splits)
  with Some show ?thesis
    by (simp add: temp_path_near_def path_with_file_name_def path_join_name)
qed

lemma parent_neq_temp:
  assumes "wf_path p" and "path_parent p = Some d"
  shows "d \<noteq> p \<and> d \<noteq> temp_path_near p"
proof -
  from assms(2) have "components p \<noteq> []" and "components d = butlast (components p)"
    by (auto simp: path_parent_def split: if_splits)
  then have "length (components d) < length (components p)"
    by simp
  then show ?thesis
    using temp_path_length [OF assms(1)] by auto
qed

lemma ensure_parent_mode:
  "fst (ensure_ssh_directory_permissions os p s) = Inr () \<Longrightarrow> path_parent p = Some d \<Longrightarrow>
     modes (snd (ensure_ssh_directory_permissions os p s)) d = Some mode_0700"
  by (auto simp: ensure_ssh_directory_permissions_def set_ssh_dir_permissions_def io_bind_def
      io_map_err_def fs_set_permissions_def fs_create_dir_all_def split: if_splits)

lemma atomic_write_modes:
  "q \<noteq> p \<Longrightarrow> q \<noteq> temp_path_near p \<Longrightarrow> modes (snd (atomic_write m os p c s)) q = modes s q"
  by (auto simp: atomic_write_def Let_def io_bind_snd fs_open_truncate_def fs_write_all_def
      fs_rename_def split: sum.splits if_splits)

lemma apply_rest_Inr:
  "fst (apply_rest os p u v s) = Inr w \<Longrightarrow> w = u
     \<and> modes (snd (apply_rest os p u v s)) = (modes s)(p \<mapsto> mode_0600)"
  by (auto simp: apply_rest_def set_authorized_keys_permissions_def io_bind_def io_map_err_def
      fs_set_permissions_def io_return_def split: if_splits)

text \<open>Where no call fails, but for the existence check, and nothing is in the way, the update of the file
  returns what the update of the text it sees returns.\<close>

definition writable :: "faults \<Rightarrow> path \<Rightarrow> fs \<Rightarrow> bool" where
  "writable os p s \<longleftrightarrow> (\<forall>c. c \<noteq> Stat p \<longrightarrow> \<not> fails os c) \<and> components p \<noteq> [] \<and> (\<forall>q\<in>path_ancestors p. q \<noteq> p \<longrightarrow> files s q = None)
     \<and> p \<notin> dirs s \<and> temp_path_near p \<notin> dirs s \<and> (\<forall>c. files s p = Some c \<longrightarrow> utf8_valid c)"

lemma apply_returns:
  assumes "writable os p s" and "p = path_of name"
  shows "fst (apply_managed_block_to_file m os name keys s) = upsert_managed_block (seen_content os p s) keys"
proof -
  have nofail: "\<forall>c. c \<noteq> Stat p \<longrightarrow> \<not> fails os c" and some: "components p \<noteq> []" and free: "\<forall>q\<in>path_ancestors p. q \<noteq> p \<longrightarrow> files s q = None"
    and nodir: "p \<notin> dirs s" "temp_path_near p \<notin> dirs s" and valid: "\<forall>c. files s p = Some c \<longrightarrow> utf8_valid c"
    using assms(1) by (simp_all add: writable_def)
  let ?d = "p\<lparr>components := butlast (components p)\<rparr>" and ?t = "temp_path_near p"
  have d: "path_parent p = Some ?d"
    using some by (simp add: path_parent_def)
  have sub: "path_ancestors ?d \<subseteq> path_ancestors p"
    using d by (rule path_ancestors_parent)
  have "length (components p) \<le> length (components ?t)"
    using assms(2) wf_path_of by (simp add: temp_path_length)
  moreover have "length (components q) < length (components p)" if "q \<in> path_ancestors ?d" for q
  proof -
    have "length (components q) \<le> length (components p) - 1"
      using that by (auto simp: path_ancestors_iff)
    moreover have "0 < length (components p)" using some by simp
    ultimately show ?thesis by linarith
  qed
  ultimately have own: "p \<notin> path_ancestors ?d" and temp: "?t \<notin> path_ancestors ?d"
    by fastforce+
  define s1 where "s1 = s\<lparr>dirs := dirs s \<union> path_ancestors ?d, modes := (modes s)(?d \<mapsto> mode_0700)\<rparr>"
  have ens: "ensure_ssh_directory_permissions os p s = (Inr (), s1)"
    using nofail free d sub own
    by (auto simp: ensure_ssh_directory_permissions_def set_ssh_dir_permissions_def fs_ops s1_def)
  have read: "fst (read_existing_authorized_keys os p s1) = Inr (seen_content os p s)"
    using nofail nodir(1) valid own
    by (cases "files s p") (auto simp: read_existing_authorized_keys_def seen_content_def fs_exists_def there_def fs_ops s1_def)
  have "fst (io_bind (atomic_write m os p new) (apply_rest os p new) s1) = Inr new" for new
    using nofail nodir(2) d temp
    by (auto simp: atomic_write_def sync_parent_directory_def apply_rest_def set_authorized_keys_permissions_def fs_ops s1_def Let_def)
  with ens read assms(2) show ?thesis
    by (simp add: apply_unfold split: sum.split)
qed

lemma demo_writable:
  "writable \<lparr>fails = (\<lambda>_. False), written = n, made = m\<rparr> (path_of ''/h/k'') \<lparr>files = Map.empty, modes = bits, dirs = {}\<rparr>"
proof -
  have "path_of ''/h/k'' = \<lparr>absolute = True, components = [''h'', ''k'']\<rparr>"
    by code_simp
  then show ?thesis by (simp add: writable_def)
qed

lemma apply_Inr:
  assumes "apply_managed_block_to_file m os name keys s = (Inr out, s')"
  obtains s1 where "ensure_ssh_directory_permissions os (path_of name) s = (Inr (), s1)"
    and "upsert_managed_block (seen_content os (path_of name) s) keys = Inr out"
    and "io_bind (atomic_write m os (path_of name) out) (apply_rest os (path_of name) out) s1 = (Inr out, s')"
    and "files s' (path_of name) = Some out" and "files s' (temp_path_near (path_of name)) = None"
proof -
  let ?p = "path_of name"
  obtain r s1 where ens: "ensure_ssh_directory_permissions os ?p s = (r, s1)"
    by fastforce
  with assms obtain c u where r: "r = Inr ()" and c: "fst (read_existing_authorized_keys os ?p s1) = Inr c"
    and u: "upsert_managed_block c keys = Inr u"
    and w: "io_bind (atomic_write m os ?p u) (apply_rest os ?p u) s1 = (Inr out, s')"
    by (auto simp: apply_unfold split: sum.splits)
  have "c = seen_content os ?p s"
    using ensure_files [of os ?p s] ens read_existing_Inr [OF c] by (simp add: seen_content_def)
  moreover have "out = u"
    using w apply_rest_Inr [of os ?p u _ "snd (atomic_write m os ?p u s1)" out]
    by (auto simp: io_bind_def split: prod.splits sum.splits)
  moreover have "files s' ?p = Some u \<and> files s' (temp_path_near ?p) = None"
    using aw.replace_then_ok [of "apply_rest os ?p u" ?p m os u s1 out] w by simp
  ultimately show thesis
    using that [of s1] ens r u w by simp
qed

text \<open>C26: When the update reports success, the file holds the updated text of its old content (of an
  empty file when the existence check failed), it has mode 0600, its directory has mode 0700, and
  the temporary file is gone.\<close>

theorem apply_managed_block_success:
  assumes "apply_managed_block_to_file m os name keys s = (Inr out, s')"
  shows "upsert_managed_block (if fails os (Stat (path_of name)) then [] else unwrap_or (files s (path_of name)) []) keys = Inr out
    \<and> files s' (path_of name) = Some out \<and> files s' (temp_path_near (path_of name)) = None
    \<and> modes s' (path_of name) = Some mode_0600
    \<and> (\<forall>d. path_parent (path_of name) = Some d \<longrightarrow> modes s' d = Some mode_0700)"
proof -
  let ?p = "path_of name"
  obtain s1 where ens: "ensure_ssh_directory_permissions os ?p s = (Inr (), s1)"
    and up: "upsert_managed_block (seen_content os ?p s) keys = Inr out"
    and w: "io_bind (atomic_write m os ?p out) (apply_rest os ?p out) s1 = (Inr out, s')"
    and fs: "files s' ?p = Some out" "files s' (temp_path_near ?p) = None"
    using assms by (rule apply_Inr)
  from w have "apply_rest os ?p out () (snd (atomic_write m os ?p out s1)) = (Inr out, s')"
    by (auto simp: io_bind_def split: prod.splits sum.splits)
  then have modes: "modes s' = (modes (snd (atomic_write m os ?p out s1)))(?p \<mapsto> mode_0600)"
    using apply_rest_Inr [of os ?p out "()" "snd (atomic_write m os ?p out s1)" out] by auto
  moreover have "modes s' d = Some mode_0700" if d: "path_parent ?p = Some d" for d
    using ensure_parent_mode [of os ?p s d] d ens parent_neq_temp [OF _ d] atomic_write_modes
    by (simp add: modes)
  ultimately show ?thesis
    using up fs by (auto simp: seen_content_def)
qed

theorem apply_managed_block_success_witness:
  "\<exists>s'. apply_managed_block_to_file 420 \<lparr>fails = (\<lambda>_. False), written = (\<lambda>_. 0), made = (\<lambda>_. {})\<rparr>
      ''/h/k'' [] \<lparr>files = Map.empty, modes = Map.empty, dirs = {}\<rparr>
      = (Inr (''# ssh-key-sync begin'' @ [nl] @ ''# ssh-key-sync end''), s')
    \<and> modes s' (path_of ''/h/k'') = Some mode_0600"
proof -
  let ?os = "\<lparr>fails = (\<lambda>_. False), written = (\<lambda>_. 0), made = (\<lambda>_. {})\<rparr>"
  let ?s = "\<lparr>files = Map.empty, modes = Map.empty, dirs = {}\<rparr>"
  let ?out = "''# ssh-key-sync begin'' @ [nl] @ ''# ssh-key-sync end''"
  have "upsert_managed_block [] [] = Inr ?out"
    by code_simp
  then have "fst (apply_managed_block_to_file 420 ?os ''/h/k'' [] ?s) = Inr ?out"
    using apply_returns [OF demo_writable refl] by (simp add: seen_content_def)
  then obtain s' where run: "apply_managed_block_to_file 420 ?os ''/h/k'' [] ?s = (Inr ?out, s')"
    by (metis prod.collapse)
  from apply_managed_block_success [OF run] run show ?thesis
    by blast
qed

text \<open>C40: When the one call that fails is the check for the existence of the file, the update reports
  success and every line of the file outside the block is gone, whatever they were: the file then
  consists of the block alone.\<close>

theorem failed_check_drops_lines:
  assumes "fails os (Stat p)" and "writable os p s" and "p = path_of name" and "normalize_and_dedup keys = Inr ns"
  shows "\<exists>s'. apply_managed_block_to_file m os name keys s = (Inr (str_join [nl] (MANAGED_BEGIN # ns @ [MANAGED_END])), s')
    \<and> files s' p = Some (str_join [nl] (MANAGED_BEGIN # ns @ [MANAGED_END]))
    \<and> str_lines (str_join [nl] (MANAGED_BEGIN # ns @ [MANAGED_END])) = MANAGED_BEGIN # ns @ [MANAGED_END]"
proof -
  let ?out = "str_join [nl] (MANAGED_BEGIN # ns @ [MANAGED_END])"
  have "upsert_managed_block (seen_content os p s) keys = Inr ?out"
    using assms(1,4) by (simp add: seen_content_def upsert_managed_block_def upsert_lines_def append_managed_block_def
        begin_index_def end_index_def)
  then have "fst (apply_managed_block_to_file m os name keys s) = Inr ?out"
    using apply_returns [OF assms(2,3)] by simp
  then obtain s' where run: "apply_managed_block_to_file m os name keys s = (Inr ?out, s')"
    by (metis prod.collapse)
  then have "files s' p = Some ?out"
    unfolding assms(3) by (rule apply_Inr)
  moreover have "list_all ssh.normal ns"
    using normalize_and_dedup_normal [OF assms(4)] by blast
  then have "str_lines ?out = MANAGED_BEGIN # ns @ [MANAGED_END]"
    using ssh.normal_lines [of ns] by (intro str_lines_join) (auto simp: list_all_iff)
  ultimately show ?thesis using run by blast
qed

theorem failed_check_drops_lines_witness:
  "\<exists>s'. apply_managed_block_to_file 420 \<lparr>fails = (\<lambda>c. c = Stat (path_of ''/h/k'')), written = (\<lambda>_. 0), made = (\<lambda>_. {})\<rparr> ''/h/k'' []
      \<lparr>files = [path_of ''/h/k'' \<mapsto> ''ssh-rsa M''], modes = Map.empty, dirs = {}\<rparr>
      = (Inr (''# ssh-key-sync begin'' @ [nl] @ ''# ssh-key-sync end''), s')
    \<and> files s' (path_of ''/h/k'') = Some (''# ssh-key-sync begin'' @ [nl] @ ''# ssh-key-sync end'')"
proof -
  let ?p = "path_of ''/h/k''" and ?os = "\<lparr>fails = (\<lambda>c. c = Stat (path_of ''/h/k'')), written = (\<lambda>_. 0), made = (\<lambda>_. {})\<rparr>"
  have p: "?p = \<lparr>absolute = True, components = [''h'', ''k'']\<rparr>" and valid: "utf8_valid ''ssh-rsa M''"
    and keys: "normalize_and_dedup [] = Inr []"
    by code_simp+
  have place: "writable ?os ?p \<lparr>files = [?p \<mapsto> ''ssh-rsa M''], modes = Map.empty, dirs = {}\<rparr>"
    using valid by (simp add: writable_def p)
  have out: "str_join [nl] (MANAGED_BEGIN # [] @ [MANAGED_END]) = ''# ssh-key-sync begin'' @ [nl] @ ''# ssh-key-sync end''"
    by code_simp
  have "fails ?os (Stat ?p)" by simp
  from failed_check_drops_lines [OF this place refl keys, of 420, unfolded out] show ?thesis by blast
qed

text \<open>When a key is invalid or the block is not closed, the call fails with that error (or
  with an earlier one from the directory or the read) and changes no file: not the
  \<open>authorized_keys\<close> file, and no temporary file is made.\<close>

lemma apply_managed_block_rejects:
  assumes "upsert_managed_block (seen_content os (path_of name) s) keys = Inl e"
  shows "\<exists>e'. fst (apply_managed_block_to_file m os name keys s) = Inl e'
      \<and> e' \<in> {e, ReadFailed (path_of name)} \<union> range WriteFailed \<union> range SetPermissionsFailed
    \<and> files (snd (apply_managed_block_to_file m os name keys s)) = files s"
proof (cases "ensure_ssh_directory_permissions os (path_of name) s")
  case (Pair r s1)
  then have s1: "files s1 = files s" "seen_content os (path_of name) s1 = seen_content os (path_of name) s"
    using ensure_files [of os "path_of name" s] by (simp_all add: seen_content_def)
  have ens: "e' \<in> range WriteFailed \<union> range SetPermissionsFailed" if "r = Inl e'" for e'
    using Pair that
    by (auto simp: ensure_ssh_directory_permissions_def set_ssh_dir_permissions_def fs_ops
        split: option.splits if_splits)
  have rd: "e' = ReadFailed (path_of name)"
    if "fst (read_existing_authorized_keys os (path_of name) s1) = Inl e'" for e'
    using that by (auto simp: read_existing_authorized_keys_def map_err_Inl split: if_splits)
  show ?thesis
  proof (cases r)
    case (Inl e')
    then show ?thesis using ens s1 by (auto simp: apply_unfold Pair)
  next
    case (Inr _)
    show ?thesis
    proof (cases "fst (read_existing_authorized_keys os (path_of name) s1)")
      case (Inl e')
      then show ?thesis using rd s1 Inr by (auto simp: apply_unfold Pair)
    next
      case r2: (Inr c)
      then have "c = seen_content os (path_of name) s"
        using read_existing_Inr s1(2) by metis
      with r2 Inr assms s1 show ?thesis by (auto simp: apply_unfold Pair)
    qed
  qed
qed

end
