(* ===== verification/Hex.thy ===== *)
theory Hex
  imports RustText
begin

text \<open>
  Lower case hexadecimal text of bytes. The program has the pair of functions twice, in
  \<open>auth.rs\<close> on characters and in \<open>runtime.rs\<close> on bytes; both satisfy the contract \<open>hex_codec\<close>.
  Decoding is translated with the panic an index past the end raises, and that panic is
  shown never to happen.
\<close>

datatype 'a outcome = Panic | Val 'a

definition HEX :: string where
  "HEX = ''0123456789abcdef''"

section \<open>The functions of auth.rs\<close>

definition encode_hex :: "bytes \<Rightarrow> string" where
  "encode_hex bs = concat (map (\<lambda>b.
     [HEX ! unat (drop_bit 4 b), HEX ! unat (b AND 0x0F)]) bs)"

text \<open>The argument is one encoded character.\<close>

fun auth_decode_nibble :: "string \<Rightarrow> u8 option" where
  "auth_decode_nibble [c] =
     (if 48 \<le> byte_of c \<and> byte_of c \<le> 57 then Some (byte_of c - 48)
      else if 97 \<le> byte_of c \<and> byte_of c \<le> 102 then Some (byte_of c - 97 + 10)
      else if 65 \<le> byte_of c \<and> byte_of c \<le> 70 then Some (byte_of c - 65 + 10)
      else None)"
| "auth_decode_nibble _ = None"

fun auth_decode_pairs :: "string list \<Rightarrow> bytes option outcome" where
  "auth_decode_pairs [] = Val (Some [])"
| "auth_decode_pairs [c] = (case auth_decode_nibble c of None \<Rightarrow> Val None | Some _ \<Rightarrow> Panic)"
| "auth_decode_pairs (c # d # cs) =
     (case auth_decode_nibble c of None \<Rightarrow> Val None
      | Some high \<Rightarrow> (case auth_decode_nibble d of None \<Rightarrow> Val None
        | Some low \<Rightarrow> (case auth_decode_pairs cs of Panic \<Rightarrow> Panic
          | Val rest \<Rightarrow> Val (map_option (\<lambda>bs. (push_bit 4 high OR low) # bs) rest))))"

definition decode_hex_run :: "string \<Rightarrow> bytes option outcome" where
  "decode_hex_run value =
     (if length value mod 2 \<noteq> 0 then Val None else auth_decode_pairs (str_chars value))"

definition decode_hex :: "string \<Rightarrow> bytes option" where
  "decode_hex value = (case decode_hex_run value of Panic \<Rightarrow> None | Val r \<Rightarrow> r)"

section \<open>The functions of runtime.rs\<close>

definition to_hex :: "bytes \<Rightarrow> string" where
  "to_hex bs = concat (map (\<lambda>b.
     [HEX ! unat (drop_bit 4 b), HEX ! unat (b AND 0x0F)]) bs)"

definition decode_nibble :: "u8 \<Rightarrow> u8 option" where
  "decode_nibble value =
     (if 48 \<le> value \<and> value \<le> 57 then Some (value - 48)
      else if 97 \<le> value \<and> value \<le> 102 then Some (value - 97 + 10)
      else if 65 \<le> value \<and> value \<le> 70 then Some (value - 65 + 10)
      else None)"

fun from_hex_loop :: "bytes \<Rightarrow> bytes option outcome" where
  "from_hex_loop [] = Val (Some [])"
| "from_hex_loop [c] = (case decode_nibble c of None \<Rightarrow> Val None | Some _ \<Rightarrow> Panic)"
| "from_hex_loop (c # d # cs) =
     (case decode_nibble c of None \<Rightarrow> Val None
      | Some high \<Rightarrow> (case decode_nibble d of None \<Rightarrow> Val None
        | Some low \<Rightarrow> (case from_hex_loop cs of Panic \<Rightarrow> Panic
          | Val rest \<Rightarrow> Val (map_option (\<lambda>bs. (push_bit 4 high OR low) # bs) rest))))"

definition from_hex_run :: "string \<Rightarrow> bytes option outcome" where
  "from_hex_run value =
     (if length value mod 2 \<noteq> 0 then Val None else from_hex_loop (as_bytes value))"

definition from_hex :: "string \<Rightarrow> bytes option" where
  "from_hex value = (case from_hex_run value of Panic \<Rightarrow> None | Val r \<Rightarrow> r)"

section \<open>Nibbles\<close>

lemma nibbles_join: "push_bit 4 (drop_bit 4 b) OR (b AND 0x0F) = (b :: u8)"
proof -
  have "(0x0F :: u8) = mask 4"
    by (simp add: mask_eq_exp_minus_1)
  then show ?thesis
    by (simp add: bit_eq_iff bit_simps) (auto simp: not_le)
qed

lemma nibble_bounds: "unat (drop_bit 4 (b :: u8)) < 16" "unat (b AND 0x0F) < 16"
proof -
  have "unat b < 2 ^ LENGTH(8)"
    by (rule unsigned_less)
  then show "unat (drop_bit 4 b) < 16"
    by (simp add: drop_bit_eq_div unat_div less_mult_imp_div_less)
  have "unat (b AND 0x0F) \<le> unat (0x0F :: u8)"
    by (rule word_and_le1 [THEN word_le_nat_alt [THEN iffD1]])
  then show "unat (b AND 0x0F) < 16"
    by simp
qed

lemma HEX_nth:
  assumes "n < 16"
  shows "decode_nibble (byte_of (HEX ! n)) = Some (word_of_nat n)"
    and "is_ascii (HEX ! n)" and "HEX ! n \<in> set HEX"
proof -
  have "\<forall>n\<in>{0..<16}. decode_nibble (byte_of (HEX ! n)) = Some (word_of_nat n)
      \<and> is_ascii (HEX ! n) \<and> HEX ! n \<in> set HEX"
    by code_simp
  with assms show "decode_nibble (byte_of (HEX ! n)) = Some (word_of_nat n)"
    and "is_ascii (HEX ! n)" and "HEX ! n \<in> set HEX"
    by auto
qed

lemma auth_decode_nibble_char: "auth_decode_nibble [c] = decode_nibble (byte_of c)"
  by (simp add: decode_nibble_def)

lemma decode_nibble_ascii: "decode_nibble (byte_of c) \<noteq> None \<Longrightarrow> is_ascii c"
proof (rule ccontr)
  assume some: "decode_nibble (byte_of c) \<noteq> None" and "\<not> is_ascii c"
  then have "128 \<le> (of_char c :: nat)"
    by (cases c) (auto split: if_splits)
  then show False
    using some by (auto simp: decode_nibble_def word_le_nat_alt split: if_splits)
qed

lemma encode_nibble:
  "decode_nibble (byte_of (HEX ! unat (drop_bit 4 (b :: u8)))) = Some (drop_bit 4 b)"
  "decode_nibble (byte_of (HEX ! unat (b AND 0x0F))) = Some (b AND 0x0F)"
  using HEX_nth(1) nibble_bounds by simp_all

section \<open>The contract\<close>

locale hex_codec =
  fixes enc :: "bytes \<Rightarrow> string" and dec :: "string \<Rightarrow> bytes option"
  assumes dec_enc: "dec (enc bs) = Some bs"
    and enc_chars: "set (enc bs) \<subseteq> set HEX"
    and dec_len: "dec s = Some bs \<Longrightarrow> length s = 2 * length bs"
begin

lemma enc_inject: "enc bs = enc cs \<longleftrightarrow> bs = cs"
  by (metis dec_enc option.inject)

lemma enc_ascii: "list_all is_ascii (enc bs)"
proof -
  have "\<forall>c\<in>set HEX. is_ascii c"
    by (simp add: HEX_def)
  with enc_chars show ?thesis
    by (auto simp: list_all_iff)
qed

lemma enc_no_delimiter:
  assumes "c \<in> set (enc bs)"
  shows "c \<noteq> nl \<and> c \<noteq> cr \<and> c \<noteq> CHR ''='' \<and> \<not> is_whitespace [c]"
proof -
  have "c \<in> set HEX"
    using assms enc_chars by blast
  then show ?thesis
    by (auto simp: HEX_def)
qed

lemma enc_trim: "str_trim (enc bs) = enc bs"
proof (cases "enc bs = []")
  case False
  then show ?thesis
    using enc_no_delimiter [OF hd_in_set [OF False]] enc_no_delimiter [OF last_in_set [OF False]]
      enc_ascii
    by (simp add: str_trim_id_iff str_chars_ascii hd_map last_map del: is_whitespace_ascii)
qed simp

lemma enc_valid: "utf8_valid (enc bs)"
  using enc_ascii by (rule utf8_valid_ascii)

lemma enc_length: "length (enc bs) = 2 * length bs"
  using dec_len [OF dec_enc] .

end

section \<open>Both pairs satisfy it\<close>

lemma from_hex_loop_total: "length bs mod 2 = 0 \<Longrightarrow> from_hex_loop bs \<noteq> Panic"
proof (induction bs rule: from_hex_loop.induct)
  case (3 c d cs)
  then show ?case
    by (cases "decode_nibble c"; cases "decode_nibble d") (auto split: outcome.splits)
qed auto

lemma from_hex_loop_encode: "from_hex_loop (as_bytes (to_hex bs)) = Val (Some bs)"
  by (induction bs) (simp_all add: to_hex_def as_bytes_def encode_nibble nibbles_join)

lemma from_hex_loop_len: "from_hex_loop cs = Val (Some bs) \<Longrightarrow> length cs = 2 * length bs"
proof (induction cs arbitrary: bs rule: from_hex_loop.induct)
  case (3 c d cs)
  then show ?case
    by (auto split: option.splits outcome.splits)
qed (auto split: option.splits)

lemma auth_decode_pairs_ascii:
  "list_all is_ascii s \<Longrightarrow> auth_decode_pairs (map (\<lambda>c. [c]) s) = from_hex_loop (as_bytes s)"
proof (induction "as_bytes s" arbitrary: s rule: from_hex_loop.induct)
  case 1
  then show ?case by (simp add: as_bytes_def)
next
  case (2 c)
  then obtain a where "s = [a]" and "c = byte_of a"
    by (auto simp: as_bytes_def Cons_eq_map_conv)
  then show ?case
    by (simp add: as_bytes_def auth_decode_nibble_char del: auth_decode_nibble.simps)
next
  case (3 c d cs)
  then obtain a b t where "s = a # b # t" and "c = byte_of a" "d = byte_of b" "cs = as_bytes t"
    by (auto simp: as_bytes_def Cons_eq_map_conv)
  with 3 show ?case
    by (auto simp: as_bytes_def auth_decode_nibble_char simp del: auth_decode_nibble.simps
        split: option.splits)
qed

lemma to_hex_ascii: "list_all is_ascii (to_hex bs)" and set_to_hex: "set (to_hex bs) \<subseteq> set HEX"
  using HEX_nth(2,3) nibble_bounds by (auto simp: to_hex_def list_all_iff)

lemma encode_hex_eq_to_hex: "encode_hex = to_hex"
  by (rule ext) (simp add: encode_hex_def to_hex_def)

lemma length_to_hex: "length (to_hex bs) = 2 * length bs"
  by (induction bs) (auto simp: to_hex_def)

lemma from_hex_to_hex: "from_hex (to_hex bs) = Some bs"
  by (simp add: from_hex_def from_hex_run_def from_hex_loop_encode length_to_hex)

text \<open>A character that is not ASCII stops the decoding before its partner is read.\<close>

lemma auth_decode_nibble_Some: "auth_decode_nibble c = Some n \<Longrightarrow> \<exists>a. c = [a] \<and> is_ascii a"
proof (cases c rule: auth_decode_nibble.cases)
  case (1 a)
  assume "auth_decode_nibble c = Some n"
  with 1 have "decode_nibble (byte_of a) \<noteq> None"
    by (simp add: auth_decode_nibble_char del: auth_decode_nibble.simps)
  with 1 show ?thesis using decode_nibble_ascii by auto
qed auto

lemma auth_decode_pairs_Panic:
  "auth_decode_pairs cs = Panic \<Longrightarrow> odd (length cs) \<and> (\<forall>c\<in>set cs. \<exists>a. c = [a])"
  by (induction cs rule: auth_decode_pairs.induct)
    (auto split: option.splits outcome.splits dest: auth_decode_nibble_Some)

lemma length_concat_single: "\<forall>c\<in>set cs. \<exists>a. c = [a] \<Longrightarrow> length (concat cs) = length cs"
  by (induction cs) auto

lemma decode_hex_run_total: "decode_hex_run s \<noteq> Panic"
proof
  assume "decode_hex_run s = Panic"
  then have "even (length s)" and "auth_decode_pairs (str_chars s) = Panic"
    by (auto simp: decode_hex_run_def even_iff_mod_2_eq_zero split: if_splits)
  moreover from auth_decode_pairs_Panic [OF this(2)]
  have "odd (length (str_chars s))" and "length (concat (str_chars s)) = length (str_chars s)"
    using length_concat_single by blast+
  ultimately show False by simp
qed

lemma auth_decode_pairs_len:
  "auth_decode_pairs cs = Val (Some bs) \<Longrightarrow> length cs = 2 * length bs \<and> (\<forall>c\<in>set cs. \<exists>a. c = [a])"
proof (induction cs arbitrary: bs rule: auth_decode_pairs.induct)
  case (3 c d cs)
  then show ?case
    by (auto split: option.splits outcome.splits dest: auth_decode_nibble_Some)
qed (auto split: option.splits)

interpretation run_hex: hex_codec to_hex from_hex
proof
  fix bs s
  show "from_hex (to_hex bs) = Some bs"
    by (rule from_hex_to_hex)
  show "set (to_hex bs) \<subseteq> set HEX"
    by (rule set_to_hex)
  show "length s = 2 * length bs" if "from_hex s = Some bs"
    using that from_hex_loop_len [of "as_bytes s" bs]
    by (auto simp: from_hex_def from_hex_run_def split: outcome.splits if_splits)
qed

interpretation auth_hex: hex_codec encode_hex decode_hex
proof
  fix bs s
  show "decode_hex (encode_hex bs) = Some bs"
    by (simp add: decode_hex_def decode_hex_run_def encode_hex_eq_to_hex length_to_hex
        str_chars_ascii to_hex_ascii auth_decode_pairs_ascii from_hex_loop_encode)
  show "set (encode_hex bs) \<subseteq> set HEX"
    by (simp add: encode_hex_eq_to_hex set_to_hex)
  show "length s = 2 * length bs" if "decode_hex s = Some bs"
  proof -
    have "auth_decode_pairs (str_chars s) = Val (Some bs)"
      using that by (auto simp: decode_hex_def decode_hex_run_def split: outcome.splits if_splits)
    from auth_decode_pairs_len [OF this] show ?thesis
      using length_concat_single [of "str_chars s"] by simp
  qed
qed

section \<open>Properties\<close>

text \<open>C27: Decoding never runs past the end of its input, although \<open>auth.rs\<close> tests the byte
  length and then indexes characters; and both decoders undo both encoders.\<close>

theorem hex_total_roundtrip:
  "decode_hex_run s \<noteq> Panic \<and> from_hex_run s \<noteq> Panic
   \<and> decode_hex_run (encode_hex bs) = Val (Some bs) \<and> from_hex_run (to_hex bs) = Val (Some bs)
   \<and> encode_hex bs = to_hex bs"
proof -
  have "from_hex_run s \<noteq> Panic" for s
    using from_hex_loop_total [of "as_bytes s"] by (simp add: from_hex_run_def)
  moreover have "decode_hex_run (encode_hex bs) = Val (Some bs)"
    using auth_hex.dec_enc [of bs] decode_hex_run_total [of "encode_hex bs"]
    by (simp add: decode_hex_def split: outcome.splits)
  moreover have "from_hex_run (to_hex bs) = Val (Some bs)"
    by (simp add: from_hex_run_def from_hex_loop_encode length_to_hex)
  ultimately show ?thesis
    using decode_hex_run_total encode_hex_eq_to_hex by auto
qed

end
