(* ===== verification/Auth.thy ===== *)
theory Auth
  imports Hex
begin

text \<open>
  The module \<open>auth.rs\<close>: signed envelopes, their canonical text, and the verifier that adds
  the time window and the memory of seen nonces. The functions of the crates \<open>sha2\<close> and
  \<open>hmac\<close> and the Unicode upper case table are parameters (the record \<open>ext\<close>); \<open>mac_ok\<close> is
  what the documentation of \<open>verify_slice\<close> promises.
\<close>

section \<open>What the module calls\<close>

record ext =
  sha256 :: "bytes \<Rightarrow> bytes"
  hmac_sha256 :: "bytes \<Rightarrow> bytes \<Rightarrow> bytes"
  hmac_verify_slice :: "bytes \<Rightarrow> bytes \<Rightarrow> bytes \<Rightarrow> bool"
  char_to_uppercase :: "string \<Rightarrow> string"

definition mac_ok :: "ext \<Rightarrow> bool" where
  "mac_ok X \<longleftrightarrow> (\<forall>key msg tag. hmac_verify_slice X key msg tag \<longleftrightarrow> tag = hmac_sha256 X key msg)"

text \<open>\<open>str::to_uppercase\<close> maps character by character; only the characters beyond ASCII need
  the table.\<close>

definition to_uppercase :: "ext \<Rightarrow> string \<Rightarrow> string" where
  "to_uppercase X s = concat (map (\<lambda>c. if list_all is_ascii c then map ascii_upper c
     else char_to_uppercase X c) (str_chars s))"

section \<open>Envelopes\<close>

datatype MessageContext = HttpRequest string string | HttpResponse u16 string | UdpAnnouncement

record SignedEnvelope =
  env_sid :: string
  env_sender_id :: string
  env_timestamp_secs :: u64
  env_nonce :: string
  env_context :: MessageContext
  env_body :: bytes
  env_signature_hex :: string

datatype AuthError = SidMismatch | InvalidSignatureEncoding | InvalidSignature
  | TimestampOutsideWindow | ReplayNonce

fun canonical_context :: "ext \<Rightarrow> MessageContext \<Rightarrow> string" where
  "canonical_context X (HttpRequest method path) =
     ''http_request:'' @ to_uppercase X method @ '':'' @ path"
| "canonical_context X (HttpResponse status_code path) =
     ''http_response:'' @ show_word status_code @ '':'' @ path"
| "canonical_context X UdpAnnouncement = ''udp_announcement''"

definition hash_body_hex :: "ext \<Rightarrow> bytes \<Rightarrow> string" where
  "hash_body_hex X body = encode_hex (sha256 X body)"

definition canonical_payload ::
  "ext \<Rightarrow> string \<Rightarrow> string \<Rightarrow> u64 \<Rightarrow> string \<Rightarrow> MessageContext \<Rightarrow> bytes \<Rightarrow> string" where
  "canonical_payload X sid sender_id timestamp_secs nonce context body =
     sid @ [nl] @ sender_id @ [nl] @ show_word timestamp_secs @ [nl] @ nonce @ [nl]
     @ canonical_context X context @ [nl] @ hash_body_hex X body"

definition hmac_signature_hex :: "ext \<Rightarrow> string \<Rightarrow> bytes \<Rightarrow> string" where
  "hmac_signature_hex X sid_token payload = encode_hex (hmac_sha256 X (as_bytes sid_token) payload)"

definition sign_envelope ::
  "ext \<Rightarrow> string \<Rightarrow> string \<Rightarrow> string \<Rightarrow> u64 \<Rightarrow> string \<Rightarrow> MessageContext \<Rightarrow> bytes \<Rightarrow> SignedEnvelope" where
  "sign_envelope X sid sid_token sender_id timestamp_secs nonce context body =
     (let canonical = canonical_payload X sid sender_id timestamp_secs nonce context body;
          signature_hex = hmac_signature_hex X sid_token (as_bytes canonical)
      in \<lparr>env_sid = sid, env_sender_id = sender_id, env_timestamp_secs = timestamp_secs,
          env_nonce = nonce, env_context = context, env_body = body,
          env_signature_hex = signature_hex\<rparr>)"

definition envelope_payload :: "ext \<Rightarrow> SignedEnvelope \<Rightarrow> string" where
  "envelope_payload X e = canonical_payload X (env_sid e) (env_sender_id e) (env_timestamp_secs e)
     (env_nonce e) (env_context e) (env_body e)"

definition verify_envelope :: "ext \<Rightarrow> SignedEnvelope \<Rightarrow> string \<Rightarrow> string \<Rightarrow> AuthError + unit" where
  "verify_envelope X envelope sid_token expected_sid =
     (if env_sid envelope \<noteq> expected_sid then Inl SidMismatch
      else and_then (ok_or (decode_hex (env_signature_hex envelope)) InvalidSignatureEncoding)
        (\<lambda>signature.
          if hmac_verify_slice X (as_bytes sid_token) (as_bytes (envelope_payload X envelope)) signature
          then Inr () else Inl InvalidSignature))"

section \<open>The verifier with its memory\<close>

record EnvelopeVerifier =
  ver_sid_token :: string
  ver_expected_sid :: string
  ver_timestamp_skew_secs :: u64
  ver_nonce_ttl_secs :: u64
  ver_seen_nonces :: "string \<rightharpoonup> u64"

definition verifier_new :: "string \<Rightarrow> string \<Rightarrow> u64 \<Rightarrow> u64 \<Rightarrow> EnvelopeVerifier" where
  "verifier_new sid_token expected_sid timestamp_skew_secs nonce_ttl_secs =
     \<lparr>ver_sid_token = sid_token, ver_expected_sid = expected_sid,
      ver_timestamp_skew_secs = timestamp_skew_secs, ver_nonce_ttl_secs = nonce_ttl_secs,
      ver_seen_nonces = Map.empty\<rparr>"

definition prune_nonces :: "u64 \<Rightarrow> EnvelopeVerifier \<Rightarrow> EnvelopeVerifier" where
  "prune_nonces now_secs v = v\<lparr>ver_seen_nonces :=
     retain (\<lambda>seen_at. saturating_sub now_secs seen_at \<le> ver_nonce_ttl_secs v) (ver_seen_nonces v)\<rparr>"

definition nonce_key :: "SignedEnvelope \<Rightarrow> string" where
  "nonce_key envelope = env_sender_id envelope @ '':'' @ env_nonce envelope"

definition verifier_verify ::
  "ext \<Rightarrow> SignedEnvelope \<Rightarrow> u64 \<Rightarrow> EnvelopeVerifier \<Rightarrow> (AuthError + unit) \<times> EnvelopeVerifier" where
  "verifier_verify X envelope now_secs v =
     (case verify_envelope X envelope (ver_sid_token v) (ver_expected_sid v) of
        Inl e \<Rightarrow> (Inl e, v)
      | Inr _ \<Rightarrow>
        let earliest = saturating_sub now_secs (ver_timestamp_skew_secs v);
            latest = saturating_add now_secs (ver_timestamp_skew_secs v)
        in if env_timestamp_secs envelope < earliest \<or> latest < env_timestamp_secs envelope
           then (Inl TimestampOutsideWindow, v)
           else let v' = prune_nonces now_secs v in
             if ver_seen_nonces v' (nonce_key envelope) \<noteq> None then (Inl ReplayNonce, v')
             else (Inr (), v'\<lparr>ver_seen_nonces := (ver_seen_nonces v')(nonce_key envelope \<mapsto> now_secs)\<rparr>))"

section \<open>The canonical text determines the message\<close>

text \<open>The strings of an envelope that the canonical text can separate: the first four lines
  are ended by a line feed, and the method of a request by a colon.\<close>

fun separable_context :: "ext \<Rightarrow> MessageContext \<Rightarrow> bool" where
  "separable_context X (HttpRequest method path) \<longleftrightarrow> CHR '':'' \<notin> set (to_uppercase X method)"
| "separable_context X _ \<longleftrightarrow> True"

definition separable :: "ext \<Rightarrow> SignedEnvelope \<Rightarrow> bool" where
  "separable X e \<longleftrightarrow> nl \<notin> set (env_sid e) \<and> nl \<notin> set (env_sender_id e) \<and> nl \<notin> set (env_nonce e)
     \<and> separable_context X (env_context e)"

text \<open>Contexts that mean the same: the case of the method of a request is not signed.\<close>

fun same_context :: "ext \<Rightarrow> MessageContext \<Rightarrow> MessageContext \<Rightarrow> bool" where
  "same_context X (HttpRequest m p) (HttpRequest m' p') \<longleftrightarrow>
     to_uppercase X m = to_uppercase X m' \<and> p = p'"
| "same_context X c c' \<longleftrightarrow> c = c'"

lemma sep_append_eq:
  "(c :: char) \<notin> set a \<Longrightarrow> c \<notin> set a' \<Longrightarrow> a @ c # b = a' @ c # b' \<longleftrightarrow> a = a' \<and> b = b'"
  using split_once_Some [of c "a @ c # b" a b] split_once_Some [of c "a @ c # b" a' b'] by auto

lemma rsep_append_eq:
  "(c :: char) \<notin> set b \<Longrightarrow> c \<notin> set b' \<Longrightarrow> a @ c # b = a' @ c # b' \<longleftrightarrow> a = a' \<and> b = b'"
  using rsplit_once_Some [of c "a @ c # b" a b] rsplit_once_Some [of c "a @ c # b" a' b'] by auto

lemma show_word_seps: "nl \<notin> set (show_word w)" "CHR '':'' \<notin> set (show_word w)"
  using show_word_chars [of nl w] show_word_chars [of "CHR '':''" w] by auto

lemma canonical_context_eq:
  "separable_context X c \<Longrightarrow> separable_context X c' \<Longrightarrow>
   canonical_context X c = canonical_context X c' \<longleftrightarrow> same_context X c c'"
  by (cases c; cases c') (auto simp: sep_append_eq show_word_seps)

lemma hash_body_hex_no_nl: "nl \<notin> set (hash_body_hex X b)"
  using auth_hex.enc_no_delimiter by (auto simp: hash_body_hex_def)

lemma hash_body_hex_eq [simp]: "hash_body_hex X b = hash_body_hex X b' \<longleftrightarrow> sha256 X b = sha256 X b'"
  by (simp add: hash_body_hex_def auth_hex.enc_inject)

lemma envelope_payload_eq:
  assumes "separable X e" and "separable X e'"
  shows "envelope_payload X e = envelope_payload X e' \<longleftrightarrow>
    env_sid e = env_sid e' \<and> env_sender_id e = env_sender_id e'
    \<and> env_timestamp_secs e = env_timestamp_secs e' \<and> env_nonce e = env_nonce e'
    \<and> same_context X (env_context e) (env_context e')
    \<and> sha256 X (env_body e) = sha256 X (env_body e')"
  using assms canonical_context_eq [of X "env_context e" "env_context e'"]
  by (simp add: envelope_payload_def canonical_payload_def separable_def sep_append_eq
      rsep_append_eq show_word_seps hash_body_hex_no_nl)

section \<open>Signing and verifying\<close>

lemma verify_envelope_iff:
  "mac_ok X \<Longrightarrow> verify_envelope X e tok sid = Inr () \<longleftrightarrow>
     env_sid e = sid
     \<and> decode_hex (env_signature_hex e) = Some (hmac_sha256 X (as_bytes tok) (as_bytes (envelope_payload X e)))"
  by (auto simp: verify_envelope_def mac_ok_def)

lemma envelope_payload_sign:
  "envelope_payload X (sign_envelope X sid tok who ts n c b) = canonical_payload X sid who ts n c b"
  by (simp add: envelope_payload_def sign_envelope_def Let_def)

lemma sign_envelope_fields [simp]:
  "env_sid (sign_envelope X sid tok who ts n c b) = sid"
  "env_sender_id (sign_envelope X sid tok who ts n c b) = who"
  "env_timestamp_secs (sign_envelope X sid tok who ts n c b) = ts"
  "env_nonce (sign_envelope X sid tok who ts n c b) = n"
  "env_context (sign_envelope X sid tok who ts n c b) = c"
  "env_body (sign_envelope X sid tok who ts n c b) = b"
  by (simp_all add: sign_envelope_def Let_def)

lemma sign_envelope_signature:
  "decode_hex (env_signature_hex (sign_envelope X sid tok who ts n c b))
     = Some (hmac_sha256 X (as_bytes tok) (as_bytes (canonical_payload X sid who ts n c b)))"
  by (simp add: sign_envelope_def Let_def hmac_signature_hex_def auth_hex.dec_enc)

lemma verify_signed [simp]:
  "mac_ok X \<Longrightarrow> verify_envelope X (sign_envelope X sid tok who ts n c b) tok sid = Inr ()"
  by (simp add: verify_envelope_iff sign_envelope_signature envelope_payload_sign)

section \<open>A guard against replays\<close>

text \<open>A verifier that remembers when it accepted the key of a message and forgets it no sooner
  than \<open>ttl\<close> seconds later. Times are numbers of seconds.\<close>

locale replay_guard =
  fixes accepts :: "'m \<Rightarrow> u64 \<Rightarrow> 's \<Rightarrow> bool" and after :: "'m \<Rightarrow> u64 \<Rightarrow> 's \<Rightarrow> 's"
    and key :: "'m \<Rightarrow> 'k" and stamp :: "'m \<Rightarrow> u64"
    and seen :: "'s \<Rightarrow> 'k \<rightharpoonup> u64" and skew :: "'s \<Rightarrow> u64" and ttl :: "'s \<Rightarrow> u64"
  assumes remember: "accepts m t s \<Longrightarrow> seen (after m t s) (key m) = Some t"
    and reject: "seen s (key m) = Some t0 \<Longrightarrow> unat t - unat t0 \<le> unat (ttl s) \<Longrightarrow> \<not> accepts m t s"
    and keep: "seen s k = Some t0 \<Longrightarrow> unat t - unat t0 \<le> unat (ttl s) \<Longrightarrow> seen (after m t s) k = Some t0"
    and window: "accepts m t s \<Longrightarrow>
      unat t - unat (skew s) \<le> unat (stamp m) \<and> unat (stamp m) \<le> unat t + unat (skew s)"
    and settings: "skew (after m t s) = skew s" "ttl (after m t s) = ttl s"
begin

definition run :: "('m \<times> u64) list \<Rightarrow> 's \<Rightarrow> 's" where
  "run = fold (\<lambda>(m, t). after m t)"

lemma run_Nil [simp]: "run [] s = s"
  by (simp add: run_def)

lemma run_Cons [simp]: "run ((m, t) # ms) s = run ms (after m t s)"
  by (simp add: run_def)

lemma run_settings [simp]: "skew (run ms s) = skew s" "ttl (run ms s) = ttl s"
  by (induction ms arbitrary: s) (auto simp: settings)

lemma run_keep:
  "seen s k = Some t0 \<Longrightarrow> \<forall>(m, t) \<in> set ms. unat t - unat t0 \<le> unat (ttl s) \<Longrightarrow>
   seen (run ms s) k = Some t0"
proof (induction ms arbitrary: s)
  case (Cons mt ms)
  obtain m t where "mt = (m, t)" by (cases mt)
  with Cons show ?case
    by (simp add: keep settings)
qed simp

lemma no_second_accept:
  assumes first: "accepts m t0 s" and span: "2 * unat (skew s) \<le> unat (ttl s)"
    and order: "\<forall>(m', t') \<in> set ms. t' \<le> t"
  shows "\<not> accepts m t (run ms (after m t0 s))"
proof
  assume second: "accepts m t (run ms (after m t0 s))"
  have "unat (stamp m) \<le> unat t0 + unat (skew s)" and "unat t - unat (skew s) \<le> unat (stamp m)"
    using window [OF first] window [OF second] by (simp_all add: settings)
  with span have close: "unat t - unat t0 \<le> unat (ttl s)"
    by linarith
  have "\<forall>(m', t') \<in> set ms. unat t' - unat t0 \<le> unat (ttl (after m t0 s))"
    using order close by (fastforce simp: settings word_le_nat_alt)
  then have "seen (run ms (after m t0 s)) (key m) = Some t0"
    by (rule run_keep [OF remember [OF first]])
  from reject [OF this, of t] close second show False
    by (simp add: settings)
qed

end

section \<open>The verifier is such a guard\<close>

definition accepts :: "ext \<Rightarrow> SignedEnvelope \<Rightarrow> u64 \<Rightarrow> EnvelopeVerifier \<Rightarrow> bool" where
  "accepts X e t v \<longleftrightarrow> fst (verifier_verify X e t v) = Inr ()"

definition after :: "ext \<Rightarrow> SignedEnvelope \<Rightarrow> u64 \<Rightarrow> EnvelopeVerifier \<Rightarrow> EnvelopeVerifier" where
  "after X e t v = snd (verifier_verify X e t v)"

definition in_window :: "u64 \<Rightarrow> u64 \<Rightarrow> u64 \<Rightarrow> bool" where
  "in_window skew t stamp \<longleftrightarrow> saturating_sub t skew \<le> stamp \<and> stamp \<le> saturating_add t skew"

lemma in_window_nat: "in_window skew t stamp \<longleftrightarrow>
    unat t - unat skew \<le> unat stamp \<and> unat stamp \<le> unat t + unat skew"
proof -
  have "unat stamp < 2 ^ LENGTH(64)"
    by (rule unsigned_less)
  then show ?thesis
    by (auto simp: in_window_def word_le_nat_alt unat_saturating_sub unat_saturating_add)
qed

lemma verifier_verify_cases:
  "verifier_verify X e t v =
     (case verify_envelope X e (ver_sid_token v) (ver_expected_sid v) of
        Inl err \<Rightarrow> (Inl err, v)
      | Inr _ \<Rightarrow> if \<not> in_window (ver_timestamp_skew_secs v) t (env_timestamp_secs e)
          then (Inl TimestampOutsideWindow, v)
          else if nonce_key e \<in> dom (ver_seen_nonces (prune_nonces t v)) then (Inl ReplayNonce, prune_nonces t v)
          else (Inr (), (prune_nonces t v)\<lparr>ver_seen_nonces :=
            (ver_seen_nonces (prune_nonces t v))(nonce_key e \<mapsto> t)\<rparr>))"
  by (auto simp: verifier_verify_def in_window_def Let_def not_le split: sum.splits)

lemma prune_nonces_Some [simp]:
  "ver_seen_nonces (prune_nonces t v) k = Some t0 \<longleftrightarrow>
     ver_seen_nonces v k = Some t0 \<and> unat t - unat t0 \<le> unat (ver_nonce_ttl_secs v)"
  by (simp add: prune_nonces_def word_le_nat_alt unat_saturating_sub)

lemma prune_nonces_None:
  "ver_seen_nonces (prune_nonces t v) k = None \<longleftrightarrow>
     (\<forall>t0. ver_seen_nonces v k = Some t0 \<longrightarrow> unat (ver_nonce_ttl_secs v) < unat t - unat t0)"
  using prune_nonces_Some [of t v k] by (metis not_None_eq not_le)

lemma prune_nonces_settings [simp]:
  "ver_sid_token (prune_nonces t v) = ver_sid_token v"
  "ver_expected_sid (prune_nonces t v) = ver_expected_sid v"
  "ver_timestamp_skew_secs (prune_nonces t v) = ver_timestamp_skew_secs v"
  "ver_nonce_ttl_secs (prune_nonces t v) = ver_nonce_ttl_secs v"
  by (simp_all add: prune_nonces_def)

lemma after_settings [simp]:
  "ver_sid_token (after X e t v) = ver_sid_token v"
  "ver_expected_sid (after X e t v) = ver_expected_sid v"
  "ver_timestamp_skew_secs (after X e t v) = ver_timestamp_skew_secs v"
  "ver_nonce_ttl_secs (after X e t v) = ver_nonce_ttl_secs v"
  by (simp_all add: after_def verifier_verify_cases split: sum.splits)

lemma not_Inr_unit: "r \<noteq> Inr () \<Longrightarrow> \<exists>err. r = Inl err"
  by (cases r) auto

lemma accepts_iff:
  "accepts X e t v \<longleftrightarrow>
     verify_envelope X e (ver_sid_token v) (ver_expected_sid v) = Inr ()
     \<and> in_window (ver_timestamp_skew_secs v) t (env_timestamp_secs e)
     \<and> (\<forall>t0. ver_seen_nonces v (nonce_key e) = Some t0 \<longrightarrow> unat (ver_nonce_ttl_secs v) < unat t - unat t0)"
  by (auto simp: accepts_def verifier_verify_cases domIff not_le split: sum.splits)

interpretation ver: replay_guard "accepts X" "after X" nonce_key env_timestamp_secs
  ver_seen_nonces ver_timestamp_skew_secs ver_nonce_ttl_secs
proof
  fix e t v t0 k
  show "accepts X e t v \<Longrightarrow> ver_seen_nonces (after X e t v) (nonce_key e) = Some t"
    by (auto simp: accepts_def after_def verifier_verify_cases split: sum.splits if_splits)
  show "ver_seen_nonces v (nonce_key e) = Some t0 \<Longrightarrow>
      unat t - unat t0 \<le> unat (ver_nonce_ttl_secs v) \<Longrightarrow> \<not> accepts X e t v"
    by (auto simp: accepts_iff)
  show "ver_seen_nonces v k = Some t0 \<Longrightarrow> unat t - unat t0 \<le> unat (ver_nonce_ttl_secs v) \<Longrightarrow>
      ver_seen_nonces (after X e t v) k = Some t0"
    by (auto simp: after_def verifier_verify_cases domIff split: sum.splits if_splits)
  show "accepts X e t v \<Longrightarrow>
      unat t - unat (ver_timestamp_skew_secs v) \<le> unat (env_timestamp_secs e)
      \<and> unat (env_timestamp_secs e) \<le> unat t + unat (ver_timestamp_skew_secs v)"
    by (simp add: accepts_iff in_window_nat)
qed simp_all

section \<open>Properties\<close>

text \<open>A concrete instance of the parameters on which \<open>mac_ok\<close> holds; the tag is the key
  followed by the message.\<close>

definition echo_ext :: ext where
  "echo_ext = \<lparr>sha256 = id, hmac_sha256 = (@), hmac_verify_slice = (\<lambda>k m t. t = k @ m),
     char_to_uppercase = id\<rparr>"

lemma mac_ok_echo [simp]: "mac_ok echo_ext"
  by (simp add: mac_ok_def echo_ext_def)

text \<open>An envelope signed with a token verifies, for the same \<open>sid\<close>, exactly under the tokens
  that give its canonical text the same tag; a wrong \<open>sid\<close> is reported before any other error and
  the signature of a signed envelope is never malformed.\<close>

lemma verify_signed_envelope:
  assumes "mac_ok X"
  shows "verify_envelope X (sign_envelope X sid tok who ts n c b) tok' sid' =
    (if sid \<noteq> sid' then Inl SidMismatch
     else if hmac_sha256 X (as_bytes tok) (as_bytes (canonical_payload X sid who ts n c b))
           = hmac_sha256 X (as_bytes tok') (as_bytes (canonical_payload X sid who ts n c b))
     then Inr () else Inl InvalidSignature)"
  using assms
  by (auto simp: verify_envelope_def sign_envelope_signature envelope_payload_sign mac_ok_def)

text \<open>C15: Nothing the signature covers can be changed. When two envelopes verify under one token
  with the same signature and their two canonical texts do not collide under HMAC, they agree in
  \<open>sid\<close>, sender, time, nonce, context (up to the case of the method) and hash of the body,
  provided no \<open>sid\<close>, sender or nonce holds a line feed and no method a colon.\<close>

theorem verified_same_signature:
  assumes "mac_ok X"
    and "verify_envelope X e tok sid = Inr ()" and "verify_envelope X e' tok sid = Inr ()"
    and "decode_hex (env_signature_hex e) = decode_hex (env_signature_hex e')"
    and "hmac_sha256 X (as_bytes tok) (as_bytes (envelope_payload X e))
       = hmac_sha256 X (as_bytes tok) (as_bytes (envelope_payload X e'))
       \<Longrightarrow> envelope_payload X e = envelope_payload X e'"
    and "separable X e" and "separable X e'"
  shows "env_sid e = env_sid e' \<and> env_sender_id e = env_sender_id e'
    \<and> env_timestamp_secs e = env_timestamp_secs e' \<and> env_nonce e = env_nonce e'
    \<and> same_context X (env_context e) (env_context e')
    \<and> sha256 X (env_body e) = sha256 X (env_body e')"
proof -
  have "envelope_payload X e = envelope_payload X e'"
    using assms(1-5) by (simp add: verify_envelope_iff)
  then show ?thesis
    using envelope_payload_eq [OF assms(6,7)] by simp
qed

theorem verified_same_signature_witness:
  "let e = sign_envelope echo_ext ''s'' ''t'' ''a'' 7 ''n'' (HttpRequest ''get'' ''/p'') [1];
       e' = e\<lparr>env_context := HttpRequest ''GET'' ''/p''\<rparr>
   in verify_envelope echo_ext e' ''t'' ''s'' = Inr () \<and> env_nonce e = env_nonce e'
      \<and> same_context echo_ext (env_context e) (env_context e')"
proof -
  let ?e = "sign_envelope echo_ext ''s'' ''t'' ''a'' 7 ''n'' (HttpRequest ''get'' ''/p'') [1]"
  let ?e' = "?e\<lparr>env_context := HttpRequest ''GET'' ''/p''\<rparr>"
  have up: "to_uppercase echo_ext ''get'' = ''GET''" "to_uppercase echo_ext ''GET'' = ''GET''"
    by code_simp+
  then have same: "envelope_payload echo_ext ?e = envelope_payload echo_ext ?e'"
    by (simp add: envelope_payload_def canonical_payload_def)
  have "verify_envelope echo_ext ?e ''t'' ''s'' = Inr ()"
    by simp
  moreover from this have ok: "verify_envelope echo_ext ?e' ''t'' ''s'' = Inr ()"
    by (simp add: verify_envelope_iff same [symmetric] sign_envelope_signature envelope_payload_sign)
  moreover have "separable echo_ext ?e" "separable echo_ext ?e'"
    using up by (simp_all add: separable_def)
  ultimately show ?thesis
    using verified_same_signature [OF mac_ok_echo, of ?e "''t''" "''s''" ?e'] same by simp
qed

text \<open>The verifier accepts an envelope exactly when it verifies, its time lies within the
  skew of the clock (over the integers: saturation at both ends of \<open>u64\<close> loses nothing), and its
  nonce was not accepted within the time to live; it then remembers the nonce. A bad or late
  envelope leaves the memory as it was, a replay at most drops expired nonces.\<close>

lemma verifier_verify_outcome:
  "case verifier_verify X e t v of
     (Inr _, v') \<Rightarrow> verify_envelope X e (ver_sid_token v) (ver_expected_sid v) = Inr ()
       \<and> \<bar>int (unat (env_timestamp_secs e)) - int (unat t)\<bar> \<le> int (unat (ver_timestamp_skew_secs v))
       \<and> ver_seen_nonces (prune_nonces t v) (nonce_key e) = None
       \<and> v' = (prune_nonces t v)\<lparr>ver_seen_nonces := (ver_seen_nonces (prune_nonces t v))(nonce_key e \<mapsto> t)\<rparr>
   | (Inl ReplayNonce, v') \<Rightarrow> v' = prune_nonces t v
       \<and> (\<exists>t0. ver_seen_nonces v (nonce_key e) = Some t0 \<and> unat t \<le> unat t0 + unat (ver_nonce_ttl_secs v))
   | (Inl TimestampOutsideWindow, v') \<Rightarrow> v' = v
       \<and> int (unat (ver_timestamp_skew_secs v)) < \<bar>int (unat (env_timestamp_secs e)) - int (unat t)\<bar>
   | (Inl err, v') \<Rightarrow> v' = v
       \<and> verify_envelope X e (ver_sid_token v) (ver_expected_sid v) = Inl err"
proof -
  have "in_window skew t s \<longleftrightarrow> \<bar>int (unat s) - int (unat t)\<bar> \<le> int (unat skew)" for skew s
    unfolding in_window_nat by linarith
  moreover have "err \<noteq> TimestampOutsideWindow \<and> err \<noteq> ReplayNonce"
    if "verify_envelope X e (ver_sid_token v) (ver_expected_sid v) = Inl err" for err
    using that by (auto simp: verify_envelope_def and_then_Inl split: if_splits)
  ultimately show ?thesis
    by (auto simp: verifier_verify_cases domIff prune_nonces_None not_less
        split: sum.splits AuthError.splits)
qed

text \<open>C8: No replay is accepted. Once an envelope was accepted, it is rejected whatever envelopes
  the verifier sees in between, as long as the clock did not show a later time before, when the
  nonces live at least twice as long as the skew (the daemon uses 120 and 60 seconds).\<close>

theorem verifier_no_replay:
  assumes "fst (verifier_verify X e t0 v) = Inr ()"
    and "2 * unat (ver_timestamp_skew_secs v) \<le> unat (ver_nonce_ttl_secs v)"
    and "\<forall>(e', t') \<in> set es. t' \<le> t"
  shows "\<exists>err. fst (verifier_verify X e t
    (fold (\<lambda>(e', t') w. snd (verifier_verify X e' t' w)) es (snd (verifier_verify X e t0 v)))) = Inl err"
proof -
  have "\<not> accepts X e t (ver.run X es (after X e t0 v))"
    using assms by (intro ver.no_second_accept) (simp_all add: accepts_def)
  then show ?thesis
    unfolding accepts_def ver.run_def after_def by (rule not_Inr_unit)
qed

theorem verifier_no_replay_witness:
  "\<exists>err. fst (verifier_verify echo_ext
       (sign_envelope echo_ext ''s'' ''t'' ''a'' 1000 ''n'' UdpAnnouncement []) 1060
       (snd (verifier_verify echo_ext
          (sign_envelope echo_ext ''s'' ''t'' ''a'' 1000 ''n'' UdpAnnouncement []) 940
          (verifier_new ''t'' ''s'' 60 120)))) = Inl err"
proof -
  let ?e = "sign_envelope echo_ext ''s'' ''t'' ''a'' 1000 ''n'' UdpAnnouncement []"
  let ?v = "verifier_new ''t'' ''s'' 60 120"
  have "fst (verifier_verify echo_ext ?e 940 ?v) = Inr ()"
    by (simp add: accepts_iff [unfolded accepts_def] verifier_new_def in_window_nat)
  then show ?thesis
    using verifier_no_replay [of echo_ext ?e 940 ?v "[]" 1060] by (simp add: verifier_new_def)
qed

text \<open>The memory is keyed by the text \<open>sender:nonce\<close>, which does not separate senders that
  hold a colon: a fresh message of one sender is rejected as a replay because of another's.\<close>

theorem nonce_key_collision:
  "fst (verifier_verify echo_ext (sign_envelope echo_ext ''s'' ''t'' ''a'' 1000 ''b:c'' UdpAnnouncement []) 1000
     (snd (verifier_verify echo_ext (sign_envelope echo_ext ''s'' ''t'' ''a:b'' 1000 ''c'' UdpAnnouncement []) 1000
       (verifier_new ''t'' ''s'' 60 120)))) = Inl ReplayNonce
   \<and> fst (verifier_verify echo_ext (sign_envelope echo_ext ''s'' ''t'' ''a'' 1000 ''b:c'' UdpAnnouncement []) 1000
       (verifier_new ''t'' ''s'' 60 120)) = Inr ()"
  by (simp add: verifier_verify_cases verifier_new_def in_window_nat nonce_key_def domIff
      prune_nonces_def retain_def saturating_sub_def)

end
