(* ===== verification/Payload.thy ===== *)
theory Payload
  imports RustText
begin

text \<open>
  The body format shared by announcements and key exchange messages: one \<open>key=value\<close> line per
  field. The program has the pair \<open>serialize_payload\<close> / \<open>parse_payload\<close> twice, in
  \<open>discovery.rs\<close> and \<open>transport.rs\<close>; the locale \<open>payload_codec\<close> is what both promise.
\<close>

section \<open>The loops\<close>

definition entry_line :: "string \<times> string \<Rightarrow> string" where
  "entry_line = (\<lambda>(key, value). key @ ''='' @ value @ [nl])"

fun payload_entries :: "'e \<Rightarrow> (string \<rightharpoonup> string) \<Rightarrow> string list \<Rightarrow> 'e + (string \<rightharpoonup> string)" where
  "payload_entries bad m [] = Inr m"
| "payload_entries bad m (line # lines) =
     (if str_trim line = [] then payload_entries bad m lines
      else case split_once (CHR ''='') line of None \<Rightarrow> Inl bad
        | Some (key, value) \<Rightarrow> payload_entries bad (m(str_trim key \<mapsto> str_trim value)) lines)"

section \<open>Fields that survive\<close>

text \<open>A value survives when it is valid text on one line without outer white space; a name
  must not hold the separator either.\<close>

definition clean :: "string \<Rightarrow> bool" where
  "clean v \<longleftrightarrow> str_trim v = v \<and> nl \<notin> set v \<and> utf8_valid v"

definition clean_entry :: "string \<times> string \<Rightarrow> bool" where
  "clean_entry kv \<longleftrightarrow> clean (fst kv) \<and> CHR ''='' \<notin> set (fst kv) \<and> clean (snd kv)"

lemma clean_show_word [simp]: "clean (show_word w)"
  using show_word_chars [of nl w] by (auto simp: clean_def)

lemma field_names_clean [simp]:
  "clean ''sid''" "clean ''participant_id''" "clean ''address''" "clean ''port''" "clean ''public_key''"
  "clean ''status''" "clean ''accepted''" "clean ''request''"
  unfolding clean_def by code_simp+

lemma clean_last: "clean v \<Longrightarrow> v \<noteq> [] \<Longrightarrow> last v \<noteq> cr"
proof
  assume "clean v" and "v \<noteq> []" and "last v = cr"
  then have "str_trim (butlast v @ [cr]) = butlast v @ [cr]"
    by (metis clean_def append_butlast_last_id)
  from str_trim_last [OF this] show False by simp
qed

lemma str_trim_sep: "is_ascii c \<Longrightarrow> \<not> is_whitespace [c] \<Longrightarrow> str_trim (k @ c # v) \<noteq> []"
proof
  assume "is_ascii c" and "\<not> is_whitespace [c]" and "str_trim (k @ c # v) = []"
  then have "list_all is_whitespace (str_chars (k @ c # v))"
    by (metis str_chars_trim str_chars_Nil_iff trim_by_Nil_iff)
  with \<open>is_ascii c\<close> \<open>\<not> is_whitespace [c]\<close> show False
    by (simp add: str_chars_mid)
qed

lemma clean_entry_line_ok:
  assumes "clean_entry (k, v)"
  shows "line_ok (k @ CHR ''='' # v)"
  using assms clean_last [of v] by (auto simp: clean_entry_def clean_def line_ok_def)

lemma payload_entries_clean:
  "list_all clean_entry es \<Longrightarrow>
   payload_entries bad m (map (\<lambda>(k, v). k @ CHR ''='' # v) es) = Inr (m ++ map_of (rev es))"
proof (induction es arbitrary: m)
  case (Cons e es)
  obtain k v where e: "e = (k, v)" by (cases e)
  with Cons.prems have "clean_entry (k, v)" by simp
  then have "payload_entries bad m (map (\<lambda>(k, v). k @ CHR ''='' # v) (e # es))
      = payload_entries bad (m(k \<mapsto> v)) (map (\<lambda>(k, v). k @ CHR ''='' # v) es)"
    using str_trim_sep [of "CHR ''=''" k v] by (simp add: e clean_entry_def clean_def)
  also have "\<dots> = Inr (m(k \<mapsto> v) ++ map_of (rev es))"
    using Cons by (simp del: fun_upd_apply)
  also have "m(k \<mapsto> v) ++ map_of (rev es) = m ++ map_of (rev (e # es))"
    by (simp add: e map_add_assoc [symmetric])
  finally show ?case .
qed simp

lemma payload_entries_trimmed:
  "payload_entries bad m ls = Inr m' \<Longrightarrow> m' k = Some v \<Longrightarrow>
   m k = Some v \<or> str_trim k = k \<and> str_trim v = v"
proof (induction ls arbitrary: m)
  case (Cons l ls)
  show ?case
  proof (cases "str_trim l = []")
    case False
    with Cons.prems obtain a b where "payload_entries bad (m(str_trim a \<mapsto> str_trim b)) ls = Inr m'"
      by (auto split: option.splits prod.splits)
    from Cons.IH [OF this Cons.prems(2)] show ?thesis
      by (auto split: if_splits)
  qed (use Cons in auto)
qed simp

lemma payload_entries_bad:
  "payload_entries bad m ls = Inl e \<longleftrightarrow>
     e = bad \<and> (\<exists>l\<in>set ls. str_trim l \<noteq> [] \<and> CHR ''='' \<notin> set l)"
proof (induction ls arbitrary: m)
  case (Cons l ls)
  show ?case
  proof (cases "split_once (CHR ''='') l")
    case None
    then have "payload_entries bad m (l # ls)
        = (if str_trim l = [] then payload_entries bad m ls else Inl bad)"
      unfolding payload_entries.simps None by simp
    with None Cons.IH [of m] show ?thesis
      by (auto simp del: payload_entries.simps)
  next
    case (Some kv)
    then obtain k v where kv: "split_once (CHR ''='') l = Some (k, v)" by (cases kv) auto
    then have "CHR ''='' \<in> set l" by (auto simp: split_once_Some)
    with kv Cons.IH show ?thesis by simp
  qed
qed simp

lemma utf8_valid_entry_lines:
  "list_all clean_entry es \<Longrightarrow> utf8_valid (concat (map entry_line es))"
proof (induction es)
  case (Cons e es)
  then show ?case
    by (cases e) (auto simp: entry_line_def clean_entry_def clean_def intro!: utf8_valid_append)
qed simp

lemma str_lines_entries:
  assumes "list_all clean_entry es"
  shows "str_lines (concat (map entry_line es)) = map (\<lambda>(k, v). k @ CHR ''='' # v) es"
proof -
  have lines: "concat (map entry_line es)
      = concat (map (\<lambda>l. l @ [nl]) (map (\<lambda>(k, v). k @ CHR ''='' # v) es))"
    by (induction es) (auto simp: entry_line_def)
  have "list_all line_ok (map (\<lambda>(k, v). k @ CHR ''='' # v) es)"
    using assms clean_entry_line_ok by (auto simp: list_all_iff)
  then show ?thesis
    unfolding lines by (rule str_lines_concat)
qed

section \<open>The contract\<close>

locale payload_codec =
  fixes ser :: "(string \<times> string) list \<Rightarrow> bytes" and par :: "bytes \<Rightarrow> 'e + (string \<rightharpoonup> string)"
    and bad :: 'e
  assumes ser_lines: "ser es = as_bytes (concat (map entry_line es))"
    and par_invalid: "from_utf8 bs = None \<Longrightarrow> par bs = Inl bad"
    and par_text: "from_utf8 bs = Some t \<Longrightarrow> par bs = payload_entries bad Map.empty (str_lines t)"
begin

lemma par_ser:
  assumes "list_all clean_entry es"
  shows "par (ser es) = Inr (map_of (rev es))"
proof -
  show ?thesis
    using str_lines_entries [OF assms] par_text [OF from_utf8_as_bytes [OF utf8_valid_entry_lines [OF assms]]]
      payload_entries_clean [OF assms, of bad Map.empty] by (simp add: ser_lines)
qed

lemma par_trimmed: "par bs = Inr m \<Longrightarrow> m k = Some v \<Longrightarrow> str_trim k = k \<and> str_trim v = v"
  using par_invalid [of bs] par_text [of bs] payload_entries_trimmed [of bad Map.empty _ m k v]
  by (cases "from_utf8 bs") auto

lemma par_error: "par bs = Inl e \<longleftrightarrow> e = bad \<and>
    (case from_utf8 bs of None \<Rightarrow> True
     | Some t \<Rightarrow> \<exists>l\<in>set (str_lines t). str_trim l \<noteq> [] \<and> CHR ''='' \<notin> set l)"
  using par_invalid [of bs] par_text [of bs] by (cases "from_utf8 bs") (auto simp: payload_entries_bad)

end

end
