(* ===== verification/Discovery.thy ===== *)
theory Discovery
  imports Auth SshKeys Payload
begin

text \<open>
  The module \<open>discovery.rs\<close>: announcements of participants and the engine that keeps the peers
  they announce. The engine is a record, its methods are functions on it, and a life of
  the engine is a list of operations; the invariant, where peers come from and what a
  replay can do are proved of every such list.
\<close>

section \<open>Data\<close>

record PeerRecord =
  peer_participant_id :: string
  peer_address :: string
  peer_port :: u16
  peer_public_key :: string

record DiscoveryAnnouncement =
  ann_sid :: string
  ann_participant_id :: string
  ann_address :: string
  ann_port :: u16
  ann_public_key :: string

datatype DiscoveryEvent = Ignored | PeerAdded string | PeerUpdated string

datatype DiscoveryError = InvalidAnnouncementPayload | InvalidPublicKey

record DiscoveryEngine =
  eng_sid :: string
  eng_sid_token :: string
  eng_verifier :: EnvelopeVerifier
  eng_peers :: "string \<rightharpoonup> PeerRecord"
  eng_sync_trigger_pending :: bool

section \<open>Text formats\<close>

definition discovery_serialize_payload :: "(string \<times> string) list \<Rightarrow> bytes" where
  "discovery_serialize_payload entries = as_bytes (concat (map entry_line entries))"

definition discovery_parse_payload :: "bytes \<Rightarrow> DiscoveryError + (string \<rightharpoonup> string)" where
  "discovery_parse_payload body =
     and_then (ok_or (from_utf8 body) InvalidAnnouncementPayload) (\<lambda>text.
       payload_entries InvalidAnnouncementPayload Map.empty (str_lines text))"

definition parse_announcement_payload :: "bytes \<Rightarrow> DiscoveryError + DiscoveryAnnouncement" where
  "parse_announcement_payload body =
     and_then (discovery_parse_payload body) (\<lambda>payload.
     and_then (ok_or (payload ''sid'') InvalidAnnouncementPayload) (\<lambda>sid.
     and_then (ok_or (payload ''participant_id'') InvalidAnnouncementPayload) (\<lambda>participant_id.
     and_then (ok_or (payload ''address'') InvalidAnnouncementPayload) (\<lambda>address.
     and_then (ok_or (payload ''port'') InvalidAnnouncementPayload) (\<lambda>port_text.
     and_then (ok_or (parse_u16 port_text) InvalidAnnouncementPayload) (\<lambda>port.
     and_then (ok_or (payload ''public_key'') InvalidAnnouncementPayload) (\<lambda>public_key.
     and_then (map_err (\<lambda>_. InvalidPublicKey) (normalize_public_key public_key)) (\<lambda>public_key.
       if sid = [] \<or> address = [] then Inl InvalidAnnouncementPayload
       else Inr \<lparr>ann_sid = sid, ann_participant_id = participant_id, ann_address = address,
              ann_port = port, ann_public_key = public_key\<rparr>))))))))"

definition parse_bootstrap_peer :: "string \<Rightarrow> (string \<times> string \<times> u16) option" where
  "parse_bootstrap_peer value =
     (let trimmed = str_trim value in
      if trimmed = [] then None
      else let (participant_id, host_port) =
          (case split_once (CHR ''@'') trimmed of
             Some (participant, host_port) \<Rightarrow> (str_trim participant, str_trim host_port)
           | None \<Rightarrow> (trimmed, trimmed))
        in case rsplit_once (CHR '':'') host_port of None \<Rightarrow> None
          | Some (address, port_text) \<Rightarrow>
            (case parse_u16 (str_trim port_text) of None \<Rightarrow> None
             | Some port \<Rightarrow> let address = str_trim address in
                 if address = [] then None else Some (participant_id, address, port)))"

section \<open>The engine\<close>

definition engine_new :: "string \<Rightarrow> string \<Rightarrow> u64 \<Rightarrow> u64 \<Rightarrow> DiscoveryEngine" where
  "engine_new sid sid_token timestamp_skew_secs nonce_ttl_secs =
     \<lparr>eng_sid = sid, eng_sid_token = sid_token,
      eng_verifier = verifier_new sid_token sid timestamp_skew_secs nonce_ttl_secs,
      eng_peers = Map.empty, eng_sync_trigger_pending = False\<rparr>"

fun add_bootstrap_peers :: "string list \<Rightarrow> DiscoveryEngine \<Rightarrow> DiscoveryEngine" where
  "add_bootstrap_peers [] d = d"
| "add_bootstrap_peers (peer # bootstrap_peers) d =
     (case parse_bootstrap_peer peer of None \<Rightarrow> add_bootstrap_peers bootstrap_peers d
      | Some (participant_id, address, port) \<Rightarrow>
          let peer_record = \<lparr>peer_participant_id = participant_id, peer_address = address,
                peer_port = port, peer_public_key = []\<rparr>
          in add_bootstrap_peers bootstrap_peers
               (d\<lparr>eng_peers := (eng_peers d)(participant_id \<mapsto> peer_record),
                  eng_sync_trigger_pending :=
                    (if eng_peers d participant_id = None then True else eng_sync_trigger_pending d)\<rparr>))"

definition build_startup_announcement ::
  "ext \<Rightarrow> DiscoveryEngine \<Rightarrow> string \<Rightarrow> string \<Rightarrow> u16 \<Rightarrow> string \<Rightarrow> u64 \<Rightarrow> string
   \<Rightarrow> DiscoveryError + SignedEnvelope" where
  "build_startup_announcement X d participant_id address port public_key timestamp_secs nonce =
     and_then (map_err (\<lambda>_. InvalidPublicKey) (normalize_public_key public_key)) (\<lambda>public_key.
       let body = discovery_serialize_payload
         [(''sid'', eng_sid d), (''participant_id'', participant_id), (''address'', address),
          (''port'', show_word port), (''public_key'', public_key)]
       in Inr (sign_envelope X (eng_sid d) (eng_sid_token d) participant_id timestamp_secs nonce
            UdpAnnouncement body))"

definition process_announcement ::
  "ext \<Rightarrow> SignedEnvelope \<Rightarrow> u64 \<Rightarrow> DiscoveryEngine \<Rightarrow> (DiscoveryError + DiscoveryEvent) \<times> DiscoveryEngine" where
  "process_announcement X envelope now_secs d =
     (if env_context envelope \<noteq> UdpAnnouncement then (Inr Ignored, d)
      else let (verified, verifier) = verifier_verify X envelope now_secs (eng_verifier d);
               d = d\<lparr>eng_verifier := verifier\<rparr>
        in if \<not> is_ok verified then (Inr Ignored, d)
        else case parse_announcement_payload (env_body envelope) of Inl e \<Rightarrow> (Inl e, d)
          | Inr announcement \<Rightarrow>
            if ann_sid announcement \<noteq> eng_sid d then (Inr Ignored, d)
            else if str_trim (ann_participant_id announcement) = [] then (Inl InvalidAnnouncementPayload, d)
            else let participant_id = ann_participant_id announcement;
                     new_record = \<lparr>peer_participant_id = participant_id,
                       peer_address = ann_address announcement, peer_port = ann_port announcement,
                       peer_public_key = ann_public_key announcement\<rparr>;
                     event = (case eng_peers d participant_id of
                         None \<Rightarrow> PeerAdded participant_id
                       | Some existing \<Rightarrow> if existing = new_record then Ignored
                           else PeerUpdated participant_id)
              in (Inr event,
                  if event \<noteq> Ignored
                  then d\<lparr>eng_peers := (eng_peers d)(participant_id \<mapsto> new_record),
                         eng_sync_trigger_pending := True\<rparr>
                  else d))"

definition take_sync_trigger :: "DiscoveryEngine \<Rightarrow> bool \<times> DiscoveryEngine" where
  "take_sync_trigger d = (if eng_sync_trigger_pending d
     then (True, d\<lparr>eng_sync_trigger_pending := False\<rparr>) else (False, d))"

section \<open>The payload of an announcement\<close>

interpretation disc: payload_codec discovery_serialize_payload discovery_parse_payload
  InvalidAnnouncementPayload
  by unfold_locales (simp_all add: discovery_serialize_payload_def discovery_parse_payload_def)

definition announcement_record :: "DiscoveryAnnouncement \<Rightarrow> PeerRecord" where
  "announcement_record a = \<lparr>peer_participant_id = ann_participant_id a, peer_address = ann_address a,
     peer_port = ann_port a, peer_public_key = ann_public_key a\<rparr>"

lemma parse_announcement_payload_Inr:
  assumes "parse_announcement_payload body = Inr a"
  shows "ann_sid a \<noteq> []" and "ann_address a \<noteq> []" and "ssh.normal (ann_public_key a)"
    and "str_trim (ann_address a) = ann_address a"
    and "str_trim (ann_participant_id a) = ann_participant_id a"
  using assms
  by (auto simp: parse_announcement_payload_def ssh.normal_def dest: disc.par_trimmed split: if_splits)

lemma parse_built_payload:
  assumes "clean sid" and "clean p" and "clean adr" and "clean key"
    and "sid \<noteq> []" and "adr \<noteq> []" and "normalize_public_key key = Inr key"
  shows "parse_announcement_payload (discovery_serialize_payload
      [(''sid'', sid), (''participant_id'', p), (''address'', adr), (''port'', show_word port),
       (''public_key'', key)])
    = Inr \<lparr>ann_sid = sid, ann_participant_id = p, ann_address = adr, ann_port = port,
        ann_public_key = key\<rparr>"
proof -
  let ?es = "[(''sid'', sid), (''participant_id'', p), (''address'', adr), (''port'', show_word port),
       (''public_key'', key)]"
  have "list_all clean_entry ?es"
    using assms by (simp add: clean_entry_def)
  from disc.par_ser [OF this] show ?thesis
    using assms by (simp add: parse_announcement_payload_def)
qed

section \<open>One announcement\<close>

definition news :: "ext \<Rightarrow> SignedEnvelope \<Rightarrow> u64 \<Rightarrow> DiscoveryEngine \<Rightarrow> DiscoveryAnnouncement \<Rightarrow> bool" where
  "news X e t d a \<longleftrightarrow> env_context e = UdpAnnouncement \<and> accepts X e t (eng_verifier d)
     \<and> parse_announcement_payload (env_body e) = Inr a \<and> ann_sid a = eng_sid d
     \<and> str_trim (ann_participant_id a) \<noteq> []
     \<and> eng_peers d (ann_participant_id a) \<noteq> Some (announcement_record a)"

definition listened :: "ext \<Rightarrow> SignedEnvelope \<Rightarrow> u64 \<Rightarrow> DiscoveryEngine \<Rightarrow> DiscoveryEngine" where
  "listened X e t d =
     (if env_context e = UdpAnnouncement then d\<lparr>eng_verifier := after X e t (eng_verifier d)\<rparr> else d)"

lemma is_ok_accepts: "is_ok (fst (verifier_verify X e t v)) \<longleftrightarrow> accepts X e t v"
  by (auto simp: accepts_def is_ok_iff)

lemma process_news:
  "news X e t d a \<Longrightarrow> process_announcement X e t d =
     (Inr ((if eng_peers d (ann_participant_id a) = None then PeerAdded else PeerUpdated) (ann_participant_id a)),
      (listened X e t d)\<lparr>eng_peers := (eng_peers d)(ann_participant_id a \<mapsto> announcement_record a),
        eng_sync_trigger_pending := True\<rparr>)"
  by (auto simp: news_def process_announcement_def Let_def split_beta is_ok_accepts listened_def after_def
      announcement_record_def split: option.splits)

lemma process_no_news:
  assumes "\<forall>a. \<not> news X e t d a"
  shows "snd (process_announcement X e t d) = listened X e t d"
    and "fst (process_announcement X e t d) \<noteq> Inr (PeerAdded p)"
    and "fst (process_announcement X e t d) \<noteq> Inr (PeerUpdated p)"
  using assms
  by (auto simp: news_def process_announcement_def Let_def split_beta is_ok_accepts listened_def after_def
      announcement_record_def split: option.splits sum.splits)

section \<open>The life of an engine\<close>

datatype engine_op = Bootstrap "string list" | Announce SignedEnvelope u64 | TakeTrigger

fun engine_exec :: "ext \<Rightarrow> engine_op \<Rightarrow> DiscoveryEngine \<Rightarrow> DiscoveryEngine" where
  "engine_exec X (Bootstrap peers) d = add_bootstrap_peers peers d"
| "engine_exec X (Announce e t) d = snd (process_announcement X e t d)"
| "engine_exec X TakeTrigger d = snd (take_sync_trigger d)"

definition engine_run :: "ext \<Rightarrow> engine_op list \<Rightarrow> DiscoveryEngine \<Rightarrow> DiscoveryEngine" where
  "engine_run X = fold (engine_exec X)"

lemma engine_run_simps [simp]:
  "engine_run X [] d = d"
  "engine_run X (ops @ [op]) d = engine_exec X op (engine_run X ops d)"
  "engine_run X (op # ops) d = engine_run X ops (engine_exec X op d)"
  by (simp_all add: engine_run_def)

lemma add_bootstrap_fixed [simp]:
  "eng_sid (add_bootstrap_peers ps d) = eng_sid d"
  "eng_sid_token (add_bootstrap_peers ps d) = eng_sid_token d"
  "eng_verifier (add_bootstrap_peers ps d) = eng_verifier d"
  by (induction ps d rule: add_bootstrap_peers.induct) (auto split: option.splits)

lemma engine_exec_fixed [simp]:
  "eng_sid (engine_exec X op d) = eng_sid d"
  "eng_sid_token (engine_exec X op d) = eng_sid_token d"
proof -
  have "eng_sid (snd (process_announcement X e t d)) = eng_sid d
      \<and> eng_sid_token (snd (process_announcement X e t d)) = eng_sid_token d" for e t
    using process_news [of X e t d] process_no_news(1) [of X e t d]
    by (cases "\<exists>a. news X e t d a") (auto simp: listened_def)
  then show "eng_sid (engine_exec X op d) = eng_sid d"
    and "eng_sid_token (engine_exec X op d) = eng_sid_token d"
    by (cases op; simp add: take_sync_trigger_def)+
qed

lemma eng_verifier_exec: "eng_verifier (engine_exec X op d) = (case op of
    Announce e t \<Rightarrow> if env_context e = UdpAnnouncement then after X e t (eng_verifier d) else eng_verifier d
  | _ \<Rightarrow> eng_verifier d)"
proof (cases op)
  case (Announce e t)
  then show ?thesis
    using process_news [of X e t d] process_no_news(1) [of X e t d]
    by (cases "\<exists>a. news X e t d a") (auto simp: listened_def)
qed (simp_all add: take_sync_trigger_def)

section \<open>Where a peer comes from\<close>

definition bootstrap_record :: "string \<Rightarrow> PeerRecord \<Rightarrow> bool" where
  "bootstrap_record v r \<longleftrightarrow> parse_bootstrap_peer v = Some (peer_participant_id r, peer_address r, peer_port r)
     \<and> peer_public_key r = []"

text \<open>An announcement that was verified with the token and the \<open>sid\<close> of the engine.\<close>

definition authentic_record :: "ext \<Rightarrow> string \<Rightarrow> string \<Rightarrow> SignedEnvelope \<Rightarrow> PeerRecord \<Rightarrow> bool" where
  "authentic_record X tok sid e r \<longleftrightarrow> env_context e = UdpAnnouncement
     \<and> verify_envelope X e tok sid = Inr ()
     \<and> (\<exists>a. parse_announcement_payload (env_body e) = Inr a \<and> ann_sid a = sid
          \<and> str_trim (ann_participant_id a) \<noteq> [] \<and> r = announcement_record a)"

definition known_from :: "ext \<Rightarrow> string \<Rightarrow> string \<Rightarrow> engine_op list \<Rightarrow> PeerRecord \<Rightarrow> bool" where
  "known_from X tok sid ops r \<longleftrightarrow>
     (\<exists>ps v. Bootstrap ps \<in> set ops \<and> v \<in> set ps \<and> bootstrap_record v r)
     \<or> (\<exists>e t. Announce e t \<in> set ops \<and> authentic_record X tok sid e r)"

lemma add_bootstrap_peers_origin:
  "eng_peers (add_bootstrap_peers ps d) k = Some r \<Longrightarrow>
   eng_peers d k = Some r \<or> peer_participant_id r = k \<and> (\<exists>v\<in>set ps. bootstrap_record v r)"
proof (induction ps d rule: add_bootstrap_peers.induct)
  case (2 peer ps d)
  then show ?case
    by (cases "parse_bootstrap_peer peer")
      (fastforce simp: bootstrap_record_def split: if_splits prod.splits)+
qed simp

lemma engine_settings:
  assumes "d = engine_run X ops (engine_new sid tok skew ttl)"
  shows "eng_sid d = sid" and "eng_sid_token d = tok"
    and "ver_sid_token (eng_verifier d) = tok" and "ver_expected_sid (eng_verifier d) = sid"
    and "ver_timestamp_skew_secs (eng_verifier d) = skew" and "ver_nonce_ttl_secs (eng_verifier d) = ttl"
  unfolding assms
  by (induction ops rule: rev_induct)
    (auto simp: eng_verifier_exec engine_new_def verifier_new_def split: engine_op.splits)

lemma engine_exec_origin:
  assumes "eng_peers (engine_exec X op d) k = Some r" and "eng_peers d k \<noteq> Some r"
    and "ver_sid_token (eng_verifier d) = tok" and "ver_expected_sid (eng_verifier d) = eng_sid d"
  shows "peer_participant_id r = k \<and> known_from X tok (eng_sid d) [op] r"
proof (cases op)
  case (Bootstrap ps)
  with assms(1,2) add_bootstrap_peers_origin [of ps d k r] show ?thesis
    by (auto simp: known_from_def)
next
  case (Announce e t)
  show ?thesis
  proof (cases "\<exists>a. news X e t d a")
    case True
    then obtain a where a: "news X e t d a" by blast
    with assms(1,2) Announce have "k = ann_participant_id a" and "r = announcement_record a"
      by (auto simp: process_news split: if_splits)
    with a Announce assms(3,4) show ?thesis
      by (auto simp: known_from_def news_def accepts_iff authentic_record_def announcement_record_def)
  next
    case False
    with assms(1,2) Announce show ?thesis
      by (simp add: process_no_news(1) listened_def split: if_splits)
  qed
qed (use assms in \<open>auto simp: take_sync_trigger_def split: if_splits\<close>)

lemma known_from_append: "known_from X tok sid (ops @ ops') r \<longleftrightarrow>
    known_from X tok sid ops r \<or> known_from X tok sid ops' r"
  by (auto simp: known_from_def)

lemma peers_known_from:
  "eng_peers (engine_run X ops (engine_new sid tok skew ttl)) k = Some r \<Longrightarrow>
   peer_participant_id r = k \<and> known_from X tok sid ops r"
proof (induction ops rule: rev_induct)
  case (snoc op ops)
  let ?d = "engine_run X ops (engine_new sid tok skew ttl)"
  note s = engine_settings [of ?d, OF refl]
  show ?case
  proof (cases "eng_peers ?d k = Some r")
    case True
    with snoc show ?thesis by (simp add: known_from_append)
  next
    case False
    with snoc.prems engine_exec_origin [of X op ?d k r tok] s show ?thesis
      by (auto simp: known_from_append)
  qed
qed (simp add: engine_new_def)

section \<open>Bootstrap addresses\<close>

lemma parse_bootstrap_peer_Some:
  "parse_bootstrap_peer v = Some (p, adr, port) \<Longrightarrow> adr \<noteq> [] \<and> str_trim adr = adr"
  by (auto simp: parse_bootstrap_peer_def Let_def split: if_splits option.splits prod.splits)

lemma str_trim_append_sep:
  assumes "str_trim a = a" and "str_trim b = b" and "b \<noteq> []" and "is_ascii c" and "\<not> is_whitespace [c]"
  shows "str_trim (a @ c # b) = a @ c # b"
  using assms by (cases "a = []") (auto simp: str_trim_id_iff str_chars_mid)

lemma show_word_no_at: "CHR ''@'' \<notin> set (show_word w)"
  using show_nat_digits [of "CHR ''@''"] by (auto simp: show_word_def digit_val_def)

lemma host_port_text:
  assumes "str_trim adr = adr" and "adr \<noteq> []"
  shows "str_trim (adr @ CHR '':'' # show_word port) = adr @ CHR '':'' # show_word port"
    and "rsplit_once (CHR '':'') (adr @ CHR '':'' # show_word port) = Some (adr, show_word port)"
  using assms show_word_seps by (auto simp: rsplit_once_Some intro!: str_trim_append_sep)

lemma parse_bootstrap_peer_named:
  assumes "str_trim p = p" and "CHR ''@'' \<notin> set p" and "str_trim adr = adr" and "adr \<noteq> []"
  shows "parse_bootstrap_peer (p @ ''@'' @ adr @ '':'' @ show_word port) = Some (p, adr, port)"
proof -
  have "str_trim (p @ CHR ''@'' # adr @ CHR '':'' # show_word port)
      = p @ CHR ''@'' # adr @ CHR '':'' # show_word port"
    using assms host_port_text by (intro str_trim_append_sep) simp_all
  then show ?thesis
    using assms host_port_text [of adr port] by (simp add: parse_bootstrap_peer_def)
qed

lemma parse_bootstrap_peer_plain:
  assumes "CHR ''@'' \<notin> set adr" and "str_trim adr = adr" and "adr \<noteq> []"
  shows "parse_bootstrap_peer (adr @ '':'' @ show_word port) = Some (adr @ '':'' @ show_word port, adr, port)"
  using assms host_port_text [of adr port] show_word_no_at [of port]
  by (simp add: parse_bootstrap_peer_def)

lemma known_from_ok:
  assumes "known_from X tok sid ops r"
  shows "peer_address r \<noteq> [] \<and> str_trim (peer_address r) = peer_address r
    \<and> (peer_public_key r = [] \<or> ssh.normal (peer_public_key r))"
  using assms parse_bootstrap_peer_Some parse_announcement_payload_Inr
  by (fastforce simp: known_from_def bootstrap_record_def authentic_record_def announcement_record_def)

section \<open>Properties\<close>

text \<open>C16: A peer is known only from a bootstrap entry, and then without a key, or from an
  announcement that was made for this \<open>sid\<close> and verified with its token, whose fields it holds;
  it is filed under its own participant id. This holds after any sequence of operations on a new
  engine.\<close>

theorem peer_provenance:
  assumes "eng_peers (engine_run X ops (engine_new sid tok skew ttl)) k = Some r"
  shows "peer_participant_id r = k
    \<and> ((\<exists>ps v. Bootstrap ps \<in> set ops \<and> v \<in> set ps \<and> bootstrap_record v r)
       \<or> (\<exists>e t. Announce e t \<in> set ops \<and> authentic_record X tok sid e r))"
  using peers_known_from [OF assms] by (simp add: known_from_def)

theorem peer_provenance_witness:
  "eng_peers (engine_run echo_ext [Bootstrap [''n@h:22'']] (engine_new ''s'' ''t'' 60 120)) ''n''
     = Some \<lparr>peer_participant_id = ''n'', peer_address = ''h'', peer_port = 22, peer_public_key = []\<rparr>
   \<and> (\<exists>ps v. Bootstrap ps \<in> set [Bootstrap [''n@h:22'']] \<and> v \<in> set ps \<and> bootstrap_record v
        \<lparr>peer_participant_id = ''n'', peer_address = ''h'', peer_port = 22, peer_public_key = []\<rparr>)"
proof -
  have "parse_bootstrap_peer ''n@h:22'' = Some (''n'', ''h'', 22)"
    by (simp add: parse_bootstrap_peer_def rust_str)
  then have "eng_peers (engine_run echo_ext [Bootstrap [''n@h:22'']] (engine_new ''s'' ''t'' 60 120)) ''n''
     = Some \<lparr>peer_participant_id = ''n'', peer_address = ''h'', peer_port = 22, peer_public_key = []\<rparr>"
    by (simp add: engine_new_def)
  moreover have "Announce e t \<notin> set [Bootstrap [''n@h:22'']]" for e t
    by simp
  ultimately show ?thesis
    using peer_provenance by blast
qed

text \<open>Every peer an engine knows after any sequence of operations has a non-empty, trimmed
  address, and its key is missing or in normal form, so that it can be written to
  \<open>authorized_keys\<close> as one line.\<close>

lemma peers_wellformed:
  assumes "eng_peers (engine_run X ops (engine_new sid tok skew ttl)) k = Some r"
  shows "peer_address r \<noteq> [] \<and> str_trim (peer_address r) = peer_address r
    \<and> (peer_public_key r = [] \<or>
       normalize_public_key (peer_public_key r) = Inr (peer_public_key r) \<and> line_ok (peer_public_key r))"
  using known_from_ok [of X tok sid ops r] peers_known_from [OF assms] ssh.normal_fixed ssh.normal_line
  by blast

text \<open>What an announcement does to the peers is what its event says: an added peer was
  unknown, an updated one had another record, the engine asks for a synchronisation in these
  two cases, and in all other cases, errors included, peers and request stay as they were.\<close>

lemma process_announcement_effect:
  "case process_announcement X e t d of
     (Inr (PeerAdded p), d') \<Rightarrow> eng_peers d p = None \<and> eng_sync_trigger_pending d'
       \<and> (\<exists>r. peer_participant_id r = p \<and> eng_peers d' = (eng_peers d)(p \<mapsto> r))
   | (Inr (PeerUpdated p), d') \<Rightarrow> eng_sync_trigger_pending d'
       \<and> (\<exists>old r. eng_peers d p = Some old \<and> old \<noteq> r \<and> peer_participant_id r = p
            \<and> eng_peers d' = (eng_peers d)(p \<mapsto> r))
   | (_, d') \<Rightarrow> eng_peers d' = eng_peers d
       \<and> eng_sync_trigger_pending d' = eng_sync_trigger_pending d"
proof (cases "\<exists>a. news X e t d a")
  case True
  then obtain a where "news X e t d a" by blast
  then have "eng_peers d (ann_participant_id a) \<noteq> Some (announcement_record a)"
    by (simp add: news_def)
  moreover have "peer_participant_id (announcement_record a) = ann_participant_id a"
    by (simp add: announcement_record_def)
  ultimately show ?thesis
    using process_news [OF \<open>news X e t d a\<close>] by auto
next
  case False
  then have "snd (process_announcement X e t d) = listened X e t d"
    "\<And>p. fst (process_announcement X e t d) \<noteq> Inr (PeerAdded p)"
    "\<And>p. fst (process_announcement X e t d) \<noteq> Inr (PeerUpdated p)"
    using process_no_news [of X e t d] by blast+
  then show ?thesis
    by (cases "process_announcement X e t d")
      (auto simp: listened_def split: sum.splits DiscoveryEvent.splits)
qed

lemma process_built_announcement:
  assumes "mac_ok X" and "build_startup_announcement X d1 p adr port key ts n = Inr e"
    and "eng_sid d1 = eng_sid d2" and "eng_sid_token d1 = ver_sid_token (eng_verifier d2)"
    and "ver_expected_sid (eng_verifier d2) = eng_sid d2"
    and "clean (eng_sid d1)" "eng_sid d1 \<noteq> []" "clean p" "p \<noteq> []" "clean adr" "adr \<noteq> []" "utf8_valid key"
    and "in_window (ver_timestamp_skew_secs (eng_verifier d2)) now ts"
    and "ver_seen_nonces (eng_verifier d2) (p @ '':'' @ n) = None"
  shows "\<exists>nkey. normalize_public_key key = Inr nkey
    \<and> eng_peers (snd (process_announcement X e now d2)) p
      = Some \<lparr>peer_participant_id = p, peer_address = adr, peer_port = port, peer_public_key = nkey\<rparr>"
proof -
  from assms(2) obtain nkey where nkey: "normalize_public_key key = Inr nkey"
    and e: "e = sign_envelope X (eng_sid d1) (eng_sid_token d1) p ts n UdpAnnouncement
      (discovery_serialize_payload [(''sid'', eng_sid d1), (''participant_id'', p), (''address'', adr),
        (''port'', show_word port), (''public_key'', nkey)])"
    by (auto simp: build_startup_announcement_def)
  have "clean nkey"
    using ssh.normal_trim [OF nkey] ssh.normal_line [OF nkey] utf8_valid_normalize [OF nkey assms(12)]
    by (simp add: clean_def line_ok_def)
  then have pay: "parse_announcement_payload (env_body e) = Inr \<lparr>ann_sid = eng_sid d1,
      ann_participant_id = p, ann_address = adr, ann_port = port, ann_public_key = nkey\<rparr>"
    using parse_built_payload [of "eng_sid d1" p adr nkey port] assms ssh.normal_idem [OF nkey]
    by (simp add: e)
  have "accepts X e now (eng_verifier d2)"
    using assms by (simp add: accepts_iff e nonce_key_def)
  then show ?thesis
    using assms pay nkey process_news [of X e now d2] process_no_news(1) [of X e now d2]
    by (cases "\<exists>a. news X e now d2 a")
      (auto simp: news_def announcement_record_def clean_def listened_def, simp add: e)
qed

text \<open>C17: On an engine that keeps nonces for at least twice the clock skew it allows (the daemon's keeps
  them 120 seconds for a skew of 60), an announcement acts at most once. After its envelope was
  accepted, the same envelope is ignored and changes neither the peers nor the request for a
  synchronisation, whatever the engine did in between, unless some announcement in between was
  heard at a later clock reading than the one at the repetition.\<close>

theorem announcement_acts_once:
  assumes "env_context e = UdpAnnouncement" and "fst (verifier_verify X e t0 (eng_verifier d)) = Inr ()"
    and "2 * unat (ver_timestamp_skew_secs (eng_verifier d)) \<le> unat (ver_nonce_ttl_secs (eng_verifier d))"
    and "\<forall>e' t'. Announce e' t' \<in> set ops \<longrightarrow> t' \<le> t"
    and "d' = engine_run X ops (snd (process_announcement X e t0 d))"
  shows "fst (process_announcement X e t d') = Inr Ignored
    \<and> eng_peers (snd (process_announcement X e t d')) = eng_peers d'
    \<and> eng_sync_trigger_pending (snd (process_announcement X e t d')) = eng_sync_trigger_pending d'"
proof -
  let ?heard = "concat (map (\<lambda>op. case op of Announce e' t' \<Rightarrow>
      if env_context e' = UdpAnnouncement then [(e', t')] else [] | _ \<Rightarrow> []) ops)"
  have "eng_verifier (engine_run X ops c) = ver.run X ?heard (eng_verifier c)" for c
    by (induction ops arbitrary: c) (auto simp: eng_verifier_exec split: engine_op.splits)
  moreover have "eng_verifier (snd (process_announcement X e t0 d)) = after X e t0 (eng_verifier d)"
    using eng_verifier_exec [of X "Announce e t0" d] assms(1) by simp
  moreover have "\<forall>(e', t') \<in> set ?heard. t' \<le> t"
    using assms(4) by (auto split: engine_op.splits if_splits)
  ultimately have "\<not> accepts X e t (eng_verifier d')"
    using ver.no_second_accept [of X e t0 "eng_verifier d" ?heard t] assms(2,3,5)
    by (simp add: accepts_def)
  then show ?thesis
    using assms(1) by (simp add: process_announcement_def Let_def split_beta is_ok_accepts)
qed

theorem announcement_acts_once_witness:
  "let e = sign_envelope echo_ext ''s'' ''t'' ''a'' 1000 ''n'' UdpAnnouncement [];
       d' = snd (process_announcement echo_ext e 940 (engine_new ''s'' ''t'' 60 120))
   in fst (process_announcement echo_ext e 1060 d') = Inr Ignored"
proof -
  let ?e = "sign_envelope echo_ext ''s'' ''t'' ''a'' 1000 ''n'' UdpAnnouncement []"
  let ?d = "engine_new ''s'' ''t'' 60 120"
  have "fst (verifier_verify echo_ext ?e 940 (eng_verifier ?d)) = Inr ()"
    by (simp add: accepts_iff [unfolded accepts_def] engine_new_def verifier_new_def in_window_nat)
  then show ?thesis
    using announcement_acts_once [of ?e echo_ext 940 ?d "[]" 1060, OF _ _ _ _ refl]
    by (simp add: engine_new_def verifier_new_def)
qed

end
