(* ===== verification/Transport.thy ===== *)
theory Transport
  imports Auth SshKeys Payload
begin

text \<open>
  The module \<open>transport.rs\<close>: the key exchange messages over HTTP. A service is a record that its
  methods only read; requests and responses are signed envelopes whose context names the
  direction, the path and the status.
\<close>

section \<open>Data\<close>

definition PATH_GET_PUBLIC_KEY :: string where
  "PATH_GET_PUBLIC_KEY = ''/v1/keys/get''"

definition PATH_PUBLISH_PARTICIPANT :: string where
  "PATH_PUBLISH_PARTICIPANT = ''/v1/participants/publish''"

record KeyExchangeHttpRequest =
  req_path :: string
  req_sender_id :: string
  req_timestamp_secs :: u64
  req_nonce :: string
  req_body :: bytes

record KeyExchangeHttpResponse =
  resp_path :: string
  resp_status_code :: u16
  resp_sender_id :: string
  resp_timestamp_secs :: u64
  resp_nonce :: string
  resp_body :: bytes

record PublicKeyPayload =
  pkp_sid :: string
  pkp_participant_id :: string
  pkp_public_key :: string

record ParticipantPublishPayload =
  pub_participant_id :: string
  pub_address :: string
  pub_port :: u16
  pub_public_key :: string

datatype TransportError = Auth AuthError | UnexpectedContext | InvalidPayload
  | MissingPayloadField string

record HttpKeyExchangeService =
  svc_sid :: string
  svc_sid_token :: string
  svc_participant_id :: string
  svc_public_key :: string

section \<open>Messages\<close>

definition sign_http_request :: "ext \<Rightarrow> string \<Rightarrow> string \<Rightarrow> KeyExchangeHttpRequest \<Rightarrow> SignedEnvelope" where
  "sign_http_request X sid sid_token request =
     sign_envelope X sid sid_token (req_sender_id request) (req_timestamp_secs request)
       (req_nonce request) (HttpRequest ''POST'' (req_path request)) (req_body request)"

definition sign_http_response :: "ext \<Rightarrow> string \<Rightarrow> string \<Rightarrow> KeyExchangeHttpResponse \<Rightarrow> SignedEnvelope" where
  "sign_http_response X sid sid_token response =
     sign_envelope X sid sid_token (resp_sender_id response) (resp_timestamp_secs response)
       (resp_nonce response) (HttpResponse (resp_status_code response) (resp_path response))
       (resp_body response)"

definition verify_http_request :: "ext \<Rightarrow> SignedEnvelope \<Rightarrow> string \<Rightarrow> string \<Rightarrow> AuthError + unit" where
  "verify_http_request X envelope sid_token expected_sid = verify_envelope X envelope sid_token expected_sid"

definition verify_http_response :: "ext \<Rightarrow> SignedEnvelope \<Rightarrow> string \<Rightarrow> string \<Rightarrow> AuthError + unit" where
  "verify_http_response X envelope sid_token expected_sid = verify_envelope X envelope sid_token expected_sid"

definition expect_http_request_context :: "SignedEnvelope \<Rightarrow> string \<Rightarrow> string \<Rightarrow> TransportError + unit" where
  "expect_http_request_context envelope expected_method expected_path =
     (case env_context envelope of
        HttpRequest method path \<Rightarrow>
          if eq_ignore_ascii_case method expected_method \<and> path = expected_path then Inr ()
          else Inl UnexpectedContext
      | _ \<Rightarrow> Inl UnexpectedContext)"

definition expect_http_response_context :: "SignedEnvelope \<Rightarrow> u16 \<Rightarrow> string \<Rightarrow> TransportError + unit" where
  "expect_http_response_context envelope expected_status expected_path =
     (case env_context envelope of
        HttpResponse status_code path \<Rightarrow>
          if status_code = expected_status \<and> path = expected_path then Inr ()
          else Inl UnexpectedContext
      | _ \<Rightarrow> Inl UnexpectedContext)"

definition transport_serialize_payload :: "(string \<times> string) list \<Rightarrow> bytes" where
  "transport_serialize_payload entries = as_bytes (concat (map entry_line entries))"

definition transport_parse_payload :: "bytes \<Rightarrow> TransportError + (string \<rightharpoonup> string)" where
  "transport_parse_payload body =
     and_then (ok_or (from_utf8 body) InvalidPayload) (\<lambda>text.
       payload_entries InvalidPayload Map.empty (str_lines text))"

definition get_required :: "(string \<rightharpoonup> string) \<Rightarrow> string \<Rightarrow> TransportError + string" where
  "get_required payload field = ok_or (payload field) (MissingPayloadField field)"

definition parse_publish_request :: "bytes \<Rightarrow> TransportError + ParticipantPublishPayload" where
  "parse_publish_request body =
     and_then (transport_parse_payload body) (\<lambda>payload.
     and_then (get_required payload ''participant_id'') (\<lambda>participant_id.
     and_then (get_required payload ''address'') (\<lambda>address.
     and_then (get_required payload ''port'') (\<lambda>port_text.
     and_then (ok_or (parse_u16 port_text) InvalidPayload) (\<lambda>port.
     and_then (get_required payload ''public_key'') (\<lambda>public_key.
       Inr \<lparr>pub_participant_id = participant_id, pub_address = address, pub_port = port,
            pub_public_key = public_key\<rparr>))))))"

section \<open>The service\<close>

definition service_new :: "string \<Rightarrow> string \<Rightarrow> string \<Rightarrow> string \<Rightarrow> TransportError + HttpKeyExchangeService" where
  "service_new sid sid_token participant_id public_key =
     and_then (map_err (\<lambda>_. InvalidPayload) (normalize_public_key public_key)) (\<lambda>public_key.
       Inr \<lparr>svc_sid = sid, svc_sid_token = sid_token, svc_participant_id = participant_id,
            svc_public_key = public_key\<rparr>)"

definition build_get_public_key_request ::
  "ext \<Rightarrow> HttpKeyExchangeService \<Rightarrow> string \<Rightarrow> u64 \<Rightarrow> string \<Rightarrow> SignedEnvelope" where
  "build_get_public_key_request X svc sender_id timestamp_secs nonce =
     (let request = \<lparr>req_path = PATH_GET_PUBLIC_KEY, req_sender_id = sender_id,
        req_timestamp_secs = timestamp_secs, req_nonce = nonce,
        req_body = transport_serialize_payload [(''request'', ''public_key'')]\<rparr>
      in sign_http_request X (svc_sid svc) (svc_sid_token svc) request)"

definition handle_get_public_key_request ::
  "ext \<Rightarrow> HttpKeyExchangeService \<Rightarrow> SignedEnvelope \<Rightarrow> u64 \<Rightarrow> string \<Rightarrow> TransportError + SignedEnvelope" where
  "handle_get_public_key_request X svc request_envelope response_timestamp_secs response_nonce =
     and_then (map_err Auth (verify_http_request X request_envelope (svc_sid_token svc) (svc_sid svc))) (\<lambda>_.
     and_then (expect_http_request_context request_envelope ''POST'' PATH_GET_PUBLIC_KEY) (\<lambda>_.
       let body = transport_serialize_payload [(''sid'', svc_sid svc),
             (''participant_id'', svc_participant_id svc), (''public_key'', svc_public_key svc)];
           response = \<lparr>resp_path = PATH_GET_PUBLIC_KEY, resp_status_code = 200,
             resp_sender_id = svc_participant_id svc, resp_timestamp_secs = response_timestamp_secs,
             resp_nonce = response_nonce, resp_body = body\<rparr>
       in Inr (sign_http_response X (svc_sid svc) (svc_sid_token svc) response)))"

definition verify_and_parse_public_key_response ::
  "ext \<Rightarrow> HttpKeyExchangeService \<Rightarrow> SignedEnvelope \<Rightarrow> TransportError + PublicKeyPayload" where
  "verify_and_parse_public_key_response X svc envelope =
     and_then (map_err Auth (verify_http_response X envelope (svc_sid_token svc) (svc_sid svc))) (\<lambda>_.
     and_then (expect_http_response_context envelope 200 PATH_GET_PUBLIC_KEY) (\<lambda>_.
     and_then (transport_parse_payload (env_body envelope)) (\<lambda>payload.
     and_then (get_required payload ''sid'') (\<lambda>sid.
     and_then (get_required payload ''participant_id'') (\<lambda>participant_id.
     and_then (get_required payload ''public_key'') (\<lambda>key_text.
     and_then (map_err (\<lambda>_. InvalidPayload) (normalize_public_key key_text)) (\<lambda>public_key.
       Inr \<lparr>pkp_sid = sid, pkp_participant_id = participant_id, pkp_public_key = public_key\<rparr>)))))))"

definition build_publish_request ::
  "ext \<Rightarrow> HttpKeyExchangeService \<Rightarrow> string \<Rightarrow> u64 \<Rightarrow> string \<Rightarrow> ParticipantPublishPayload \<Rightarrow> SignedEnvelope" where
  "build_publish_request X svc sender_id timestamp_secs nonce payload =
     (let body = transport_serialize_payload [(''participant_id'', pub_participant_id payload),
            (''address'', pub_address payload), (''port'', show_word (pub_port payload)),
            (''public_key'', pub_public_key payload)];
          request = \<lparr>req_path = PATH_PUBLISH_PARTICIPANT, req_sender_id = sender_id,
            req_timestamp_secs = timestamp_secs, req_nonce = nonce, req_body = body\<rparr>
      in sign_http_request X (svc_sid svc) (svc_sid_token svc) request)"

definition handle_publish_request ::
  "ext \<Rightarrow> HttpKeyExchangeService \<Rightarrow> SignedEnvelope \<Rightarrow> u64 \<Rightarrow> string \<Rightarrow> TransportError + SignedEnvelope" where
  "handle_publish_request X svc request_envelope response_timestamp_secs response_nonce =
     and_then (map_err Auth (verify_http_request X request_envelope (svc_sid_token svc) (svc_sid svc))) (\<lambda>_.
     and_then (expect_http_request_context request_envelope ''POST'' PATH_PUBLISH_PARTICIPANT) (\<lambda>_.
     and_then (parse_publish_request (env_body request_envelope)) (\<lambda>payload.
     and_then (map_err (\<lambda>_. InvalidPayload) (normalize_public_key (pub_public_key payload))) (\<lambda>_.
       let body = transport_serialize_payload [(''status'', ''accepted''),
             (''participant_id'', pub_participant_id payload)];
           response = \<lparr>resp_path = PATH_PUBLISH_PARTICIPANT, resp_status_code = 202,
             resp_sender_id = svc_participant_id svc, resp_timestamp_secs = response_timestamp_secs,
             resp_nonce = response_nonce, resp_body = body\<rparr>
       in Inr (sign_http_response X (svc_sid svc) (svc_sid_token svc) response)))))"

section \<open>Payloads\<close>

interpretation tr: payload_codec transport_serialize_payload transport_parse_payload InvalidPayload
  by unfold_locales (simp_all add: transport_serialize_payload_def transport_parse_payload_def)

lemma get_required_Inr [simp]: "get_required m f = Inr v \<longleftrightarrow> m f = Some v"
  by (simp add: get_required_def)

lemma parse_publish_built:
  assumes "clean p" and "clean adr" and "clean key"
  shows "parse_publish_request (transport_serialize_payload [(''participant_id'', p), (''address'', adr),
      (''port'', show_word port), (''public_key'', key)])
    = Inr \<lparr>pub_participant_id = p, pub_address = adr, pub_port = port, pub_public_key = key\<rparr>"
proof -
  have "list_all clean_entry [(''participant_id'', p), (''address'', adr),
      (''port'', show_word port), (''public_key'', key)]"
    using assms by (simp add: clean_entry_def)
  from tr.par_ser [OF this] show ?thesis
    by (simp add: parse_publish_request_def get_required_def)
qed

section \<open>Contexts\<close>

definition is_post :: "string \<Rightarrow> SignedEnvelope \<Rightarrow> bool" where
  "is_post path e \<longleftrightarrow> (\<exists>m. env_context e = HttpRequest m path \<and> eq_ignore_ascii_case m ''POST'')"

lemma expect_request_Inr [simp]:
  "expect_http_request_context e ''POST'' path = Inr u \<longleftrightarrow> is_post path e"
  by (auto simp: expect_http_request_context_def is_post_def split: MessageContext.splits)

lemma expect_request_Inl:
  "expect_http_request_context e m path = Inl err \<Longrightarrow> err = UnexpectedContext"
  by (auto simp: expect_http_request_context_def split: MessageContext.splits if_splits)

lemma expect_response_Inr [simp]:
  "expect_http_response_context e s path = Inr u \<longleftrightarrow> env_context e = HttpResponse s path"
  by (auto simp: expect_http_response_context_def split: MessageContext.splits)

lemma is_post_built [simp]: "is_post path (sign_envelope X sid tok who ts n (HttpRequest ''POST'' path) b)"
  by (auto simp: is_post_def)

lemma ascii_lower_eq: "ascii_lower c = d \<Longrightarrow> d \<in> {CHR ''p'', CHR ''o'', CHR ''s'', CHR ''t''} \<Longrightarrow>
    is_ascii c \<and> ascii_upper c = ascii_upper d"
proof -
  assume lower: "ascii_lower c = d" and d: "d \<in> {CHR ''p'', CHR ''o'', CHR ''s'', CHR ''t''}"
  have "c = d \<or> of_char c + 32 = (of_char d :: nat)"
    using lower by (auto simp: ascii_lower_def split: if_splits)
  then have "c = d \<or> c = char_of ((of_char d :: nat) - 32)"
    by (metis add_diff_cancel_right' char_of_char)
  with d show ?thesis
    by (elim insertE emptyE disjE) (simp_all add: ascii_upper_def char_of_def)
qed

lemma to_uppercase_post: "eq_ignore_ascii_case m ''POST'' \<Longrightarrow> to_uppercase X m = ''POST''"
proof -
  assume "eq_ignore_ascii_case m ''POST''"
  then have "map ascii_lower m = ''post''"
    by (simp add: eq_ignore_ascii_case_def to_ascii_lowercase_def) code_simp
  then obtain a b c d where m: "m = [a, b, c, d]" "ascii_lower a = CHR ''p''" "ascii_lower b = CHR ''o''"
      "ascii_lower c = CHR ''s''" "ascii_lower d = CHR ''t''"
    by (auto simp: map_eq_Cons_conv)
  with ascii_lower_eq [OF m(2)] ascii_lower_eq [OF m(3)] ascii_lower_eq [OF m(4)] ascii_lower_eq [OF m(5)]
  have "is_ascii a \<and> is_ascii b \<and> is_ascii c \<and> is_ascii d" and "map ascii_upper m = map ascii_upper ''post''"
    by simp_all
  moreover have "map ascii_upper ''post'' = ''POST''"
    by code_simp
  ultimately show ?thesis
    by (simp add: to_uppercase_def m(1))
qed

lemma post_separable: "is_post path e \<Longrightarrow> separable_context X (env_context e)"
  by (auto simp: is_post_def to_uppercase_post)

section \<open>What the handlers accept\<close>

datatype role = GetRequest | PublishRequest | KeyResponse | Announcement

text \<open>The four messages of the protocol, each with the check its receiver makes (the
  announcement is checked by the discovery engine).\<close>

fun accepted_as :: "ext \<Rightarrow> HttpKeyExchangeService \<Rightarrow> role \<Rightarrow> SignedEnvelope \<Rightarrow> bool" where
  "accepted_as X svc GetRequest e \<longleftrightarrow> is_ok (handle_get_public_key_request X svc e 0 [])"
| "accepted_as X svc PublishRequest e \<longleftrightarrow> is_ok (handle_publish_request X svc e 0 [])"
| "accepted_as X svc KeyResponse e \<longleftrightarrow> is_ok (verify_and_parse_public_key_response X svc e)"
| "accepted_as X svc Announcement e \<longleftrightarrow> env_context e = UdpAnnouncement
     \<and> is_ok (verify_envelope X e (svc_sid_token svc) (svc_sid svc))"

fun role_context :: "role \<Rightarrow> SignedEnvelope \<Rightarrow> bool" where
  "role_context GetRequest e \<longleftrightarrow> is_post PATH_GET_PUBLIC_KEY e"
| "role_context PublishRequest e \<longleftrightarrow> is_post PATH_PUBLISH_PARTICIPANT e"
| "role_context KeyResponse e \<longleftrightarrow> env_context e = HttpResponse 200 PATH_GET_PUBLIC_KEY"
| "role_context Announcement e \<longleftrightarrow> env_context e = UdpAnnouncement"

lemmas handler_defs = handle_get_public_key_request_def handle_publish_request_def
  verify_and_parse_public_key_response_def verify_http_request_def verify_http_response_def

lemma accepted_as_D:
  "accepted_as X svc r e \<Longrightarrow>
     verify_envelope X e (svc_sid_token svc) (svc_sid svc) = Inr () \<and> role_context r e"
  by (cases r) (auto simp: is_ok_iff handler_defs)

lemma role_separable: "role_context r e \<Longrightarrow> separable_context X (env_context e)"
  by (cases r) (auto dest: post_separable)

lemma role_contexts_differ:
  assumes "role_context r e" and "role_context r' e'" and "r \<noteq> r'"
  shows "\<not> same_context X (env_context e) (env_context e')"
  using assms
  by (cases r; cases r') (auto simp: is_post_def PATH_GET_PUBLIC_KEY_def PATH_PUBLISH_PARTICIPANT_def)

definition key_response :: "ext \<Rightarrow> HttpKeyExchangeService \<Rightarrow> u64 \<Rightarrow> string \<Rightarrow> SignedEnvelope" where
  "key_response X svc t n = sign_envelope X (svc_sid svc) (svc_sid_token svc) (svc_participant_id svc) t n
     (HttpResponse 200 PATH_GET_PUBLIC_KEY)
     (transport_serialize_payload [(''sid'', svc_sid svc), (''participant_id'', svc_participant_id svc),
        (''public_key'', svc_public_key svc)])"

lemma handle_get_Inr:
  "handle_get_public_key_request X svc e t n = Inr r \<longleftrightarrow>
     verify_envelope X e (svc_sid_token svc) (svc_sid svc) = Inr () \<and> is_post PATH_GET_PUBLIC_KEY e
     \<and> r = key_response X svc t n"
  by (auto simp: handler_defs key_response_def sign_http_response_def)

text \<open>A service whose strings survive the body format, as \<open>service_new\<close> gives it.\<close>

definition service_ok :: "HttpKeyExchangeService \<Rightarrow> bool" where
  "service_ok svc \<longleftrightarrow> clean (svc_sid svc) \<and> clean (svc_participant_id svc) \<and> clean (svc_public_key svc)
     \<and> normalize_public_key (svc_public_key svc) = Inr (svc_public_key svc)"

lemma normal_clean: "normalize_public_key s = Inr k \<Longrightarrow> utf8_valid s \<Longrightarrow> clean k"
  using ssh.normal_trim [of s k] ssh.normal_line [of s k] utf8_valid_normalize [of s k]
  by (simp add: clean_def line_ok_def)

lemma service_new_ok:
  "service_new sid tok p key = Inr svc \<Longrightarrow> clean sid \<Longrightarrow> clean p \<Longrightarrow> utf8_valid key \<Longrightarrow> service_ok svc"
  by (auto simp: service_new_def service_ok_def normal_clean ssh.normal_idem)

lemma parse_key_response:
  assumes "mac_ok X" and "service_ok svc" and "svc_sid c = svc_sid svc" and "svc_sid_token c = svc_sid_token svc"
  shows "verify_and_parse_public_key_response X c (key_response X svc t n)
    = Inr \<lparr>pkp_sid = svc_sid svc, pkp_participant_id = svc_participant_id svc,
        pkp_public_key = svc_public_key svc\<rparr>"
proof -
  have "list_all clean_entry [(''sid'', svc_sid svc), (''participant_id'', svc_participant_id svc),
      (''public_key'', svc_public_key svc)]"
    using assms(2) by (simp add: clean_entry_def service_ok_def)
  from tr.par_ser [OF this] show ?thesis
    using assms by (simp add: verify_and_parse_public_key_response_def verify_http_response_def
        key_response_def service_ok_def get_required_def expect_http_response_context_def)
qed

section \<open>Properties\<close>

text \<open>The key exchange works: a request built by one member of a \<open>sid\<close> is answered by
  every other with a response from which the first one reads the \<open>sid\<close>, the participant
  id and the normalised key of the one that answered.\<close>

lemma key_exchange_roundtrip:
  assumes "mac_ok X" and "service_new sid tok p key = Inr svc" and "clean sid" and "clean p" and "utf8_valid key"
    and "svc_sid c = sid" and "svc_sid_token c = tok"
  shows "\<exists>resp nkey. normalize_public_key key = Inr nkey
    \<and> handle_get_public_key_request X svc (build_get_public_key_request X c who ts n) t' n' = Inr resp
    \<and> verify_and_parse_public_key_response X c resp
       = Inr \<lparr>pkp_sid = sid, pkp_participant_id = p, pkp_public_key = nkey\<rparr>"
proof -
  from assms(2) obtain nkey where svc: "normalize_public_key key = Inr nkey"
    "svc = \<lparr>svc_sid = sid, svc_sid_token = tok, svc_participant_id = p, svc_public_key = nkey\<rparr>"
    by (auto simp: service_new_def)
  have "handle_get_public_key_request X svc (build_get_public_key_request X c who ts n) t' n'
      = Inr (key_response X svc t' n')"
    using assms svc(2)
    by (simp add: handle_get_Inr build_get_public_key_request_def sign_http_request_def)
  then show ?thesis
    using parse_key_response [OF assms(1) service_new_ok [OF assms(2-5)], of c] assms(6,7) svc by simp
qed

text \<open>C30: The four messages cannot be taken for one another. An envelope accepted in one role (key
  request, publish request, key response, announcement) and one accepted in another role never
  carry the same signature, unless their canonical texts collide under HMAC. (No \<open>sid\<close>, sender or
  nonce holds a line feed.)\<close>

theorem roles_disjoint:
  assumes "mac_ok X" and "accepted_as X svc r e" and "accepted_as X svc r' e'" and "r \<noteq> r'"
    and "hmac_sha256 X (as_bytes (svc_sid_token svc)) (as_bytes (envelope_payload X e))
       = hmac_sha256 X (as_bytes (svc_sid_token svc)) (as_bytes (envelope_payload X e'))
       \<Longrightarrow> envelope_payload X e = envelope_payload X e'"
    and "nl \<notin> set (env_sid e @ env_sender_id e @ env_nonce e @ env_sid e' @ env_sender_id e' @ env_nonce e')"
  shows "decode_hex (env_signature_hex e) \<noteq> decode_hex (env_signature_hex e')"
proof
  assume same: "decode_hex (env_signature_hex e) = decode_hex (env_signature_hex e')"
  note roles = accepted_as_D [OF assms(2)] accepted_as_D [OF assms(3)]
  then have "envelope_payload X e = envelope_payload X e'"
    using assms(1,5) same by (simp add: verify_envelope_iff)
  moreover have "separable X e" and "separable X e'"
    using assms(6) roles role_separable by (auto simp: separable_def)
  ultimately show False
    using role_contexts_differ [of r e r' e' X] roles assms(4) by (auto simp: envelope_payload_eq)
qed

theorem roles_disjoint_witness:
  "\<exists>svc e e'. service_new ''s'' ''t'' ''n'' ''ssh-rsa AA'' = Inr svc
    \<and> accepted_as echo_ext svc GetRequest e \<and> accepted_as echo_ext svc Announcement e'
    \<and> decode_hex (env_signature_hex e) \<noteq> decode_hex (env_signature_hex e')"
proof -
  let ?e = "sign_envelope echo_ext ''s'' ''t'' ''n'' 7 ''x'' (HttpRequest ''POST'' PATH_GET_PUBLIC_KEY) []"
  let ?e' = "sign_envelope echo_ext ''s'' ''t'' ''n'' 7 ''x'' UdpAnnouncement []"
  have "normalize_public_key ''ssh-rsa AA'' = Inr ''ssh-rsa AA''"
    by code_simp
  then obtain svc where svc: "service_new ''s'' ''t'' ''n'' ''ssh-rsa AA'' = Inr svc"
    and fields: "svc_sid svc = ''s''" "svc_sid_token svc = ''t''"
    by (simp add: service_new_def)
  have acc: "accepted_as echo_ext svc GetRequest ?e" "accepted_as echo_ext svc Announcement ?e'"
    using fields by (simp_all add: is_ok_iff handle_get_Inr)
  have inj: "hmac_sha256 echo_ext k m = hmac_sha256 echo_ext k m' \<longleftrightarrow> m = m'" for k m m'
    by (simp add: echo_ext_def)
  have "decode_hex (env_signature_hex ?e) \<noteq> decode_hex (env_signature_hex ?e')"
    by (rule roles_disjoint [OF mac_ok_echo acc]) (simp_all only: inj as_bytes_inject, simp_all)
  with svc acc show ?thesis by blast
qed

text \<open>A publish request built by a member of the \<open>sid\<close> is accepted by every other exactly when
  its key is valid, with a response of status 202 that names the participant; otherwise the error
  is \<open>InvalidPayload\<close>.\<close>

lemma publish_roundtrip:
  assumes "mac_ok X" and "svc_sid c = svc_sid svc" and "svc_sid_token c = svc_sid_token svc"
    and "clean (pub_participant_id p)" and "clean (pub_address p)" and "clean (pub_public_key p)"
  shows "case handle_publish_request X svc (build_publish_request X c who ts n p) t' n' of
      Inl err \<Rightarrow> err = InvalidPayload \<and> (\<exists>e. normalize_public_key (pub_public_key p) = Inl e)
    | Inr resp \<Rightarrow> (\<exists>k. normalize_public_key (pub_public_key p) = Inr k)
        \<and> verify_envelope X resp (svc_sid_token c) (svc_sid c) = Inr ()
        \<and> env_context resp = HttpResponse 202 PATH_PUBLISH_PARTICIPANT
        \<and> transport_parse_payload (env_body resp)
           = Inr [''status'' \<mapsto> ''accepted'', ''participant_id'' \<mapsto> pub_participant_id p]"
proof -
  have "list_all clean_entry [(''status'', ''accepted''), (''participant_id'', pub_participant_id p)]"
    using assms by (simp add: clean_entry_def)
  note body = tr.par_ser [OF this]
  show ?thesis
    using assms parse_publish_built [OF assms(4-6), of "pub_port p"] body
    by (cases "normalize_public_key (pub_public_key p)")
      (auto simp: handle_publish_request_def verify_http_request_def build_publish_request_def
        sign_http_request_def sign_http_response_def expect_http_request_context_def Let_def fun_upd_twist)
qed

text \<open>A key is read from a response only when the envelope verifies for the \<open>sid\<close> and token of
  the reader and is a response of status 200 on the key path, and the key that is read is in
  normal form, whatever the responder wrote.\<close>

lemma response_soundness:
  assumes "verify_and_parse_public_key_response X svc e = Inr p"
  shows "verify_envelope X e (svc_sid_token svc) (svc_sid svc) = Inr ()
    \<and> env_context e = HttpResponse 200 PATH_GET_PUBLIC_KEY
    \<and> normalize_public_key (pkp_public_key p) = Inr (pkp_public_key p)
    \<and> str_trim (pkp_participant_id p) = pkp_participant_id p"
  using assms
  by (auto simp: handler_defs dest: ssh.normal_idem tr.par_trimmed)

end
