(* ===== verification/Envelope.thy ===== *)
theory Envelope
  imports Auth Payload FileSys
begin

text \<open>
  The wire form of envelopes in \<open>runtime.rs\<close>: \<open>serialize_envelope\<close> and \<open>parse_envelope\<close>, which UDP
  datagrams and HTTP bodies carry, and the errors of that module. (The error \<open>HttpRequest\<close> is
  called \<open>HttpRequestFailed\<close> here; the other name is the one of the message context.)
\<close>

datatype RuntimeError = ReadLocalPublicKey string | BindHttp string | BindUdp string
  | ParseListenAddress string | BuildAnnouncement | ParseEnvelope | HttpRequestFailed
  | VerifyOrParseResponse | WriteAuthorizedKeys string | ControlFile string
  | RuntimeDirectory string | MissingHomeDir | KillProcess u32 | MissingTlsConfig string
  | InvalidTlsConfig string

section \<open>Writing\<close>

fun context_entries :: "MessageContext \<Rightarrow> (string \<times> string) list" where
  "context_entries (HttpRequest method path) =
     [(''context'', ''http_request''), (''method'', method), (''path'', path)]"
| "context_entries (HttpResponse status_code path) =
     [(''context'', ''http_response''), (''status_code'', show_word status_code), (''path'', path)]"
| "context_entries UdpAnnouncement = [(''context'', ''udp_announcement'')]"

definition envelope_entries :: "SignedEnvelope \<Rightarrow> (string \<times> string) list" where
  "envelope_entries e =
     [(''sid'', env_sid e), (''sender_id'', env_sender_id e),
      (''timestamp_secs'', show_word (env_timestamp_secs e)), (''nonce'', env_nonce e),
      (''signature_hex'', env_signature_hex e)]
     @ context_entries (env_context e) @ [(''body_hex'', to_hex (env_body e))]"

definition serialize_envelope :: "SignedEnvelope \<Rightarrow> string" where
  "serialize_envelope e = concat (map entry_line (envelope_entries e))"

section \<open>Reading\<close>

text \<open>The keys are taken out of the map with \<open>remove\<close>; as no key is asked for twice on any
  path, that is a lookup.\<close>

fun envelope_values :: "(string \<rightharpoonup> string) \<Rightarrow> string list \<Rightarrow> (string \<rightharpoonup> string)" where
  "envelope_values m [] = m"
| "envelope_values m (line # lines) =
     (case split_once (CHR ''='') line of None \<Rightarrow> envelope_values m lines
      | Some (key, value) \<Rightarrow> envelope_values (m(str_trim key \<mapsto> str_trim value)) lines)"

definition parse_context :: "(string \<rightharpoonup> string) \<Rightarrow> string \<Rightarrow> RuntimeError + MessageContext" where
  "parse_context values context_kind =
     (if context_kind = ''http_request'' then
        and_then (ok_or (values ''method'') ParseEnvelope) (\<lambda>method.
        and_then (ok_or (values ''path'') ParseEnvelope) (\<lambda>path.
          Inr (HttpRequest method path)))
      else if context_kind = ''http_response'' then
        and_then (ok_or (values ''status_code'') ParseEnvelope) (\<lambda>status_text.
        and_then (ok_or (parse_u16 status_text) ParseEnvelope) (\<lambda>status_code.
        and_then (ok_or (values ''path'') ParseEnvelope) (\<lambda>path.
          Inr (HttpResponse status_code path))))
      else if context_kind = ''udp_announcement'' then Inr UdpAnnouncement
      else Inl ParseEnvelope)"

definition parse_envelope :: "string \<Rightarrow> RuntimeError + SignedEnvelope" where
  "parse_envelope text =
     (let values = envelope_values Map.empty (str_lines text) in
      and_then (ok_or (values ''sid'') ParseEnvelope) (\<lambda>sid.
      and_then (ok_or (values ''sender_id'') ParseEnvelope) (\<lambda>sender_id.
      and_then (ok_or (values ''timestamp_secs'') ParseEnvelope) (\<lambda>timestamp_text.
      and_then (ok_or (parse_u64 timestamp_text) ParseEnvelope) (\<lambda>timestamp_secs.
      and_then (ok_or (values ''nonce'') ParseEnvelope) (\<lambda>nonce.
      and_then (ok_or (values ''signature_hex'') ParseEnvelope) (\<lambda>signature_hex.
      and_then (ok_or (values ''context'') ParseEnvelope) (\<lambda>context_kind.
      and_then (parse_context values context_kind) (\<lambda>context.
      and_then (ok_or (values ''body_hex'') ParseEnvelope) (\<lambda>body_hex.
      and_then (ok_or (from_hex body_hex) ParseEnvelope) (\<lambda>body.
        Inr \<lparr>env_sid = sid, env_sender_id = sender_id, env_timestamp_secs = timestamp_secs,
             env_nonce = nonce, env_context = context, env_body = body,
             env_signature_hex = signature_hex\<rparr>)))))))))))"

section \<open>Envelopes that survive the wire\<close>

fun clean_context :: "MessageContext \<Rightarrow> bool" where
  "clean_context (HttpRequest method path) \<longleftrightarrow> clean method \<and> clean path"
| "clean_context (HttpResponse status_code path) \<longleftrightarrow> clean path"
| "clean_context UdpAnnouncement \<longleftrightarrow> True"

definition wire_ok :: "SignedEnvelope \<Rightarrow> bool" where
  "wire_ok e \<longleftrightarrow> clean (env_sid e) \<and> clean (env_sender_id e) \<and> clean (env_nonce e)
     \<and> clean (env_signature_hex e) \<and> clean_context (env_context e)"

lemma wire_names_clean [simp]:
  "clean ''sender_id''" "clean ''timestamp_secs''" "clean ''nonce''" "clean ''signature_hex''"
  "clean ''context''" "clean ''http_request''" "clean ''http_response''" "clean ''udp_announcement''"
  "clean ''method''" "clean ''path''" "clean ''status_code''" "clean ''body_hex''"
  unfolding clean_def by code_simp+

lemma clean_to_hex [simp]: "clean (to_hex bs)"
  using run_hex.enc_trim run_hex.enc_valid run_hex.enc_no_delimiter [of nl bs] by (auto simp: clean_def)

lemma clean_envelope_entries: "wire_ok e \<Longrightarrow> list_all clean_entry (envelope_entries e)"
  by (cases "env_context e") (auto simp: wire_ok_def envelope_entries_def clean_entry_def)

lemma envelope_values_clean:
  "list_all clean_entry es \<Longrightarrow>
   envelope_values m (map (\<lambda>(k, v). k @ CHR ''='' # v) es) = m ++ map_of (rev es)"
proof (induction es arbitrary: m)
  case (Cons e es)
  obtain k v where e: "e = (k, v)" by (cases e)
  with Cons have "envelope_values m (map (\<lambda>(k, v). k @ CHR ''='' # v) (e # es))
      = m(k \<mapsto> v) ++ map_of (rev es)"
    by (simp add: clean_entry_def clean_def)
  then show ?case
    by (simp add: e map_add_assoc [symmetric])
qed simp

lemma values_serialize_envelope:
  assumes "wire_ok e"
  shows "envelope_values Map.empty (str_lines (serialize_envelope e)) = map_of (rev (envelope_entries e))"
  using str_lines_entries [OF clean_envelope_entries [OF assms]]
    envelope_values_clean [OF clean_envelope_entries [OF assms], of Map.empty]
  by (simp add: serialize_envelope_def)

lemma parse_serialize_envelope:
  assumes "wire_ok e"
  shows "parse_envelope (serialize_envelope e) = Inr e"
  using values_serialize_envelope [OF assms] run_hex.dec_enc
  by (cases e; cases "env_context e")
    (simp_all add: parse_envelope_def parse_context_def envelope_entries_def)

lemma utf8_valid_serialize_envelope: "wire_ok e \<Longrightarrow> utf8_valid (serialize_envelope e)"
  unfolding serialize_envelope_def by (intro utf8_valid_entry_lines clean_envelope_entries)

lemma clean_encode_hex [simp]: "clean (encode_hex bs)"
  using clean_to_hex by (simp add: encode_hex_eq_to_hex)

lemma wire_ok_sign:
  "wire_ok (sign_envelope X sid tok who ts n c b) \<longleftrightarrow> clean sid \<and> clean who \<and> clean n \<and> clean_context c"
  by (simp add: wire_ok_def sign_envelope_def Let_def hmac_signature_hex_def)

section \<open>Properties\<close>

text \<open>C32: A signed envelope survives the wire: what \<open>parse_envelope\<close> reads from the text that
  \<open>serialize_envelope\<close> writes is the envelope itself, the text is valid UTF-8, and the signature
  still verifies. (Sid, sender, nonce, method and path are trimmed, on one line; the body is any
  sequence of bytes and every value may hold the separator.)\<close>

theorem envelope_wire_roundtrip:
  assumes "mac_ok X" and "e = sign_envelope X sid tok who ts n c b"
    and "clean sid" and "clean who" and "clean n" and "clean_context c"
  shows "parse_envelope (serialize_envelope e) = Inr e
    \<and> from_utf8 (as_bytes (serialize_envelope e)) = Some (serialize_envelope e)
    \<and> verify_envelope X e tok sid = Inr ()"
proof -
  have "wire_ok e"
    using assms by (simp add: wire_ok_sign)
  then show ?thesis
    using parse_serialize_envelope utf8_valid_serialize_envelope assms(1,2) by simp
qed

theorem envelope_wire_roundtrip_witness:
  "parse_envelope (serialize_envelope
      (sign_envelope echo_ext ''s'' ''t'' ''a=b'' 7 ''n'' (HttpRequest ''POST'' ''/p'') [0, 255, 10]))
    = Inr (sign_envelope echo_ext ''s'' ''t'' ''a=b'' 7 ''n'' (HttpRequest ''POST'' ''/p'') [0, 255, 10])"
proof -
  have "clean ''s''" "clean ''a=b''" "clean ''n''" "clean_context (HttpRequest ''POST'' ''/p'')"
    by (simp_all add: clean_def rust_str)
  then show ?thesis
    using envelope_wire_roundtrip [OF mac_ok_echo refl] by blast
qed

end
