(* ===== verification/Config.thy ===== *)
theory Config
  imports RustText
begin

text \<open>
  The module \<open>config.rs\<close>: the configuration is put together from command line options, environment
  variables and a file, in that order of precedence, with defaults. The environment and the
  reading of a file are parameters (\<open>std::env::var\<close> and \<open>fs::read_to_string\<close>).
\<close>

section \<open>Data\<close>

definition DEFAULT_HTTP_LISTEN_ADDR :: string where
  "DEFAULT_HTTP_LISTEN_ADDR = ''0.0.0.0:9922''"

definition DEFAULT_UDP_ANNOUNCE_ADDR :: string where
  "DEFAULT_UDP_ANNOUNCE_ADDR = ''0.0.0.0:9923''"

definition DEFAULT_SYNC_INTERVAL_SECS :: u64 where
  "DEFAULT_SYNC_INTERVAL_SECS = 30"

definition DEFAULT_PUBLIC_KEY_PATH :: string where
  "DEFAULT_PUBLIC_KEY_PATH = ''~/.ssh/id_ed25519.pub''"

definition DEFAULT_AUTHORIZED_KEYS_PATH :: string where
  "DEFAULT_AUTHORIZED_KEYS_PATH = ''~/.ssh/authorized_keys''"

record AppConfig =
  cfg_sid :: string
  cfg_sid_token :: string
  cfg_participant_id :: string
  cfg_http_listen_addr :: string
  cfg_udp_announce_addr :: string
  cfg_bootstrap_peers :: "string list"
  cfg_sync_interval_secs :: u64
  cfg_public_key_path :: string
  cfg_authorized_keys_path :: string
  cfg_tls_cert_path :: "string option"
  cfg_tls_key_path :: "string option"
  cfg_tls_ca_path :: "string option"
  cfg_tls_server_name :: "string option"
  cfg_insecure_no_tls :: bool
  cfg_dry_run :: bool

datatype ConfigMode = RequireSyncConfig | AllowMissing

record ConfigInput =
  in_sid :: "string option"
  in_sid_token :: "string option"
  in_participant_id :: "string option"
  in_http_listen_addr :: "string option"
  in_udp_announce_addr :: "string option"
  in_bootstrap_peers :: "string option"
  in_sync_interval_secs :: "u64 option"
  in_public_key_path :: "string option"
  in_authorized_keys_path :: "string option"
  in_tls_cert_path :: "string option"
  in_tls_key_path :: "string option"
  in_tls_ca_path :: "string option"
  in_tls_server_name :: "string option"
  in_insecure_no_tls :: bool
  in_dry_run :: bool
  in_config_path :: "string option"

datatype ConfigError = MissingSid | MissingSidToken | InvalidSid | InvalidSidToken
  | InvalidSyncInterval | ConfigFileReadFailed string

section \<open>Values\<close>

definition normalize_non_empty :: "string \<Rightarrow> string option" where
  "normalize_non_empty value =
     (let trimmed = str_trim value in if trimmed = [] then None else Some trimmed)"

definition parse_csv :: "string \<Rightarrow> string list" where
  "parse_csv value =
     dedup {} (filter (\<lambda>item. item \<noteq> []) (map str_trim (split_on (CHR '','') value)))"

definition parse_bool :: "string \<Rightarrow> bool option" where
  "parse_bool value =
     (let v = to_ascii_lowercase (str_trim value) in
      if List.member [''1'', ''true'', ''yes'', ''on''] v then Some True
      else if List.member [''0'', ''false'', ''no'', ''off''] v then Some False
      else None)"

section \<open>Sources\<close>

fun config_lines :: "(string \<rightharpoonup> string) \<Rightarrow> string list \<Rightarrow> (string \<rightharpoonup> string)" where
  "config_lines m [] = m"
| "config_lines m (line # lines) =
     (let trimmed = str_trim line in
      if trimmed = [] \<or> hd trimmed = CHR ''#'' then config_lines m lines
      else case split_once (CHR ''='') trimmed of None \<Rightarrow> config_lines m lines
        | Some (key, value) \<Rightarrow> config_lines (m(str_trim key \<mapsto> str_trim value)) lines)"

definition parse_config_key_values :: "string \<Rightarrow> (string \<rightharpoonup> string)" where
  "parse_config_key_values content = config_lines Map.empty (str_lines content)"

definition read_config_file ::
  "(string \<Rightarrow> string option) \<Rightarrow> string option \<Rightarrow> ConfigError + (string \<rightharpoonup> string)" where
  "read_config_file read_to_string path =
     (case path of None \<Rightarrow> Inr Map.empty
      | Some path \<Rightarrow> and_then (ok_or (read_to_string path) (ConfigFileReadFailed path))
          (\<lambda>content. Inr (parse_config_key_values content)))"

definition env_keys :: "string list" where
  "env_keys =
     [''SSH_KEY_SYNC_SID'', ''SSH_KEY_SYNC_SID_TOKEN'', ''SSH_KEY_SYNC_PARTICIPANT_ID'',
      ''SSH_KEY_SYNC_HTTP_LISTEN_ADDR'', ''SSH_KEY_SYNC_UDP_ANNOUNCE_ADDR'',
      ''SSH_KEY_SYNC_BOOTSTRAP_PEERS'', ''SSH_KEY_SYNC_SYNC_INTERVAL_SECS'',
      ''SSH_KEY_SYNC_PUBLIC_KEY_PATH'', ''SSH_KEY_SYNC_AUTHORIZED_KEYS_PATH'',
      ''SSH_KEY_SYNC_TLS_CERT_PATH'', ''SSH_KEY_SYNC_TLS_KEY_PATH'', ''SSH_KEY_SYNC_TLS_CA_PATH'',
      ''SSH_KEY_SYNC_TLS_SERVER_NAME'', ''SSH_KEY_SYNC_INSECURE_NO_TLS'', ''SSH_KEY_SYNC_DRY_RUN'',
      ''HOSTNAME'']"

definition collect_env :: "(string \<Rightarrow> string option) \<Rightarrow> (string \<rightharpoonup> string)" where
  "collect_env env_var = (\<lambda>key. if key \<in> set env_keys then env_var key else None)"

definition resolve_string ::
  "string option \<Rightarrow> string \<Rightarrow> (string \<rightharpoonup> string) \<Rightarrow> (string \<rightharpoonup> string) \<Rightarrow> string \<Rightarrow> string option" where
  "resolve_string arg env_key env_data file_data file_key =
     or_else (or_else arg (env_data env_key)) (file_data file_key)"

definition resolve_u64 ::
  "u64 option \<Rightarrow> string \<Rightarrow> (string \<rightharpoonup> string) \<Rightarrow> (string \<rightharpoonup> string) \<Rightarrow> string \<Rightarrow> u64 option" where
  "resolve_u64 arg env_key env_data file_data file_key =
     or_else (or_else arg (Option.bind (env_data env_key) parse_u64))
       (Option.bind (file_data file_key) parse_u64)"

definition resolve_bool ::
  "bool \<Rightarrow> string \<Rightarrow> (string \<rightharpoonup> string) \<Rightarrow> (string \<rightharpoonup> string) \<Rightarrow> string \<Rightarrow> bool" where
  "resolve_bool arg env_key env_data file_data file_key =
     (if arg then True
      else unwrap_or (or_else (Option.bind (env_data env_key) parse_bool)
             (Option.bind (file_data file_key) parse_bool)) False)"

section \<open>The configuration\<close>

text \<open>The values that cannot fail.\<close>

definition config_of ::
  "ConfigInput \<Rightarrow> (string \<rightharpoonup> string) \<Rightarrow> (string \<rightharpoonup> string) \<Rightarrow> string \<Rightarrow> string \<Rightarrow> u64 \<Rightarrow> AppConfig" where
  "config_of input env_data file_data sid sid_token sync_interval_secs =
    \<lparr>cfg_sid = sid, cfg_sid_token = sid_token,
     cfg_participant_id = unwrap_or (or_else (resolve_string (in_participant_id input)
         ''SSH_KEY_SYNC_PARTICIPANT_ID'' env_data file_data ''PARTICIPANT_ID'')
         (env_data ''HOSTNAME'')) ''unknown-participant'',
     cfg_http_listen_addr = unwrap_or (resolve_string (in_http_listen_addr input)
         ''SSH_KEY_SYNC_HTTP_LISTEN_ADDR'' env_data file_data ''HTTP_LISTEN_ADDR'')
         DEFAULT_HTTP_LISTEN_ADDR,
     cfg_udp_announce_addr = unwrap_or (resolve_string (in_udp_announce_addr input)
         ''SSH_KEY_SYNC_UDP_ANNOUNCE_ADDR'' env_data file_data ''UDP_ANNOUNCE_ADDR'')
         DEFAULT_UDP_ANNOUNCE_ADDR,
     cfg_bootstrap_peers = unwrap_or (map_option parse_csv (resolve_string (in_bootstrap_peers input)
         ''SSH_KEY_SYNC_BOOTSTRAP_PEERS'' env_data file_data ''BOOTSTRAP_PEERS'')) [],
     cfg_sync_interval_secs = sync_interval_secs,
     cfg_public_key_path = unwrap_or (resolve_string (in_public_key_path input)
         ''SSH_KEY_SYNC_PUBLIC_KEY_PATH'' env_data file_data ''PUBLIC_KEY_PATH'')
         DEFAULT_PUBLIC_KEY_PATH,
     cfg_authorized_keys_path = unwrap_or (resolve_string (in_authorized_keys_path input)
         ''SSH_KEY_SYNC_AUTHORIZED_KEYS_PATH'' env_data file_data ''AUTHORIZED_KEYS_PATH'')
         DEFAULT_AUTHORIZED_KEYS_PATH,
     cfg_tls_cert_path = resolve_string (in_tls_cert_path input)
         ''SSH_KEY_SYNC_TLS_CERT_PATH'' env_data file_data ''TLS_CERT_PATH'',
     cfg_tls_key_path = resolve_string (in_tls_key_path input)
         ''SSH_KEY_SYNC_TLS_KEY_PATH'' env_data file_data ''TLS_KEY_PATH'',
     cfg_tls_ca_path = resolve_string (in_tls_ca_path input)
         ''SSH_KEY_SYNC_TLS_CA_PATH'' env_data file_data ''TLS_CA_PATH'',
     cfg_tls_server_name = resolve_string (in_tls_server_name input)
         ''SSH_KEY_SYNC_TLS_SERVER_NAME'' env_data file_data ''TLS_SERVER_NAME'',
     cfg_insecure_no_tls = resolve_bool (in_insecure_no_tls input)
         ''SSH_KEY_SYNC_INSECURE_NO_TLS'' env_data file_data ''INSECURE_NO_TLS'',
     cfg_dry_run = resolve_bool (in_dry_run input)
         ''SSH_KEY_SYNC_DRY_RUN'' env_data file_data ''DRY_RUN''\<rparr>"

definition load_config_with_sources ::
  "(string \<Rightarrow> string option) \<Rightarrow> ConfigInput \<Rightarrow> ConfigMode \<Rightarrow> (string \<rightharpoonup> string)
   \<Rightarrow> ConfigError + AppConfig option" where
  "load_config_with_sources read_to_string input mode env_data =
     and_then (read_config_file read_to_string (in_config_path input)) (\<lambda>file_data.
       let sid = resolve_string (in_sid input) ''SSH_KEY_SYNC_SID'' env_data file_data ''SID'';
           sid_token = resolve_string (in_sid_token input) ''SSH_KEY_SYNC_SID_TOKEN'' env_data file_data ''SID_TOKEN''
       in if mode = AllowMissing \<and> sid = None \<and> sid_token = None then Inr None
       else
         and_then (ok_or sid MissingSid) (\<lambda>sid.
         and_then (ok_or (normalize_non_empty sid) InvalidSid) (\<lambda>sid.
         and_then (ok_or sid_token MissingSidToken) (\<lambda>sid_token.
         and_then (ok_or (normalize_non_empty sid_token) InvalidSidToken) (\<lambda>sid_token.
           let sync_interval_secs = unwrap_or (resolve_u64 (in_sync_interval_secs input)
                 ''SSH_KEY_SYNC_SYNC_INTERVAL_SECS'' env_data file_data ''SYNC_INTERVAL_SECS'')
                 DEFAULT_SYNC_INTERVAL_SECS
           in if sync_interval_secs = 0 then Inl InvalidSyncInterval
           else Inr (Some (config_of input env_data file_data sid sid_token sync_interval_secs)))))))"

definition load_config ::
  "(string \<Rightarrow> string option) \<Rightarrow> (string \<Rightarrow> string option) \<Rightarrow> ConfigInput \<Rightarrow> ConfigMode
   \<Rightarrow> ConfigError + AppConfig option" where
  "load_config read_to_string env_var input mode =
     load_config_with_sources read_to_string input mode (collect_env env_var)"

section \<open>Texts\<close>

fun config_error_display :: "ConfigError \<Rightarrow> string" where
  "config_error_display MissingSid = ''Missing SID: set --sid or SSH_KEY_SYNC_SID''"
| "config_error_display MissingSidToken = ''Missing SID_TOKEN: set --sid-token or SSH_KEY_SYNC_SID_TOKEN''"
| "config_error_display InvalidSid = ''SID must not be empty''"
| "config_error_display InvalidSidToken = ''SID_TOKEN must not be empty''"
| "config_error_display InvalidSyncInterval = ''sync-interval-secs must be greater than 0''"
| "config_error_display (ConfigFileReadFailed path) = ''Cannot read config file: '' @ path"

text \<open>The form \<open>{:?}\<close> of a configuration; how a string is quoted is the argument \<open>quoted\<close>.\<close>

definition debug_bool :: "bool \<Rightarrow> string" where
  "debug_bool b = (if b then ''true'' else ''false'')"

definition debug_option :: "(string \<Rightarrow> string) \<Rightarrow> string option \<Rightarrow> string" where
  "debug_option quoted v = (case v of None \<Rightarrow> ''None'' | Some w \<Rightarrow> ''Some('' @ quoted w @ '')'')"

definition app_config_debug :: "(string \<Rightarrow> string) \<Rightarrow> AppConfig \<Rightarrow> string" where
  "app_config_debug quoted c =
     ''AppConfig { '' @ str_join '', '' (map (\<lambda>(name, text). name @ '': '' @ text)
       [(''sid'', quoted (cfg_sid c)), (''sid_token'', quoted ''***''),
        (''participant_id'', quoted (cfg_participant_id c)), (''http_listen_addr'', quoted (cfg_http_listen_addr c)),
        (''udp_announce_addr'', quoted (cfg_udp_announce_addr c)),
        (''bootstrap_peers'', ''['' @ str_join '', '' (map quoted (cfg_bootstrap_peers c)) @ '']''),
        (''sync_interval_secs'', show_word (cfg_sync_interval_secs c)),
        (''public_key_path'', quoted (cfg_public_key_path c)), (''authorized_keys_path'', quoted (cfg_authorized_keys_path c)),
        (''tls_cert_path'', debug_option quoted (cfg_tls_cert_path c)), (''tls_key_path'', debug_option quoted (cfg_tls_key_path c)),
        (''tls_ca_path'', debug_option quoted (cfg_tls_ca_path c)), (''tls_server_name'', debug_option quoted (cfg_tls_server_name c)),
        (''insecure_no_tls'', debug_bool (cfg_insecure_no_tls c)), (''dry_run'', debug_bool (cfg_dry_run c))]) @ '' }''"

lemma app_config_debug_hides_token: "app_config_debug quoted (c\<lparr>cfg_sid_token := t\<rparr>) = app_config_debug quoted c"
  by (simp add: app_config_debug_def)

section \<open>Options as environment variables\<close>

text \<open>The environment in which every option of the command line is written as the variable it
  overrides, and the input without these options.\<close>

definition option_env :: "ConfigInput \<Rightarrow> (string \<rightharpoonup> string)" where
  "option_env i = (\<lambda>k.
     Option.bind (map_of
       [(''SSH_KEY_SYNC_SID'', in_sid i), (''SSH_KEY_SYNC_SID_TOKEN'', in_sid_token i),
        (''SSH_KEY_SYNC_PARTICIPANT_ID'', in_participant_id i),
        (''SSH_KEY_SYNC_HTTP_LISTEN_ADDR'', in_http_listen_addr i),
        (''SSH_KEY_SYNC_UDP_ANNOUNCE_ADDR'', in_udp_announce_addr i),
        (''SSH_KEY_SYNC_BOOTSTRAP_PEERS'', in_bootstrap_peers i),
        (''SSH_KEY_SYNC_SYNC_INTERVAL_SECS'', map_option show_word (in_sync_interval_secs i)),
        (''SSH_KEY_SYNC_PUBLIC_KEY_PATH'', in_public_key_path i),
        (''SSH_KEY_SYNC_AUTHORIZED_KEYS_PATH'', in_authorized_keys_path i),
        (''SSH_KEY_SYNC_TLS_CERT_PATH'', in_tls_cert_path i),
        (''SSH_KEY_SYNC_TLS_KEY_PATH'', in_tls_key_path i),
        (''SSH_KEY_SYNC_TLS_CA_PATH'', in_tls_ca_path i),
        (''SSH_KEY_SYNC_TLS_SERVER_NAME'', in_tls_server_name i),
        (''SSH_KEY_SYNC_INSECURE_NO_TLS'', if in_insecure_no_tls i then Some ''true'' else None),
        (''SSH_KEY_SYNC_DRY_RUN'', if in_dry_run i then Some ''true'' else None)] k) id)"

definition no_input :: ConfigInput where
  "no_input = \<lparr>in_sid = None, in_sid_token = None, in_participant_id = None,
     in_http_listen_addr = None, in_udp_announce_addr = None, in_bootstrap_peers = None,
     in_sync_interval_secs = None, in_public_key_path = None, in_authorized_keys_path = None,
     in_tls_cert_path = None, in_tls_key_path = None, in_tls_ca_path = None,
     in_tls_server_name = None, in_insecure_no_tls = False, in_dry_run = False,
     in_config_path = None\<rparr>"

definition no_options :: "ConfigInput \<Rightarrow> ConfigInput" where
  "no_options i = no_input\<lparr>in_config_path := in_config_path i\<rparr>"

lemma or_else_None2 [simp]: "or_else x None = x"
  by (cases x) auto

lemma resolve_string_env:
  "resolve_string None k (env ++ opts) fd fk = resolve_string (opts k) k env fd fk"
  by (cases "opts k") (auto simp: resolve_string_def map_add_def)

lemma resolve_u64_env:
  "opts k = map_option show_word n \<Longrightarrow> resolve_u64 None k (env ++ opts) fd fk = resolve_u64 n k env fd fk"
  by (cases n) (auto simp: resolve_u64_def map_add_def)

lemma parse_bool_true: "parse_bool ''true'' = Some True"
  by code_simp

lemma resolve_bool_env:
  "opts k = (if b then Some ''true'' else None) \<Longrightarrow>
   resolve_bool False k (env ++ opts) fd fk = resolve_bool b k env fd fk"
  by (cases b) (auto simp: resolve_bool_def map_add_def parse_bool_true)

lemma option_env_values:
  "option_env i ''SSH_KEY_SYNC_SID'' = in_sid i"
  "option_env i ''SSH_KEY_SYNC_SID_TOKEN'' = in_sid_token i"
  "option_env i ''SSH_KEY_SYNC_PARTICIPANT_ID'' = in_participant_id i"
  "option_env i ''SSH_KEY_SYNC_HTTP_LISTEN_ADDR'' = in_http_listen_addr i"
  "option_env i ''SSH_KEY_SYNC_UDP_ANNOUNCE_ADDR'' = in_udp_announce_addr i"
  "option_env i ''SSH_KEY_SYNC_BOOTSTRAP_PEERS'' = in_bootstrap_peers i"
  "option_env i ''SSH_KEY_SYNC_SYNC_INTERVAL_SECS'' = map_option show_word (in_sync_interval_secs i)"
  "option_env i ''SSH_KEY_SYNC_PUBLIC_KEY_PATH'' = in_public_key_path i"
  "option_env i ''SSH_KEY_SYNC_AUTHORIZED_KEYS_PATH'' = in_authorized_keys_path i"
  "option_env i ''SSH_KEY_SYNC_TLS_CERT_PATH'' = in_tls_cert_path i"
  "option_env i ''SSH_KEY_SYNC_TLS_KEY_PATH'' = in_tls_key_path i"
  "option_env i ''SSH_KEY_SYNC_TLS_CA_PATH'' = in_tls_ca_path i"
  "option_env i ''SSH_KEY_SYNC_TLS_SERVER_NAME'' = in_tls_server_name i"
  "option_env i ''SSH_KEY_SYNC_INSECURE_NO_TLS'' = (if in_insecure_no_tls i then Some ''true'' else None)"
  "option_env i ''SSH_KEY_SYNC_DRY_RUN'' = (if in_dry_run i then Some ''true'' else None)"
  "option_env i ''HOSTNAME'' = None"
  by (simp_all add: option_env_def)

section \<open>What the file says\<close>

definition file_data_of :: "(string \<Rightarrow> string option) \<Rightarrow> ConfigInput \<Rightarrow> (string \<rightharpoonup> string)" where
  "file_data_of rd i = (case Option.bind (in_config_path i) rd of None \<Rightarrow> Map.empty
     | Some content \<Rightarrow> parse_config_key_values content)"

lemma read_config_file_cases:
  "read_config_file rd (in_config_path i) = Inr (file_data_of rd i)
   \<or> (\<exists>p. in_config_path i = Some p \<and> rd p = None
        \<and> read_config_file rd (in_config_path i) = Inl (ConfigFileReadFailed p))"
  by (cases "in_config_path i"; cases "rd (the (in_config_path i))")
    (auto simp: read_config_file_def file_data_of_def)

section \<open>Lists of peers\<close>

lemma csv_ok: "distinct (parse_csv v)
    \<and> (\<forall>p \<in> set (parse_csv v). p \<noteq> [] \<and> str_trim p = p \<and> CHR '','' \<notin> set p)"
  using split_on_join_set [of _ "CHR '',''" v] set_str_trim
  by (auto simp: parse_csv_def distinct_dedup set_dedup)

lemma csv_option_ok: "distinct (unwrap_or (map_option parse_csv v) [])
    \<and> (\<forall>p \<in> set (unwrap_or (map_option parse_csv v) []). p \<noteq> [] \<and> str_trim p = p \<and> CHR '','' \<notin> set p)"
  using csv_ok by (cases v) auto

section \<open>Properties\<close>

text \<open>C35: An option of the command line is the same as its environment variable, and overrides it:
  loading with options gives what loading without them gives in the environment in which each
  option that was passed is set as its variable.\<close>

theorem options_override_environment:
  "load_config_with_sources rd i mode env
     = load_config_with_sources rd (no_options i) mode (env ++ option_env i)"
proof -
  have "(env ++ option_env i) ''HOSTNAME'' = env ''HOSTNAME''"
    by (simp add: map_add_def option_env_values)
  moreover have "resolve_u64 None ''SSH_KEY_SYNC_SYNC_INTERVAL_SECS'' (env ++ option_env i) fd fk
      = resolve_u64 (in_sync_interval_secs i) ''SSH_KEY_SYNC_SYNC_INTERVAL_SECS'' env fd fk" for fd fk
    by (rule resolve_u64_env) (rule option_env_values)
  moreover have "resolve_bool False ''SSH_KEY_SYNC_INSECURE_NO_TLS'' (env ++ option_env i) fd fk
      = resolve_bool (in_insecure_no_tls i) ''SSH_KEY_SYNC_INSECURE_NO_TLS'' env fd fk" for fd fk
    by (rule resolve_bool_env) (rule option_env_values)
  moreover have "resolve_bool False ''SSH_KEY_SYNC_DRY_RUN'' (env ++ option_env i) fd fk
      = resolve_bool (in_dry_run i) ''SSH_KEY_SYNC_DRY_RUN'' env fd fk" for fd fk
    by (rule resolve_bool_env) (rule option_env_values)
  ultimately show ?thesis
    unfolding load_config_with_sources_def config_of_def no_options_def no_input_def ConfigInput.simps
    by (simp only: resolve_string_env option_env_values)
qed

text \<open>A configuration that is loaded has a trimmed, non-empty \<open>sid\<close> and token, an interval of at
  least one second, and bootstrap peers that are trimmed, non-empty, free of commas and without
  duplicates.\<close>

lemma loaded_config_wellformed:
  assumes "load_config_with_sources rd i mode env = Inr (Some c)"
  shows "cfg_sid c \<noteq> [] \<and> str_trim (cfg_sid c) = cfg_sid c
    \<and> cfg_sid_token c \<noteq> [] \<and> str_trim (cfg_sid_token c) = cfg_sid_token c
    \<and> 1 \<le> cfg_sync_interval_secs c \<and> distinct (cfg_bootstrap_peers c)
    \<and> (\<forall>p \<in> set (cfg_bootstrap_peers c). p \<noteq> [] \<and> str_trim p = p \<and> CHR '','' \<notin> set p)"
proof -
  from assms obtain fd s sid t tok interval
    where "normalize_non_empty s = Some sid" and "normalize_non_empty t = Some tok" and "interval \<noteq> 0"
      and c: "c = config_of i env fd sid tok interval"
    by (auto simp: load_config_with_sources_def Let_def split: if_splits)
  then have "sid \<noteq> [] \<and> str_trim sid = sid" and "tok \<noteq> [] \<and> str_trim tok = tok" and "1 \<le> interval"
    by (auto simp: normalize_non_empty_def Let_def word_le_nat_alt unat_gt_0 Suc_le_eq split: if_splits)
  then show ?thesis
    using csv_option_ok unfolding c by (simp add: config_of_def)
qed

text \<open>Every outcome of loading has its reason: a file that cannot be read, a \<open>sid\<close> or token that
  is nowhere or blank (the \<open>sid\<close> is checked first), an interval of zero; nothing is returned
  only when neither is given and that is allowed; and otherwise the trimmed values are used.\<close>

lemma config_outcomes:
  "let sid = resolve_string (in_sid i) ''SSH_KEY_SYNC_SID'' env (file_data_of rd i) ''SID'';
       tok = resolve_string (in_sid_token i) ''SSH_KEY_SYNC_SID_TOKEN'' env (file_data_of rd i) ''SID_TOKEN'';
       interval = resolve_u64 (in_sync_interval_secs i) ''SSH_KEY_SYNC_SYNC_INTERVAL_SECS'' env
         (file_data_of rd i) ''SYNC_INTERVAL_SECS''
   in case load_config_with_sources rd i mode env of
     Inl (ConfigFileReadFailed p) \<Rightarrow> in_config_path i = Some p \<and> rd p = None
   | Inl MissingSid \<Rightarrow> sid = None \<and> \<not> (mode = AllowMissing \<and> tok = None)
   | Inl InvalidSid \<Rightarrow> (\<exists>s. sid = Some s \<and> str_trim s = [])
   | Inl MissingSidToken \<Rightarrow> tok = None \<and> (\<exists>s. sid = Some s \<and> str_trim s \<noteq> [])
   | Inl InvalidSidToken \<Rightarrow> (\<exists>s t. sid = Some s \<and> str_trim s \<noteq> [] \<and> tok = Some t \<and> str_trim t = [])
   | Inl InvalidSyncInterval \<Rightarrow> interval = Some 0
   | Inr None \<Rightarrow> mode = AllowMissing \<and> sid = None \<and> tok = None
   | Inr (Some c) \<Rightarrow> (\<exists>s t. sid = Some s \<and> cfg_sid c = str_trim s \<and> tok = Some t
       \<and> cfg_sid_token c = str_trim t \<and> cfg_sync_interval_secs c = unwrap_or interval 30)"
proof -
  let ?sid = "resolve_string (in_sid i) ''SSH_KEY_SYNC_SID'' env (file_data_of rd i) ''SID''"
  let ?tok = "resolve_string (in_sid_token i) ''SSH_KEY_SYNC_SID_TOKEN'' env (file_data_of rd i) ''SID_TOKEN''"
  let ?int = "resolve_u64 (in_sync_interval_secs i) ''SSH_KEY_SYNC_SYNC_INTERVAL_SECS'' env
         (file_data_of rd i) ''SYNC_INTERVAL_SECS''"
  have fields: "cfg_sid (config_of i env fd s t n) = s" "cfg_sid_token (config_of i env fd s t n) = t"
    "cfg_sync_interval_secs (config_of i env fd s t n) = n" for fd s t n
    by (simp_all add: config_of_def)
  show ?thesis
    using read_config_file_cases [of rd i]
    by (cases ?sid; cases ?tok; cases ?int; cases mode)
      (auto simp: load_config_with_sources_def normalize_non_empty_def Let_def fields
        DEFAULT_SYNC_INTERVAL_SECS_def split: if_splits)
qed

end
