(* ===== verification/Http.thy ===== *)
theory Http
  imports RustText Hex
begin

text \<open>
  The HTTP layer of \<open>runtime.rs\<close>: reading a request from a stream, writing a response, and what the
  client sends and reads back. A stream is the list of what its \<open>read\<close> calls return, the end of
  the list being the end of the stream; how the bytes are cut into reads is arbitrary. Indices are
  64 bit, and a slice that is out of range is a panic.
\<close>

section \<open>Searching\<close>

definition windows :: "nat \<Rightarrow> 'a list \<Rightarrow> 'a list list" where
  "windows n hs = (if length hs < n then [] else map (\<lambda>i. take n (drop i hs)) [0..<length hs - n + 1])"

definition find_subslice :: "bytes \<Rightarrow> bytes \<Rightarrow> nat option" where
  "find_subslice haystack needle = position (\<lambda>window. window = needle) (windows (length needle) haystack)"

definition crlf :: string where
  "crlf = [cr, nl]"

definition HEADER_END :: bytes where
  "HEADER_END = as_bytes (crlf @ crlf)"

section \<open>Reading a request\<close>

datatype read_result = Bytes bytes | ReadErr

datatype http_error = ConnectionClosed | RequestTooLarge | MissingRequestLine | MissingMethod
  | MissingPath | ShortBody | InvalidResponse | StreamFailed | NoAddress | InvalidTlsServerName | TlsFailed

fun read_headers :: "bytes \<Rightarrow> read_result list \<Rightarrow> http_error + bytes \<times> nat \<times> read_result list" where
  "read_headers data [] = Inl ConnectionClosed"
| "read_headers data (ReadErr # stream) = Inl StreamFailed"
| "read_headers data (Bytes chunk # stream) =
     (if chunk = [] then Inl ConnectionClosed
      else let data = data @ chunk in
        case find_subslice data HEADER_END of
          Some index \<Rightarrow> Inr (data, index + 4, stream)
        | None \<Rightarrow> if 64 * 1024 < length data then Inl RequestTooLarge else read_headers data stream)"

fun header_content_length :: "usize \<Rightarrow> string list \<Rightarrow> usize" where
  "header_content_length acc [] = acc"
| "header_content_length acc (line # lines) =
     (case split_once (CHR '':'') line of None \<Rightarrow> header_content_length acc lines
      | Some (name, value) \<Rightarrow>
          if eq_ignore_ascii_case name ''Content-Length''
          then (case parse_u64 (str_trim value) of Some parsed \<Rightarrow> header_content_length parsed lines
                | None \<Rightarrow> header_content_length acc lines)
          else header_content_length acc lines)"

definition parse_head :: "string \<Rightarrow> http_error + string \<times> usize" where
  "parse_head headers =
     (case str_lines headers of [] \<Rightarrow> Inl MissingRequestLine
      | request_line # lines \<Rightarrow>
        (case split_whitespace request_line of
           [] \<Rightarrow> Inl MissingMethod
         | [_] \<Rightarrow> Inl MissingPath
         | _ # path # _ \<Rightarrow> Inr (path, header_content_length 0 lines)))"

fun read_body :: "nat \<Rightarrow> bytes \<Rightarrow> read_result list \<Rightarrow> http_error + bytes" where
  "read_body body_end data stream =
     (if length data < body_end then
        (case stream of [] \<Rightarrow> Inr data
         | ReadErr # _ \<Rightarrow> Inl StreamFailed
         | Bytes chunk # stream \<Rightarrow>
             if chunk = [] then Inr data else read_body body_end (data @ chunk) stream)
      else Inr data)"

definition read_http_request :: "read_result list \<Rightarrow> (http_error + string \<times> string) outcome" where
  "read_http_request stream =
     (case read_headers [] stream of Inl e \<Rightarrow> Val (Inl e)
      | Inr (data, header_end, stream) \<Rightarrow>
        (case parse_head (from_utf8_lossy (take header_end data)) of Inl e \<Rightarrow> Val (Inl e)
         | Inr (path, content_length) \<Rightarrow>
           let body_end = (header_end + unat content_length) mod 2 ^ 64 in
           (case read_body body_end data stream of Inl e \<Rightarrow> Val (Inl e)
            | Inr data \<Rightarrow>
              if length data < body_end then Val (Inl ShortBody)
              else if body_end < header_end then Panic
              else Val (Inr (path, from_utf8_lossy (take (body_end - header_end) (drop header_end data)))))))"

section \<open>Responses and the client\<close>

definition reason_phrase :: "u16 \<Rightarrow> string" where
  "reason_phrase status_code =
     (if status_code = 200 then ''OK'' else if status_code = 400 then ''Bad Request''
      else if status_code = 401 then ''Unauthorized'' else if status_code = 404 then ''Not Found''
      else ''Error'')"

definition write_http_response :: "u16 \<Rightarrow> bytes \<Rightarrow> bytes" where
  "write_http_response status_code body =
     as_bytes (''HTTP/1.1 '' @ show_word status_code @ '' '' @ reason_phrase status_code @ crlf
       @ ''Content-Type: text/plain'' @ crlf
       @ ''Content-Length: '' @ show_nat (length body) @ crlf
       @ ''Connection: close'' @ crlf @ crlf) @ body"

definition http_post_text :: "string \<Rightarrow> u16 \<Rightarrow> string \<Rightarrow> string \<Rightarrow> string" where
  "http_post_text address port path body =
     ''POST '' @ path @ '' HTTP/1.1'' @ crlf
     @ ''Host: '' @ address @ '':'' @ show_word port @ crlf
     @ ''Content-Type: text/plain'' @ crlf
     @ ''Content-Length: '' @ show_nat (length body) @ crlf
     @ ''Connection: close'' @ crlf @ crlf @ body"

text \<open>Resolving the address, connecting, the TLS session if there is one and the bytes that come
  back until the server closes are one parameter here; \<open>connect_exchange\<close> of the theory
  \<open>TlsConfig\<close> is what the code puts there.\<close>

definition send_http_post ::
  "(string \<Rightarrow> u16 \<Rightarrow> bytes \<Rightarrow> http_error + bytes) \<Rightarrow> string \<Rightarrow> u16 \<Rightarrow> string \<Rightarrow> string \<Rightarrow> http_error + string" where
  "send_http_post exchange address port path body =
     and_then (exchange address port (as_bytes (http_post_text address port path body))) (\<lambda>response.
     and_then (ok_or (find_subslice response HEADER_END) InvalidResponse) (\<lambda>index.
       Inr (from_utf8_lossy (drop (index + 4) response))))"

declare read_body.simps [simp del]

section \<open>The end of the headers\<close>

fun find_sub :: "bytes \<Rightarrow> bytes \<Rightarrow> nat option" where
  "find_sub needle [] = None"
| "find_sub needle (b # bs) =
     (if take (length needle) (b # bs) = needle then Some 0 else map_option Suc (find_sub needle bs))"

lemma position_map: "position p (map f xs) = position (p \<circ> f) xs"
  by (induction xs) auto

lemma position_upt_Suc: "position p [0..<Suc n] = (if p 0 then Some 0 else map_option Suc (position (\<lambda>i. p (Suc i)) [0..<n]))"
proof -
  have "[0..<Suc n] = 0 # map Suc [0..<n]"
    by (simp add: upt_conv_Cons map_Suc_upt del: upt_Suc)
  then show ?thesis
    by (simp add: position_map comp_def)
qed

lemma find_sub_short: "length bs < length needle \<Longrightarrow> find_sub needle bs = None"
proof (induction bs)
  case (Cons b bs)
  then have "length (take (length needle) (b # bs)) \<noteq> length needle"
    by simp
  then have "take (length needle) (b # bs) \<noteq> needle"
    by metis
  with Cons show ?case by simp
qed simp

lemma find_subslice_eq: "needle \<noteq> [] \<Longrightarrow> find_subslice bs needle = find_sub needle bs"
proof (induction bs)
  case Nil
  then show ?case by (simp add: find_subslice_def windows_def)
next
  case (Cons b bs)
  show ?case
  proof (cases "length (b # bs) < length needle")
    case True
    then show ?thesis
      by (simp add: find_sub_short find_subslice_def windows_def del: find_sub.simps)
  next
    case False
    let ?n = "length needle"
    have "find_subslice (b # bs) needle = position (\<lambda>i. take ?n (drop i (b # bs)) = needle) [0..<Suc (length (b # bs) - ?n)]"
      using False by (simp add: find_subslice_def windows_def position_map comp_def del: upt_Suc)
    also have "\<dots> = (if take ?n (b # bs) = needle then Some 0
        else map_option Suc (position (\<lambda>i. take ?n (drop i bs) = needle) [0..<length (b # bs) - ?n]))"
      by (subst position_upt_Suc) simp
    also have "position (\<lambda>i. take ?n (drop i bs) = needle) [0..<length (b # bs) - ?n] = find_subslice bs needle"
    proof (cases "length bs < ?n")
      case True
      with False have "length (b # bs) - ?n = 0" by simp
      with True show ?thesis by (simp add: find_subslice_def windows_def)
    next
      case inner: False
      then have "length (b # bs) - ?n = length bs - ?n + 1" by (simp add: Suc_diff_le)
      with inner show ?thesis
        by (simp add: find_subslice_def windows_def position_map comp_def del: upt_Suc)
    qed
    finally show ?thesis
      using Cons by simp
  qed
qed

lemma find_sub_prefix:
  assumes "find_sub needle h = Some i" and "i + length needle = length h"
  shows "find_sub needle (take n (h @ t)) = (if n < length h then None else Some i)"
  using assms
proof (induction h arbitrary: i n)
  case (Cons b h)
  show ?case
  proof (cases n)
    case 0
    then show ?thesis by simp
  next
    case (Suc m)
    show ?thesis
    proof (cases "take (length needle) (b # h) = needle")
      case True
      with Cons.prems have "i = 0" and len: "length needle = Suc (length h)" and "needle = b # h"
        by simp_all
      then show ?thesis
        using Suc find_sub_short [of "b # take m (h @ t)" needle] by auto
    next
      case False
      with Cons.prems obtain j where j: "find_sub needle h = Some j" "i = Suc j" "j + length needle = length h"
        by auto
      then have "take (length needle) (take n ((b # h) @ t)) \<noteq> needle"
        using False by (auto simp: Suc take_Cons' min_def split: if_splits)
      then show ?thesis
        using Cons.IH [OF j(1,3), of m] j(2) by (auto simp: Suc)
    qed
  qed
qed simp

section \<open>Blocks of header lines\<close>

definition header_line :: "string \<Rightarrow> bool" where
  "header_line l \<longleftrightarrow> l \<noteq> [] \<and> cr \<notin> set l \<and> nl \<notin> set l \<and> utf8_valid l"

definition header_block :: "string list \<Rightarrow> string" where
  "header_block ls = concat (map (\<lambda>l. l @ crlf) ls) @ crlf"

lemma header_block_simps [simp]:
  "header_block [] = crlf" "header_block (l # ls) = l @ crlf @ header_block ls"
  by (simp_all add: header_block_def)

lemma byte_of_inject [simp]: "byte_of c = byte_of d \<longleftrightarrow> c = d"
  by (metis char_of_byte_of)

lemma find_sub_line:
  "cr \<notin> set l \<Longrightarrow> find_sub HEADER_END (as_bytes (l @ t))
     = map_option (\<lambda>i. length l + i) (find_sub HEADER_END (as_bytes t))"
  by (induction l; cases "find_sub HEADER_END (as_bytes t)")
    (auto simp: as_bytes_def HEADER_END_def crlf_def)

lemma find_sub_crlf:
  "c \<noteq> cr \<Longrightarrow> find_sub HEADER_END (as_bytes (crlf @ c # t))
     = map_option (\<lambda>i. 2 + i) (find_sub HEADER_END (as_bytes (c # t)))"
  by (simp add: as_bytes_def HEADER_END_def crlf_def option.map_comp comp_def)

lemma find_sub_end: "find_sub HEADER_END (as_bytes (crlf @ crlf)) = Some 0"
  by (simp add: as_bytes_def HEADER_END_def crlf_def)

lemma find_header_block:
  "list_all header_line (l # ls) \<Longrightarrow>
   find_sub HEADER_END (as_bytes (header_block (l # ls))) = Some (length (header_block (l # ls)) - 4)"
proof (induction ls arbitrary: l)
  case Nil
  then show ?case
    using find_sub_line [of l "crlf @ crlf"] find_sub_end by (simp add: header_line_def crlf_def)
next
  case (Cons m ls)
  then obtain c cs where m: "m = c # cs" "c \<noteq> cr"
    by (cases m) (auto simp: header_line_def)
  have "find_sub HEADER_END (as_bytes (header_block (l # m # ls)))
      = map_option (\<lambda>i. length l + (2 + i)) (find_sub HEADER_END (as_bytes (header_block (m # ls))))"
    using Cons.prems find_sub_line [of l "crlf @ header_block (m # ls)"]
      find_sub_crlf [OF m(2), of "cs @ crlf @ header_block ls"]
    by (simp add: m(1) header_line_def option.map_comp comp_def)
  also have "\<dots> = Some (length l + (2 + (length (header_block (m # ls)) - 4)))"
    using Cons by simp
  finally show ?case
    by (simp add: crlf_def m(1) header_block_def)
qed

lemma length_header_block: "4 \<le> length (header_block (l # ls))"
  by (simp add: crlf_def header_block_def)

lemma str_lines_header_block:
  "list_all header_line ls \<Longrightarrow> str_lines (header_block ls) = ls @ [[]]"
proof (induction ls)
  case Nil
  then show ?case
    using str_lines_line [of "[cr]" "[]"] by (simp add: crlf_def strip_cr_def)
next
  case (Cons l ls)
  then show ?case
    using str_lines_line [of "l @ [cr]" "header_block ls"] by (simp add: crlf_def strip_cr_def header_line_def)
qed

lemma utf8_valid_header_block: "list_all header_line ls \<Longrightarrow> utf8_valid (header_block ls)"
  by (induction ls) (auto simp: crlf_def header_line_def intro!: utf8_valid_append)

section \<open>Reading does not depend on the cuts\<close>

lemma prefix_take: "xs @ ys = zs \<Longrightarrow> xs = take (length xs) zs"
  by auto

lemma take_prefix: "xs @ ys = zs \<Longrightarrow> n \<le> length xs \<Longrightarrow> take n xs = take n zs"
  by auto

lemma read_headers_chunks:
  assumes "find_sub HEADER_END h = Some i" and "i + 4 = length h" and "length h \<le> 64 * 1024"
    and "list_all (\<lambda>c. c \<noteq> []) cs" and "d @ concat cs = h @ t" and "length d < length h"
  shows "\<exists>d' cs'. read_headers d (map Bytes cs) = Inr (d', length h, map Bytes cs')
    \<and> list_all (\<lambda>c. c \<noteq> []) cs' \<and> d' @ concat cs' = h @ t \<and> length h \<le> length d'"
  using assms(4-6)
proof (induction cs arbitrary: d)
  case Nil
  then have "length d = length (h @ t)" by simp
  with Nil show ?case by simp
next
  case (Cons c cs)
  let ?n = "length (d @ c)"
  have "(d @ c) @ concat cs = h @ t"
    using Cons.prems by simp
  then have cut: "d @ c = take ?n (h @ t)"
    by (rule prefix_take)
  have "find_subslice (d @ c) HEADER_END = find_sub HEADER_END (d @ c)"
    by (rule find_subslice_eq) (simp add: HEADER_END_def crlf_def as_bytes_def)
  also have "\<dots> = find_sub HEADER_END (take ?n (h @ t))"
    using cut by (rule arg_cong)
  also have "\<dots> = (if ?n < length h then None else Some i)"
    using assms(1,2) by (intro find_sub_prefix) (simp_all add: HEADER_END_def crlf_def)
  finally have found: "find_subslice (d @ c) HEADER_END = (if ?n < length h then None else Some i)" .
  show ?case
  proof (cases "?n < length h")
    case True
    then show ?thesis
      using Cons.IH [of "d @ c"] Cons.prems found assms(3) by (simp add: Let_def)
  next
    case False
    then show ?thesis
      using Cons.prems found assms(2) by (auto simp: Let_def)
  qed
qed

lemma read_body_chunks:
  assumes "list_all (\<lambda>c. c \<noteq> []) cs" and "e \<le> length (d @ concat cs)"
  shows "\<exists>d' r. read_body e d (map Bytes cs) = Inr d' \<and> e \<le> length d' \<and> d' @ r = d @ concat cs"
  using assms
proof (induction cs arbitrary: d)
  case Nil
  then show ?case by (simp add: read_body.simps)
next
  case (Cons c cs)
  then show ?case
    using Cons.IH [of "d @ c"] by (cases "length d < e") (auto simp: read_body.simps [of e d])
qed

lemma read_http_request_chunks:
  assumes "list_all header_line (l # ls)" and "B = header_block (l # ls)" and "length B \<le> 64 * 1024"
    and "parse_head B = Inr (path, n)" and "length B + unat n < 2 ^ 64"
    and "list_all (\<lambda>c. c \<noteq> []) cs" and "concat cs = as_bytes B @ body @ extra"
    and "length body = unat n"
  shows "read_http_request (map Bytes cs) = Val (Inr (path, from_utf8_lossy body))"
proof -
  have "find_sub HEADER_END (as_bytes B) = Some (length B - 4)" and "4 \<le> length B" and valid: "utf8_valid B"
    using find_header_block [OF assms(1)] length_header_block utf8_valid_header_block [OF assms(1)]
    unfolding assms(2) by blast+
  then obtain d cs' where d: "read_headers [] (map Bytes cs) = Inr (d, length B, map Bytes cs')"
    "list_all (\<lambda>c. c \<noteq> []) cs'" "d @ concat cs' = as_bytes B @ body @ extra" "length B \<le> length d"
    using read_headers_chunks [of "as_bytes B" "length B - 4" cs "[]" "body @ extra"] assms(3,6,7)
    by fastforce
  have "take (length B) d = as_bytes B"
    using take_prefix [OF d(3,4)] by simp
  then have head: "from_utf8_lossy (take (length B) d) = B"
    using valid by simp
  have fits: "length B + unat n \<le> length (d @ concat cs')"
    using d(3) assms(8) by simp
  obtain d' r where d': "read_body (length B + unat n) d (map Bytes cs') = Inr d'"
    "length B + unat n \<le> length d'" "d' @ r = d @ concat cs'"
    using read_body_chunks [OF d(2) fits] by blast
  have "take (length B + unat n) d' = as_bytes B @ body"
    using take_prefix [OF d'(3,2)] d(3) assms(8) by simp
  then have "take (unat n) (drop (length B) d') = body"
    by (metis append_eq_conv_conj drop_take add_diff_cancel_left' length_as_bytes)
  then show ?thesis
    using d(1) d' head assms(4,5) by (simp add: read_http_request_def Let_def)
qed

section \<open>The two texts of the program\<close>

definition request_lines :: "string \<Rightarrow> u16 \<Rightarrow> string \<Rightarrow> nat \<Rightarrow> string list" where
  "request_lines address port path n =
     [str_join '' '' [''POST'', path, ''HTTP/1.1''], ''Host: '' @ address @ '':'' @ show_word port,
      ''Content-Type: text/plain'', ''Content-Length: '' @ show_nat n, ''Connection: close'']"

definition response_lines :: "u16 \<Rightarrow> nat \<Rightarrow> string list" where
  "response_lines status n =
     [''HTTP/1.1 '' @ show_word status @ '' '' @ reason_phrase status, ''Content-Type: text/plain'',
      ''Content-Length: '' @ show_nat n, ''Connection: close'']"

lemma http_post_text_block:
  "http_post_text address port path body = header_block (request_lines address port path (length body)) @ body"
  by (simp add: http_post_text_def request_lines_def)

lemma write_http_response_block:
  "write_http_response status body = as_bytes (header_block (response_lines status (length body))) @ body"
  by (simp add: write_http_response_def response_lines_def)

lemma header_line_append:
  "header_line a \<Longrightarrow> cr \<notin> set b \<Longrightarrow> nl \<notin> set b \<Longrightarrow> utf8_valid b \<Longrightarrow> header_line (a @ b)"
  by (auto simp: header_line_def)

lemma show_nat_text: "cr \<notin> set (show_nat n)" "nl \<notin> set (show_nat n)" "utf8_valid (show_nat n)"
  using show_nat_chars [of cr n] show_nat_chars [of nl n] show_nat_chars [of _ n]
  by (auto simp: list_all_iff intro!: utf8_valid_ascii)

lemma show_word_text: "cr \<notin> set (show_word w)" "nl \<notin> set (show_word w)"
  using show_word_chars [of cr w] show_word_chars [of nl w] by auto

lemma fixed_header_lines:
  "header_line ''Host: ''" "header_line ''Content-Type: text/plain''" "header_line ''Content-Length: ''"
  "header_line ''Connection: close''" "header_line ''POST ''" "header_line ''HTTP/1.1 ''"
  by (simp_all add: header_line_def)

lemma request_lines_ok:
  assumes "is_word path" and "utf8_valid path" and "cr \<notin> set address" and "nl \<notin> set address" and "utf8_valid address"
  shows "list_all header_line (request_lines address port path n)"
proof -
  have "cr \<notin> set path" and "nl \<notin> set path"
    using is_word_ascii [OF assms(1), of cr] is_word_ascii [OF assms(1), of nl] by auto
  then have "header_line (''POST '' @ (path @ '' HTTP/1.1''))"
    using assms(2) by (intro header_line_append fixed_header_lines) (auto intro!: utf8_valid_append)
  moreover have "header_line (''Host: '' @ (address @ '':'' @ show_word port))"
    using assms show_word_text by (intro header_line_append fixed_header_lines) (auto intro!: utf8_valid_append)
  moreover have "header_line (''Content-Length: '' @ show_nat n)"
    by (intro header_line_append fixed_header_lines show_nat_text)
  ultimately show ?thesis
    using fixed_header_lines by (simp add: request_lines_def)
qed

lemma response_lines_ok: "list_all header_line (response_lines status n)"
proof -
  have "header_line (''HTTP/1.1 '' @ (show_word status @ '' '' @ reason_phrase status))"
    using show_word_text
    by (intro header_line_append fixed_header_lines) (auto simp: reason_phrase_def intro!: utf8_valid_append)
  moreover have "header_line (''Content-Length: '' @ show_nat n)"
    by (intro header_line_append fixed_header_lines show_nat_text)
  ultimately show ?thesis
    using fixed_header_lines by (simp add: response_lines_def)
qed

lemma str_trim_space_nat: "str_trim (CHR '' '' # show_nat n) = show_nat n"
proof -
  have ascii: "list_all is_ascii (show_nat n)"
    using show_nat_chars by (auto simp: list_all_iff)
  have ends: "\<not> is_whitespace [hd (show_nat n)] \<and> \<not> is_whitespace [last (show_nat n)]"
    using show_nat_chars [of "hd (show_nat n)" n] show_nat_chars [of "last (show_nat n)" n]
    by (simp del: is_whitespace_ascii)
  then have "trim_by is_whitespace (str_chars (show_nat n)) = str_chars (show_nat n)"
    using ascii by (simp add: trim_by_id_iff str_chars_ascii hd_map last_map del: is_whitespace_ascii)
  then show ?thesis
    by (simp add: str_trim_def trim_by_def)
qed

lemma header_names:
  "\<not> eq_ignore_ascii_case ''Host'' ''Content-Length''" "\<not> eq_ignore_ascii_case ''Content-Type'' ''Content-Length''"
  "\<not> eq_ignore_ascii_case ''Connection'' ''Content-Length''"
  by code_simp+

lemma split_header:
  "split_once (CHR '':'') (''Host: '' @ t) = Some (''Host'', CHR '' '' # t)"
  "split_once (CHR '':'') (''Content-Length: '' @ t) = Some (''Content-Length'', CHR '' '' # t)"
  "split_once (CHR '':'') ''Content-Type: text/plain'' = Some (''Content-Type'', '' text/plain'')"
  "split_once (CHR '':'') ''Connection: close'' = Some (''Connection'', '' close'')"
  by simp_all

lemma parse_request_head:
  assumes "is_word path" and "list_all header_line (request_lines address port path n)" and "n < 2 ^ 64"
  shows "parse_head (header_block (request_lines address port path n)) = Inr (path, word_of_nat n)"
proof -
  have words: "split_whitespace (str_join '' '' [''POST'', path, ''HTTP/1.1'']) = [''POST'', path, ''HTTP/1.1'']"
    using assms(1) by (intro split_whitespace_join) (simp add: is_word_def)
  have "parse_u64 (show_nat n) = Some (word_of_nat n)"
    using assms(3) by (simp add: parse_u64_def)
  then have "header_content_length 0 (tl (request_lines address port path n) @ [[]]) = word_of_nat n"
    unfolding request_lines_def list.sel append_Cons append_Nil header_content_length.simps split_header
    by (simp add: header_names str_trim_space_nat)
  then show ?thesis
    using str_lines_header_block [OF assms(2)] words
    unfolding parse_head_def by (simp add: request_lines_def)
qed

lemma length_show_nat: "n < 10 ^ Suc k \<Longrightarrow> length (show_nat n) \<le> Suc k"
proof (induction k arbitrary: n)
  case 0
  then show ?case by (subst show_nat.simps) simp
next
  case (Suc k)
  have "n div 10 < 10 ^ Suc k"
    using Suc.prems by (simp add: less_mult_imp_div_less)
  then have "length (show_nat (n div 10)) \<le> Suc k"
    by (rule Suc.IH)
  then show ?case
    by (subst show_nat.simps) simp
qed

lemma request_header_size:
  assumes "n < 2 ^ 63"
  shows "length (header_block (request_lines address port path n)) \<le> length address + length path + 256"
proof -
  have "n < 10 ^ Suc 18"
    using assms by simp
  then have "length (show_nat n) \<le> Suc 18"
    by (rule length_show_nat)
  moreover have "unat port < 2 ^ LENGTH(16)"
    by (rule unsigned_less)
  then have "unat port < 10 ^ Suc 4"
    by simp
  then have "length (show_word port) \<le> Suc 4"
    unfolding show_word_def by (rule length_show_nat)
  ultimately show ?thesis
    by (simp add: request_lines_def crlf_def)
qed

section \<open>Panics\<close>

lemma find_sub_bound: "find_sub needle bs = Some i \<Longrightarrow> i + length needle \<le> length bs"
proof (induction bs arbitrary: i)
  case (Cons b bs)
  show ?case
  proof (cases "take (length needle) (b # bs) = needle")
    case True
    then have "length needle \<le> length (b # bs)"
      by (metis length_take min.cobounded1)
    with True Cons.prems show ?thesis by simp
  next
    case False
    with Cons show ?thesis by auto
  qed
qed simp

lemma read_headers_bound: "read_headers d stream = Inr (data, he, rest) \<Longrightarrow> he \<le> length data"
proof (induction d stream rule: read_headers.induct)
  case (3 d chunk stream)
  have "i + 4 \<le> length bs" if "find_subslice bs HEADER_END = Some i" for bs i
    using that find_sub_bound [of HEADER_END bs i] find_subslice_eq [of HEADER_END bs]
    by (simp add: HEADER_END_def crlf_def as_bytes_def)
  with 3 show ?case
    by (auto simp: Let_def split: if_splits option.splits)
qed auto

lemma wrapped_end: "(he + unat (n :: usize)) mod 2 ^ 64 < he \<longleftrightarrow> 2 ^ 64 \<le> he + unat n"
proof -
  have n: "unat n < 2 ^ 64"
    using unsigned_less [of n] by simp
  consider "he + unat n < 2 ^ 64" | "2 ^ 64 \<le> he" | "2 ^ 64 \<le> he + unat n" "he < 2 ^ 64"
    by linarith
  then show ?thesis
  proof cases
    case 2
    have "(he + unat n) mod 2 ^ 64 < 2 ^ 64" by simp
    with 2 show ?thesis by linarith
  next
    case 3
    then have "(he + unat n) mod 2 ^ 64 = he + unat n - 2 ^ 64"
      using n by (simp add: le_mod_geq)
    with 3 n show ?thesis by linarith
  qed simp
qed

section \<open>Properties\<close>

lemma read_post_pieces:
  assumes "is_word path" and "utf8_valid path"
    and "cr \<notin> set address" and "nl \<notin> set address" and "utf8_valid address" and "utf8_valid body"
    and "length (header_block (request_lines address port path (length body))) \<le> 64 * 1024"
    and "length body < 2 ^ 63"
    and "list_all (\<lambda>c. c \<noteq> []) pieces"
    and "concat pieces = as_bytes (http_post_text address port path body) @ extra"
  shows "read_http_request (map Bytes pieces) = Val (Inr (path, body))"
proof -
  note lines = request_lines_ok [OF assms(1-5), of port "length body"]
  then obtain l ls where ls: "request_lines address port path (length body) = l # ls"
    by (simp add: request_lines_def)
  have "read_http_request (map Bytes pieces) = Val (Inr (path, from_utf8_lossy (as_bytes body)))"
  proof (rule read_http_request_chunks [OF lines [unfolded ls]])
    show "concat pieces = as_bytes (header_block (l # ls)) @ as_bytes body @ extra"
      using assms(10) by (simp only: http_post_text_block ls as_bytes_append append_assoc)
    show "parse_head (header_block (l # ls)) = Inr (path, word_of_nat (length body))"
      using parse_request_head [OF assms(1) lines] assms(8) by (simp add: ls)
    show "length (header_block (l # ls)) + unat (word_of_nat (length body) :: usize) < 2 ^ 64"
      using assms(7,8) by (simp add: ls unat_of_nat del: header_block_simps)
    show "length (header_block (l # ls)) \<le> 64 * 1024"
      using assms(7) by (simp only: ls)
    show "length (as_bytes body) = unat (word_of_nat (length body) :: usize)"
      using assms(8) by (simp add: unat_of_nat)
  qed (use assms(9) in simp_all)
  with assms(6) show ?thesis by simp
qed

text \<open>C33: A server reads the path and the body that a client sent, however the network cuts the bytes
  into pieces and whatever follows them. (The path is one word, the address has no line breaks,
  the headers fit in the 64 KiB a server accepts.)\<close>

theorem request_read_back:
  assumes "is_word path" and "utf8_valid path"
    and "cr \<notin> set address" and "nl \<notin> set address" and "utf8_valid address" and "utf8_valid body"
    and "length (header_block (request_lines address port path (length body))) \<le> 64 * 1024"
    and "length body < 2 ^ 63"
    and "list_all (\<lambda>c. c \<noteq> []) pieces"
    and "concat pieces = as_bytes (http_post_text address port path body) @ extra"
  shows "read_http_request (map Bytes pieces) = Val (Inr (path, body))"
  using assms by (rule read_post_pieces)

theorem request_read_back_witness:
  "read_http_request (map Bytes (map (\<lambda>b. [b]) (as_bytes (http_post_text ''h'' 22 ''/p'' ''body''))))
     = Val (Inr (''/p'', ''body''))"
proof -
  let ?t = "as_bytes (http_post_text ''h'' 22 ''/p'' ''body'')"
  have "length (show_word (22 :: u16)) = 2" and "length (show_nat (length ''body'')) = 1"
    by (simp_all add: show_word_def show_nat.simps)
  then have "length (header_block (request_lines ''h'' 22 ''/p'' (length ''body''))) \<le> 64 * 1024"
    by (simp add: request_lines_def crlf_def)
  moreover have "concat (map (\<lambda>b. [b]) ?t) = ?t @ []"
    by simp
  moreover have "list_all (\<lambda>c. c \<noteq> []) (map (\<lambda>b. [b]) ?t)"
    by (simp add: list_all_iff)
  moreover have "is_word ''/p''"
    by (simp add: is_word_def)
  ultimately show ?thesis
    by (intro request_read_back [where extra = "[]"]) simp_all
qed

lemma send_post_answered:
  assumes "utf8_valid body" and "exchange address port (as_bytes (http_post_text address port path request))
    = Inr (write_http_response status (as_bytes body))"
  shows "send_http_post exchange address port path request = Inr body"
proof -
  obtain l ls where ls: "response_lines status (length body) = l # ls"
    by (simp add: response_lines_def)
  let ?B = "header_block (l # ls)"
  have ok: "list_all header_line (l # ls)"
    using response_lines_ok [of status "length body"] by (simp add: ls)
  have "find_subslice (as_bytes ?B @ as_bytes body) HEADER_END = find_sub HEADER_END (as_bytes ?B @ as_bytes body)"
    by (rule find_subslice_eq) (simp add: HEADER_END_def crlf_def as_bytes_def)
  also have "\<dots> = Some (length ?B - 4)"
    using find_sub_prefix [OF find_header_block [OF ok], of "length (as_bytes ?B @ as_bytes body)" "as_bytes body"]
      length_header_block [of l ls] by (simp add: HEADER_END_def crlf_def del: header_block_simps)
  finally show ?thesis
    using assms length_header_block [of l ls]
    by (simp add: send_http_post_def write_http_response_block ls del: header_block_simps)
qed

text \<open>A client reads the body of the response a server wrote, for every status and every body
  that is valid UTF-8.\<close>

lemma response_read_back:
  assumes "utf8_valid body" and "exchange address port (as_bytes (http_post_text address port path request))
    = Inr (write_http_response status (as_bytes body))"
  shows "send_http_post exchange address port path request = Inr body"
  using assms by (rule send_post_answered)

definition huge_request :: bytes where
  "huge_request = as_bytes (header_block [''POST / HTTP/1.1'', ''Content-Length: '' @ show_nat (2 ^ 64 - 1)])"

lemma read_panics_iff:
  "read_http_request stream = Panic \<longleftrightarrow>
     (\<exists>data he rest path n. read_headers [] stream = Inr (data, he, rest)
        \<and> parse_head (from_utf8_lossy (take he data)) = Inr (path, n) \<and> 2 ^ 64 \<le> he + unat n)"
proof (cases "read_headers [] stream")
  case (Inr x)
  obtain data he rest where x: "x = (data, he, rest)" by (cases x)
  then have "he \<le> length data" using Inr read_headers_bound by blast
  then have over: "read_body ((he + unat n) mod 2 ^ 64) data rest = Inr data"
    "\<not> length data < (he + unat n) mod 2 ^ 64" if "2 ^ 64 \<le> he + unat n" for n :: usize
    using that wrapped_end [of he n] by (simp_all add: read_body.simps)
  show ?thesis
  proof (cases "parse_head (from_utf8_lossy (take he data))")
    case head: (Inr y)
    obtain path n where "y = (path, n)" by (cases y)
    with head Inr x show ?thesis
      using over [of n] wrapped_end [of he n]
      by (cases "2 ^ 64 \<le> he + unat n") (simp_all add: read_http_request_def Let_def split: sum.split)
  qed (use Inr x in \<open>simp add: read_http_request_def\<close>)
qed (simp add: read_http_request_def)

lemma huge_request_panics: "read_http_request [Bytes huge_request] = Panic"
proof -
  define B where "B = header_block [''POST / HTTP/1.1'', ''Content-Length: '' @ show_nat (2 ^ 64 - 1)]"
  have ok: "list_all header_line [''POST / HTTP/1.1'', ''Content-Length: '' @ show_nat (2 ^ 64 - 1)]"
    using header_line_append [OF fixed_header_lines(3) show_nat_text] by (simp add: header_line_def)
  have "length (show_nat (2 ^ 64 - 1)) = 20"
    by (simp add: show_nat.simps)
  then have len: "length B \<le> 64 * 1024"
    by (simp add: B_def crlf_def)
  have "4 \<le> length B" and "find_sub HEADER_END (as_bytes B) = Some (length B - 4)" and valid: "utf8_valid B"
    unfolding B_def by (rule length_header_block find_header_block utf8_valid_header_block, (rule ok)?)+
  then obtain d cs where d: "read_headers [] [Bytes (as_bytes B)] = Inr (d, length B, map Bytes cs)"
      "d @ concat cs = as_bytes B" "length B \<le> length d"
    using read_headers_chunks [of "as_bytes B" "length B - 4" "[as_bytes B]" "[]" "[]"] len
    by (fastforce simp: as_bytes_def)
  have "d = as_bytes B"
    using take_prefix [OF d(2,3)] arg_cong [OF d(2), of length] d(3) by simp
  with d(1) have read: "\<exists>rest. read_headers [] [Bytes (as_bytes B)] = Inr (as_bytes B, length B, rest)"
    by blast
  have "parse_u64 (show_nat (2 ^ 64 - 1)) = Some (word_of_nat (2 ^ 64 - 1))"
    by (simp add: parse_u64_def)
  moreover have "split_whitespace ''POST / HTTP/1.1'' = [''POST'', ''/'', ''HTTP/1.1'']"
    by code_simp
  ultimately have "parse_head B = Inr (''/'', word_of_nat (2 ^ 64 - 1))"
    unfolding parse_head_def B_def str_lines_header_block [OF ok]
    by (simp add: split_header [simplified] str_trim_space_nat)
  with read valid \<open>4 \<le> length B\<close> have "read_http_request [Bytes (as_bytes B)] = Panic"
    unfolding read_panics_iff by fastforce
  then show ?thesis
    by (simp only: B_def huge_request_def)
qed

text \<open>Reading a request panics exactly when the announced length of the body, added to the
  length of the headers, overflows 64 bits; a single request can do this, before anything is
  verified.\<close>

lemma read_http_request_panics:
  "(read_http_request stream = Panic \<longleftrightarrow>
     (\<exists>data he rest path n. read_headers [] stream = Inr (data, he, rest)
        \<and> parse_head (from_utf8_lossy (take he data)) = Inr (path, n) \<and> 2 ^ 64 \<le> he + unat n))
   \<and> read_http_request [Bytes huge_request] = Panic"
  using read_panics_iff huge_request_panics by blast

end
