(* ===== verification/Runtime.thy ===== *)
theory Runtime
  imports AuthorizedKeys Discovery Transport Envelope Config Http
begin

text \<open>
  The module \<open>runtime.rs\<close>: one synchronisation cycle, the request for a key, the handlers for HTTP
  connections and UDP datagrams, and one turn of the daemon loop over the file system. The clock
  and the nonce of a call are arguments, and so is the network: what a connection to an address
  answers, which datagrams have arrived, and the order in which a hash map is visited.
\<close>

section \<open>Small functions\<close>

definition TIMESTAMP_SKEW_SECS :: u64 where
  "TIMESTAMP_SKEW_SECS = 60"

definition NONCE_TTL_SECS :: u64 where
  "NONCE_TTL_SECS = 120"

record PeerEndpoint =
  ep_participant_id :: string
  ep_address :: string
  ep_port :: u16

definition runtime_parse_bootstrap_peer :: "string \<Rightarrow> PeerEndpoint option" where
  "runtime_parse_bootstrap_peer value =
     (let trimmed = str_trim value in
      if trimmed = [] then None
      else let (participant_id, host_port) =
          (case split_once (CHR ''@'') trimmed of
             Some (participant, host_port) \<Rightarrow> (str_trim participant, str_trim host_port)
           | None \<Rightarrow> (trimmed, trimmed))
        in case rsplit_once (CHR '':'') host_port of None \<Rightarrow> None
          | Some (address, port_text) \<Rightarrow>
            (case parse_u16 (str_trim port_text) of None \<Rightarrow> None
             | Some port \<Rightarrow> Some \<lparr>ep_participant_id = participant_id, ep_address = str_trim address,
                 ep_port = port\<rparr>))"

definition parse_port :: "string \<Rightarrow> RuntimeError + u16" where
  "parse_port address =
     ok_or (Option.bind (rsplit_once (CHR '':'') address) (\<lambda>(_, p). parse_u16 p)) (ParseListenAddress address)"

definition advertised_address :: "string \<Rightarrow> string \<Rightarrow> string" where
  "advertised_address http_listen_addr participant_id =
     (let host = unwrap_or (map_option fst (split_once (CHR '':'') http_listen_addr)) http_listen_addr in
      if host = ''0.0.0.0'' \<or> host = ''::'' then participant_id else host)"

text \<open>A reading of the clock: the nanoseconds since the epoch, or nothing when it stands before it. (The
  seconds of a \<open>Duration\<close> fit in 64 bits.)\<close>

definition now_secs :: "nat option \<Rightarrow> u64" where
  "now_secs clock = (case clock of Some nanos \<Rightarrow> word_of_nat (nanos div 10 ^ 9) | None \<Rightarrow> 0)"

definition next_nonce :: "nat option \<Rightarrow> string" where
  "next_nonce clock = ''n-'' @ show_nat (unwrap_or clock 0)"

text \<open>The environment variable \<open>HOME\<close> is an argument.\<close>

definition expand_home_path :: "string option \<Rightarrow> string \<Rightarrow> string" where
  "expand_home_path home path =
     (if path = ''~'' then unwrap_or home path
      else if take 2 path = ''~/'' then
        (case home of Some home \<Rightarrow> home @ ''/'' @ drop 2 path | None \<Rightarrow> path)
      else path)"

section \<open>Asking a peer for its key\<close>

definition request_public_key ::
  "ext \<Rightarrow> (string \<Rightarrow> u16 \<Rightarrow> bytes \<Rightarrow> http_error + bytes) \<Rightarrow> u64 \<Rightarrow> string \<Rightarrow> HttpKeyExchangeService
   \<Rightarrow> PeerEndpoint \<Rightarrow> RuntimeError + string" where
  "request_public_key X exchange now nonce service endpoint =
     (let request_envelope = build_get_public_key_request X service (ep_participant_id endpoint) now nonce;
          request_body = serialize_envelope request_envelope
      in and_then (map_err (\<lambda>_. HttpRequestFailed)
           (send_http_post exchange (ep_address endpoint) (ep_port endpoint) PATH_GET_PUBLIC_KEY request_body)) (\<lambda>response_body.
         and_then (map_err (\<lambda>_. ParseEnvelope) (parse_envelope response_body)) (\<lambda>response_envelope.
         and_then (map_err (\<lambda>_. VerifyOrParseResponse)
             (verify_and_parse_public_key_response X service response_envelope)) (\<lambda>payload.
           Inr (pkp_public_key payload)))))"

section \<open>One cycle\<close>

fun bootstrap_endpoints :: "(string \<rightharpoonup> PeerEndpoint) \<Rightarrow> string list \<Rightarrow> (string \<rightharpoonup> PeerEndpoint)" where
  "bootstrap_endpoints endpoints [] = endpoints"
| "bootstrap_endpoints endpoints (peer # peers) =
     (case runtime_parse_bootstrap_peer peer of None \<Rightarrow> bootstrap_endpoints endpoints peers
      | Some endpoint \<Rightarrow> bootstrap_endpoints (endpoints(ep_participant_id endpoint \<mapsto> endpoint)) peers)"

fun peer_endpoints :: "(string \<rightharpoonup> PeerEndpoint) \<Rightarrow> PeerRecord list \<Rightarrow> (string \<rightharpoonup> PeerEndpoint)" where
  "peer_endpoints endpoints [] = endpoints"
| "peer_endpoints endpoints (peer # peers) =
     peer_endpoints (endpoints(peer_participant_id peer \<mapsto>
       \<lparr>ep_participant_id = peer_participant_id peer, ep_address = peer_address peer,
        ep_port = peer_port peer\<rparr>)) peers"

definition sync_endpoints :: "AppConfig \<Rightarrow> PeerRecord list \<Rightarrow> (string \<rightharpoonup> PeerEndpoint)" where
  "sync_endpoints config peers =
     peer_endpoints (bootstrap_endpoints Map.empty (cfg_bootstrap_peers config)) peers"

fun fetch_keys ::
  "(PeerEndpoint \<Rightarrow> RuntimeError + string) \<Rightarrow> string \<Rightarrow> PeerEndpoint list \<Rightarrow> (string \<rightharpoonup> string) \<Rightarrow> (string \<rightharpoonup> string)" where
  "fetch_keys fetch self [] managed_keys = managed_keys"
| "fetch_keys fetch self (endpoint # endpoints) managed_keys =
     (if ep_participant_id endpoint = self then fetch_keys fetch self endpoints managed_keys
      else case fetch endpoint of
          Inr key \<Rightarrow> fetch_keys fetch self endpoints (managed_keys(ep_participant_id endpoint \<mapsto> key))
        | Inl _ \<Rightarrow> fetch_keys fetch self endpoints managed_keys)"

text \<open>What the two loops over hash maps visit is given by the orders \<open>peer_order\<close> and
  \<open>endpoint_order\<close>; each request has its own clock and nonce.\<close>

record network =
  net_exchange :: "string \<Rightarrow> u16 \<Rightarrow> bytes \<Rightarrow> http_error + bytes"
  net_now :: "PeerEndpoint \<Rightarrow> u64"
  net_nonce :: "PeerEndpoint \<Rightarrow> string"
  net_peer_order :: "string list"
  net_endpoint_order :: "string list"

definition fetch_from :: "ext \<Rightarrow> network \<Rightarrow> HttpKeyExchangeService \<Rightarrow> PeerEndpoint \<Rightarrow> RuntimeError + string" where
  "fetch_from X net service endpoint =
     request_public_key X (net_exchange net) (net_now net endpoint) (net_nonce net endpoint) service endpoint"

definition run_sync_cycle ::
  "ext \<Rightarrow> network \<Rightarrow> AppConfig \<Rightarrow> HttpKeyExchangeService \<Rightarrow> DiscoveryEngine \<Rightarrow> (string \<rightharpoonup> string)
   \<Rightarrow> (RuntimeError + unit) \<times> (string \<rightharpoonup> string)" where
  "run_sync_cycle X net config service discovery managed_keys =
     (let endpoints = sync_endpoints config (values_in (net_peer_order net) (eng_peers discovery))
      in (Inr (), fetch_keys (fetch_from X net service) (cfg_participant_id config)
           (values_in (net_endpoint_order net) endpoints) managed_keys))"

section \<open>Serving\<close>

text \<open>Writing to a connection fails when its argument is \<open>Some n\<close>, after \<open>n\<close> bytes have gone out.\<close>

definition write_stream :: "nat option \<Rightarrow> bytes \<Rightarrow> (http_error + unit) \<times> bytes" where
  "write_stream limit content =
     (case limit of None \<Rightarrow> (Inr (), content) | Some n \<Rightarrow> (Inl StreamFailed, take n content))"

text \<open>The result is \<open>Panic\<close>, or the result of the function with the bytes it wrote.\<close>

definition handle_http_connection ::
  "ext \<Rightarrow> HttpKeyExchangeService \<Rightarrow> u64 \<Rightarrow> string \<Rightarrow> nat option \<Rightarrow> read_result list
   \<Rightarrow> ((http_error + unit) \<times> bytes) outcome" where
  "handle_http_connection X service now nonce limit stream =
     (case read_http_request stream of Panic \<Rightarrow> Panic
      | Val (Inl e) \<Rightarrow> Val (Inl e, [])
      | Val (Inr (path, body)) \<Rightarrow> Val (write_stream limit (
          case parse_envelope body of
            Inl _ \<Rightarrow> write_http_response 400 (as_bytes ''invalid envelope'')
          | Inr envelope \<Rightarrow>
              if path = PATH_GET_PUBLIC_KEY \<or> path = PATH_PUBLISH_PARTICIPANT then
                (case (if path = PATH_GET_PUBLIC_KEY
                       then handle_get_public_key_request X service envelope now nonce
                       else handle_publish_request X service envelope now nonce) of
                   Inr response \<Rightarrow> write_http_response 200 (as_bytes (serialize_envelope response))
                 | Inl _ \<Rightarrow> write_http_response 401 (as_bytes ''verification failed''))
              else write_http_response 404 (as_bytes ''not found''))))"

text \<open>The datagrams that arrived with the clock at each; a buffer takes 8192 bytes.\<close>

fun handle_udp_announcements :: "ext \<Rightarrow> (bytes \<times> u64) list \<Rightarrow> DiscoveryEngine \<Rightarrow> DiscoveryEngine" where
  "handle_udp_announcements X [] discovery = discovery"
| "handle_udp_announcements X ((datagram, now) # rest) discovery =
     handle_udp_announcements X rest
       (case from_utf8 (take 8192 datagram) of None \<Rightarrow> discovery
        | Some text \<Rightarrow> (case parse_envelope text of Inl _ \<Rightarrow> discovery
          | Inr envelope \<Rightarrow> snd (process_announcement X envelope now discovery)))"

text \<open>The bytes that are broadcast; a failing \<open>send_to\<close> is ignored by the code.\<close>

definition send_announcement ::
  "ext \<Rightarrow> DiscoveryEngine \<Rightarrow> string \<Rightarrow> string \<Rightarrow> u16 \<Rightarrow> string \<Rightarrow> u16 \<Rightarrow> u64 \<Rightarrow> string
   \<Rightarrow> RuntimeError + string \<times> bytes" where
  "send_announcement X discovery participant_id address port public_key udp_port now nonce =
     and_then (map_err (\<lambda>_. BuildAnnouncement)
       (build_startup_announcement X discovery participant_id address port public_key now nonce)) (\<lambda>envelope.
       Inr (''255.255.255.255:'' @ show_word udp_port, as_bytes (serialize_envelope envelope)))"

section \<open>One turn of the daemon\<close>

record DaemonRun =
  run_discovery :: DiscoveryEngine
  run_managed_keys :: "string \<rightharpoonup> string"
  run_next_sync_at :: u64

text \<open>What does not change while the daemon runs.\<close>

record DaemonSetup =
  set_config :: AppConfig
  set_service :: HttpKeyExchangeService
  set_authorized_keys_path :: string
  set_advertised_address :: string
  set_http_port :: u16
  set_udp_port :: u16
  set_local_public_key :: string

text \<open>What the world does during one turn.\<close>

record turn =
  turn_datagrams :: "(bytes \<times> u64) list"
  turn_now :: u64
  turn_network :: network
  turn_key_order :: "string list"
  turn_faults :: faults
  turn_mode :: nat
  turn_announce_now :: u64
  turn_announce_nonce :: string

definition write_keys :: "DaemonSetup \<Rightarrow> turn \<Rightarrow> (string \<rightharpoonup> string) \<Rightarrow> (RuntimeError, unit) io" where
  "write_keys d w managed_keys =
     (if cfg_dry_run (set_config d) then io_return ()
      else let keys = values_in (turn_key_order w) managed_keys in
        io_bind (io_map_err (\<lambda>_. WriteAuthorizedKeys (set_authorized_keys_path d))
          (apply_managed_block_to_file (turn_mode w) (turn_faults w) (set_authorized_keys_path d) keys))
          (\<lambda>_. io_return ()))"

definition daemon_turn :: "ext \<Rightarrow> DaemonSetup \<Rightarrow> turn \<Rightarrow> DaemonRun \<Rightarrow> (RuntimeError, DaemonRun) io" where
  "daemon_turn X d w r =
     (let discovery = handle_udp_announcements X (turn_datagrams w) (run_discovery r);
          now = turn_now w;
          sync_due = run_next_sync_at r \<le> now;
          (discovery_trigger, discovery) = take_sync_trigger discovery
      in if sync_due \<or> discovery_trigger then
           let (result, managed_keys) = run_sync_cycle X (turn_network w) (set_config d) (set_service d)
                 discovery (run_managed_keys r)
           in io_bind (if is_ok result then write_keys d w managed_keys else io_return ()) (\<lambda>_.
              io_bind (io_lift (send_announcement X discovery (cfg_participant_id (set_config d))
                  (set_advertised_address d) (set_http_port d) (set_local_public_key d) (set_udp_port d)
                  (turn_announce_now w) (turn_announce_nonce w))) (\<lambda>_.
                io_return \<lparr>run_discovery = discovery, run_managed_keys = managed_keys,
                  run_next_sync_at = now + max (cfg_sync_interval_secs (set_config d)) 1\<rparr>))
         else io_return (r\<lparr>run_discovery := discovery\<rparr>))"

definition daemon_start :: "AppConfig \<Rightarrow> u64 \<Rightarrow> DaemonRun" where
  "daemon_start config now =
     \<lparr>run_discovery = add_bootstrap_peers (cfg_bootstrap_peers config)
        (engine_new (cfg_sid config) (cfg_sid_token config) TIMESTAMP_SKEW_SECS NONCE_TTL_SECS),
      run_managed_keys = Map.empty, run_next_sync_at = now\<rparr>"

text \<open>Everything before the first turn; that the TLS material loads and that the two sockets can be
  bound are arguments.\<close>

definition daemon_setup ::
  "string option \<Rightarrow> (string \<Rightarrow> string option) \<Rightarrow> RuntimeError + unit \<Rightarrow> bool \<Rightarrow> bool \<Rightarrow> AppConfig
   \<Rightarrow> RuntimeError + DaemonSetup" where
  "daemon_setup home read_to_string tls http_bound udp_bound config =
     (let public_key_path = expand_home_path home (cfg_public_key_path config);
          authorized_keys_path = expand_home_path home (cfg_authorized_keys_path config)
      in and_then (map_err (\<lambda>_. ReadLocalPublicKey public_key_path)
           (read_local_public_key read_to_string public_key_path)) (\<lambda>local_public_key.
         and_then (map_err (\<lambda>_. ReadLocalPublicKey public_key_path)
           (service_new (cfg_sid config) (cfg_sid_token config) (cfg_participant_id config) local_public_key)) (\<lambda>service.
         and_then tls (\<lambda>_.
         and_then (if http_bound then Inr () else Inl (BindHttp (cfg_http_listen_addr config))) (\<lambda>_.
         and_then (if udp_bound then Inr () else Inl (BindUdp (cfg_udp_announce_addr config))) (\<lambda>_.
         and_then (parse_port (cfg_http_listen_addr config)) (\<lambda>http_port.
         and_then (parse_port (cfg_udp_announce_addr config)) (\<lambda>udp_port.
           Inr \<lparr>set_config = config, set_service = service, set_authorized_keys_path = authorized_keys_path,
             set_advertised_address = advertised_address (cfg_http_listen_addr config) (cfg_participant_id config),
             set_http_port = http_port, set_udp_port = udp_port, set_local_public_key = local_public_key\<rparr>))))))))"

definition run_single_sync ::
  "ext \<Rightarrow> string option \<Rightarrow> (string \<Rightarrow> string option) \<Rightarrow> RuntimeError + unit \<Rightarrow> turn \<Rightarrow> AppConfig
   \<Rightarrow> (RuntimeError, unit) io" where
  "run_single_sync X home read_to_string tls w config =
     (let public_key_path = expand_home_path home (cfg_public_key_path config);
          authorized_keys_path = expand_home_path home (cfg_authorized_keys_path config)
      in io_bind (io_lift (map_err (\<lambda>_. ReadLocalPublicKey public_key_path)
           (read_local_public_key read_to_string public_key_path))) (\<lambda>local_public_key.
         io_bind (io_lift (map_err (\<lambda>_. ReadLocalPublicKey public_key_path)
           (service_new (cfg_sid config) (cfg_sid_token config) (cfg_participant_id config) local_public_key))) (\<lambda>service.
         io_bind (io_lift tls) (\<lambda>_.
           let discovery = add_bootstrap_peers (cfg_bootstrap_peers config)
                 (engine_new (cfg_sid config) (cfg_sid_token config) TIMESTAMP_SKEW_SECS NONCE_TTL_SECS);
               (result, managed_keys) = run_sync_cycle X (turn_network w) config service discovery Map.empty
           in io_bind (io_lift result) (\<lambda>_.
              if cfg_dry_run config then io_return ()
              else let keys = values_in (turn_key_order w) managed_keys in
                io_bind (io_map_err (\<lambda>_. WriteAuthorizedKeys authorized_keys_path)
                  (apply_managed_block_to_file (turn_mode w) (turn_faults w) authorized_keys_path keys))
                  (\<lambda>_. io_return ()))))))"

text \<open>A daemon that was set up can always build its announcement.\<close>

lemma setup_announces:
  assumes "daemon_setup home rd tls hb ub config = Inr d"
  obtains v where "send_announcement X discovery p adr port (set_local_public_key d) udp now nonce = Inr v"
proof -
  have "is_ok (normalize_public_key (set_local_public_key d))"
    using assms ssh.normal_idem by (auto simp: daemon_setup_def read_local_public_key_def Let_def is_ok_iff)
  with that show thesis
    by (auto simp: is_ok_iff send_announcement_def build_startup_announcement_def)
qed

section \<open>The keys of a cycle\<close>

text \<open>A key that was read from a response verified for the \<open>sid\<close> and token of the service.\<close>

definition vouched :: "ext \<Rightarrow> HttpKeyExchangeService \<Rightarrow> string \<Rightarrow> bool" where
  "vouched X svc key \<longleftrightarrow> (\<exists>e p. verify_and_parse_public_key_response X svc e = Inr p \<and> key = pkp_public_key p)"

lemma vouched_normal: "vouched X svc key \<Longrightarrow> ssh.normal key"
  by (auto simp: vouched_def verify_and_parse_public_key_response_def ssh.normal_def)

lemma fetch_vouched: "fetch_from X net svc ep = Inr key \<Longrightarrow> vouched X svc key"
  by (auto simp: fetch_from_def request_public_key_def Let_def vouched_def)

lemma fetch_keys_origin:
  "fetch_keys fetch self eps m k = Some key \<Longrightarrow>
   m k = Some key \<or> k \<noteq> self \<and> (\<exists>ep\<in>set eps. ep_participant_id ep = k \<and> fetch ep = Inr key)"
  by (induction fetch self eps m rule: fetch_keys.induct) (auto split: sum.splits if_splits)

lemma run_sync_cycle_origin:
  assumes "run_sync_cycle X net cfg svc d m = (r, m')" and "m' k = Some key"
  shows "m k = Some key \<or> k \<noteq> cfg_participant_id cfg \<and> vouched X svc key"
  using assms fetch_keys_origin [of "fetch_from X net svc" "cfg_participant_id cfg" _ m k key] fetch_vouched
  by (fastforce simp: run_sync_cycle_def Let_def)

definition keys_ok :: "ext \<Rightarrow> DaemonSetup \<Rightarrow> (string \<rightharpoonup> string) \<Rightarrow> bool" where
  "keys_ok X d m \<longleftrightarrow> (\<forall>k key. m k = Some key \<longrightarrow>
     k \<noteq> cfg_participant_id (set_config d) \<and> vouched X (set_service d) key)"

lemma run_sync_cycle_keys_ok:
  "run_sync_cycle X net (set_config d) (set_service d) disc m = (r, m') \<Longrightarrow> keys_ok X d m \<Longrightarrow> keys_ok X d m'"
  using run_sync_cycle_origin unfolding keys_ok_def by metis

section \<open>Turns\<close>

fun daemon_turns :: "ext \<Rightarrow> DaemonSetup \<Rightarrow> turn list \<Rightarrow> DaemonRun \<Rightarrow> (RuntimeError, DaemonRun) io" where
  "daemon_turns X d [] r = io_return r"
| "daemon_turns X d (w # ws) r = io_bind (daemon_turn X d w r) (daemon_turns X d ws)"

text \<open>The engine and the request for a synchronisation a turn works with.\<close>

definition turn_engine :: "ext \<Rightarrow> turn \<Rightarrow> DaemonRun \<Rightarrow> bool \<times> DiscoveryEngine" where
  "turn_engine X w r = take_sync_trigger (handle_udp_announcements X (turn_datagrams w) (run_discovery r))"

definition syncs :: "ext \<Rightarrow> turn \<Rightarrow> DaemonRun \<Rightarrow> bool" where
  "syncs X w r \<longleftrightarrow> run_next_sync_at r \<le> turn_now w \<or> fst (turn_engine X w r)"

lemma daemon_turn_idle:
  "\<not> syncs X w r \<Longrightarrow> daemon_turn X d w r s = (Inr (r\<lparr>run_discovery := snd (turn_engine X w r)\<rparr>), s)"
  by (simp add: daemon_turn_def syncs_def turn_engine_def Let_def split_beta io_return_def)

lemma daemon_turn_sync:
  assumes "syncs X w r" and "daemon_turn X d w r s = (Inr r', s')"
  obtains m where "run_sync_cycle X (turn_network w) (set_config d) (set_service d)
      (snd (turn_engine X w r)) (run_managed_keys r) = (Inr (), m)"
    and "write_keys d w m s = (Inr (), s')"
    and "r' = \<lparr>run_discovery = snd (turn_engine X w r), run_managed_keys = m,
      run_next_sync_at = turn_now w + max (cfg_sync_interval_secs (set_config d)) 1\<rparr>"
proof -
  obtain m where m: "run_sync_cycle X (turn_network w) (set_config d) (set_service d)
      (snd (turn_engine X w r)) (run_managed_keys r) = (Inr (), m)"
    by (simp add: run_sync_cycle_def Let_def)
  obtain q s2 where "write_keys d w m s = (q, s2)"
    by fastforce
  with m assms show thesis
    using that [of m]
    by (auto simp: daemon_turn_def syncs_def turn_engine_def Let_def split_beta io_bind_def io_lift_def
        io_return_def split: sum.splits prod.splits)
qed

lemma daemon_turn_syncI:
  assumes "syncs X w r"
    and "run_sync_cycle X (turn_network w) (set_config d) (set_service d)
      (snd (turn_engine X w r)) (run_managed_keys r) = (Inr (), m)"
    and "write_keys d w m s = (Inr (), s')"
    and "send_announcement X (snd (turn_engine X w r)) (cfg_participant_id (set_config d))
      (set_advertised_address d) (set_http_port d) (set_local_public_key d) (set_udp_port d)
      (turn_announce_now w) (turn_announce_nonce w) = Inr v"
  shows "daemon_turn X d w r s = (Inr \<lparr>run_discovery = snd (turn_engine X w r), run_managed_keys = m,
      run_next_sync_at = turn_now w + max (cfg_sync_interval_secs (set_config d)) 1\<rparr>, s')"
  using assms
  by (simp add: daemon_turn_def syncs_def turn_engine_def Let_def split_beta io_bind_def io_lift_def io_return_def)

lemma daemon_turn_keys_ok:
  assumes "daemon_turn X d w r s = (Inr r', s')" and "keys_ok X d (run_managed_keys r)"
  shows "keys_ok X d (run_managed_keys r')"
proof (cases "syncs X w r")
  case True
  then obtain m where "run_sync_cycle X (turn_network w) (set_config d) (set_service d)
      (snd (turn_engine X w r)) (run_managed_keys r) = (Inr (), m)" and "write_keys d w m s = (Inr (), s')"
    and "r' = \<lparr>run_discovery = snd (turn_engine X w r), run_managed_keys = m,
      run_next_sync_at = turn_now w + max (cfg_sync_interval_secs (set_config d)) 1\<rparr>"
    using assms(1) by (rule daemon_turn_sync)
  then show ?thesis
    using run_sync_cycle_keys_ok [of X "turn_network w" d] assms(2) by auto
next
  case False
  with assms show ?thesis
    by (auto simp: daemon_turn_idle)
qed

lemma daemon_turns_keys_ok:
  "daemon_turns X d ws r s = (Inr r', s') \<Longrightarrow> keys_ok X d (run_managed_keys r) \<Longrightarrow> keys_ok X d (run_managed_keys r')"
proof (induction ws arbitrary: r s)
  case (Cons w ws)
  then obtain r1 s1 where "daemon_turn X d w r s = (Inr r1, s1)" and "daemon_turns X d ws r1 s1 = (Inr r', s')"
    by (auto simp: io_bind_def split: sum.splits prod.splits)
  with Cons daemon_turn_keys_ok show ?case by blast
qed (simp add: io_return_def)

lemma daemon_start_keys_ok: "keys_ok X d (run_managed_keys (daemon_start cfg t))"
  by (simp add: keys_ok_def daemon_start_def)

section \<open>The block after a cycle\<close>

lemma normalize_and_dedup_normal_keys:
  "\<forall>k\<in>set ks. normalize_public_key k = Inr k \<Longrightarrow> normalize_and_dedup ks = Inr (dedup {} ks)"
  unfolding normalize_and_dedup_def normalize_and_dedup_loop_Inr by (auto intro!: exI [of _ ks])

lemma managed_values:
  assumes "keys_ok X d m" and "enumerates ks m"
  shows "set (values_in ks m) = ran m" and "\<forall>k\<in>set (values_in ks m). normalize_public_key k = Inr k"
proof -
  show ran: "set (values_in ks m) = ran m"
    using assms(2) by (rule set_values_in)
  show "\<forall>k\<in>set (values_in ks m). normalize_public_key k = Inr k"
    using assms(1) vouched_normal ssh.normal_fixed unfolding ran by (fastforce simp: keys_ok_def ran_def)
qed

lemma write_keys_succeeds:
  assumes "keys_ok X d m" and "enumerates (turn_key_order w) m" and "p = path_of (set_authorized_keys_path d)"
    and "writable (turn_faults w) p s" and "doc_ok (str_lines (unwrap_or (files s p) []))"
  shows "\<exists>s'. write_keys d w m s = (Inr (), s')"
proof -
  let ?keys = "values_in (turn_key_order w) m"
  have "\<forall>k\<in>set ?keys. is_ok (normalize_public_key k)"
    using managed_values [OF assms(1,2)] by simp
  then obtain ns where "normalize_and_dedup ?keys = Inr ns"
    using normalize_and_dedup_Inl [of ?keys] by (cases "normalize_and_dedup ?keys") auto
  then have "\<exists>new. upsert_managed_block (seen_content (turn_faults w) p s) ?keys = Inr new"
    using seen_content_ok [OF assms(5), of "turn_faults w"]
    by (auto simp: upsert_managed_block_def doc_ok_def placed_def Let_def split: option.splits)
  then have "is_ok (fst (apply_managed_block_to_file (turn_mode w) (turn_faults w) (set_authorized_keys_path d) ?keys s))"
    using apply_returns [OF assms(4,3)] by auto
  then have "fst (write_keys d w m s) = Inr ()"
    by (auto simp: write_keys_def is_ok_iff io_bind_fst io_return_def Let_def)
  then show ?thesis by (metis prod.collapse)
qed

lemma write_keys_block:
  assumes "write_keys d w m s = (Inr (), s')" and "\<not> cfg_dry_run (set_config d)"
    and "keys_ok X d m" and "enumerates (turn_key_order w) m"
    and "p = path_of (set_authorized_keys_path d)" and "doc_ok (str_lines (unwrap_or (files s p) []))"
    and "old = seen_content (turn_faults w) p s"
  shows "\<exists>new. files s' p = Some new \<and> set (managed (str_lines new)) = ran m \<and> distinct (managed (str_lines new))
    \<and> unmanaged (str_lines new) = unmanaged (str_lines old) @ separator (str_lines old)
    \<and> separator (str_lines new) = [] \<and> doc_ok (str_lines new)"
proof -
  let ?keys = "values_in (turn_key_order w) m"
  have ok: "doc_ok (str_lines old)"
    using assms(6,7) by (simp add: seen_content_ok)
  note ran = managed_values(1) [OF assms(3,4)] and normal = managed_values(2) [OF assms(3,4)]
  obtain new where new: "apply_managed_block_to_file (turn_mode w) (turn_faults w) (set_authorized_keys_path d) ?keys s
      = (Inr new, s')"
    using assms(1,2)
    by (auto simp: write_keys_def Let_def io_bind_def io_map_err_def io_return_def split: prod.splits sum.splits)
  then obtain s1 where "ensure_ssh_directory_permissions (turn_faults w) (path_of (set_authorized_keys_path d)) s = (Inr (), s1)"
    and up: "upsert_managed_block (seen_content (turn_faults w) (path_of (set_authorized_keys_path d)) s) ?keys = Inr new"
    and "io_bind (atomic_write (turn_mode w) (turn_faults w) (path_of (set_authorized_keys_path d)) new)
      (apply_rest (turn_faults w) (path_of (set_authorized_keys_path d)) new) s1 = (Inr new, s')"
    and fs: "files s' (path_of (set_authorized_keys_path d)) = Some new"
    and "files s' (temp_path_near (path_of (set_authorized_keys_path d))) = None"
    by (rule apply_Inr)
  from str_lines_upsert [OF ok] up assms(5,7)
  obtain ns where ns: "normalize_and_dedup ?keys = Inr ns" "list_all ssh.normal ns"
    and lines: "str_lines new = upsert_lines (str_lines old) ns"
    by auto
  have "ns = dedup {} ?keys"
    using normalize_and_dedup_normal_keys [OF normal] ns(1) by simp
  then show ?thesis
    using block.put_get [OF ok ns(2)] upsert_unmanaged [OF ok ns(2)] block.put_invar [OF ok ns(2)]
      fs assms(5) ran by (simp add: lines set_dedup distinct_dedup)
qed

end
