(* ===== verification/TlsConfig.thy ===== *)
theory TlsConfig
  imports Runtime
begin

text \<open>
  The transport security of \<open>runtime.rs\<close>: loading the certificates, choosing between TLS and plain
  connections, the name a server has to prove, and the two places where a connection is used. The
  crate \<open>rustls\<close>, the PEM reader, name resolution and the sockets are parameters.
\<close>

section \<open>Libraries\<close>

text \<open>What the code uses of the crates: reading PEM text, accepting a certificate chain with its key,
  whether a certificate can be parsed as a trust anchor, and whether a text is an IP address or a
  valid DNS name.\<close>

record tls_lib =
  pem_certs :: "string \<Rightarrow> string + bytes list"
  pem_private_key :: "string \<Rightarrow> string + bytes option"
  single_cert :: "bytes list \<Rightarrow> bytes \<Rightarrow> string + unit"
  parsable :: "bytes \<Rightarrow> bool"
  ip_address :: "string \<Rightarrow> bool"
  dns_name :: "string \<Rightarrow> bool"

record ServerConfig =
  server_certs :: "bytes list"
  server_key :: bytes

record ClientConfig =
  client_roots :: "bytes list"

datatype TransportSecurity = Tls ServerConfig ClientConfig "string option" | InsecureNoTls

datatype ServerName = IpAddress string | DnsName string

section \<open>Configuration\<close>

text \<open>\<open>read\<close> is the content of a file that can be opened.\<close>

definition load_cert_chain :: "tls_lib \<Rightarrow> (string \<Rightarrow> string option) \<Rightarrow> string \<Rightarrow> RuntimeError + bytes list" where
  "load_cert_chain lib read path =
     and_then (ok_or (read path) (InvalidTlsConfig path)) (\<lambda>file.
     and_then (map_err InvalidTlsConfig (pem_certs lib file)) (\<lambda>certs.
       if certs = [] then Inl (InvalidTlsConfig (''no certificates in '' @ path)) else Inr certs))"

definition load_private_key :: "tls_lib \<Rightarrow> (string \<Rightarrow> string option) \<Rightarrow> string \<Rightarrow> RuntimeError + bytes" where
  "load_private_key lib read path =
     and_then (ok_or (read path) (InvalidTlsConfig path)) (\<lambda>file.
     and_then (map_err InvalidTlsConfig (pem_private_key lib file)) (\<lambda>key.
       ok_or key (InvalidTlsConfig (''no private key in '' @ path))))"

definition build_transport_security ::
  "tls_lib \<Rightarrow> string option \<Rightarrow> (string \<Rightarrow> string option) \<Rightarrow> AppConfig \<Rightarrow> RuntimeError + TransportSecurity" where
  "build_transport_security lib home read config =
     (if cfg_insecure_no_tls config then Inr InsecureNoTls
      else
        and_then (ok_or (map_option (expand_home_path home) (cfg_tls_cert_path config)) (MissingTlsConfig ''--tls-cert-path'')) (\<lambda>cert_path.
        and_then (ok_or (map_option (expand_home_path home) (cfg_tls_key_path config)) (MissingTlsConfig ''--tls-key-path'')) (\<lambda>key_path.
        and_then (ok_or (map_option (expand_home_path home) (cfg_tls_ca_path config)) (MissingTlsConfig ''--tls-ca-path'')) (\<lambda>ca_path.
        and_then (load_cert_chain lib read cert_path) (\<lambda>certs.
        and_then (load_private_key lib read key_path) (\<lambda>key.
        and_then (map_err InvalidTlsConfig (single_cert lib certs key)) (\<lambda>_.
        and_then (load_cert_chain lib read ca_path) (\<lambda>ca_certs.
          let roots = filter (parsable lib) ca_certs; added = length roots in
          if added = 0 then Inl (InvalidTlsConfig (''no valid CA certificates in '' @ ca_path))
          else Inr (Tls \<lparr>server_certs = certs, server_key = key\<rparr> \<lparr>client_roots = roots\<rparr>
                 (cfg_tls_server_name config))))))))))"

definition resolve_tls_server_name :: "tls_lib \<Rightarrow> string \<Rightarrow> string option \<Rightarrow> http_error + ServerName" where
  "resolve_tls_server_name lib address override_name =
     (let value = str_trim (unwrap_or override_name address) in
      if ip_address lib value then Inr (IpAddress value)
      else if dns_name lib value then Inr (DnsName value)
      else Inl InvalidTlsServerName)"

section \<open>Connections\<close>

text \<open>The sockets: what a name resolves to, whether a connection to an address opens, whether its
  timeouts can be set, and the bytes that come back for the bytes that are sent, plain or through
  a TLS session with the given trust anchors and name.\<close>

record sockets =
  resolve :: "string \<Rightarrow> u16 \<Rightarrow> http_error + string list"
  connect :: "string \<Rightarrow> http_error + unit"
  plain_io :: "string \<Rightarrow> bytes \<Rightarrow> http_error + bytes"
  tls_session :: "ClientConfig \<Rightarrow> ServerName \<Rightarrow> bool"
  tls_io :: "ClientConfig \<Rightarrow> ServerName \<Rightarrow> string \<Rightarrow> bytes \<Rightarrow> http_error + bytes"

definition resolve_socket_addr :: "sockets \<Rightarrow> string \<Rightarrow> u16 \<Rightarrow> http_error + string" where
  "resolve_socket_addr net address port =
     and_then (resolve net address port) (\<lambda>addrs. case addrs of [] \<Rightarrow> Inl NoAddress | a # _ \<Rightarrow> Inr a)"

text \<open>What the program hands to \<open>write_all\<close> of a stream to another host, and which stream it is.\<close>

datatype sent = SentPlain string bytes | SentTls ClientConfig ServerName string bytes

text \<open>The result of the exchange with everything that was sent for it.\<close>

definition connect_exchange ::
  "tls_lib \<Rightarrow> sockets \<Rightarrow> TransportSecurity \<Rightarrow> string \<Rightarrow> u16 \<Rightarrow> bytes \<Rightarrow> (http_error + bytes) \<times> sent list" where
  "connect_exchange lib net transport_security address port request =
     (case and_then (resolve_socket_addr net address port) (\<lambda>socket.
           and_then (connect net socket) (\<lambda>_. Inr socket)) of
        Inl e \<Rightarrow> (Inl e, [])
      | Inr socket \<Rightarrow>
          (case transport_security of
             InsecureNoTls \<Rightarrow> (plain_io net socket request, [SentPlain socket request])
           | Tls server client server_name_override \<Rightarrow>
               (case resolve_tls_server_name lib address server_name_override of
                  Inl e \<Rightarrow> (Inl e, [])
                | Inr server_name \<Rightarrow>
                    if \<not> tls_session net client server_name then (Inl TlsFailed, [])
                    else (tls_io net client server_name socket request,
                      [SentTls client server_name socket request]))))"

text \<open>A connection that was accepted: the reads of the plain stream and those of the TLS session over
  it, which can fail to be set up; with the clock and the nonce of its answer and where writing fails.\<close>

record connection =
  conn_plain :: "read_result list"
  conn_tls :: "ServerConfig \<Rightarrow> read_result list option"
  conn_now :: u64
  conn_nonce :: string
  conn_limit :: "nat option"

text \<open>The stream a connection is served over.\<close>

datatype served = PlainStream | TlsStream ServerConfig

text \<open>The loop ends when nothing more is waiting. The result is what was written to each connection that
  was served, and over which stream.\<close>

fun handle_http_connections ::
  "ext \<Rightarrow> connection list \<Rightarrow> HttpKeyExchangeService \<Rightarrow> TransportSecurity
   \<Rightarrow> (served \<times> (http_error + unit) \<times> bytes) list outcome" where
  "handle_http_connections X [] service transport_security = Val []"
| "handle_http_connections X (conn # conns) service transport_security =
     (case (case transport_security of
              InsecureNoTls \<Rightarrow> Some (PlainStream, conn_plain conn)
            | Tls server _ _ \<Rightarrow> map_option (Pair (TlsStream server)) (conn_tls conn server)) of
        None \<Rightarrow> handle_http_connections X conns service transport_security
      | Some (kind, stream) \<Rightarrow>
          (case handle_http_connection X service (conn_now conn) (conn_nonce conn) (conn_limit conn) stream of
             Panic \<Rightarrow> Panic
           | Val answer \<Rightarrow>
               (case handle_http_connections X conns service transport_security of Panic \<Rightarrow> Panic
                | Val rest \<Rightarrow> Val ((kind, answer) # rest))))"

text \<open>The network of a turn when its requests go out over these sockets.\<close>

definition secured_turn :: "tls_lib \<Rightarrow> TransportSecurity \<Rightarrow> sockets \<Rightarrow> turn \<Rightarrow> turn" where
  "secured_turn lib transport_security net w =
     w\<lparr>turn_network := (turn_network w)\<lparr>net_exchange :=
       (\<lambda>address port request. fst (connect_exchange lib net transport_security address port request))\<rparr>\<rparr>"

lemma secured_turn_fields [simp]:
  "turn_datagrams (secured_turn lib sec net w) = turn_datagrams w" "turn_now (secured_turn lib sec net w) = turn_now w"
  "turn_key_order (secured_turn lib sec net w) = turn_key_order w" "turn_faults (secured_turn lib sec net w) = turn_faults w"
  "turn_mode (secured_turn lib sec net w) = turn_mode w"
  by (simp_all add: secured_turn_def)

section \<open>Serving\<close>

definition conn_stream :: "TransportSecurity \<Rightarrow> connection \<Rightarrow> read_result list option" where
  "conn_stream sec conn = (case sec of InsecureNoTls \<Rightarrow> Some (conn_plain conn) | Tls server _ _ \<Rightarrow> conn_tls conn server)"

text \<open>One bad connection is enough for a panic, and without one every stream has its answer.\<close>

lemma handle_http_connections_Panic:
  "handle_http_connections X conns svc sec = Panic \<longleftrightarrow>
    (\<exists>conn\<in>set conns. \<exists>stream. conn_stream sec conn = Some stream
       \<and> handle_http_connection X svc (conn_now conn) (conn_nonce conn) (conn_limit conn) stream = Panic)"
proof (induction conns)
  case (Cons conn conns)
  then show ?case
    by (auto simp: conn_stream_def split: TransportSecurity.splits option.splits outcome.splits)
qed simp

lemma handle_http_connections_plain:
  "sec \<noteq> InsecureNoTls \<Longrightarrow>
    handle_http_connections X (map (\<lambda>c. c\<lparr>conn_plain := other c\<rparr>) conns) svc sec = handle_http_connections X conns svc sec"
proof (induction conns)
  case (Cons conn conns)
  then show ?case by (cases sec) (simp_all split: option.split outcome.split)
qed simp

lemma connect_exchange_plain:
  "sec \<noteq> InsecureNoTls \<Longrightarrow> connect_exchange lib (net\<lparr>plain_io := f\<rparr>) sec = connect_exchange lib net sec"
  by (cases sec) (simp_all add: fun_eq_iff connect_exchange_def resolve_socket_addr_def
      cong: sum.case_cong TransportSecurity.case_cong if_cong)

lemma connect_exchange_sent:
  "set (snd (connect_exchange lib net (Tls server client name) address port request))
    \<subseteq> {SentTls client n socket request | n socket. resolve_tls_server_name lib address name = Inr n
         \<and> resolve_socket_addr net address port = Inr socket \<and> tls_session net client n}"
  by (auto simp: connect_exchange_def split: sum.splits if_splits)

lemma connections_served:
  "handle_http_connections X conns svc (Tls server client name) = Val answers \<Longrightarrow> fst ` set answers \<subseteq> {TlsStream server}"
proof (induction conns arbitrary: answers)
  case (Cons conn conns)
  then show ?case by (fastforce split: option.splits outcome.splits)
qed simp

section \<open>Properties\<close>

lemma load_cert_chain_Inr: "load_cert_chain lib read path = Inr certs \<Longrightarrow>
    \<exists>pem. read path = Some pem \<and> pem_certs lib pem = Inr certs"
  by (auto simp: load_cert_chain_def split: if_splits)

lemma build_transport_security_Tls:
  assumes "build_transport_security lib home read config = Inr sec" and "\<not> cfg_insecure_no_tls config"
  obtains server client ca pem certs where "sec = Tls server client (cfg_tls_server_name config)"
    and "cfg_tls_ca_path config = Some ca" and "read (expand_home_path home ca) = Some pem"
    and "pem_certs lib pem = Inr certs" and "client_roots client = filter (parsable lib) certs" and "client_roots client \<noteq> []"
proof -
  obtain certs key ca ca_certs where ca: "cfg_tls_ca_path config = Some ca"
    and load: "load_cert_chain lib read (expand_home_path home ca) = Inr ca_certs" and "filter (parsable lib) ca_certs \<noteq> []"
    and "sec = Tls \<lparr>server_certs = certs, server_key = key\<rparr> \<lparr>client_roots = filter (parsable lib) ca_certs\<rparr> (cfg_tls_server_name config)"
    using assms by (auto simp: build_transport_security_def Let_def split: if_splits)
  with load_cert_chain_Inr [OF load] that show thesis by force
qed

text \<open>C20: Unless it was started with TLS switched off, the program exchanges nothing over a TCP connection
  outside a TLS session. Whatever a request sends goes through a session with the configured trust
  anchors, which all come from the configured CA file and are at least one, and with the configured
  server name, or else the name that was asked for; every answer of the server is written to a session with
  the loaded certificate; and neither what a request returns nor what the server does depends on
  what arrives outside such sessions. (The announcements over UDP are not under TLS.)\<close>

theorem tls_required:
  assumes "build_transport_security lib home read config = Inr sec" and "\<not> cfg_insecure_no_tls config"
  shows "\<exists>server client ca pem certs. sec = Tls server client (cfg_tls_server_name config)
    \<and> cfg_tls_ca_path config = Some ca \<and> read (expand_home_path home ca) = Some pem
    \<and> pem_certs lib pem = Inr certs \<and> client_roots client \<noteq> [] \<and> set (client_roots client) \<subseteq> set certs
    \<and> set (snd (connect_exchange lib net sec address port request))
      \<subseteq> {SentTls client name socket request | name socket.
           resolve_tls_server_name lib address (cfg_tls_server_name config) = Inr name
           \<and> resolve_socket_addr net address port = Inr socket \<and> tls_session net client name}
    \<and> (\<forall>answers. handle_http_connections X conns svc sec = Val answers \<longrightarrow> fst ` set answers \<subseteq> {TlsStream server})
    \<and> connect_exchange lib (net\<lparr>plain_io := f\<rparr>) sec address port request = connect_exchange lib net sec address port request
    \<and> handle_http_connections X (map (\<lambda>c. c\<lparr>conn_plain := other c\<rparr>) conns) svc sec = handle_http_connections X conns svc sec"
proof -
  obtain server client ca pem certs where sec: "sec = Tls server client (cfg_tls_server_name config)"
    and ca: "cfg_tls_ca_path config = Some ca" "read (expand_home_path home ca) = Some pem"
      "pem_certs lib pem = Inr certs" "client_roots client = filter (parsable lib) certs" "client_roots client \<noteq> []"
    using assms by (rule build_transport_security_Tls)
  then have "sec \<noteq> InsecureNoTls" by simp
  then have "connect_exchange lib (net\<lparr>plain_io := f\<rparr>) sec address port request = connect_exchange lib net sec address port request"
    and "handle_http_connections X (map (\<lambda>c. c\<lparr>conn_plain := other c\<rparr>) conns) svc sec = handle_http_connections X conns svc sec"
    using connect_exchange_plain [of sec lib] handle_http_connections_plain by simp_all
  with sec ca show ?thesis
    using connect_exchange_sent [of lib net server client] connections_served [of X conns svc server client] by simp
qed

definition demo_tls_lib :: tls_lib where
  "demo_tls_lib = \<lparr>pem_certs = (\<lambda>pem. Inr [as_bytes pem]), pem_private_key = (\<lambda>pem. Inr (Some (as_bytes pem))),
     single_cert = (\<lambda>_ _. Inr ()), parsable = (\<lambda>_. True), ip_address = (\<lambda>_. False), dns_name = (\<lambda>_. True)\<rparr>"

definition demo_tls_config :: AppConfig where
  "demo_tls_config = \<lparr>cfg_sid = ''s'', cfg_sid_token = ''t'', cfg_participant_id = ''me'', cfg_http_listen_addr = ''h:1'',
     cfg_udp_announce_addr = ''h:2'', cfg_bootstrap_peers = [], cfg_sync_interval_secs = 30, cfg_public_key_path = ''k'',
     cfg_authorized_keys_path = ''/h/k'', cfg_tls_cert_path = Some ''c'', cfg_tls_key_path = Some ''k'',
     cfg_tls_ca_path = Some ''a'', cfg_tls_server_name = None, cfg_insecure_no_tls = False, cfg_dry_run = False\<rparr>"

definition demo_service :: HttpKeyExchangeService where
  "demo_service = \<lparr>svc_sid = ''s'', svc_sid_token = ''t'', svc_participant_id = ''n'', svc_public_key = ''ssh-rsa AA''\<rparr>"

definition demo_sockets :: sockets where
  "demo_sockets = \<lparr>resolve = (\<lambda>a _. Inr [a]), connect = (\<lambda>_. Inr ()), plain_io = (\<lambda>_ _. Inr []),
     tls_session = (\<lambda>_ _. True), tls_io = (\<lambda>_ _ _ request. Inr request)\<rparr>"

theorem tls_required_witness:
  "\<exists>server client answers. build_transport_security demo_tls_lib None Some demo_tls_config = Inr (Tls server client None)
    \<and> snd (connect_exchange demo_tls_lib demo_sockets (Tls server client None) ''h'' 1 [1]) = [SentTls client (DnsName ''h'') ''h'' [1]]
    \<and> handle_http_connections echo_ext [\<lparr>conn_plain = [Bytes [1]], conn_tls = (\<lambda>_. Some []), conn_now = 9,
          conn_nonce = ''y'', conn_limit = None\<rparr>] demo_service (Tls server client None) = Val answers
    \<and> map fst answers = [TlsStream server] \<and> client_roots client \<noteq> []"
proof -
  let ?conns = "[\<lparr>conn_plain = [Bytes [1]], conn_tls = (\<lambda>_. Some []), conn_now = 9, conn_nonce = ''y'', conn_limit = None\<rparr>]"
  obtain sec where sec: "build_transport_security demo_tls_lib None Some demo_tls_config = Inr sec"
    by (simp add: build_transport_security_def load_cert_chain_def load_private_key_def demo_tls_lib_def demo_tls_config_def)
  have config: "\<not> cfg_insecure_no_tls demo_tls_config" "cfg_tls_server_name demo_tls_config = None"
    by (simp_all add: demo_tls_config_def)
  have read: "handle_http_connection echo_ext demo_service 9 ''y'' None [] = Val (Inl ConnectionClosed, [])"
    by (simp add: handle_http_connection_def read_http_request_def)
  from tls_required [OF sec config(1), of demo_sockets "''h''" 1 "[1]" echo_ext ?conns demo_service "plain_io demo_sockets" conn_plain] config(2)
  obtain server client where tls: "sec = Tls server client None" "client_roots client \<noteq> []"
    by (auto simp del: handle_http_connections.simps)
  have "handle_http_connections echo_ext ?conns demo_service sec = Val [(TlsStream server, Inl ConnectionClosed, [])]"
    using read tls(1) by simp
  moreover have "str_trim ''h'' = ''h''" by code_simp
  ultimately show ?thesis
    using sec tls by (simp add: connect_exchange_def resolve_socket_addr_def resolve_tls_server_name_def demo_sockets_def demo_tls_lib_def)
qed

end
