(* ===== verification/Control.thy ===== *)
theory Control
  imports Envelope FileSys
begin

text \<open>
  The control files of \<open>runtime.rs\<close>: where they are, how they are written, and the commands that
  look at them. The environment variables, the faults of the file system, the entries a directory
  yields, what \<open>/proc\<close> shows at each look and what the \<open>kill\<close> program answers are arguments.
\<close>

section \<open>Constants and data\<close>

definition STOP_WAIT_MILLIS :: u64 where
  "STOP_WAIT_MILLIS = 3000"

definition STOP_POLL_MILLIS :: u64 where
  "STOP_POLL_MILLIS = 50"

definition CONTROL_ROOT_DIR :: string where
  "CONTROL_ROOT_DIR = ''ssh-key-sync''"

definition PID_FILE_NAME :: string where
  "PID_FILE_NAME = ''daemon.pid''"

definition STOP_FILE_NAME :: string where
  "STOP_FILE_NAME = ''daemon.stop''"

definition LOG_FILE_NAME :: string where
  "LOG_FILE_NAME = ''daemon.log''"

definition CURRENT_SID_FILE_NAME :: string where
  "CURRENT_SID_FILE_NAME = ''current_sid''"

lemmas control_names = CONTROL_ROOT_DIR_def PID_FILE_NAME_def STOP_FILE_NAME_def LOG_FILE_NAME_def
  CURRENT_SID_FILE_NAME_def

datatype DaemonStatus = Running u32 | Stopped | StalePidFile u32

text \<open>The variables \<open>XDG_RUNTIME_DIR\<close> and \<open>HOME\<close> as \<open>std::env::var(..).ok()\<close> gives them.\<close>

record control_env =
  xdg_runtime_dir :: "string option"
  home_dir :: "string option"

section \<open>Where the files are\<close>

definition file_char :: "char \<Rightarrow> bool" where
  "file_char ch \<longleftrightarrow> is_ascii_alphanumeric ch \<or> ch \<in> {CHR ''-'', CHR ''_'', CHR ''.''}"

definition sanitize_char :: "string \<Rightarrow> string" where
  "sanitize_char ch = (if length ch = 1 \<and> file_char (hd ch) then ch else ''_'')"

definition sanitize_for_file :: "string \<Rightarrow> string" where
  "sanitize_for_file value = concat (map sanitize_char (str_chars value))"

definition control_runtime_root_with_env :: "string option \<Rightarrow> string option \<Rightarrow> RuntimeError + pathbuf" where
  "control_runtime_root_with_env xdg home =
     (case Option.bind xdg (\<lambda>path. if str_trim path \<noteq> [] then Some path else None) of
        Some path \<Rightarrow> Inr (pathbuf_join path CONTROL_ROOT_DIR)
      | None \<Rightarrow>
        (case Option.bind home (\<lambda>path. if str_trim path \<noteq> [] then Some path else None) of
           Some path \<Rightarrow> Inr (pathbuf_join (pathbuf_join (pathbuf_join path ''.local'') ''run'') CONTROL_ROOT_DIR)
         | None \<Rightarrow> Inl MissingHomeDir))"

definition control_runtime_root_path :: "control_env \<Rightarrow> RuntimeError + pathbuf" where
  "control_runtime_root_path env = control_runtime_root_with_env (xdg_runtime_dir env) (home_dir env)"

definition control_runtime_dir_path_for_sid :: "control_env \<Rightarrow> string \<Rightarrow> RuntimeError + pathbuf" where
  "control_runtime_dir_path_for_sid env sid =
     and_then (control_runtime_root_path env) (\<lambda>root. Inr (pathbuf_join root (sanitize_for_file sid)))"

definition pid_file_path :: "control_env \<Rightarrow> string \<Rightarrow> RuntimeError + pathbuf" where
  "pid_file_path env sid =
     and_then (control_runtime_dir_path_for_sid env sid) (\<lambda>dir. Inr (pathbuf_join dir PID_FILE_NAME))"

definition stop_file_path :: "control_env \<Rightarrow> string \<Rightarrow> RuntimeError + pathbuf" where
  "stop_file_path env sid =
     and_then (control_runtime_dir_path_for_sid env sid) (\<lambda>dir. Inr (pathbuf_join dir STOP_FILE_NAME))"

definition log_file_path :: "control_env \<Rightarrow> string \<Rightarrow> RuntimeError + pathbuf" where
  "log_file_path env sid =
     and_then (control_runtime_dir_path_for_sid env sid) (\<lambda>dir. Inr (pathbuf_join dir LOG_FILE_NAME))"

definition current_sid_marker_path :: "control_env \<Rightarrow> RuntimeError + pathbuf" where
  "current_sid_marker_path env =
     and_then (control_runtime_root_path env) (\<lambda>root. Inr (pathbuf_join root CURRENT_SID_FILE_NAME))"

text \<open>A name the file system gave may be ill-formed; the other paths come from strings.\<close>

definition path_display :: "pathbuf \<Rightarrow> string" where
  "path_display path = utf8_lossy path"

section \<open>Writing them\<close>

definition ensure_private_dir :: "faults \<Rightarrow> pathbuf \<Rightarrow> (RuntimeError, unit) io" where
  "ensure_private_dir os path =
     io_bind (io_map_err (\<lambda>_. RuntimeDirectory (path_display path)) (fs_create_dir_all os (path_of path))) (\<lambda>_.
       io_map_err (\<lambda>_. RuntimeDirectory (path_display path)) (fs_set_permissions os (path_of path) mode_0700))"

definition open_control_file_append :: "faults \<Rightarrow> pathbuf \<Rightarrow> (RuntimeError, unit) io" where
  "open_control_file_append os path =
     io_bind (io_map_err (\<lambda>_. ControlFile (path_display path)) (fs_open_append os (path_of path) mode_0600)) (\<lambda>_.
       io_map_err (\<lambda>_. ControlFile (path_display path)) (fs_set_permissions os (path_of path) mode_0600))"

definition write_control_file :: "faults \<Rightarrow> pathbuf \<Rightarrow> string \<Rightarrow> (RuntimeError, unit) io" where
  "write_control_file os path content =
     io_bind (io_map_err (\<lambda>_. ControlFile (path_display path)) (fs_open_truncate os (path_of path) mode_0600)) (\<lambda>_.
     io_bind (io_map_err (\<lambda>_. ControlFile (path_display path)) (fs_write_all os (path_of path) content)) (\<lambda>_.
     io_bind (io_map_err (\<lambda>_. ControlFile (path_display path)) (fs_sync_all os (path_of path))) (\<lambda>_.
       io_map_err (\<lambda>_. ControlFile (path_display path)) (fs_set_permissions os (path_of path) mode_0600))))"

definition remove_control_file :: "faults \<Rightarrow> pathbuf \<Rightarrow> (RuntimeError, unit) io" where
  "remove_control_file os path = (\<lambda>s.
     if fs_exists os s (path_of path)
     then io_map_err (\<lambda>_. ControlFile (path_display path)) (fs_remove_file os (path_of path)) s
     else (Inr (), s))"

definition ensure_control_runtime_root :: "control_env \<Rightarrow> faults \<Rightarrow> (RuntimeError, pathbuf) io" where
  "ensure_control_runtime_root env os =
     io_bind (io_lift (control_runtime_root_path env)) (\<lambda>root.
     io_bind (ensure_private_dir os root) (\<lambda>_. io_return root))"

definition ensure_control_runtime_dir_for_sid ::
  "control_env \<Rightarrow> faults \<Rightarrow> string \<Rightarrow> (RuntimeError, pathbuf) io" where
  "ensure_control_runtime_dir_for_sid env os sid =
     io_bind (io_lift (control_runtime_dir_path_for_sid env sid)) (\<lambda>sid_dir.
     io_bind (ensure_control_runtime_root env os) (\<lambda>_.
     io_bind (ensure_private_dir os sid_dir) (\<lambda>_. io_return sid_dir)))"

definition open_daemon_log_file :: "control_env \<Rightarrow> faults \<Rightarrow> string \<Rightarrow> (RuntimeError, string) io" where
  "open_daemon_log_file env os sid =
     io_bind (ensure_control_runtime_dir_for_sid env os sid) (\<lambda>_.
     io_bind (io_lift (log_file_path env sid)) (\<lambda>path.
     io_bind (open_control_file_append os path) (\<lambda>_. io_return (path_display path))))"

definition daemon_log_file_path :: "control_env \<Rightarrow> string \<Rightarrow> RuntimeError + string" where
  "daemon_log_file_path env sid = and_then (log_file_path env sid) (\<lambda>path. Inr (path_display path))"

definition set_current_sid :: "control_env \<Rightarrow> faults \<Rightarrow> string \<Rightarrow> (RuntimeError, unit) io" where
  "set_current_sid env os sid =
     io_bind (ensure_control_runtime_root env os) (\<lambda>_.
     io_bind (io_lift (current_sid_marker_path env)) (\<lambda>marker_path.
       write_control_file os marker_path sid))"

section \<open>Which daemon is meant\<close>

fun discover_entries ::
  "faults \<Rightarrow> fs \<Rightarrow> pathbuf \<Rightarrow> (unit + string) list \<Rightarrow> string option \<Rightarrow> RuntimeError + string option" where
  "discover_entries os s root [] found_sid = Inr found_sid"
| "discover_entries os s root (Inl e # entries) found_sid = Inl (ControlFile (path_display root))"
| "discover_entries os s root (Inr name # entries) found_sid =
     (let path = pathbuf_join root name in
      if \<not> fs_is_dir os s (path_of path) then discover_entries os s root entries found_sid
      else let pid_path = pathbuf_join path PID_FILE_NAME in
      if \<not> fs_exists os s (path_of pid_path) then discover_entries os s root entries found_sid
      else case path_file_name (path_of path) of None \<Rightarrow> discover_entries os s root entries found_sid
        | Some name \<Rightarrow> let sid = utf8_lossy name in
          if found_sid \<noteq> None then Inr None
          else discover_entries os s root entries (Some sid))"

definition discover_sid_from_pid_files ::
  "control_env \<Rightarrow> faults \<Rightarrow> (unit + string) list \<Rightarrow> (RuntimeError, string option) io" where
  "discover_sid_from_pid_files env os listing =
     io_bind (io_lift (control_runtime_root_path env)) (\<lambda>root s.
       if \<not> fs_exists os s (path_of root) then (Inr None, s)
       else io_bind (io_map_err (\<lambda>_. ControlFile (path_display root)) (fs_read_dir os listing (path_of root)))
         (\<lambda>entries s. (discover_entries os s root entries None, s)) s)"

definition resolve_current_sid ::
  "control_env \<Rightarrow> faults \<Rightarrow> (unit + string) list \<Rightarrow> (RuntimeError, string option) io" where
  "resolve_current_sid env os listing =
     io_bind (io_lift (current_sid_marker_path env)) (\<lambda>marker_path s.
       if fs_exists os s (path_of marker_path) then
         io_bind (io_map_err (\<lambda>_. ControlFile (path_display marker_path)) (fs_read_to_string os (path_of marker_path)))
           (\<lambda>value. let sid = str_trim value in
             if sid \<noteq> [] then io_return (Some sid) else discover_sid_from_pid_files env os listing) s
       else discover_sid_from_pid_files env os listing s)"

section \<open>Status and stop\<close>

text \<open>One look at \<open>/proc\<close>: which of its paths exist.\<close>

definition process_exists :: "(string \<Rightarrow> bool) \<Rightarrow> u32 \<Rightarrow> bool" where
  "process_exists proc pid \<longleftrightarrow> proc (''/proc/'' @ show_word pid)"

definition status_daemon :: "control_env \<Rightarrow> faults \<Rightarrow> (string \<Rightarrow> bool) \<Rightarrow> string \<Rightarrow> (RuntimeError, DaemonStatus) io" where
  "status_daemon env os proc sid =
     io_bind (io_lift (pid_file_path env sid)) (\<lambda>pid_path s.
       if \<not> fs_exists os s (path_of pid_path) then (Inr Stopped, s)
       else io_bind (io_map_err (\<lambda>_. ControlFile (path_display pid_path)) (fs_read_to_string os (path_of pid_path))) (\<lambda>content.
         io_bind (io_lift (ok_or (parse_u32 (str_trim content)) (ControlFile (path_display pid_path)))) (\<lambda>pid.
           io_return (if process_exists proc pid then Running pid else StalePidFile pid))) s)"

text \<open>The loop of \<open>stop_daemon\<close>. Look number \<open>n\<close> at the process is \<open>alive n\<close>; the result is the
  number of the next look and the time waited.\<close>

function stop_wait :: "(nat \<Rightarrow> bool) \<Rightarrow> nat \<Rightarrow> u64 \<Rightarrow> nat \<times> u64" where
  "stop_wait alive n waited =
     (if alive n \<and> waited < STOP_WAIT_MILLIS
      then stop_wait alive (Suc n) (waited + STOP_POLL_MILLIS)
      else (Suc n, waited))"
  by pat_completeness auto
termination
proof (relation "measure (\<lambda>(alive, n, waited). 3000 - unat waited)")
  fix alive :: "nat \<Rightarrow> bool" and n and waited :: u64
  assume "alive n \<and> waited < STOP_WAIT_MILLIS"
  then have "unat waited < 3000"
    by (simp add: STOP_WAIT_MILLIS_def word_less_nat_alt)
  then have "unat (waited + 50) = unat waited + 50"
    by (simp add: unat_word_ariths)
  with \<open>unat waited < 3000\<close> show "((alive, Suc n, waited + STOP_POLL_MILLIS), alive, n, waited)
      \<in> measure (\<lambda>(alive, n, waited). 3000 - unat waited)"
    by (simp add: STOP_POLL_MILLIS_def)
qed simp

declare stop_wait.simps [simp del]

text \<open>Waiting for the process, then the signal: the result, the time waited and whether \<open>kill\<close>
  was run. \<open>kill\<close> is an error when it cannot be run, else whether it succeeded.\<close>

definition await_exit :: "(nat \<Rightarrow> bool) \<Rightarrow> unit + bool \<Rightarrow> u32 \<Rightarrow> (RuntimeError + unit) \<times> u64 \<times> bool" where
  "await_exit alive kill pid =
     (let (n, waited) = stop_wait alive 0 0 in
      if alive n then
        (and_then (map_err (\<lambda>_. KillProcess pid) kill) (\<lambda>success.
           if \<not> success then Inl (KillProcess pid) else Inr ()), waited, True)
      else (Inr (), waited, False))"

definition stop_daemon ::
  "control_env \<Rightarrow> faults \<Rightarrow> (nat \<Rightarrow> string \<Rightarrow> bool) \<Rightarrow> (u32 \<Rightarrow> unit + bool) \<Rightarrow> string \<Rightarrow> (RuntimeError, bool) io" where
  "stop_daemon env os procs kill sid =
     io_bind (status_daemon env os (procs 0) sid) (\<lambda>status.
       case status of
         Running pid \<Rightarrow>
           io_bind (ensure_control_runtime_dir_for_sid env os sid) (\<lambda>_.
           io_bind (io_lift (stop_file_path env sid)) (\<lambda>path.
           io_bind (write_control_file os path ''stop'') (\<lambda>_.
           io_bind (io_lift (fst (await_exit (\<lambda>n. process_exists (procs (Suc n)) pid) (kill pid) pid))) (\<lambda>_.
             io_return True))))
       | StalePidFile pid \<Rightarrow>
           io_bind (io_lift (pid_file_path env sid)) (\<lambda>pid_path.
           io_bind (remove_control_file os pid_path) (\<lambda>_.
           io_bind (io_lift (stop_file_path env sid)) (\<lambda>stop_path.
           io_bind (remove_control_file os stop_path) (\<lambda>_.
             io_return False))))
       | Stopped \<Rightarrow> io_return False)"

text \<open>What \<open>run_daemon\<close> does with these files before its loop and after it.\<close>

definition daemon_claim :: "control_env \<Rightarrow> faults \<Rightarrow> u32 \<Rightarrow> string \<Rightarrow> (RuntimeError, pathbuf \<times> pathbuf) io" where
  "daemon_claim env os pid sid =
     io_bind (ensure_control_runtime_dir_for_sid env os sid) (\<lambda>control_dir.
       let pid_path = pathbuf_join control_dir PID_FILE_NAME;
           stop_path = pathbuf_join control_dir STOP_FILE_NAME
       in io_bind (remove_control_file os stop_path) (\<lambda>_.
          io_bind (write_control_file os pid_path (show_word pid)) (\<lambda>_.
          io_bind (set_current_sid env os sid) (\<lambda>_.
            io_return (pid_path, stop_path)))))"

definition daemon_release :: "faults \<Rightarrow> pathbuf \<Rightarrow> pathbuf \<Rightarrow> fs \<Rightarrow> fs" where
  "daemon_release os pid_path stop_path s =
     (let s = (if fs_exists os s (path_of pid_path) then snd (fs_remove_file os (path_of pid_path) s) else s)
      in if fs_exists os s (path_of stop_path) then snd (fs_remove_file os (path_of stop_path) s) else s)"

section \<open>The paths\<close>

lemma is_ascii_of_char: "(of_char c :: nat) < 128 \<Longrightarrow> is_ascii c"
  by (cases c) (auto simp: of_bool_def split: if_splits)

lemma file_char_facts: "file_char c \<Longrightarrow> is_ascii c \<and> c \<noteq> CHR ''/'' \<and> \<not> is_whitespace [c]"
proof -
  assume "file_char c"
  then have "44 < (of_char c :: nat) \<and> of_char c < (128 :: nat) \<and> of_char c \<noteq> (47 :: nat)"
    by (auto simp: file_char_def is_ascii_alphanumeric_def Let_def)
  then show ?thesis
    by (auto intro: is_ascii_of_char simp: is_whitespace_def white_space_def)
qed

lemma str_chars_all_ascii: "\<forall>c\<in>set s. is_ascii c \<Longrightarrow> str_chars s = map (\<lambda>c. [c]) s"
  by (induction s) auto

lemma sanitize_chars: "c \<in> set (sanitize_for_file sid) \<Longrightarrow> file_char c"
proof -
  have "file_char (CHR ''_'')"
    by (simp add: file_char_def)
  moreover assume "c \<in> set (sanitize_for_file sid)"
  then obtain ch where "c \<in> set (sanitize_char ch)"
    by (auto simp: sanitize_for_file_def)
  ultimately show ?thesis
    by (cases ch) (auto simp: sanitize_char_def split: if_splits)
qed

lemma sanitize_fixed:
  assumes "\<forall>c\<in>set name. file_char c"
  shows "sanitize_for_file name = name"
proof -
  have "str_chars name = map (\<lambda>c. [c]) name"
    using assms file_char_facts by (intro str_chars_all_ascii) blast
  moreover have "concat (map (sanitize_char \<circ> (\<lambda>c. [c])) name) = name"
    using assms by (induction name) (auto simp: sanitize_char_def)
  ultimately show ?thesis
    by (simp add: sanitize_for_file_def)
qed

lemma sanitize_idem [simp]: "sanitize_for_file (sanitize_for_file sid) = sanitize_for_file sid"
  using sanitize_chars by (intro sanitize_fixed) blast

text \<open>The names that are a directory of their own under the control root.\<close>

definition sid_ok :: "string \<Rightarrow> bool" where
  "sid_ok sid \<longleftrightarrow> sanitize_for_file sid \<notin> {[], ''.'', ''..'', CURRENT_SID_FILE_NAME}"

definition path_under :: "path \<Rightarrow> string list \<Rightarrow> path" where
  "path_under root names = root\<lparr>components := components root @ names\<rparr>"

lemma path_of_child:
  assumes "CHR ''/'' \<notin> set n" and "n \<noteq> []" and "n \<noteq> ''.''" and "components (path_of p) \<noteq> []"
  shows "path_of (pathbuf_join p n) = path_under (path_of p) [n]"
  using assms by (simp add: path_of_join path_join_def path_of_name path_under_def)

lemma path_under_under [simp]: "path_under (path_under p xs) ys = path_under p (xs @ ys)"
  by (simp add: path_under_def)

lemma path_under_components [simp]: "components (path_under p xs) = components p @ xs"
  by (simp add: path_under_def)

lemma path_under_inject [simp]: "path_under p xs = path_under p ys \<longleftrightarrow> xs = ys"
  by (auto simp: path_under_def dest: arg_cong [where f = components])

lemma path_under_self [simp]: "path_under p xs = p \<longleftrightarrow> xs = []" "p = path_under p xs \<longleftrightarrow> xs = []"
  by (auto simp: path_under_def dest: arg_cong [where f = components])

lemma root_components:
  assumes "control_runtime_root_path env = Inr root"
  shows "components (path_of root) \<noteq> []"
proof -
  have "components (path_of (pathbuf_join p CONTROL_ROOT_DIR)) \<noteq> []" for p
    by (simp add: path_of_join path_join_name control_names)
  with assms show ?thesis
    by (auto simp: control_runtime_root_path_def control_runtime_root_with_env_def bind_eq_Some_conv
        split: option.splits if_splits)
qed

lemma control_paths:
  assumes "control_runtime_root_path env = Inr root" and "sid_ok sid"
  shows "\<exists>dir. control_runtime_dir_path_for_sid env sid = Inr dir
      \<and> path_of dir = path_under (path_of root) [sanitize_for_file sid]"
    and "\<exists>p. pid_file_path env sid = Inr p \<and> path_of p = path_under (path_of root) [sanitize_for_file sid, PID_FILE_NAME]"
    and "\<exists>p. stop_file_path env sid = Inr p \<and> path_of p = path_under (path_of root) [sanitize_for_file sid, STOP_FILE_NAME]"
    and "\<exists>p. log_file_path env sid = Inr p \<and> path_of p = path_under (path_of root) [sanitize_for_file sid, LOG_FILE_NAME]"
    and "\<exists>p. current_sid_marker_path env = Inr p \<and> path_of p = path_under (path_of root) [CURRENT_SID_FILE_NAME]"
proof -
  have "CHR ''/'' \<notin> set (sanitize_for_file sid)"
    using sanitize_chars file_char_facts by blast
  then have dir: "path_of (pathbuf_join root (sanitize_for_file sid)) = path_under (path_of root) [sanitize_for_file sid]"
    using assms root_components by (intro path_of_child) (auto simp: sid_ok_def)
  have names: "CHR ''/'' \<notin> set n" "n \<noteq> []" "n \<noteq> ''.''"
    if "n \<in> {PID_FILE_NAME, STOP_FILE_NAME, LOG_FILE_NAME, CURRENT_SID_FILE_NAME}" for n
    using that by (auto simp: control_names)
  have "path_of (pathbuf_join (pathbuf_join root (sanitize_for_file sid)) n) = path_under (path_of root) [sanitize_for_file sid, n]"
    if "n \<in> {PID_FILE_NAME, STOP_FILE_NAME, LOG_FILE_NAME, CURRENT_SID_FILE_NAME}" for n
    using path_of_child [OF names [OF that]] dir by simp
  moreover have "path_of (pathbuf_join root CURRENT_SID_FILE_NAME) = path_under (path_of root) [CURRENT_SID_FILE_NAME]"
    using names root_components [OF assms(1)] by (intro path_of_child) auto
  ultimately show "\<exists>dir. control_runtime_dir_path_for_sid env sid = Inr dir
      \<and> path_of dir = path_under (path_of root) [sanitize_for_file sid]"
    and "\<exists>p. pid_file_path env sid = Inr p \<and> path_of p = path_under (path_of root) [sanitize_for_file sid, PID_FILE_NAME]"
    and "\<exists>p. stop_file_path env sid = Inr p \<and> path_of p = path_under (path_of root) [sanitize_for_file sid, STOP_FILE_NAME]"
    and "\<exists>p. log_file_path env sid = Inr p \<and> path_of p = path_under (path_of root) [sanitize_for_file sid, LOG_FILE_NAME]"
    and "\<exists>p. current_sid_marker_path env = Inr p \<and> path_of p = path_under (path_of root) [CURRENT_SID_FILE_NAME]"
    using assms(1) dir
    by (simp_all add: control_runtime_dir_path_for_sid_def pid_file_path_def stop_file_path_def log_file_path_def
        current_sid_marker_path_def)
qed

section \<open>Privacy\<close>

text \<open>A mode without any bit for the group or for others.\<close>

definition owner_only :: "nat option \<Rightarrow> bool" where
  "owner_only m \<longleftrightarrow> (case m of None \<Rightarrow> False | Some bits \<Rightarrow> bits mod 64 = 0)"

definition below :: "path \<Rightarrow> path \<Rightarrow> bool" where
  "below root p \<longleftrightarrow> (\<exists>c cs. p = path_under root (c # cs))"

text \<open>The typing of the file system: files under the control root are closed to others, and the root
  itself is closed as soon as there is anything in it. \<open>shut\<close> is what holds once the root exists.\<close>

definition files_private :: "path \<Rightarrow> fs \<Rightarrow> bool" where
  "files_private root s \<longleftrightarrow> (\<forall>p. below root p \<and> files s p \<noteq> None \<longrightarrow> owner_only (modes s p))"

definition private_tree :: "path \<Rightarrow> fs \<Rightarrow> bool" where
  "private_tree root s \<longleftrightarrow> files_private root s
     \<and> ((\<exists>p. below root p \<and> (files s p \<noteq> None \<or> p \<in> dirs s)) \<longrightarrow> owner_only (modes s root))"

definition shut :: "path \<Rightarrow> fs \<Rightarrow> bool" where
  "shut root s \<longleftrightarrow> files_private root s \<and> owner_only (modes s root)"

lemma shut_private: "shut root s \<Longrightarrow> private_tree root s"
  by (simp add: shut_def private_tree_def)

lemma owner_only_Some [simp]: "owner_only (Some bits) \<longleftrightarrow> bits mod 64 = 0"
  by (simp add: owner_only_def)

lemma below_self [simp]: "\<not> below root root"
  by (simp add: below_def)

lemma below_under [simp]: "below root (path_under root xs) \<longleftrightarrow> xs \<noteq> []"
  by (auto simp: below_def neq_Nil_conv)

lemma ancestors_not_below: "q \<in> path_ancestors root \<Longrightarrow> \<not> below root q"
  by (auto simp: path_ancestors_def below_def path_under_def dest!: arg_cong [where f = "\<lambda>p. length (components p)"])

lemma ancestors_under: "path_ancestors p \<subseteq> path_ancestors (path_under p xs)"
proof
  fix q
  assume "q \<in> path_ancestors p"
  then obtain n where "n \<le> length (components p)" and "q = p\<lparr>components := take n (components p)\<rparr>"
    unfolding path_ancestors_iff by blast
  then show "q \<in> path_ancestors (path_under p xs)"
    unfolding path_ancestors_iff by (intro exI [of _ n]) (simp add: path_under_def)
qed

lemma under_not_ancestor: "xs \<noteq> [] \<Longrightarrow> path_under p xs \<notin> path_ancestors p"
  using ancestors_not_below by fastforce

lemmas private_defs = private_tree_def shut_def files_private_def

lemma private_create: "io_spec (private_tree r) (fs_create_dir_all os r) (\<lambda>_. private_tree r) (private_tree r)"
  using ancestors_not_below [of _ r] by (auto simp: io_spec_def fs_ops private_defs)

lemma shut_root: "io_spec (private_tree r) (fs_set_permissions os r mode_0700) (\<lambda>_. shut r) (private_tree r)"
  by (auto simp: io_spec_def fs_ops private_defs)

lemma shut_ops:
  assumes "below r p"
  shows "io_spec (shut r) (fs_create_dir_all os p) (\<lambda>_. shut r) (private_tree r)"
    and "io_spec (shut r) (fs_set_permissions os p mode_0700) (\<lambda>_. shut r) (private_tree r)"
    and "io_spec (shut r) (fs_set_permissions os p mode_0600) (\<lambda>_. shut r) (private_tree r)"
    and "io_spec (shut r) (fs_open_append os p mode_0600) (\<lambda>_. shut r) (private_tree r)"
    and "io_spec (shut r) (fs_open_truncate os p mode_0600) (\<lambda>_ s. shut r s \<and> files s p \<noteq> None) (private_tree r)"
    and "io_spec (\<lambda>s. shut r s \<and> files s p \<noteq> None) (fs_write_all os p c) (\<lambda>_. shut r) (private_tree r)"
    and "io_spec (shut r) (fs_sync_all os p) (\<lambda>_. shut r) (private_tree r)"
  using assms by (auto simp: io_spec_def fs_ops private_defs)

lemma shut_ensure_dir: "below r (path_of d) \<Longrightarrow>
    io_spec (shut r) (ensure_private_dir os d) (\<lambda>_. shut r) (private_tree r)"
  unfolding ensure_private_dir_def by (intro io_rules) (rule shut_ops; assumption)+

lemma shut_ensure_root:
  "io_spec (private_tree (path_of root)) (ensure_private_dir os root) (\<lambda>_. shut (path_of root)) (private_tree (path_of root))"
  unfolding ensure_private_dir_def by (intro io_rules) (rule private_create shut_root)+

lemma shut_append: "below r (path_of p) \<Longrightarrow>
    io_spec (shut r) (open_control_file_append os p) (\<lambda>_. shut r) (private_tree r)"
  unfolding open_control_file_append_def by (intro io_rules) (rule shut_ops; assumption)+

lemma shut_write: "below r (path_of p) \<Longrightarrow>
    io_spec (shut r) (write_control_file os p c) (\<lambda>_. shut r) (private_tree r)"
  unfolding write_control_file_def by (intro io_rules) (rule shut_ops; assumption)+

lemma remove_keeps:
  assumes "r \<noteq> path_of p"
  shows "io_spec (private_tree r) (remove_control_file os p) (\<lambda>_. private_tree r) (private_tree r)"
    and "io_spec (shut r) (remove_control_file os p) (\<lambda>_. shut r) (private_tree r)"
  using assms by (auto simp: io_spec_def remove_control_file_def fs_ops private_defs)

lemma shut_ensure_control_root:
  assumes "control_runtime_root_path env = Inr root"
  shows "io_spec (private_tree (path_of root)) (ensure_control_runtime_root env os)
    (\<lambda>_. shut (path_of root)) (private_tree (path_of root))"
  unfolding ensure_control_runtime_root_def
  by (simp add: assms) (rule io_spec_bind [OF shut_ensure_root], rule io_rules)

lemma shut_ensure_control_dir:
  assumes "control_runtime_root_path env = Inr root" and "sid_ok sid"
  shows "io_spec (private_tree (path_of root)) (ensure_control_runtime_dir_for_sid env os sid)
    (\<lambda>dir s. shut (path_of root) s \<and> control_runtime_dir_path_for_sid env sid = Inr dir) (private_tree (path_of root))"
proof -
  obtain dir where dir: "control_runtime_dir_path_for_sid env sid = Inr dir"
      "path_of dir = path_under (path_of root) [sanitize_for_file sid]"
    using control_paths(1) [OF assms] by blast
  have "io_spec (shut (path_of root)) (ensure_private_dir os dir) (\<lambda>_. shut (path_of root)) (private_tree (path_of root))"
    using dir(2) by (intro shut_ensure_dir) simp
  then have "io_spec (shut (path_of root)) (io_bind (ensure_private_dir os dir) (\<lambda>_. io_return dir))
      (\<lambda>d s. shut (path_of root) s \<and> Inr dir = (Inr d :: RuntimeError + pathbuf)) (private_tree (path_of root))"
    by (rule io_spec_bind) (rule io_rules, simp)
  then show ?thesis
    unfolding ensure_control_runtime_dir_for_sid_def dir(1) io_bind_lift_known
    by (rule io_spec_bind [OF shut_ensure_control_root [OF assms(1)]])
qed

lemma shut_set_current_sid:
  assumes "control_runtime_root_path env = Inr root" and "sid_ok sid"
  shows "io_spec (private_tree (path_of root)) (set_current_sid env os sid)
    (\<lambda>_. shut (path_of root)) (private_tree (path_of root))"
proof -
  obtain p where p: "current_sid_marker_path env = Inr p" "path_of p = path_under (path_of root) [CURRENT_SID_FILE_NAME]"
    using control_paths(5) [OF assms] by blast
  have "io_spec (shut (path_of root)) (write_control_file os p sid) (\<lambda>_. shut (path_of root)) (private_tree (path_of root))"
    using p(2) by (intro shut_write) simp
  then show ?thesis
    unfolding set_current_sid_def p(1) io_bind_lift_known
    by (rule io_spec_bind [OF shut_ensure_control_root [OF assms(1)]])
qed

lemma status_reads_only [simp]: "snd (status_daemon env os proc sid s) = s"
  by (auto simp: status_daemon_def io_bind_snd io_lift_def io_return_def split: sum.splits)

lemma io_spec_read: "(\<And>s. snd (m s) = s) \<Longrightarrow> io_spec P m (\<lambda>_. P) P"
  by (auto simp: io_spec_def split: sum.splits)

lemma private_stop:
  assumes "control_runtime_root_path env = Inr root" and "sid_ok sid"
  shows "io_spec (private_tree (path_of root)) (stop_daemon env os procs kill sid)
    (\<lambda>_. private_tree (path_of root)) (private_tree (path_of root))"
proof -
  let ?T = "private_tree (path_of root)" and ?S = "shut (path_of root)"
  obtain p q where p: "pid_file_path env sid = Inr p" "path_of p = path_under (path_of root) [sanitize_for_file sid, PID_FILE_NAME]"
    and q: "stop_file_path env sid = Inr q" "path_of q = path_under (path_of root) [sanitize_for_file sid, STOP_FILE_NAME]"
    using control_paths(2,3) [OF assms] by blast
  have wait: "io_spec ?S (io_bind (io_lift r) (\<lambda>_. io_return True)) (\<lambda>_. ?T) ?T" for r :: "RuntimeError + unit"
    by (intro io_rules) (auto intro: shut_private)
  have "io_spec ?S (write_control_file os q ''stop'') (\<lambda>_. ?S) ?T"
    using q(2) by (intro shut_write) simp
  then have running: "io_spec ?T (io_bind (ensure_control_runtime_dir_for_sid env os sid) (\<lambda>_.
      io_bind (io_lift (stop_file_path env sid)) (\<lambda>path. io_bind (write_control_file os path ''stop'') (\<lambda>_.
      io_bind (io_lift r) (\<lambda>_. io_return True))))) (\<lambda>_. ?T) ?T" for r :: "RuntimeError + unit"
    unfolding q(1) io_bind_lift_known
    by (intro io_spec_bind [OF io_spec_conseq [OF shut_ensure_control_dir [OF assms]]] io_spec_bind [OF _ wait]) auto
  have stale: "io_spec ?T (io_bind (io_lift (pid_file_path env sid)) (\<lambda>pid_path.
      io_bind (remove_control_file os pid_path) (\<lambda>_. io_bind (io_lift (stop_file_path env sid)) (\<lambda>stop_path.
      io_bind (remove_control_file os stop_path) (\<lambda>_. io_return False))))) (\<lambda>_. ?T) ?T"
    unfolding p(1) q(1) io_bind_lift_known
    by (intro io_spec_bind [OF remove_keeps(1)] io_spec_return) (simp_all add: p(2) q(2))
  show ?thesis
    unfolding stop_daemon_def
  proof (rule io_spec_bind [OF io_spec_read])
    show "io_spec ?T (case status of Running pid \<Rightarrow>
           io_bind (ensure_control_runtime_dir_for_sid env os sid) (\<lambda>_.
           io_bind (io_lift (stop_file_path env sid)) (\<lambda>path.
           io_bind (write_control_file os path ''stop'') (\<lambda>_.
           io_bind (io_lift (fst (await_exit (\<lambda>n. process_exists (procs (Suc n)) pid) (kill pid) pid))) (\<lambda>_.
             io_return True))))
       | Stopped \<Rightarrow> io_return False
       | StalePidFile pid \<Rightarrow>
           io_bind (io_lift (pid_file_path env sid)) (\<lambda>pid_path.
           io_bind (remove_control_file os pid_path) (\<lambda>_.
           io_bind (io_lift (stop_file_path env sid)) (\<lambda>stop_path.
           io_bind (remove_control_file os stop_path) (\<lambda>_.
             io_return False))))) (\<lambda>_. ?T) ?T" for status
      using running stale by (cases status) (auto intro: io_rules)
  qed simp
qed

lemma private_log:
  assumes "control_runtime_root_path env = Inr root" and "sid_ok sid"
  shows "io_spec (private_tree (path_of root)) (open_daemon_log_file env os sid)
    (\<lambda>_. private_tree (path_of root)) (private_tree (path_of root))"
proof -
  obtain p where p: "log_file_path env sid = Inr p" "path_of p = path_under (path_of root) [sanitize_for_file sid, LOG_FILE_NAME]"
    using control_paths(4) [OF assms] by blast
  have "io_spec (shut (path_of root)) (io_bind (open_control_file_append os p) (\<lambda>_. io_return (path_display p)))
      (\<lambda>_. private_tree (path_of root)) (private_tree (path_of root))"
    using p(2) by (intro io_spec_bind [OF shut_append] io_spec_return) (auto intro: shut_private)
  then show ?thesis
    unfolding open_daemon_log_file_def p(1) io_bind_lift_known
    by (intro io_spec_bind [OF io_spec_conseq [OF shut_ensure_control_dir [OF assms]]]) auto
qed

lemma private_claim:
  assumes "control_runtime_root_path env = Inr root" and "sid_ok sid"
  shows "io_spec (private_tree (path_of root)) (daemon_claim env os pid sid)
    (\<lambda>_. private_tree (path_of root)) (private_tree (path_of root))"
proof -
  let ?T = "private_tree (path_of root)" and ?S = "shut (path_of root)"
  obtain p q dir where p: "pid_file_path env sid = Inr p" "path_of p = path_under (path_of root) [sanitize_for_file sid, PID_FILE_NAME]"
    and q: "stop_file_path env sid = Inr q" "path_of q = path_under (path_of root) [sanitize_for_file sid, STOP_FILE_NAME]"
    and dir: "control_runtime_dir_path_for_sid env sid = Inr dir"
    using control_paths(1-3) [OF assms] by blast
  then have pq: "pathbuf_join dir PID_FILE_NAME = p" "pathbuf_join dir STOP_FILE_NAME = q"
    by (simp_all add: pid_file_path_def stop_file_path_def)
  have "io_spec ?T (io_bind (set_current_sid env os sid) (\<lambda>_. io_return v)) (\<lambda>_. ?T) ?T" for v :: "pathbuf \<times> pathbuf"
    by (intro io_spec_bind [OF shut_set_current_sid [OF assms]] io_spec_return) (rule shut_private)
  then have "io_spec ?S (io_bind (set_current_sid env os sid) (\<lambda>_. io_return (p, q))) (\<lambda>_. ?T) ?T"
    by (rule io_spec_conseq) (rule shut_private)
  then have "io_spec ?S (io_bind (remove_control_file os q) (\<lambda>_. io_bind (write_control_file os p (show_word pid)) (\<lambda>_.
      io_bind (set_current_sid env os sid) (\<lambda>_. io_return (p, q))))) (\<lambda>_. ?T) ?T"
    using p(2) q(2)
    by (intro io_spec_bind [OF remove_keeps(2)] io_spec_bind [OF shut_write]) auto
  then have "io_spec (\<lambda>s. ?S s \<and> Inr dir = (Inr d :: RuntimeError + pathbuf))
      (let pid_path = pathbuf_join d PID_FILE_NAME; stop_path = pathbuf_join d STOP_FILE_NAME
       in io_bind (remove_control_file os stop_path) (\<lambda>_. io_bind (write_control_file os pid_path (show_word pid)) (\<lambda>_.
          io_bind (set_current_sid env os sid) (\<lambda>_. io_return (pid_path, stop_path))))) (\<lambda>_. ?T) ?T" for d
    by (cases "d = dir") (auto simp: pq io_spec_def)
  then show ?thesis
    unfolding daemon_claim_def using shut_ensure_control_dir [OF assms, of os]
    by (intro io_spec_bind) (auto simp: dir)
qed

lemma private_release:
  assumes "private_tree r s" and "r \<noteq> path_of p" and "r \<noteq> path_of q"
  shows "private_tree r (daemon_release os p q s)"
  using assms by (auto simp: daemon_release_def fs_ops private_defs Let_def)

section \<open>What the operations leave\<close>

lemma ensure_files_same [simp]:
  "files (snd (ensure_private_dir os d s)) = files s"
  "files (snd (ensure_control_runtime_root env os s)) = files s"
  "files (snd (ensure_control_runtime_dir_for_sid env os sid s)) = files s"
proof -
  show *: "files (snd (ensure_private_dir os d s)) = files s" for d s
    by (auto simp: ensure_private_dir_def io_bind_snd split: sum.splits)
  show **: "files (snd (ensure_control_runtime_root env os s)) = files s" for s
    by (auto simp: ensure_control_runtime_root_def io_bind_snd io_lift_def io_return_def * split: sum.splits)
  show "files (snd (ensure_control_runtime_dir_for_sid env os sid s)) = files s"
    by (auto simp: ensure_control_runtime_dir_for_sid_def io_bind_snd io_lift_def io_return_def * ** split: sum.splits)
qed

lemma io_bind_Inr:
  "io_bind m f s = (Inr v, s') \<longleftrightarrow> (\<exists>u t. m s = (Inr u, t) \<and> f u t = (Inr v, s'))"
  by (auto simp: io_bind_def split: prod.splits sum.splits)

lemma io_map_err_Inr [simp]: "io_map_err g m s = (Inr v, s') \<longleftrightarrow> m s = (Inr v, s')"
  by (auto simp: io_map_err_def split: prod.splits)

lemma io_lift_Inr [simp]: "io_lift r s = (Inr v, s') \<longleftrightarrow> r = Inr v \<and> s' = s"
  by (auto simp: io_lift_def)

lemma io_return_Inr [simp]: "io_return u s = (Inr v, s') \<longleftrightarrow> u = v \<and> s' = s"
  by (auto simp: io_return_def)

lemma write_control_file_Inr:
  assumes "write_control_file os p c s = (Inr v, s')"
  shows "files s' = (files s)(path_of p \<mapsto> c)" and "modes s' (path_of p) = Some mode_0600"
    and "dirs s' = dirs s" and "path_of p \<notin> dirs s"
  using assms by (auto simp: write_control_file_def io_bind_Inr) (auto simp: fs_ops split: if_splits)

lemma remove_control_file_Inr:
  assumes "remove_control_file os p s = (Inr v, s')"
  shows "files s' = (files s)(path_of p := if fails os (Stat (path_of p)) then files s (path_of p) else None)"
    and "dirs s' = dirs s"
  using assms by (auto simp: remove_control_file_def fs_ops fs_exists_def there_def fun_eq_iff split: if_splits)

lemma ensure_Inr:
  assumes "ensure_control_runtime_dir_for_sid env os sid s = (Inr d, t)"
  shows "files t = files s" and "control_runtime_dir_path_for_sid env sid = Inr d"
proof -
  show "files t = files s"
    using ensure_files_same(3) [of env os sid s] assms by simp
  show "control_runtime_dir_path_for_sid env sid = Inr d"
    using assms by (auto simp: ensure_control_runtime_dir_for_sid_def io_bind_Inr)
qed

lemma set_current_sid_Inr:
  assumes "set_current_sid env os sid s = (Inr v, s')" and "current_sid_marker_path env = Inr m"
  shows "files s' = (files s)(path_of m \<mapsto> sid)" and "path_of m \<notin> dirs s'"
proof -
  obtain r t where "ensure_control_runtime_root env os s = (Inr r, t)" and w: "write_control_file os m sid t = (Inr v, s')"
    using assms by (auto simp: set_current_sid_def io_bind_Inr)
  moreover from this(1) have "files t = files s"
    by (metis ensure_files_same(2) snd_conv)
  ultimately show "files s' = (files s)(path_of m \<mapsto> sid)" and "path_of m \<notin> dirs s'"
    using write_control_file_Inr [OF w] by simp_all
qed

lemma ensure_root_dirs: "below (path_of root) x \<Longrightarrow> control_runtime_root_path env = Inr root \<Longrightarrow>
    x \<in> dirs (snd (ensure_control_runtime_root env os s)) \<longleftrightarrow> x \<in> dirs s"
  using ancestors_not_below [of x "path_of root"]
  by (auto simp: ensure_control_runtime_root_def ensure_private_dir_def fs_ops)

lemma set_current_sid_dirs:
  assumes "set_current_sid env os sid s = (Inr v, s')" and "control_runtime_root_path env = Inr root" and "below (path_of root) x"
  shows "x \<in> dirs s' \<longleftrightarrow> x \<in> dirs s"
proof -
  obtain r t m where t: "ensure_control_runtime_root env os s = (Inr r, t)" and w: "write_control_file os m sid t = (Inr v, s')"
    using assms(1) by (auto simp: set_current_sid_def io_bind_Inr)
  show ?thesis
    using ensure_root_dirs [OF assms(3,2), of os s] t write_control_file_Inr(3) [OF w] by simp
qed

lemma ensure_dirs:
  assumes "control_runtime_root_path env = Inr root" and "sid_ok sid"
    and "x \<notin> path_ancestors (path_under (path_of root) [sanitize_for_file sid])"
  shows "x \<in> dirs (snd (ensure_control_runtime_dir_for_sid env os sid s)) \<longleftrightarrow> x \<in> dirs s"
proof -
  obtain dir where dir: "control_runtime_dir_path_for_sid env sid = Inr dir"
      "path_of dir = path_under (path_of root) [sanitize_for_file sid]"
    using control_paths(1) [OF assms(1,2)] by blast
  have "x \<notin> path_ancestors (path_of root)"
    using assms(3) ancestors_under by blast
  with assms(1,3) dir show ?thesis
    by (auto simp: ensure_control_runtime_dir_for_sid_def ensure_control_runtime_root_def ensure_private_dir_def
        io_bind_snd fs_create_dir_all_def fs_set_permissions_def io_return_def split: sum.splits if_splits)
qed

text \<open>A daemon that took its control files.\<close>

lemma daemon_claim_Inr:
  assumes "control_runtime_root_path env = Inr root" and "sid_ok sid"
    and "daemon_claim env os pid sid s = (Inr (p, q), s')"
  shows "pid_file_path env sid = Inr p" and "stop_file_path env sid = Inr q"
    and "files s' = (files s)(path_of q := if fails os (Stat (path_of q)) then files s (path_of q) else None,
      path_of p \<mapsto> show_word pid, path_under (path_of root) [CURRENT_SID_FILE_NAME] \<mapsto> sid)"
    and "path_under (path_of root) [CURRENT_SID_FILE_NAME] \<notin> dirs s'" and "path_of p \<notin> dirs s'"
proof -
  obtain d t1 t2 t3 where d: "ensure_control_runtime_dir_for_sid env os sid s = (Inr d, t1)"
    and pq: "p = pathbuf_join d PID_FILE_NAME" "q = pathbuf_join d STOP_FILE_NAME"
    and r: "remove_control_file os q t1 = (Inr (), t2)" and w: "write_control_file os p (show_word pid) t2 = (Inr (), t3)"
    and m: "set_current_sid env os sid t3 = (Inr (), s')"
    using assms(3) by (auto simp: daemon_claim_def io_bind_Inr Let_def)
  from ensure_Inr [OF d] pq show "pid_file_path env sid = Inr p" and "stop_file_path env sid = Inr q"
    by (simp_all add: pid_file_path_def stop_file_path_def)
  obtain k where k: "current_sid_marker_path env = Inr k" "path_of k = path_under (path_of root) [CURRENT_SID_FILE_NAME]"
    using control_paths(5) [OF assms(1,2)] by blast
  from ensure_Inr(1) [OF d] remove_control_file_Inr(1) [OF r] write_control_file_Inr(1) [OF w]
    set_current_sid_Inr [OF m k(1)] k(2)
  show "files s' = (files s)(path_of q := if fails os (Stat (path_of q)) then files s (path_of q) else None,
      path_of p \<mapsto> show_word pid, path_under (path_of root) [CURRENT_SID_FILE_NAME] \<mapsto> sid)"
    and "path_under (path_of root) [CURRENT_SID_FILE_NAME] \<notin> dirs s'"
    by simp_all
  have "below (path_of root) (path_of p)"
    using control_paths(2) [OF assms(1,2)] \<open>pid_file_path env sid = Inr p\<close> by auto
  then show "path_of p \<notin> dirs s'"
    using set_current_sid_dirs [OF m assms(1)] write_control_file_Inr(3,4) [OF w] by simp
qed

text \<open>Files outside the control root stay as they are, also when a call fails.\<close>

lemma write_frame: "x \<noteq> path_of p \<Longrightarrow> files (snd (write_control_file os p c s)) x = files s x"
  by (auto simp: write_control_file_def io_bind_snd fs_open_truncate_def fs_write_all_def split: sum.splits)

lemma remove_frame: "x \<noteq> path_of p \<Longrightarrow> files (snd (remove_control_file os p s)) x = files s x"
  by (auto simp: remove_control_file_def fs_remove_file_def)

lemma claim_frame:
  assumes "control_runtime_root_path env = Inr root" and "sid_ok sid" and "\<not> below (path_of root) x"
  shows "files (snd (daemon_claim env os pid sid s)) x = files s x"
proof -
  obtain dir p q m where dir: "control_runtime_dir_path_for_sid env sid = Inr dir"
    and p: "pid_file_path env sid = Inr p" "below (path_of root) (path_of p)"
    and q: "stop_file_path env sid = Inr q" "below (path_of root) (path_of q)"
    and m: "current_sid_marker_path env = Inr m" "below (path_of root) (path_of m)"
    using control_paths [OF assms(1,2)] by auto
  then have pq: "pathbuf_join dir PID_FILE_NAME = p" "pathbuf_join dir STOP_FILE_NAME = q"
    by (simp_all add: pid_file_path_def stop_file_path_def)
  from assms(3) p q m have neq: "x \<noteq> path_of p" "x \<noteq> path_of q" "x \<noteq> path_of m"
    by auto
  have mark: "files (snd (set_current_sid env os sid t)) x = files t x" for t
    using write_frame [OF neq(3)]
    by (simp add: set_current_sid_def m(1) io_bind_snd split: sum.split)
  have "files (snd (io_bind (remove_control_file os q) (\<lambda>_. io_bind (write_control_file os p (show_word pid)) (\<lambda>_.
      io_bind (set_current_sid env os sid) (\<lambda>_. io_return (p, q)))) t)) x = files t x" for t
    using write_frame [OF neq(1)] remove_frame [OF neq(2)] mark by (simp add: io_bind_snd io_return_def split: sum.split)
  moreover have "d = dir" if "ensure_control_runtime_dir_for_sid env os sid s = (Inr d, t)" for d t
    using ensure_Inr(2) [OF that] dir by simp
  ultimately show ?thesis
    using ensure_files_same(3) [of env os sid s]
    by (cases "ensure_control_runtime_dir_for_sid env os sid s")
      (auto simp: daemon_claim_def io_bind_def [of "ensure_control_runtime_dir_for_sid _ _ _"] pq Let_def split: sum.split)
qed

text \<open>What a reader of the pid file sees.\<close>

lemma status_of_pid_file:
  assumes "pid_file_path env sid = Inr p" and "files s (path_of p) = Some (show_word pid)"
    and "\<not> fails os (Stat (path_of p))" and "\<not> fails os (ReadToString (path_of p))"
  shows "status_daemon env os proc sid s
    = (Inr (if process_exists proc pid then Running pid else StalePidFile pid), s)"
  unfolding status_daemon_def assms(1) io_bind_lift_known
  using assms(2-4) by (simp add: fs_exists_def there_def io_bind_read fs_read_to_string_def io_return_def)

lemma status_stopped:
  "pid_file_path env sid = Inr p \<Longrightarrow> \<not> fs_exists os s (path_of p) \<Longrightarrow> status_daemon env os proc sid s = (Inr Stopped, s)"
  by (simp add: status_daemon_def)

section \<open>When nothing fails\<close>

lemma write_succeeds:
  assumes "\<forall>c. \<not> fails os c" and "path_of p \<notin> dirs s"
  shows "\<exists>s'. write_control_file os p c s = (Inr (), s') \<and> files s' = (files s)(path_of p \<mapsto> c) \<and> dirs s' = dirs s"
  using assms by (auto simp: write_control_file_def fs_ops)

lemma ensure_succeeds:
  assumes "control_runtime_root_path env = Inr root" and "sid_ok sid" and "\<forall>c. \<not> fails os c"
    and "d = path_under (path_of root) [sanitize_for_file sid]" and "\<forall>p\<in>path_ancestors d. files s p = None"
  shows "\<exists>dir s'. ensure_control_runtime_dir_for_sid env os sid s = (Inr dir, s')
    \<and> files s' = files s \<and> dirs s' = dirs s \<union> path_ancestors d"
proof -
  obtain dir where dir: "control_runtime_dir_path_for_sid env sid = Inr dir" "path_of dir = d"
    using control_paths(1) [OF assms(1,2)] assms(4) by blast
  have sub: "path_ancestors (path_of root) \<subseteq> path_ancestors d"
    using ancestors_under assms(4) by simp
  have ensure: "\<exists>s'. ensure_private_dir os p s = (Inr (), s') \<and> files s' = files s \<and> dirs s' = dirs s \<union> path_ancestors (path_of p)"
    if "\<forall>q\<in>path_ancestors (path_of p). files s q = None" for p s
    using that assms(3) by (auto simp: ensure_private_dir_def fs_ops)
  obtain s1 where s1: "ensure_private_dir os root s = (Inr (), s1)" "files s1 = files s"
      "dirs s1 = dirs s \<union> path_ancestors (path_of root)"
    using ensure [of root s] assms(5) sub by auto
  obtain s2 where s2: "ensure_private_dir os dir s1 = (Inr (), s2)" "files s2 = files s"
      "dirs s2 = dirs s \<union> path_ancestors (path_of root) \<union> path_ancestors d"
    using ensure [of dir s1] assms(5) s1 dir(2) by auto
  have "ensure_control_runtime_dir_for_sid env os sid s = (Inr dir, s2)"
    using s1(1) s2(1) assms(1)
    by (simp add: ensure_control_runtime_dir_for_sid_def ensure_control_runtime_root_def dir(1) io_bind_Inr)
  with s2 sub show ?thesis by auto
qed

lemma daemon_claim_succeeds:
  assumes "control_runtime_root_path env = Inr root" and "sid_ok sid" and "\<forall>c. \<not> fails os c"
    and "\<forall>x. x \<in> path_ancestors (path_under (path_of root) [sanitize_for_file sid]) \<or> below (path_of root) x \<longrightarrow> files s x = None"
    and "dirs s = {}"
  shows "\<exists>p q s'. daemon_claim env os pid sid s = (Inr (p, q), s')
    \<and> dirs s' = path_ancestors (path_under (path_of root) [sanitize_for_file sid])
    \<and> (\<forall>x\<in>dirs s'. files s' x = None)"
proof -
  let ?r = "path_of root" and ?d = "path_under (path_of root) [sanitize_for_file sid]"
  obtain dir p q k where dir: "control_runtime_dir_path_for_sid env sid = Inr dir" "path_of dir = ?d"
    and p: "pid_file_path env sid = Inr p" "path_of p = path_under ?d [PID_FILE_NAME]"
    and q: "stop_file_path env sid = Inr q" "path_of q = path_under ?d [STOP_FILE_NAME]"
    and k: "current_sid_marker_path env = Inr k" "path_of k = path_under ?r [CURRENT_SID_FILE_NAME]"
    using control_paths [OF assms(1,2)] by auto
  then have pq: "pathbuf_join dir PID_FILE_NAME = p" "pathbuf_join dir STOP_FILE_NAME = q"
    by (simp_all add: pid_file_path_def stop_file_path_def)
  have "path_under ?r [] \<in> path_ancestors ?d"
    unfolding path_ancestors_iff by (intro exI [of _ "length (components ?r)"]) (simp add: path_under_def)
  then have above: "files s x = None" if "x \<in> path_ancestors ?d \<or> x = path_under ?r xs" for x xs
    using that assms(4) by (cases "xs = []") auto
  obtain s1 where s1: "ensure_control_runtime_dir_for_sid env os sid s = (Inr dir, s1)" "files s1 = files s" "dirs s1 = path_ancestors ?d"
    using above ensure_succeeds [OF assms(1-3) refl, of s] assms(4,5) ensure_Inr(2) [of env os sid s] dir(1) by fastforce
  have "\<not> there s1 (path_of q)"
    using s1 above under_not_ancestor [of "[STOP_FILE_NAME]" ?d] q(2) by (simp add: there_def)
  then have r: "remove_control_file os q s1 = (Inr (), s1)"
    by (simp add: remove_control_file_def)
  obtain s2 where s2: "write_control_file os p (show_word pid) s1 = (Inr (), s2)" "files s2 = (files s)(path_of p \<mapsto> show_word pid)"
      "dirs s2 = path_ancestors ?d"
    using write_succeeds [OF assms(3), of p s1 "show_word pid"] s1 p(2) under_not_ancestor [of "[PID_FILE_NAME]" ?d] by auto
  have "path_ancestors ?r \<subseteq> path_ancestors ?d"
    by (rule ancestors_under)
  moreover have "\<forall>x\<in>path_ancestors ?r. files s2 x = None"
    using s2(2) above under_not_ancestor [of "[sanitize_for_file sid, PID_FILE_NAME]" ?r] p(2)
      \<open>path_ancestors ?r \<subseteq> path_ancestors ?d\<close> by auto
  ultimately obtain s3 where s3: "ensure_control_runtime_root env os s2 = (Inr root, s3)" "dirs s3 = path_ancestors ?d" "files s3 = files s2"
    using s2(3) assms(1,3)
    by (auto simp: ensure_control_runtime_root_def ensure_private_dir_def fs_ops Un_absorb2)
  have "path_of k \<notin> path_ancestors ?d"
  proof
    assume "path_of k \<in> path_ancestors ?d"
    then have "components (path_of k) \<in> (\<lambda>n. take n (components ?d)) ` {..length (components ?d)}"
      by (auto simp: path_ancestors_iff)
    then have "CURRENT_SID_FILE_NAME \<in> set (drop (length (components ?r)) (components ?d))"
      by (auto simp: k(2) append_eq_conv_conj take_Cons' split: if_splits)
    with assms(2) show False by (auto simp: sid_ok_def)
  qed
  then obtain s4 where s4: "write_control_file os k sid s3 = (Inr (), s4)" "dirs s4 = path_ancestors ?d"
      "files s4 = (files s2)(path_of k \<mapsto> sid)"
    using write_succeeds [OF assms(3), of k s3 sid] s3(2,3) by auto
  have "files s4 x = None" if "x \<in> path_ancestors ?d" for x
    using that above [of x "[]"] s4(3) s2(2) p(2) under_not_ancestor [of "[PID_FILE_NAME]" ?d] \<open>path_of k \<notin> path_ancestors ?d\<close> by auto
  moreover have "daemon_claim env os pid sid s = (Inr (p, q), s4)"
    using s1(1) r s2(1) s3(1) s4(1) k(1) by (simp add: daemon_claim_def set_current_sid_def pq io_bind_Inr Let_def)
  ultimately show ?thesis using s4(2) by auto
qed

lemma stop_daemon_succeeds:
  assumes "control_runtime_root_path env = Inr root" and "sid_ok sid" and "\<forall>c. \<not> fails os c"
    and "pid_file_path env sid = Inr p" and "files s (path_of p) = Some (show_word pid)"
    and "dirs s = path_ancestors (path_under (path_of root) [sanitize_for_file sid])" and "\<forall>x\<in>dirs s. files s x = None"
    and "process_exists (procs 0) pid" and "\<forall>n. \<not> process_exists (procs (Suc n)) pid"
  shows "\<exists>s'. stop_daemon env os procs kill sid s = (Inr True, s')"
proof -
  let ?d = "path_under (path_of root) [sanitize_for_file sid]"
  obtain q where q: "stop_file_path env sid = Inr q" "path_of q = path_under ?d [STOP_FILE_NAME]"
    using control_paths(3) [OF assms(1,2)] by auto
  have status: "status_daemon env os (procs 0) sid s = (Inr (Running pid), s)"
    using status_of_pid_file [OF assms(4,5)] assms(3,8) by simp
  obtain dir s1 where s1: "ensure_control_runtime_dir_for_sid env os sid s = (Inr dir, s1)" "dirs s1 = path_ancestors ?d"
    using ensure_succeeds [OF assms(1-3) refl, of s] assms(6,7) by auto
  then obtain s' where "write_control_file os q ''stop'' s1 = (Inr (), s')"
    using write_succeeds [OF assms(3), of q s1 "''stop''"] q(2) under_not_ancestor [of "[STOP_FILE_NAME]" ?d] by auto
  moreover have "fst (await_exit (\<lambda>n. process_exists (procs (Suc n)) pid) k pid) = Inr ()" for k
    using assms(9) by (simp add: await_exit_def stop_wait.simps)
  ultimately show ?thesis
    using status s1(1) q(1) by (auto simp: stop_daemon_def io_bind_Inr)
qed

section \<open>Waiting\<close>

lemma unat_poll: "m \<le> 60 \<Longrightarrow> unat (word_of_nat (50 * m) :: u64) = 50 * m"
  by (subst unat_of_nat) simp

lemma stop_wait_from:
  assumes "n \<le> 60"
  shows "\<exists>m. n \<le> m \<and> m \<le> 60 \<and> (\<forall>i. n \<le> i \<and> i < m \<longrightarrow> alive i) \<and> (m = 60 \<or> \<not> alive m)
    \<and> stop_wait alive n (word_of_nat (50 * n)) = (Suc m, word_of_nat (50 * m))"
  using assms
proof (induction "60 - n" arbitrary: n)
  case 0
  then have "n = 60" by simp
  then show ?case
    by (intro exI [of _ 60]) (auto simp: stop_wait.simps STOP_WAIT_MILLIS_def)
next
  case (Suc k)
  then have less: "(word_of_nat (50 * n) :: u64) < STOP_WAIT_MILLIS"
    and step: "(word_of_nat (50 * n) :: u64) + STOP_POLL_MILLIS = word_of_nat (50 * Suc n)"
    using unat_poll [of n] by (simp_all add: STOP_WAIT_MILLIS_def STOP_POLL_MILLIS_def word_less_nat_alt)
  show ?case
  proof (cases "alive n")
    case True
    then have unfold: "stop_wait alive n (word_of_nat (50 * n)) = stop_wait alive (Suc n) (word_of_nat (50 * Suc n))"
      by (subst stop_wait.simps) (simp only: less step simp_thms if_True)
    have "k = 60 - Suc n" and "Suc n \<le> 60"
      using Suc(2) by simp_all
    from Suc(1) [OF this] obtain m where m: "Suc n \<le> m" "m \<le> 60" "\<forall>i. Suc n \<le> i \<and> i < m \<longrightarrow> alive i" "m = 60 \<or> \<not> alive m"
        "stop_wait alive (Suc n) (word_of_nat (50 * Suc n)) = (Suc m, word_of_nat (50 * m))"
      by blast
    then have "\<forall>i. n \<le> i \<and> i < m \<longrightarrow> alive i"
      using True by (metis Suc_leI le_neq_implies_less)
    with m unfold show ?thesis by (intro exI [of _ m]) simp
  next
    case False
    then show ?thesis
      using Suc(2) by (intro exI [of _ n]) (auto simp: stop_wait.simps)
  qed
qed

section \<open>Finding the daemon\<close>

text \<open>The names under the root that have a pid file.\<close>

definition claimed_names :: "fs \<Rightarrow> path \<Rightarrow> string list \<Rightarrow> string list" where
  "claimed_names s root names = filter (\<lambda>name. path_under root [name] \<in> dirs s
     \<and> there s (path_under root [name, PID_FILE_NAME])) names"

definition entry_name :: "string \<Rightarrow> bool" where
  "entry_name name \<longleftrightarrow> CHR ''/'' \<notin> set name \<and> name \<notin> {[], ''.'', ''..''}"

lemma entry_paths:
  assumes "components (path_of root) \<noteq> []" and "entry_name name"
  shows "path_of (pathbuf_join root name) = path_under (path_of root) [name]"
    and "path_of (pathbuf_join (pathbuf_join root name) PID_FILE_NAME) = path_under (path_of root) [name, PID_FILE_NAME]"
    and "path_file_name (path_under (path_of root) [name]) = Some name"
proof -
  show dir: "path_of (pathbuf_join root name) = path_under (path_of root) [name]"
    using assms by (intro path_of_child) (auto simp: entry_name_def)
  show "path_of (pathbuf_join (pathbuf_join root name) PID_FILE_NAME) = path_under (path_of root) [name, PID_FILE_NAME]"
    using dir path_of_child [of PID_FILE_NAME "pathbuf_join root name"] by (simp add: control_names)
  show "path_file_name (path_under (path_of root) [name]) = Some name"
    using assms(2) by (simp add: path_file_name_def entry_name_def)
qed

lemma discover_entries_names:
  assumes "components (path_of root) \<noteq> []" and "list_all entry_name names" and "\<forall>x. \<not> fails os (Stat x)"
  shows "discover_entries os s root (map Inr names) found
    = Inr (case claimed_names s (path_of root) names of [] \<Rightarrow> found
        | [name] \<Rightarrow> (if found = None then Some (utf8_lossy name) else None) | _ \<Rightarrow> None)"
  using assms(2)
proof (induction names arbitrary: found)
  case (Cons name names)
  then show ?case
    using entry_paths [OF assms(1), of name] assms(3)
    by (auto simp: claimed_names_def fs_is_dir_def fs_exists_def Let_def split: list.splits)
qed (simp add: claimed_names_def)

section \<open>Properties\<close>

text \<open>The operations that change the control files, by the daemons and the commands of all groups.\<close>

inductive control_step :: "control_env \<Rightarrow> fs \<Rightarrow> fs \<Rightarrow> bool" for env where
  stop: "sid_ok sid \<Longrightarrow> control_step env s (snd (stop_daemon env os procs kill sid s))"
| log: "sid_ok sid \<Longrightarrow> control_step env s (snd (open_daemon_log_file env os sid s))"
| claim: "sid_ok sid \<Longrightarrow> control_step env s (snd (daemon_claim env os pid sid s))"
| release: "sid_ok sid \<Longrightarrow> pid_file_path env sid = Inr p \<Longrightarrow> stop_file_path env sid = Inr q
    \<Longrightarrow> control_step env s (daemon_release os p q s)"

lemma control_step_private:
  assumes "control_runtime_root_path env = Inr root" and "control_step env s s'" and "private_tree (path_of root) s"
  shows "private_tree (path_of root) s'"
  using assms(2,3)
proof cases
  case (stop sid os procs kill)
  then show ?thesis using assms(3) by (simp add: io_spec_snd [OF private_stop [OF assms(1)]])
next
  case (log sid os)
  then show ?thesis using assms(3) by (simp add: io_spec_snd [OF private_log [OF assms(1)]])
next
  case (claim sid os pid)
  then show ?thesis using assms(3) by (simp add: io_spec_snd [OF private_claim [OF assms(1)]])
next
  case (release sid p q os)
  then have "path_of root \<noteq> path_of p" and "path_of root \<noteq> path_of q"
    using control_paths(2,3) [OF assms(1)] by fastforce+
  with release assms(3) show ?thesis by (simp add: private_release)
qed

text \<open>C19: Whatever daemons and commands do with the control files of any groups, with any call failing
  at any point: from a state without a control root on, every file under the root has no permission
  for the group or for others, and as soon as there is anything under the root, the root itself has
  none either.\<close>

theorem control_files_private:
  assumes "control_runtime_root_path env = Inr root"
    and "\<forall>p. below (path_of root) p \<longrightarrow> files s p = None \<and> p \<notin> dirs s"
    and "(control_step env)\<^sup>*\<^sup>* s s'" and "below (path_of root) p" and "files s' p \<noteq> None \<or> p \<in> dirs s'"
  shows "(files s' p \<noteq> None \<longrightarrow> (\<exists>bits. modes s' p = Some bits \<and> bits mod 64 = 0))
    \<and> (\<exists>bits. modes s' (path_of root) = Some bits \<and> bits mod 64 = 0)"
proof -
  have "private_tree (path_of root) s"
    using assms(2) by (auto simp: private_defs)
  with assms(3) have "private_tree (path_of root) s'"
    by (induction rule: rtranclp_induct) (use control_step_private [OF assms(1)] in blast)+
  with assms(4,5) show ?thesis
    by (fastforce simp: private_defs owner_only_def split: option.splits)
qed

definition demo_env :: control_env where
  "demo_env = \<lparr>xdg_runtime_dir = Some ''/r'', home_dir = None\<rparr>"

definition no_faults :: faults where
  "no_faults = \<lparr>fails = (\<lambda>_. False), written = (\<lambda>_. 0), made = (\<lambda>_. {})\<rparr>"

definition empty_fs :: fs where
  "empty_fs = \<lparr>files = Map.empty, modes = Map.empty, dirs = {}\<rparr>"

lemma demo_root: "control_runtime_root_path demo_env = Inr ''/r/ssh-key-sync''"
  by code_simp

lemma demo_sid: "sid_ok ''g''"
  by code_simp

lemma demo_paths:
  "pid_file_path demo_env ''g'' = Inr ''/r/ssh-key-sync/g/daemon.pid''"
  "stop_file_path demo_env ''g'' = Inr ''/r/ssh-key-sync/g/daemon.stop''"
  "path_of ''/r/ssh-key-sync/g/daemon.pid'' \<noteq> path_of ''/r/ssh-key-sync/g/daemon.stop''"
  by code_simp+

text \<open>A daemon with pid 7 that took its files.\<close>

definition claimed_fs :: fs where
  "claimed_fs = snd (daemon_claim demo_env no_faults 7 ''g'' empty_fs)"

lemma demo_claim:
  "daemon_claim demo_env no_faults 7 ''g'' empty_fs
    = (Inr (''/r/ssh-key-sync/g/daemon.pid'', ''/r/ssh-key-sync/g/daemon.stop''), claimed_fs)"
  and demo_claim_dirs: "dirs claimed_fs = path_ancestors (path_under (path_of ''/r/ssh-key-sync'') [sanitize_for_file ''g''])"
    "\<forall>x\<in>dirs claimed_fs. files claimed_fs x = None"
proof -
  obtain p q s' where claim: "daemon_claim demo_env no_faults 7 ''g'' empty_fs = (Inr (p, q), s')"
    and dirs: "dirs s' = path_ancestors (path_under (path_of ''/r/ssh-key-sync'') [sanitize_for_file ''g''])"
      "\<forall>x\<in>dirs s'. files s' x = None"
    using daemon_claim_succeeds [OF demo_root demo_sid, of no_faults empty_fs 7] by (auto simp: no_faults_def empty_fs_def)
  moreover from daemon_claim_Inr(1,2) [OF demo_root demo_sid claim] have "p = ''/r/ssh-key-sync/g/daemon.pid''" "q = ''/r/ssh-key-sync/g/daemon.stop''"
    by (simp_all add: demo_paths)
  ultimately show "daemon_claim demo_env no_faults 7 ''g'' empty_fs
      = (Inr (''/r/ssh-key-sync/g/daemon.pid'', ''/r/ssh-key-sync/g/daemon.stop''), claimed_fs)"
    and "dirs claimed_fs = path_ancestors (path_under (path_of ''/r/ssh-key-sync'') [sanitize_for_file ''g''])"
    and "\<forall>x\<in>dirs claimed_fs. files claimed_fs x = None"
    by (simp_all add: claimed_fs_def)
qed

lemma demo_pid_file: "files claimed_fs (path_of ''/r/ssh-key-sync/g/daemon.pid'') = Some (show_word (7 :: u32))"
proof -
  have "path_of ''/r/ssh-key-sync/g/daemon.pid'' = path_under (path_of ''/r/ssh-key-sync'') [sanitize_for_file ''g'', PID_FILE_NAME]"
    using control_paths(2) [OF demo_root demo_sid] demo_paths(1) by auto
  then show ?thesis
    using daemon_claim_Inr(3) [OF demo_root demo_sid demo_claim] demo_paths(3) by auto
qed

theorem control_files_private_witness:
  "\<exists>bits. modes claimed_fs (path_of ''/r/ssh-key-sync/g/daemon.pid'') = Some bits \<and> bits mod 64 = 0"
proof -
  let ?p = "path_of ''/r/ssh-key-sync/g/daemon.pid''"
  have "(control_step demo_env)\<^sup>*\<^sup>* empty_fs claimed_fs"
    unfolding claimed_fs_def using demo_sid by (intro r_into_rtranclp control_step.claim)
  moreover have "below (path_of ''/r/ssh-key-sync'') ?p"
    using control_paths(2) [OF demo_root demo_sid] demo_paths(1) by auto
  ultimately show ?thesis
    using control_files_private [OF demo_root, of empty_fs claimed_fs ?p] demo_pid_file by (simp add: empty_fs_def)
qed

text \<open>C21: \<open>stop_daemon\<close> always stops waiting: it sleeps at most 60 times and at most 3000 milliseconds,
  it stops as soon as it sees the process gone, and it sends the signal exactly when the process is
  there at the look after that.\<close>

theorem stop_wait_bounds:
  "\<exists>m waited signalled r. await_exit alive kill pid = (r, waited, signalled)
    \<and> m \<le> 60 \<and> unat waited = 50 * m \<and> unat waited \<le> 3000
    \<and> (\<forall>i. i < m \<longrightarrow> alive i) \<and> \<not> (m < 60 \<and> alive m)
    \<and> (signalled \<longleftrightarrow> alive (Suc m)) \<and> (r = Inr () \<longleftrightarrow> \<not> (signalled \<and> kill \<noteq> Inr True))"
proof -
  obtain m where m: "m \<le> 60" "\<forall>i. i < m \<longrightarrow> alive i" "m = 60 \<or> \<not> alive m"
      "stop_wait alive 0 0 = (Suc m, word_of_nat (50 * m))"
    using stop_wait_from [of 0 alive] by auto
  moreover have "unat (word_of_nat (50 * m) :: u64) = 50 * m"
    using m(1) by (rule unat_poll)
  ultimately show ?thesis
    by (intro exI [of _ m]) (cases kill; auto simp: await_exit_def)
qed

theorem stop_wait_bounds_witness:
  "\<exists>r waited. await_exit (\<lambda>n. n < 3) (Inr True) 7 = (r, waited, False) \<and> unat waited = 150 \<and> r = Inr ()"
proof -
  obtain m waited signalled r where m: "await_exit (\<lambda>n. n < 3) (Inr True) 7 = (r, waited, signalled)" "unat waited = 50 * m"
      "\<forall>i. i < m \<longrightarrow> i < 3" "\<not> (m < 60 \<and> m < 3)" "signalled \<longleftrightarrow> Suc m < 3" "r = Inr () \<longleftrightarrow> \<not> (signalled \<and> Inr True \<noteq> (Inr True :: unit + bool))"
    using stop_wait_bounds [of "\<lambda>n. n < 3" "Inr True" 7] by blast
  have "\<not> 3 < m"
    using m(3) [rule_format, of 3] by auto
  with m(4) have "m = 3" by linarith
  with m show ?thesis by auto
qed

lemma stop_daemon_True:
  assumes "stop_daemon env os procs kill sid s = (Inr True, s')" and "stop_file_path env sid = Inr q"
  obtains d t where "ensure_control_runtime_dir_for_sid env os sid s = (Inr d, t)"
    and "write_control_file os q ''stop'' t = (Inr (), s')" and "files s' = (files s)(path_of q \<mapsto> ''stop'')"
proof -
  obtain status u where status: "status_daemon env os (procs 0) sid s = (Inr status, u)"
    using assms(1) by (auto simp: stop_daemon_def io_bind_Inr)
  moreover from this have "u = s"
    using status_reads_only [of env os "procs 0" sid s] by simp
  ultimately obtain d t where d: "ensure_control_runtime_dir_for_sid env os sid s = (Inr d, t)"
    and w: "write_control_file os q ''stop'' t = (Inr (), s')"
    using assms by (cases status) (auto simp: stop_daemon_def io_bind_Inr)
  with ensure_Inr(1) [OF d] write_control_file_Inr(1) [OF w] that show thesis by simp
qed

text \<open>C22: \<open>stop_daemon\<close> answers that it stopped a daemon exactly when the status is running; then the
  request is in the stop file and no other file has changed. With a status of stopped nothing
  changes, and there is no pid file unless the check for it failed; a stale pid file is removed, and
  so is a request unless the check for it failed.\<close>

theorem stop_daemon_outcome:
  assumes "pid_file_path env sid = Inr p" and "stop_file_path env sid = Inr q" and "path_of p \<noteq> path_of q"
    and "stop_daemon env os procs kill sid s = (Inr b, s')"
  shows "\<exists>status. status_daemon env os (procs 0) sid s = (Inr status, s) \<and> (b \<longleftrightarrow> (\<exists>pid. status = Running pid))
    \<and> (b \<longrightarrow> files s' = (files s)(path_of q \<mapsto> ''stop''))
    \<and> (status = Stopped \<longrightarrow> s' = s \<and> (\<not> fails os (Stat (path_of p)) \<longrightarrow> files s' (path_of p) = None))
    \<and> ((\<exists>pid. status = StalePidFile pid) \<longrightarrow> files s' = (files s)(path_of p := None,
          path_of q := if fails os (Stat (path_of q)) then files s (path_of q) else None))"
proof -
  obtain status t where "status_daemon env os (procs 0) sid s = (Inr status, t)"
    using assms(4) by (auto simp: stop_daemon_def io_bind_Inr)
  then have status: "status_daemon env os (procs 0) sid s = (Inr status, s)"
    using status_reads_only [of env os "procs 0" sid s] by simp
  then show ?thesis
  proof (cases status)
    case (Running pid)
    with assms status have "b"
      by (auto simp: stop_daemon_def io_bind_Inr)
    with assms(4) have "stop_daemon env os procs kill sid s = (Inr True, s')" by simp
    then obtain d t where "ensure_control_runtime_dir_for_sid env os sid s = (Inr d, t)"
      and "write_control_file os q ''stop'' t = (Inr (), s')" and "files s' = (files s)(path_of q \<mapsto> ''stop'')"
      using assms(2) by (rule stop_daemon_True)
    with status Running \<open>b\<close> show ?thesis by auto
  next
    case Stopped
    with assms status have "\<not> fs_exists os s (path_of p)"
      by (auto simp: status_daemon_def io_bind_Inr split: if_splits)
    with assms status Stopped show ?thesis
      by (auto simp: stop_daemon_def io_bind_Inr fs_exists_def there_def)
  next
    case (StalePidFile pid)
    with assms status obtain t where r1: "remove_control_file os p s = (Inr (), t)"
      and r2: "remove_control_file os q t = (Inr (), s')" and "\<not> b"
      by (auto simp: stop_daemon_def io_bind_Inr)
    moreover have "\<not> fails os (Stat (path_of p))"
      using status StalePidFile assms(1) by (auto simp: status_daemon_def fs_exists_def split: if_splits)
    ultimately have "files s' = (files s)(path_of p := None, path_of q := if fails os (Stat (path_of q)) then files s (path_of q) else None)"
      using remove_control_file_Inr(1) [OF r1] remove_control_file_Inr(1) [OF r2] assms(3) by (auto simp: fun_eq_iff)
    with status StalePidFile \<open>\<not> b\<close> show ?thesis by auto
  qed
qed

theorem stop_daemon_outcome_witness:
  "\<exists>s'. stop_daemon demo_env no_faults (\<lambda>n _. n = 0) (\<lambda>_. Inr True) ''g'' claimed_fs = (Inr True, s')
    \<and> files s' (path_of ''/r/ssh-key-sync/g/daemon.stop'') = Some ''stop''"
proof -
  obtain s' where stop: "stop_daemon demo_env no_faults (\<lambda>n _. n = 0) (\<lambda>_. Inr True) ''g'' claimed_fs = (Inr True, s')"
    using stop_daemon_succeeds [OF demo_root demo_sid _ demo_paths(1) demo_pid_file demo_claim_dirs,
        of no_faults "\<lambda>n _. n = 0" "\<lambda>_. Inr True"] by (auto simp: no_faults_def process_exists_def)
  have "files s' = (files claimed_fs)(path_of ''/r/ssh-key-sync/g/daemon.stop'' \<mapsto> ''stop'')"
    using stop_daemon_outcome [OF demo_paths stop] by blast
  with stop show ?thesis by simp
qed

text \<open>Once a daemon has taken its control files, every other process that can read them sees it: the
  status is running with the daemon's pid as long as that process exists and stale afterwards, there
  is no stop request unless the check for one failed, and the group that commands use without being told one is the daemon's.\<close>

lemma claimed_daemon_visible:
  assumes "control_runtime_root_path env = Inr root" and "sid_ok sid" and "utf8_valid sid" and "str_trim sid = sid" and "sid \<noteq> []"
    and "daemon_claim env os pid sid s = (Inr (p, q), s')"
    and "\<forall>r. \<not> fails os' (ReadToString r) \<and> \<not> fails os' (Stat r)"
  shows "status_daemon env os' proc sid s' = (Inr (if process_exists proc pid then Running pid else StalePidFile pid), s')
    \<and> (fails os (Stat (path_of q)) \<or> files s' (path_of q) = None) \<and> resolve_current_sid env os' listing s' = (Inr (Some sid), s')"
proof -
  obtain p' q' m where paths: "pid_file_path env sid = Inr p'" "path_of p' = path_under (path_of root) [sanitize_for_file sid, PID_FILE_NAME]"
      "stop_file_path env sid = Inr q'" "path_of q' = path_under (path_of root) [sanitize_for_file sid, STOP_FILE_NAME]"
    and m: "current_sid_marker_path env = Inr m" "path_of m = path_under (path_of root) [CURRENT_SID_FILE_NAME]"
    using control_paths(2,3,5) [OF assms(1,2)] by blast
  note claim = daemon_claim_Inr [OF assms(1,2,6)]
  have files: "files s' (path_of p) = Some (show_word pid)" "fails os (Stat (path_of q)) \<or> files s' (path_of q) = None" "files s' (path_of m) = Some sid"
    using claim paths m(2) by (auto simp: control_names)
  from files(1) claim(1) assms(7) have "status_daemon env os' proc sid s'
      = (Inr (if process_exists proc pid then Running pid else StalePidFile pid), s')"
    by (intro status_of_pid_file) auto
  moreover have "resolve_current_sid env os' listing s' = (Inr (Some sid), s')"
    unfolding resolve_current_sid_def m(1) io_bind_lift_known
    using files(3) assms(3-5,7) by (simp add: fs_exists_def there_def io_bind_read fs_read_to_string_def io_return_def)
  ultimately show ?thesis using files(2) by simp
qed

text \<open>Without a marker the daemon is found by its pid file exactly when a single directory under the
  control root has one, whatever the order of the entries; the name found leads to that directory.\<close>

lemma discover_unique:
  assumes "control_runtime_root_path env = Inr root" and "list_all entry_name names" and "path_of root \<in> dirs s"
    and "\<not> fails os (ReadDir (path_of root))" and "\<forall>x. \<not> fails os (Stat x)"
  shows "fst (discover_sid_from_pid_files env os (map Inr names) s)
      = Inr (if length (claimed_names s (path_of root) names) = 1
             then Some (utf8_lossy (hd (claimed_names s (path_of root) names))) else None)
    \<and> (list_all (\<lambda>c. file_char c) (hd names) \<and> claimed_names s (path_of root) names = [hd names] \<longrightarrow>
      fst (discover_sid_from_pid_files env os (map Inr names) s) = Inr (Some (hd names))
      \<and> control_runtime_dir_path_for_sid env (hd names) = Inr (pathbuf_join root (hd names)))"
proof -
  let ?names = "claimed_names s (path_of root) names"
  have "fst (discover_sid_from_pid_files env os (map Inr names) s) = discover_entries os s root (map Inr names) None"
    using assms(3-5) unfolding discover_sid_from_pid_files_def assms(1) io_bind_lift_known
    by (simp add: fs_exists_def there_def io_bind_def io_map_err_def fs_read_dir_def)
  also have "\<dots> = Inr (if length ?names = 1 then Some (utf8_lossy (hd ?names)) else None)"
    unfolding discover_entries_names [OF root_components [OF assms(1)] assms(2,5)]
    by (cases ?names; cases "tl ?names") auto
  finally have "fst (discover_sid_from_pid_files env os (map Inr names) s)
      = Inr (if length ?names = 1 then Some (utf8_lossy (hd ?names)) else None)" .
  moreover have "utf8_valid name" and "sanitize_for_file name = name" if "list_all file_char name" for name
  proof -
    have "list_all is_ascii name"
      using that by (rule list.pred_mono_strong) (simp add: file_char_facts)
    then show "utf8_valid name" by (rule utf8_valid_ascii)
    show "sanitize_for_file name = name"
      using that by (intro sanitize_fixed) (simp add: list_all_iff)
  qed
  ultimately show ?thesis
    using assms(1) by (simp add: utf8_lossy_valid control_runtime_dir_path_for_sid_def)
qed

text \<open>C39: Two groups share their control files exactly when their names are equal after the characters
  other than letters, digits, dot, hyphen and underscore are replaced; groups named with these
  characters only never do, but a space or a slash is enough to name the files of another group.\<close>

theorem control_dir_shared:
  assumes "control_runtime_root_path env = Inr root"
  shows "(control_runtime_dir_path_for_sid env a = control_runtime_dir_path_for_sid env b
      \<longleftrightarrow> sanitize_for_file a = sanitize_for_file b)
    \<and> (list_all file_char a \<and> list_all file_char b \<longrightarrow> (sanitize_for_file a = sanitize_for_file b \<longleftrightarrow> a = b))
    \<and> sanitize_for_file ''a b'' = sanitize_for_file ''a_b'' \<and> sanitize_for_file ''a/b'' = sanitize_for_file ''a_b''"
proof -
  have "pathbuf_join root x = pathbuf_join root y \<longleftrightarrow> x = y" if "CHR ''/'' \<notin> set x" "CHR ''/'' \<notin> set y" for x y
    using that by (cases x; cases y) (auto simp: pathbuf_join_def)
  moreover have "CHR ''/'' \<notin> set (sanitize_for_file x)" for x
    using sanitize_chars file_char_facts by blast
  ultimately have "control_runtime_dir_path_for_sid env a = control_runtime_dir_path_for_sid env b
      \<longleftrightarrow> sanitize_for_file a = sanitize_for_file b"
    using assms by (simp add: control_runtime_dir_path_for_sid_def)
  moreover have "list_all file_char a \<and> list_all file_char b \<longrightarrow> (sanitize_for_file a = sanitize_for_file b \<longleftrightarrow> a = b)"
    by (simp add: list_all_iff sanitize_fixed)
  moreover have "sanitize_for_file ''a b'' = sanitize_for_file ''a_b'' \<and> sanitize_for_file ''a/b'' = sanitize_for_file ''a_b''"
    by code_simp
  ultimately show ?thesis by blast
qed

theorem control_dir_shared_witness:
  "control_runtime_dir_path_for_sid demo_env ''a b'' = control_runtime_dir_path_for_sid demo_env ''a_b''
   \<and> control_runtime_dir_path_for_sid demo_env ''a'' \<noteq> control_runtime_dir_path_for_sid demo_env ''b''"
proof -
  have "list_all file_char ''a''" "list_all file_char ''b''"
    by code_simp+
  then show ?thesis
    using control_dir_shared [OF demo_root, of "''a b''" "''a_b''"] control_dir_shared [OF demo_root, of "''a''" "''b''"]
    by blast
qed

end
