(* ===== verification/Setting.thy ===== *)
theory Setting
  imports TlsConfig Control
begin

text \<open>
  A setting for the properties of whole daemons: a server at the other end of a connection, and the
  concrete service, configuration, turns and rounds that the witnesses run.
\<close>

section \<open>A server on the other end of a connection\<close>

text \<open>The network hands the bytes of a request to a server in pieces and its answer back.\<close>

definition serve ::
  "ext \<Rightarrow> HttpKeyExchangeService \<Rightarrow> u64 \<Rightarrow> string \<Rightarrow> (bytes \<Rightarrow> bytes list)
   \<Rightarrow> string \<Rightarrow> u16 \<Rightarrow> bytes \<Rightarrow> http_error + bytes" where
  "serve X server now nonce pieces address port request =
     (case handle_http_connection X server now nonce None (map Bytes (pieces request)) of
        Val (Inr _, answer) \<Rightarrow> Inr answer
      | _ \<Rightarrow> Inl ConnectionClosed)"

lemma path_get_word: "is_word PATH_GET_PUBLIC_KEY" "utf8_valid PATH_GET_PUBLIC_KEY" "clean PATH_GET_PUBLIC_KEY"
  by (simp_all add: is_word_def PATH_GET_PUBLIC_KEY_def clean_def rust_str)

lemma wire_ok_get_request:
  "clean (svc_sid svc) \<Longrightarrow> clean who \<Longrightarrow> clean n \<Longrightarrow> wire_ok (build_get_public_key_request X svc who t n)"
  using path_get_word(3)
  by (simp add: build_get_public_key_request_def sign_http_request_def wire_ok_sign)
    (simp add: clean_def rust_str)

lemma wire_ok_key_response: "service_ok svc \<Longrightarrow> clean n \<Longrightarrow> wire_ok (key_response X svc t n)"
  using path_get_word(3) by (simp add: key_response_def wire_ok_sign service_ok_def)

lemma handle_get_built:
  assumes "mac_ok X" and "svc_sid c = svc_sid svc" and "svc_sid_token c = svc_sid_token svc"
  shows "handle_get_public_key_request X svc (build_get_public_key_request X c who ts n) t' n'
    = Inr (key_response X svc t' n')"
  using assms by (simp add: handle_get_Inr build_get_public_key_request_def sign_http_request_def)

lemma get_request_read:
  assumes "clean (svc_sid c)" and "clean who" and "clean n" and "cr \<notin> set adr" and "nl \<notin> set adr" and "utf8_valid adr" and "length adr \<le> 60000"
    and "length (serialize_envelope (build_get_public_key_request X c who ts n)) < 2 ^ 63"
    and "\<And>b. concat (pieces b) = b" and "\<And>b. list_all (\<lambda>q. q \<noteq> []) (pieces b)"
  shows "read_http_request (map Bytes (pieces (as_bytes (http_post_text adr port PATH_GET_PUBLIC_KEY
      (serialize_envelope (build_get_public_key_request X c who ts n))))))
    = Val (Inr (PATH_GET_PUBLIC_KEY, serialize_envelope (build_get_public_key_request X c who ts n)))"
proof -
  let ?e = "build_get_public_key_request X c who ts n"
  have "length PATH_GET_PUBLIC_KEY = 12"
    by (simp add: PATH_GET_PUBLIC_KEY_def)
  then have "length (header_block (request_lines adr port PATH_GET_PUBLIC_KEY (length (serialize_envelope ?e)))) \<le> 64 * 1024"
    using request_header_size [OF assms(8), of adr port PATH_GET_PUBLIC_KEY] assms(7) by linarith
  then show ?thesis
    using assms(4-10) path_get_word utf8_valid_serialize_envelope [OF wire_ok_get_request [OF assms(1-3)]]
    by (intro read_post_pieces [where extra = "[]"]) simp_all
qed

lemma serve_get_request:
  assumes "mac_ok X" and "service_ok svc" and "svc_sid c = svc_sid svc" and "svc_sid_token c = svc_sid_token svc"
    and "clean who" and "clean n" and "cr \<notin> set adr" and "nl \<notin> set adr" and "utf8_valid adr" and "length adr \<le> 60000"
    and "length (serialize_envelope (build_get_public_key_request X c who ts n)) < 2 ^ 63"
    and "\<And>b. concat (pieces b) = b" and "\<And>b. list_all (\<lambda>q. q \<noteq> []) (pieces b)"
  shows "serve X svc t' n' pieces adr port (as_bytes (http_post_text adr port PATH_GET_PUBLIC_KEY
      (serialize_envelope (build_get_public_key_request X c who ts n))))
    = Inr (write_http_response 200 (as_bytes (serialize_envelope (key_response X svc t' n'))))"
proof -
  let ?e = "build_get_public_key_request X c who ts n"
  have sid: "clean (svc_sid c)"
    using assms(2,3) by (simp add: service_ok_def)
  show ?thesis
    using get_request_read [OF sid assms(5-13)] parse_serialize_envelope [OF wire_ok_get_request [OF sid assms(5,6)]]
      handle_get_built [OF assms(1,3,4), of who ts n t' n']
    by (simp add: serve_def handle_http_connection_def write_stream_def)
qed

section \<open>A concrete setting\<close>

definition demo_config :: "string list \<Rightarrow> bool \<Rightarrow> AppConfig" where
  "demo_config peers dry = \<lparr>cfg_sid = ''s'', cfg_sid_token = ''t'', cfg_participant_id = ''me'',
     cfg_http_listen_addr = ''h:1'', cfg_udp_announce_addr = ''h:2'', cfg_bootstrap_peers = peers,
     cfg_sync_interval_secs = 30, cfg_public_key_path = ''k'', cfg_authorized_keys_path = ''/h/k'',
     cfg_tls_cert_path = None, cfg_tls_key_path = None, cfg_tls_ca_path = None,
     cfg_tls_server_name = None, cfg_insecure_no_tls = True, cfg_dry_run = dry\<rparr>"

definition demo_setup :: "string list \<Rightarrow> bool \<Rightarrow> DaemonSetup" where
  "demo_setup peers dry = \<lparr>set_config = demo_config peers dry, set_service = demo_service,
     set_authorized_keys_path = ''/h/k'', set_advertised_address = ''h'', set_http_port = 1,
     set_udp_port = 2, set_local_public_key = ''ssh-rsa BB''\<rparr>"

definition demo_turn :: "string list \<Rightarrow> turn" where
  "demo_turn order = \<lparr>turn_datagrams = [], turn_now = 9,
     turn_network = \<lparr>net_exchange = (\<lambda>_ _ _. Inr (write_http_response 200
         (as_bytes (serialize_envelope (key_response echo_ext demo_service 7 ''x''))))),
       net_now = (\<lambda>_. 7), net_nonce = (\<lambda>_. ''y''), net_peer_order = order, net_endpoint_order = order\<rparr>,
     turn_key_order = order, turn_faults = \<lparr>fails = (\<lambda>_. False), written = (\<lambda>_. 0), made = (\<lambda>_. {})\<rparr>,
     turn_mode = 420, turn_announce_now = 9, turn_announce_nonce = ''z''\<rparr>"

lemma demo_keys:
  "normalize_public_key ''ssh-rsa AA'' = Inr ''ssh-rsa AA''" "normalize_public_key ''ssh-rsa BB'' = Inr ''ssh-rsa BB''"
  by code_simp+

lemma demo_clean [simp]: "clean ''s''" "clean ''n''" "clean ''x''" "clean ''y''" "clean ''h''" "clean ''ssh-rsa AA''"
  by (simp_all add: clean_def rust_str)

lemma demo_service_ok: "service_ok demo_service"
  using demo_keys by (simp add: service_ok_def demo_service_def)

lemma demo_new: "service_new ''s'' ''t'' ''n'' ''ssh-rsa AA'' = Inr demo_service"
  using demo_keys by (simp add: service_new_def demo_service_def)

lemma demo_fetch: "fetch_from echo_ext (turn_network (demo_turn order)) demo_service ep = Inr ''ssh-rsa AA''"
proof -
  have wire: "wire_ok (key_response echo_ext demo_service 7 ''x'')"
    using demo_service_ok by (intro wire_ok_key_response) simp_all
  have "send_http_post (net_exchange (turn_network (demo_turn order))) adr port path body
      = Inr (serialize_envelope (key_response echo_ext demo_service 7 ''x''))" for adr port path body
    by (rule send_post_answered [where status = 200, OF utf8_valid_serialize_envelope [OF wire]]) (simp add: demo_turn_def)
  then show ?thesis
    using parse_serialize_envelope [OF wire] parse_key_response [OF mac_ok_echo demo_service_ok refl refl, of 7 "''x''"]
    by (simp add: fetch_from_def request_public_key_def Let_def) (simp add: demo_service_def)
qed

lemma demo_announcement: "\<exists>v. send_announcement echo_ext e p adr port ''ssh-rsa BB'' udp now nonce = Inr v"
  using demo_keys by (simp add: send_announcement_def build_startup_announcement_def)

lemma show_digits: "length (show_word (7 :: u64)) = 1" "length (show_word (9 :: u64)) = 1" "length (show_word (22 :: u16)) = 2"
  by (simp_all add: show_word_def show_nat.simps)

lemma upper_post: "to_uppercase echo_ext ''POST'' = ''POST''"
  by code_simp

lemmas wire_lengths = serialize_envelope_def envelope_entries_def entry_line_def sign_envelope_def Let_def
  hmac_signature_hex_def length_to_hex encode_hex_eq_to_hex echo_ext_def canonical_payload_def hash_body_hex_def

lemma demo_request_small:
  "length (serialize_envelope (build_get_public_key_request echo_ext demo_service ''n'' 7 ''x'')) < 2 ^ 63"
  using show_digits upper_post [unfolded echo_ext_def]
  by (simp add: wire_lengths build_get_public_key_request_def sign_http_request_def demo_service_def
      transport_serialize_payload_def PATH_GET_PUBLIC_KEY_def)

section \<open>A request that is sent again\<close>

lemma response_status:
  "write_http_response 400 b \<noteq> write_http_response 200 a" "write_http_response 401 b \<noteq> write_http_response 200 a"
proof -
  have "show_word (200 :: u16) = ''200''" "show_word (400 :: u16) = ''400''" "show_word (401 :: u16) = ''401''"
    by code_simp+
  then show "write_http_response 400 b \<noteq> write_http_response 200 a" "write_http_response 401 b \<noteq> write_http_response 200 a"
    by (simp_all add: write_http_response_def as_bytes_def)
qed

text \<open>C31: Requests for a key are not protected against replay: the bytes of a request that was answered
  once, however they were obtained and cut into reads, are answered again at every other time, earlier
  or later, with a response that is newly signed for that time and that every member of the group
  accepts.\<close>

theorem captured_request_replays:
  assumes "mac_ok X" and "service_ok svc" and "svc_sid c = svc_sid svc" and "svc_sid_token c = svc_sid_token svc"
    and "read_http_request stream = Val (Inr (PATH_GET_PUBLIC_KEY, request))"
    and "handle_http_connection X svc now nonce None stream = Val (Inr (), write_http_response 200 body)"
  shows "\<exists>e. handle_http_connection X svc now' nonce' None stream
        = Val (Inr (), write_http_response 200 (as_bytes (serialize_envelope e)))
    \<and> env_timestamp_secs e = now' \<and> env_nonce e = nonce'
    \<and> verify_and_parse_public_key_response X c e = Inr \<lparr>pkp_sid = svc_sid svc,
        pkp_participant_id = svc_participant_id svc, pkp_public_key = svc_public_key svc\<rparr>"
proof -
  obtain envelope where parse: "parse_envelope request = Inr envelope"
    using assms(5,6) response_status(1) [where a = body]
    by (cases "parse_envelope request") (auto simp: handle_http_connection_def write_stream_def)
  then have "\<exists>r. handle_get_public_key_request X svc envelope now nonce = Inr r"
    using assms(5,6) response_status(2) [where a = body]
    by (cases "handle_get_public_key_request X svc envelope now nonce") (auto simp: handle_http_connection_def write_stream_def)
  then have "handle_get_public_key_request X svc envelope now' nonce' = Inr (key_response X svc now' nonce')"
    by (auto simp: handle_get_Inr)
  with parse assms(5) have "handle_http_connection X svc now' nonce' None stream
      = Val (Inr (), write_http_response 200 (as_bytes (serialize_envelope (key_response X svc now' nonce'))))"
    by (simp add: handle_http_connection_def write_stream_def)
  moreover have "env_timestamp_secs (key_response X svc now' nonce') = now'" "env_nonce (key_response X svc now' nonce') = nonce'"
    by (simp_all add: key_response_def)
  ultimately show ?thesis
    using parse_key_response [OF assms(1-4)] by blast
qed

theorem captured_request_replays_witness:
  "\<exists>stream e. handle_http_connection echo_ext demo_service 9 ''y'' None stream
        = Val (Inr (), write_http_response 200 (as_bytes (serialize_envelope (key_response echo_ext demo_service 9 ''y''))))
    \<and> handle_http_connection echo_ext demo_service 1000000 ''z'' None stream
        = Val (Inr (), write_http_response 200 (as_bytes (serialize_envelope e)))
    \<and> env_timestamp_secs e = 1000000
    \<and> verify_and_parse_public_key_response echo_ext demo_service e = Inr \<lparr>pkp_sid = ''s'',
        pkp_participant_id = ''n'', pkp_public_key = ''ssh-rsa AA''\<rparr>"
proof -
  let ?e = "build_get_public_key_request echo_ext demo_service ''n'' 7 ''x''"
  let ?stream = "map Bytes (map (\<lambda>b. [b]) (as_bytes (http_post_text ''h'' 22 PATH_GET_PUBLIC_KEY (serialize_envelope ?e))))"
  have sid: "clean (svc_sid demo_service)"
    by (simp add: demo_service_def)
  have req: "read_http_request ?stream = Val (Inr (PATH_GET_PUBLIC_KEY, serialize_envelope ?e))"
    by (rule get_request_read [OF sid]) (use demo_request_small in \<open>simp_all add: list_all_iff\<close>)
  have "parse_envelope (serialize_envelope ?e) = Inr ?e"
    by (rule parse_serialize_envelope [OF wire_ok_get_request [OF sid]]) simp_all
  then have first: "handle_http_connection echo_ext demo_service 9 ''y'' None ?stream
      = Val (Inr (), write_http_response 200 (as_bytes (serialize_envelope (key_response echo_ext demo_service 9 ''y''))))"
    using req handle_get_built [OF mac_ok_echo refl refl]
    by (simp add: handle_http_connection_def write_stream_def)
  show ?thesis
    using first captured_request_replays [OF mac_ok_echo demo_service_ok refl refl req first, of 1000000 "''z''"]
    by (auto simp: demo_service_def intro!: exI [of _ ?stream])
qed

end
