(* ===== verification/Lifecycle.thy ===== *)
theory Lifecycle
  imports Setting
begin

text \<open>
  The whole of \<open>run_daemon\<close>: the start, the loop with the connections, the announcements and the
  request to stop, and the end. What the world does is given per round: the changes other processes
  make to the file system, the connections that wait, and the arguments of the turn. A daemon that
  has used up its rounds is still running.
\<close>

section \<open>Starting\<close>

record startup =
  start_env :: control_env
  start_faults :: faults
  start_tls :: tls_lib
  start_http_bound :: bool
  start_udp_bound :: bool
  start_now :: u64
  start_pid :: u32
  start_announce_now :: u64
  start_announce_nonce :: string

text \<open>Reading a whole file, as text and as bytes.\<close>

definition fs_text :: "faults \<Rightarrow> fs \<Rightarrow> string \<Rightarrow> string option" where
  "fs_text os s path = (case fst (fs_read_to_string os (path_of path) s) of Inl _ \<Rightarrow> None | Inr c \<Rightarrow> Some c)"

definition fs_content :: "faults \<Rightarrow> fs \<Rightarrow> string \<Rightarrow> string option" where
  "fs_content os s path = (if fails os (OpenRead (path_of path)) then None else files s (path_of path))"

text \<open>What a daemon has when its loop begins: its setup, the transport security, the paths of its pid
  and stop files and its state; and the first announcement.\<close>

type_synonym daemon_ready = "DaemonSetup \<times> TransportSecurity \<times> pathbuf \<times> pathbuf \<times> DaemonRun"

definition daemon_prologue :: "ext \<Rightarrow> startup \<Rightarrow> AppConfig \<Rightarrow> (RuntimeError, daemon_ready \<times> string \<times> bytes) io" where
  "daemon_prologue X st config = (\<lambda>s.
     let os = start_faults st; home = home_dir (start_env st);
         security = build_transport_security (start_tls st) home (fs_content os s) config
     in io_bind (io_lift (daemon_setup home (fs_text os s) (and_then security (\<lambda>_. Inr ()))
            (start_http_bound st) (start_udp_bound st) config)) (\<lambda>d.
        io_bind (io_lift security) (\<lambda>sec.
        let r = daemon_start config (start_now st)
        in io_bind (daemon_claim (start_env st) os (start_pid st) (cfg_sid config)) (\<lambda>(pid_path, stop_path).
           io_bind (io_lift (send_announcement X (run_discovery r) (cfg_participant_id config)
             (set_advertised_address d) (set_http_port d) (set_local_public_key d) (set_udp_port d)
             (start_announce_now st) (start_announce_nonce st))) (\<lambda>datagram.
             io_return ((d, sec, pid_path, stop_path, r), datagram))))) s)"

section \<open>The loop\<close>

record round =
  round_others :: "fs \<Rightarrow> fs"
  round_connections :: "connection list"
  round_sockets :: sockets
  round_turn :: turn
  round_late :: "fs \<Rightarrow> fs"

datatype run_result = Going DaemonRun | Exited "RuntimeError + unit" | Panicked

text \<open>One round: \<open>Inr\<close> with the state for the next one, or \<open>Inl\<close> with how the daemon ended.\<close>

definition daemon_round ::
  "ext \<Rightarrow> tls_lib \<Rightarrow> DaemonSetup \<Rightarrow> TransportSecurity \<Rightarrow> pathbuf \<Rightarrow> pathbuf \<Rightarrow> round \<Rightarrow> DaemonRun \<Rightarrow> fs
   \<Rightarrow> (run_result \<times> fs) + (DaemonRun \<times> fs)" where
  "daemon_round X lib d sec pid_path stop_path w r s =
     (let s = round_others w s in
      case handle_http_connections X (round_connections w) (set_service d) sec of
        Panic \<Rightarrow> Inl (Panicked, s)
      | Val _ \<Rightarrow>
          (case daemon_turn X d (secured_turn lib sec (round_sockets w) (round_turn w)) r s of
             (Inl e, s) \<Rightarrow> Inl (Exited (Inl e), s)
           | (Inr r, s) \<Rightarrow>
               let s = round_late w s in
               if fs_exists (turn_faults (round_turn w)) s (path_of stop_path)
               then Inl (Exited (Inr ()), daemon_release (turn_faults (round_turn w)) pid_path stop_path s)
               else Inr (r, s)))"

fun daemon_loop ::
  "ext \<Rightarrow> tls_lib \<Rightarrow> DaemonSetup \<Rightarrow> TransportSecurity \<Rightarrow> pathbuf \<Rightarrow> pathbuf \<Rightarrow> round list \<Rightarrow> DaemonRun \<Rightarrow> fs
   \<Rightarrow> run_result \<times> fs" where
  "daemon_loop X lib d sec pid_path stop_path [] r s = (Going r, s)"
| "daemon_loop X lib d sec pid_path stop_path (w # ws) r s =
     (case daemon_round X lib d sec pid_path stop_path w r s of
        Inl result \<Rightarrow> result
      | Inr (r, s) \<Rightarrow> daemon_loop X lib d sec pid_path stop_path ws r s)"

definition run_daemon :: "ext \<Rightarrow> startup \<Rightarrow> round list \<Rightarrow> AppConfig \<Rightarrow> fs \<Rightarrow> run_result \<times> fs" where
  "run_daemon X st rounds config s =
     (case daemon_prologue X st config s of
        (Inl e, s) \<Rightarrow> (Exited (Inl e), s)
      | (Inr ((d, sec, pid_path, stop_path, r), _), s) \<Rightarrow> daemon_loop X (start_tls st) d sec pid_path stop_path rounds r s)"

section \<open>What a turn leaves alone\<close>

text \<open>A path that is neither the \<open>authorized_keys\<close> file nor its temporary file nor one of the
  directories it is in.\<close>

definition apart :: "DaemonSetup \<Rightarrow> path \<Rightarrow> bool" where
  "apart d p \<longleftrightarrow> p \<notin> path_ancestors (path_of (set_authorized_keys_path d))
     \<and> p \<noteq> temp_path_near (path_of (set_authorized_keys_path d))"

lemma apart_neq: "apart d p \<Longrightarrow> p \<noteq> path_of (set_authorized_keys_path d)"
  by (auto simp: apart_def path_ancestors_iff)

lemma write_keys_state:
  "snd (write_keys d w m s) = s
   \<or> (\<exists>keys. snd (write_keys d w m s)
        = snd (apply_managed_block_to_file (turn_mode w) (turn_faults w) (set_authorized_keys_path d) keys s))"
  by (auto simp: write_keys_def Let_def io_bind_snd io_return_def split: sum.splits)

lemma daemon_turn_eq:
  assumes "syncs X w r"
    and "run_sync_cycle X (turn_network w) (set_config d) (set_service d) (snd (turn_engine X w r)) (run_managed_keys r) = (Inr (), m)"
  obtains a :: "RuntimeError + string \<times> bytes" and r'
  where "daemon_turn X d w r = io_bind (write_keys d w m) (\<lambda>_. io_bind (io_lift a) (\<lambda>_. io_return r'))"
proof
  show "daemon_turn X d w r = io_bind (write_keys d w m) (\<lambda>_. io_bind (io_lift
        (send_announcement X (snd (turn_engine X w r)) (cfg_participant_id (set_config d)) (set_advertised_address d)
          (set_http_port d) (set_local_public_key d) (set_udp_port d) (turn_announce_now w) (turn_announce_nonce w)))
      (\<lambda>_. io_return \<lparr>run_discovery = snd (turn_engine X w r), run_managed_keys = m,
          run_next_sync_at = turn_now w + max (cfg_sync_interval_secs (set_config d)) 1\<rparr>))"
    using assms by (auto simp: daemon_turn_def syncs_def turn_engine_def Let_def split_beta)
qed

lemma daemon_turn_state:
  "snd (daemon_turn X d w r s) = s
   \<or> (\<exists>keys. snd (daemon_turn X d w r s)
        = snd (apply_managed_block_to_file (turn_mode w) (turn_faults w) (set_authorized_keys_path d) keys s))"
proof (cases "syncs X w r")
  case True
  obtain m where "run_sync_cycle X (turn_network w) (set_config d) (set_service d) (snd (turn_engine X w r)) (run_managed_keys r)
      = (Inr (), m)"
    by (simp add: run_sync_cycle_def)
  with True obtain a :: "RuntimeError + string \<times> bytes" and r'
    where "daemon_turn X d w r = io_bind (write_keys d w m) (\<lambda>_. io_bind (io_lift a) (\<lambda>_. io_return r'))"
    by (rule daemon_turn_eq)
  moreover have "snd (io_bind (io_lift a) (\<lambda>_. io_return r') t) = t" for t
    by (simp add: io_bind_snd io_lift_def io_return_def split: sum.split)
  ultimately have "snd (daemon_turn X d w r s) = snd (write_keys d w m s)"
    by (simp add: io_bind_snd split: sum.split)
  with write_keys_state [of d w m s] show ?thesis by simp
next
  case False
  then show ?thesis by (simp add: daemon_turn_idle)
qed

lemma daemon_turn_frame:
  assumes "apart d p"
  shows "files (snd (daemon_turn X d w r s)) p = files s p"
    and "there (snd (daemon_turn X d w r s)) p = there s p"
  using daemon_turn_state [of X d w r s] assms apart_neq [OF assms]
  by (auto simp: apart_def apply_frame apply_dirs there_def)

section \<open>The pid file while the daemon runs\<close>

text \<open>Other processes leave a path alone during a round.\<close>

definition untouched :: "path \<Rightarrow> round \<Rightarrow> bool" where
  "untouched p w \<longleftrightarrow> (\<forall>s. files (round_others w s) p = files s p \<and> files (round_late w s) p = files s p
     \<and> (p \<in> dirs (round_others w s) \<longleftrightarrow> p \<in> dirs s) \<and> (p \<in> dirs (round_late w s) \<longleftrightarrow> p \<in> dirs s))"

definition holds_pid :: "path \<Rightarrow> u32 \<Rightarrow> fs \<Rightarrow> bool" where
  "holds_pid p pid s \<longleftrightarrow> files s p = Some (show_word pid) \<and> p \<notin> dirs s"

lemma daemon_turn_holds_pid:
  assumes "apart d p" and "holds_pid p pid s"
  shows "holds_pid p pid (snd (daemon_turn X d w r s))"
  using daemon_turn_state [of X d w r s] assms apart_neq [OF assms(1)]
  by (auto simp: apart_def apply_frame apply_dirs holds_pid_def)

lemma daemon_release_clears:
  assumes "\<not> fails os (Stat (path_of p)) \<and> \<not> fails os (RemoveFile (path_of p))" and "holds_pid (path_of p) pid s"
  shows "\<not> there (daemon_release os p q s) (path_of p)"
  using assms by (auto simp: daemon_release_def holds_pid_def fs_exists_def there_def fs_ops Let_def)

text \<open>What a reader of the pid file finds, for each way a round can go on.\<close>

definition pid_view :: "path \<Rightarrow> u32 \<Rightarrow> run_result \<Rightarrow> fs \<Rightarrow> bool" where
  "pid_view p pid result s = (if result = Exited (Inr ()) then \<not> there s p else holds_pid p pid s)"

lemma daemon_round_pid:
  assumes "apart d (path_of p)" and "untouched (path_of p) w"
    and "\<not> fails (turn_faults (round_turn w)) (Stat (path_of p)) \<and> \<not> fails (turn_faults (round_turn w)) (RemoveFile (path_of p))"
    and "holds_pid (path_of p) pid s"
  shows "case daemon_round X lib d sec p q w r s of Inl (result, s') \<Rightarrow> (\<forall>r. result \<noteq> Going r) \<and> pid_view (path_of p) pid result s'
    | Inr (r', s') \<Rightarrow> holds_pid (path_of p) pid s'"
proof -
  let ?s = "round_others w s"
  have s: "holds_pid (path_of p) pid ?s" and late: "holds_pid (path_of p) pid t \<Longrightarrow> holds_pid (path_of p) pid (round_late w t)" for t
    using assms(2,4) by (auto simp: untouched_def holds_pid_def)
  then have turn: "holds_pid (path_of p) pid (snd (daemon_turn X d (secured_turn lib sec (round_sockets w) (round_turn w)) r ?s))"
    using daemon_turn_holds_pid [OF assms(1)] by blast
  show ?thesis
    using s turn late [OF turn] daemon_release_clears [OF assms(3)]
    by (auto simp: daemon_round_def pid_view_def Let_def split: outcome.split prod.split sum.split)
qed

lemma daemon_loop_pid:
  assumes "apart d (path_of p)"
    and "\<forall>w\<in>set rounds. untouched (path_of p) w \<and> \<not> fails (turn_faults (round_turn w)) (Stat (path_of p))
      \<and> \<not> fails (turn_faults (round_turn w)) (RemoveFile (path_of p))"
    and "holds_pid (path_of p) pid s" and "daemon_loop X lib d sec p q rounds r s = (result, s')"
  shows "pid_view (path_of p) pid result s'"
  using assms(2-4)
proof (induction rounds arbitrary: r s)
  case Nil
  then show ?case by (auto simp: pid_view_def)
next
  case (Cons w ws)
  then show ?case
    using daemon_round_pid [OF assms(1), of w pid s X lib sec q r]
    by (auto split: sum.splits prod.splits)
qed

lemma daemon_prologue_Inr:
  assumes "daemon_prologue X st config s = (Inr ((d, sec, p, q, r), dg), s')"
  shows "daemon_claim (start_env st) (start_faults st) (start_pid st) (cfg_sid config) s = (Inr (p, q), s')"
    and "build_transport_security (start_tls st) (home_dir (start_env st)) (fs_content (start_faults st) s) config = Inr sec"
    and "r = daemon_start config (start_now st)" and "set_config d = config"
  using assms by (auto simp: daemon_prologue_def Let_def io_bind_Inr daemon_setup_def)

section \<open>A concrete daemon\<close>

definition demo_startup :: startup where
  "demo_startup = \<lparr>start_env = demo_env, start_faults = no_faults, start_tls = demo_tls_lib, start_http_bound = True,
     start_udp_bound = True, start_now = 9, start_pid = 7, start_announce_now = 9, start_announce_nonce = ''z''\<rparr>"

definition demo_fs :: fs where
  "demo_fs = \<lparr>files = [\<lparr>absolute = False, components = [''k'']\<rparr> \<mapsto> ''ssh-rsa BB''], modes = Map.empty, dirs = {}\<rparr>"

lemma demo_free:
  "x \<in> path_ancestors (path_under (path_of ''/r/ssh-key-sync'') [sanitize_for_file ''s'']) \<or> below (path_of ''/r/ssh-key-sync'') x
    \<Longrightarrow> absolute x \<and> x \<noteq> path_of ''/h/k''"
proof -
  have paths: "path_of ''/r/ssh-key-sync'' = \<lparr>absolute = True, components = [''r'', ''ssh-key-sync'']\<rparr>"
    "path_of ''/h/k'' = \<lparr>absolute = True, components = [''h'', ''k'']\<rparr>" "sanitize_for_file ''s'' = ''s''"
    by code_simp+
  assume "x \<in> path_ancestors (path_under (path_of ''/r/ssh-key-sync'') [sanitize_for_file ''s'']) \<or> below (path_of ''/r/ssh-key-sync'') x"
  then show ?thesis
    by (auto simp: path_ancestors_iff below_def path_under_def paths take_Cons' split: if_splits)
qed

definition quiet_round :: "connection list \<Rightarrow> round" where
  "quiet_round conns = \<lparr>round_others = id, round_connections = conns, round_sockets = demo_sockets, round_turn = demo_turn [], round_late = id\<rparr>"

abbreviation "demo_pid_path \<equiv> ''/r/ssh-key-sync/s/daemon.pid''"
abbreviation "demo_stop_path \<equiv> ''/r/ssh-key-sync/s/daemon.stop''"

lemma demo_untouched [simp]: "untouched p (quiet_round conns)"
  by (simp add: untouched_def quiet_round_def)

lemma demo_sid_s: "sid_ok ''s''"
  by code_simp

lemma demo_control_paths:
  "pid_file_path demo_env ''s'' = Inr demo_pid_path" "stop_file_path demo_env ''s'' = Inr demo_stop_path"
  by code_simp+

abbreviation "quiet_turn sec \<equiv> secured_turn demo_tls_lib sec demo_sockets (demo_turn [])"

lemma demo_turn_dry:
  assumes "cfg_dry_run (set_config d)" and "set_local_public_key d = ''ssh-rsa BB''"
  obtains r' where "daemon_turn echo_ext d (quiet_turn sec) r s = (Inr r', s)" and "run_managed_keys r' = run_managed_keys r"
proof (cases "syncs echo_ext (quiet_turn sec) r")
  case True
  have "net_peer_order (turn_network (quiet_turn sec)) = []" "net_endpoint_order (turn_network (quiet_turn sec)) = []"
    by (simp_all add: demo_turn_def secured_turn_def)
  then have "run_sync_cycle echo_ext (turn_network (quiet_turn sec)) (set_config d) (set_service d)
      (snd (turn_engine echo_ext (quiet_turn sec) r)) (run_managed_keys r) = (Inr (), run_managed_keys r)"
    by (simp add: run_sync_cycle_def values_in_def)
  moreover have "write_keys d (quiet_turn sec) m s = (Inr (), s)" for m
    using assms(1) by (simp add: write_keys_def)
  moreover obtain v where "send_announcement echo_ext (snd (turn_engine echo_ext (quiet_turn sec) r)) (cfg_participant_id (set_config d))
      (set_advertised_address d) (set_http_port d) (set_local_public_key d) (set_udp_port d) (turn_announce_now (quiet_turn sec))
      (turn_announce_nonce (quiet_turn sec)) = Inr v"
    using demo_announcement assms(2) by force
  ultimately show thesis
    using daemon_turn_syncI [OF True] that by fastforce
next
  case False
  then show thesis using that by (simp add: daemon_turn_idle)
qed

lemma demo_first_turn:
  assumes "writable (turn_faults w) (path_of (set_authorized_keys_path d)) s" and "run_managed_keys r = Map.empty"
    and "doc_ok (str_lines (unwrap_or (files s (path_of (set_authorized_keys_path d))) []))"
    and "\<And>e. run_sync_cycle echo_ext (turn_network w) (set_config d) (set_service d) e Map.empty = (Inr (), Map.empty)"
    and "turn_key_order w = []" and "syncs echo_ext w r" and "set_local_public_key d = ''ssh-rsa BB''"
  shows "\<exists>r' s'. daemon_turn echo_ext d w r s = (Inr r', s') \<and> run_managed_keys r' = Map.empty \<and> write_keys d w Map.empty s = (Inr (), s')"
proof -
  obtain s' where wr: "write_keys d w Map.empty s = (Inr (), s')"
    using write_keys_succeeds [OF _ _ refl assms(1,3), of echo_ext Map.empty] assms(5) by (auto simp: keys_ok_def enumerates_def)
  obtain v where "send_announcement echo_ext (snd (turn_engine echo_ext w r)) (cfg_participant_id (set_config d))
      (set_advertised_address d) (set_http_port d) (set_local_public_key d) (set_udp_port d) (turn_announce_now w)
      (turn_announce_nonce w) = Inr v"
    using demo_announcement assms(7) by force
  from daemon_turn_syncI [OF assms(6) _ wr this] assms(2,4) wr show ?thesis
    by auto
qed

lemma demo_setup_any:
  assumes "fs_text no_faults s0 ''k'' = Some ''ssh-rsa BB''" and "cfg_public_key_path cfg = ''k''"
    and "cfg_http_listen_addr cfg = ''h:1''" and "cfg_udp_announce_addr cfg = ''h:2''"
  obtains d where "daemon_setup None (fs_text no_faults s0) (Inr ()) True True cfg = Inr d"
    and "set_config d = cfg" and "set_local_public_key d = ''ssh-rsa BB''"
    and "set_authorized_keys_path d = expand_home_path None (cfg_authorized_keys_path cfg)"
proof -
  have "parse_port ''h:1'' = Inr 1" "parse_port ''h:2'' = Inr 2" "expand_home_path None ''k'' = ''k''"
    by (simp_all add: parse_port_def rust_str expand_home_path_def)
  then show thesis
    using that demo_keys assms by (simp add: daemon_setup_def read_local_public_key_def service_new_def Let_def)
qed

lemma demo_key_file: "files s0 \<lparr>absolute = False, components = [''k'']\<rparr> = Some ''ssh-rsa BB'' \<Longrightarrow> fs_text no_faults s0 ''k'' = Some ''ssh-rsa BB''"
  by (simp add: fs_text_def fs_read_to_string_def no_faults_def path_of_name)

lemma demo_daemon_setup:
  obtains d where "daemon_setup None (fs_text no_faults demo_fs) (Inr ()) True True (demo_config [] dry) = Inr d"
    and "set_config d = demo_config [] dry" and "set_local_public_key d = ''ssh-rsa BB''" and "set_authorized_keys_path d = ''/h/k''"
proof -
  have "fs_text no_faults demo_fs ''k'' = Some ''ssh-rsa BB''"
    by (rule demo_key_file) (simp add: demo_fs_def)
  then show thesis
    using demo_setup_any [of demo_fs "demo_config [] dry"] that by (auto simp: demo_config_def expand_home_path_def)
qed

text \<open>A start in any configuration of the group that can be set up, with any files outside the control
  directory.\<close>

lemma demo_start:
  assumes "cfg_sid cfg = ''s''" and "dirs s0 = {}"
    and "\<forall>x. x \<in> path_ancestors (path_under (path_of ''/r/ssh-key-sync'') [sanitize_for_file ''s'']) \<or> below (path_of ''/r/ssh-key-sync'') x
      \<longrightarrow> files s0 x = None"
    and "daemon_setup None (fs_text no_faults s0) (Inr ()) True True cfg = Inr d" and "set_local_public_key d = ''ssh-rsa BB''"
    and "build_transport_security demo_tls_lib None (fs_content no_faults s0) cfg = Inr sec"
  obtains dg s where "daemon_prologue echo_ext demo_startup cfg s0
      = (Inr ((d, sec, demo_pid_path, demo_stop_path, daemon_start cfg 9), dg), s)"
    and "holds_pid (path_of demo_pid_path) 7 s"
    and "dirs s = path_ancestors (path_under (path_of ''/r/ssh-key-sync'') [sanitize_for_file ''s''])"
    and "\<forall>x\<in>dirs s. files s x = None" and "\<not> there s (path_of demo_stop_path)"
    and "\<forall>x. \<not> below (path_of ''/r/ssh-key-sync'') x \<longrightarrow> files s x = files s0 x"
proof -
  let ?d = "path_under (path_of ''/r/ssh-key-sync'') [sanitize_for_file ''s'']"
  obtain p q s where claim: "daemon_claim demo_env no_faults 7 ''s'' s0 = (Inr (p, q), s)"
    and dirs: "dirs s = path_ancestors ?d" "\<forall>x\<in>dirs s. files s x = None"
    using daemon_claim_succeeds [OF demo_root demo_sid_s _ assms(3,2), of no_faults 7] by (auto simp: no_faults_def)
  note claim' = daemon_claim_Inr [OF demo_root demo_sid_s claim]
  then have pq: "p = demo_pid_path" "q = demo_stop_path"
    by (simp_all add: demo_control_paths)
  obtain dg where dg: "send_announcement echo_ext (run_discovery (daemon_start cfg 9)) (cfg_participant_id cfg)
      (set_advertised_address d) (set_http_port d) (set_local_public_key d) (set_udp_port d) 9 ''z'' = Inr dg"
    using demo_announcement assms(5) by force
  have "home_dir demo_env = None"
    by (simp add: demo_env_def)
  then have "daemon_prologue echo_ext demo_startup cfg s0
      = (Inr ((d, sec, demo_pid_path, demo_stop_path, daemon_start cfg 9), dg), s)"
    using assms(1,4,6) claim pq dg by (simp add: daemon_prologue_def demo_startup_def io_bind_Inr)
  moreover have p: "path_of p = path_under ?d [PID_FILE_NAME]" and q: "path_of q = path_under ?d [STOP_FILE_NAME]"
    using control_paths(2,3) [OF demo_root demo_sid_s] claim'(1,2) by auto
  then have "holds_pid (path_of demo_pid_path) 7 s"
    using claim'(3,5) pq by (auto simp: holds_pid_def control_names)
  moreover have "\<not> there s (path_of demo_stop_path)"
    using claim'(3) pq dirs p q under_not_ancestor [of "[STOP_FILE_NAME]" ?d]
    by (auto simp: there_def control_names no_faults_def)
  moreover have "\<forall>x. \<not> below (path_of ''/r/ssh-key-sync'') x \<longrightarrow> files s x = files s0 x"
    using claim_frame [OF demo_root demo_sid_s, of _ no_faults 7 s0] claim by simp
  ultimately show thesis using that dirs by blast
qed

lemma demo_prologue:
  obtains d dg s where "daemon_prologue echo_ext demo_startup (demo_config [] True) demo_fs
      = (Inr ((d, InsecureNoTls, demo_pid_path, demo_stop_path, daemon_start (demo_config [] True) 9), dg), s)"
    and "set_config d = demo_config [] True" and "set_local_public_key d = ''ssh-rsa BB''"
    and "set_authorized_keys_path d = ''/h/k''" and "holds_pid (path_of demo_pid_path) 7 s"
    and "dirs s = path_ancestors (path_under (path_of ''/r/ssh-key-sync'') [sanitize_for_file ''s''])"
    and "\<forall>x\<in>dirs s. files s x = None" and "\<not> there s (path_of demo_stop_path)"
proof -
  let ?cfg = "demo_config [] True"
  obtain d where d: "daemon_setup None (fs_text no_faults demo_fs) (Inr ()) True True ?cfg = Inr d"
    and facts: "set_config d = ?cfg" "set_local_public_key d = ''ssh-rsa BB''" "set_authorized_keys_path d = ''/h/k''"
    by (rule demo_daemon_setup)
  have sec: "build_transport_security demo_tls_lib None (fs_content no_faults demo_fs) ?cfg = Inr InsecureNoTls"
    and sid: "cfg_sid ?cfg = ''s''"
    by (simp_all add: build_transport_security_def demo_config_def)
  have "dirs demo_fs = {}" and "\<forall>x. absolute x \<longrightarrow> files demo_fs x = None"
    by (auto simp: demo_fs_def)
  then show thesis
    using demo_start [OF sid _ _ d facts(2) sec] demo_free that [OF _ facts] by metis
qed

lemma demo_apart: "set_authorized_keys_path d = ''/h/k'' \<Longrightarrow> apart d (path_of demo_pid_path) \<and> apart d (path_of demo_stop_path)"
proof -
  have "temp_path_near (path_of ''/h/k'') = \<lparr>absolute = True, components = [''h'', ''k.tmp'']\<rparr>"
    "path_of ''/h/k'' = \<lparr>absolute = True, components = [''h'', ''k'']\<rparr>"
    "path_of demo_pid_path = \<lparr>absolute = True, components = [''r'', ''ssh-key-sync'', ''s'', ''daemon.pid'']\<rparr>"
    "path_of demo_stop_path = \<lparr>absolute = True, components = [''r'', ''ssh-key-sync'', ''s'', ''daemon.stop'']\<rparr>"
    by code_simp+
  then show "set_authorized_keys_path d = ''/h/k'' \<Longrightarrow> apart d (path_of demo_pid_path) \<and> apart d (path_of demo_stop_path)"
    by (simp add: apart_def path_ancestors_iff take_Cons')
qed

text \<open>A round without connections in a dry run.\<close>

lemma demo_round:
  assumes "cfg_dry_run (set_config d)" and "set_local_public_key d = ''ssh-rsa BB''" and "\<not> there s (path_of q)"
  obtains r' where "daemon_round echo_ext demo_tls_lib d sec p q (quiet_round []) r s = Inr (r', s)" and "run_managed_keys r' = run_managed_keys r"
proof -
  obtain r' where "daemon_turn echo_ext d (quiet_turn sec) r s = (Inr r', s)" "run_managed_keys r' = run_managed_keys r"
    using assms(1,2) by (rule demo_turn_dry)
  with that [of r'] assms(3) show thesis by (simp add: daemon_round_def quiet_round_def)
qed

lemma demo_faults [simp]: "fails (turn_faults (round_turn (quiet_round conns))) c = False"
  by (simp add: quiet_round_def demo_turn_def)

section \<open>Properties\<close>

text \<open>C12: The status command tells the truth about a daemon that got as far as its loop, whatever its
  rounds were: running with the right pid while it runs, stopped after it ended on request, and a
  stale pid file after it ended with an error or a panic. Other processes leave the pid file alone,
  and the calls that check, remove and read it do not fail; all others may.\<close>

theorem status_reflects_daemon:
  assumes "control_runtime_root_path (start_env st) = Inr root" and "sid_ok (cfg_sid config)"
    and "daemon_prologue X st config s0 = (Inr ((d, sec, p, q, r), dg), s)"
    and "daemon_loop X lib d sec p q rounds r s = (result, s')"
    and "apart d (path_of p)"
    and "\<forall>w\<in>set rounds. untouched (path_of p) w \<and> \<not> fails (turn_faults (round_turn w)) (Stat (path_of p))
      \<and> \<not> fails (turn_faults (round_turn w)) (RemoveFile (path_of p))"
    and "\<not> fails os (Stat (path_of p))" and "\<not> fails os (ReadToString (path_of p))"
    and "process_exists proc (start_pid st) \<longleftrightarrow> (\<exists>r'. result = Going r')"
  shows "status_daemon (start_env st) os proc (cfg_sid config) s'
    = (Inr (case result of Going _ \<Rightarrow> Running (start_pid st) | Exited (Inr _) \<Rightarrow> Stopped
        | _ \<Rightarrow> StalePidFile (start_pid st)), s')"
proof -
  note claim = daemon_claim_Inr [OF assms(1,2) daemon_prologue_Inr(1) [OF assms(3)]]
  have "path_of p \<noteq> path_under (path_of root) [CURRENT_SID_FILE_NAME]"
    using control_paths(2) [OF assms(1,2)] claim(1) by auto
  then have "holds_pid (path_of p) (start_pid st) s"
    using claim(3,5) by (auto simp: holds_pid_def)
  with assms(4-6) have view: "pid_view (path_of p) (start_pid st) result s'"
    by (intro daemon_loop_pid)
  show ?thesis
  proof (cases "result = Exited (Inr ())")
    case True
    with view show ?thesis using status_stopped [OF claim(1)] by (simp add: pid_view_def)
  next
    case False
    with view have "files s' (path_of p) = Some (show_word (start_pid st))"
      by (simp add: pid_view_def holds_pid_def)
    from status_of_pid_file [OF claim(1) this assms(7,8), of proc] assms(9) False show ?thesis
      by (auto split: run_result.split sum.split)
  qed
qed

theorem status_reflects_daemon_witness:
  "\<exists>d sec r dg s r' s'. daemon_prologue echo_ext demo_startup (demo_config [] True) demo_fs
      = (Inr ((d, sec, demo_pid_path, demo_stop_path, r), dg), s)
    \<and> daemon_loop echo_ext demo_tls_lib d sec demo_pid_path demo_stop_path [quiet_round []] r s = (Going r', s')
    \<and> status_daemon demo_env no_faults (\<lambda>_. True) ''s'' s' = (Inr (Running 7), s')"
proof (rule demo_prologue)
  fix d dg s
  let ?r = "daemon_start (demo_config [] True) 9"
  assume prologue: "daemon_prologue echo_ext demo_startup (demo_config [] True) demo_fs
      = (Inr ((d, InsecureNoTls, demo_pid_path, demo_stop_path, ?r), dg), s)"
    and cfg: "set_config d = demo_config [] True" "set_local_public_key d = ''ssh-rsa BB''"
    and path: "set_authorized_keys_path d = ''/h/k''" and stop: "\<not> there s (path_of demo_stop_path)"
  have "cfg_dry_run (set_config d)"
    using cfg(1) by (simp add: demo_config_def)
  then obtain r' where "daemon_round echo_ext demo_tls_lib d InsecureNoTls demo_pid_path demo_stop_path (quiet_round []) ?r s = Inr (r', s)"
    using cfg(2) stop by (rule demo_round)
  then have loop: "daemon_loop echo_ext demo_tls_lib d InsecureNoTls demo_pid_path demo_stop_path [quiet_round []] ?r s = (Going r', s)"
    by simp
  have "start_env demo_startup = demo_env" "start_pid demo_startup = 7" "cfg_sid (demo_config [] True) = ''s''"
    by (simp_all add: demo_startup_def demo_config_def)
  then have "status_daemon demo_env no_faults (\<lambda>_. True) ''s'' s = (Inr (Running 7), s)"
    using status_reflects_daemon [OF _ _ prologue loop, of "''/r/ssh-key-sync''" no_faults "\<lambda>_. True"]
      demo_root demo_sid_s demo_apart [OF path]
    by (simp add: process_exists_def) (simp add: no_faults_def)
  with prologue loop show ?thesis by blast
qed

text \<open>C11: A stop request is not lost: when \<open>stop_daemon\<close> answers that it stopped a running daemon, the
  daemon ends on request in the next round it completes, whatever would have come after, and leaves
  neither a pid file nor the request behind, when other processes leave the two files alone and the
  calls that check for them and remove them do not fail in that round.\<close>

theorem stop_stops_daemon:
  assumes "control_runtime_root_path env = Inr root" and "sid_ok sid"
    and "pid_file_path env sid = Inr p" and "stop_file_path env sid = Inr q"
    and "holds_pid (path_of p) pid s" and "stop_daemon env os procs kill sid s = (Inr True, s1)"
    and "apart d (path_of p)" and "apart d (path_of q)" and "untouched (path_of p) w" and "untouched (path_of q) w"
    and "handle_http_connections X (round_connections w) (set_service d) sec \<noteq> Panic"
    and "fst (daemon_turn X d (secured_turn lib sec (round_sockets w) (round_turn w)) r (round_others w s1)) = Inr r'"
    and "\<forall>x. \<not> fails (turn_faults (round_turn w)) (Stat x) \<and> \<not> fails (turn_faults (round_turn w)) (RemoveFile x)"
  shows "\<exists>s'. daemon_loop X lib d sec p q (w # ws) r s1 = (Exited (Inr ()), s')
    \<and> status_daemon env os' proc sid s' = (Inr Stopped, s') \<and> files s' (path_of q) = None"
proof -
  have paths: "path_of p = path_under (path_under (path_of root) [sanitize_for_file sid]) [PID_FILE_NAME]"
      "path_of q = path_under (path_under (path_of root) [sanitize_for_file sid]) [STOP_FILE_NAME]"
    using control_paths(2,3) [OF assms(1,2)] assms(3,4) by auto
  then have neq: "path_of p \<noteq> path_of q" by (simp add: control_names)
  obtain dir t where t: "ensure_control_runtime_dir_for_sid env os sid s = (Inr dir, t)"
    and w: "write_control_file os q ''stop'' t = (Inr (), s1)" and s1: "files s1 = (files s)(path_of q \<mapsto> ''stop'')"
    using assms(6,4) by (rule stop_daemon_True)
  have "path_of p \<notin> dirs s1"
    using ensure_dirs [OF assms(1,2) under_not_ancestor, of "[PID_FILE_NAME]" os s] paths(1) t
      write_control_file_Inr(3) [OF w] assms(5) by (simp add: holds_pid_def)
  with s1 assms(5) neq have pid: "holds_pid (path_of p) pid (round_others w s1)"
    and stop: "files (round_others w s1) (path_of q) = Some ''stop''"
    using assms(9,10) by (simp_all add: holds_pid_def untouched_def)
  obtain s2 where turn: "daemon_turn X d (secured_turn lib sec (round_sockets w) (round_turn w)) r (round_others w s1) = (Inr r', s2)"
    using assms(12) by (metis prod.collapse)
  have "holds_pid (path_of p) pid s2" and "files s2 (path_of q) = Some ''stop''"
    using daemon_turn_holds_pid [OF assms(7) pid, of X "secured_turn lib sec (round_sockets w) (round_turn w)" r]
      daemon_turn_frame(1) [OF assms(8), of X "secured_turn lib sec (round_sockets w) (round_turn w)" r "round_others w s1"] stop turn by simp_all
  then have late: "holds_pid (path_of p) pid (round_late w s2)" "files (round_late w s2) (path_of q) = Some ''stop''"
    using assms(9,10) by (simp_all add: holds_pid_def untouched_def)
  let ?s' = "daemon_release (turn_faults (round_turn w)) p q (round_late w s2)"
  obtain answers where "handle_http_connections X (round_connections w) (set_service d) sec = Val answers"
    using assms(11) by (cases "handle_http_connections X (round_connections w) (set_service d) sec") auto
  then have "daemon_loop X lib d sec p q (w # ws) r s1 = (Exited (Inr ()), ?s')"
    using turn late(2) assms(13) by (simp add: daemon_round_def fs_exists_def there_def)
  moreover have "\<not> there ?s' (path_of p)"
    using daemon_release_clears [OF _ late(1)] assms(13) by simp
  moreover have "files ?s' (path_of q) = None"
    using late neq assms(13) by (auto simp: daemon_release_def fs_exists_def there_def fs_ops holds_pid_def Let_def)
  ultimately show ?thesis using status_stopped [OF assms(3)] by simp
qed

theorem stop_stops_daemon_witness:
  "\<exists>d sec r dg s s1 s'. daemon_prologue echo_ext demo_startup (demo_config [] True) demo_fs
      = (Inr ((d, sec, demo_pid_path, demo_stop_path, r), dg), s)
    \<and> stop_daemon demo_env no_faults (\<lambda>n _. n = 0) (\<lambda>_. Inr True) ''s'' s = (Inr True, s1)
    \<and> daemon_loop echo_ext demo_tls_lib d sec demo_pid_path demo_stop_path [quiet_round [], quiet_round []] r s1 = (Exited (Inr ()), s')
    \<and> status_daemon demo_env no_faults (\<lambda>_. False) ''s'' s' = (Inr Stopped, s')"
proof (rule demo_prologue)
  fix d dg s
  let ?r = "daemon_start (demo_config [] True) 9"
  assume prologue: "daemon_prologue echo_ext demo_startup (demo_config [] True) demo_fs
      = (Inr ((d, InsecureNoTls, demo_pid_path, demo_stop_path, ?r), dg), s)"
    and cfg: "set_config d = demo_config [] True" "set_local_public_key d = ''ssh-rsa BB''"
    and path: "set_authorized_keys_path d = ''/h/k''" and pid: "holds_pid (path_of demo_pid_path) 7 s"
    and dirs: "dirs s = path_ancestors (path_under (path_of ''/r/ssh-key-sync'') [sanitize_for_file ''s''])"
      "\<forall>x\<in>dirs s. files s x = None"
  obtain s1 where stop: "stop_daemon demo_env no_faults (\<lambda>n _. n = 0) (\<lambda>_. Inr True) ''s'' s = (Inr True, s1)"
    using stop_daemon_succeeds [OF demo_root demo_sid_s _ demo_control_paths(1) _ dirs, of no_faults 7 "\<lambda>n _. n = 0" "\<lambda>_. Inr True"] pid
    by (auto simp: no_faults_def process_exists_def holds_pid_def)
  have "cfg_dry_run (set_config d)"
    using cfg(1) by (simp add: demo_config_def)
  then obtain r' where "daemon_turn echo_ext d (quiet_turn InsecureNoTls) ?r s1 = (Inr r', s1)"
    using cfg(2) by (rule demo_turn_dry)
  then have "fst (daemon_turn echo_ext d (secured_turn demo_tls_lib InsecureNoTls (round_sockets (quiet_round [])) (round_turn (quiet_round []))) ?r (round_others (quiet_round []) s1)) = Inr r'"
    by (simp add: quiet_round_def)
  moreover have "handle_http_connections echo_ext (round_connections (quiet_round [])) (set_service d) InsecureNoTls \<noteq> Panic"
    by (simp add: quiet_round_def)
  ultimately obtain s' where "daemon_loop echo_ext demo_tls_lib d InsecureNoTls demo_pid_path demo_stop_path [quiet_round [], quiet_round []] ?r s1 = (Exited (Inr ()), s')"
      "status_daemon demo_env no_faults (\<lambda>_. False) ''s'' s' = (Inr Stopped, s')"
    using stop_stops_daemon [OF demo_root demo_sid_s demo_control_paths pid stop, of d "quiet_round []" echo_ext InsecureNoTls demo_tls_lib ?r r'
        "[quiet_round []]" no_faults "\<lambda>_. False"] demo_apart [OF path] by auto
  with prologue stop show ?thesis by blast
qed

text \<open>C37: One connection is enough to end the daemon: a client that sends a header with a content length
  that overflows makes it panic in that round, before anything is verified. Its pid file is left
  behind, so the status is a stale pid file.\<close>

theorem remote_request_ends_daemon:
  assumes "conn \<in> set (round_connections w)" and "conn_stream sec conn = Some [Bytes huge_request]"
    and "pid_file_path env sid = Inr p" and "holds_pid (path_of p) pid s" and "untouched (path_of p) w"
    and "\<not> fails os (Stat (path_of p))" and "\<not> fails os (ReadToString (path_of p))" and "\<not> process_exists proc pid"
  shows "daemon_loop X lib d sec p q (w # ws) r s = (Panicked, round_others w s)
    \<and> status_daemon env os proc sid (round_others w s) = (Inr (StalePidFile pid), round_others w s)"
proof -
  have "handle_http_connection X (set_service d) (conn_now conn) (conn_nonce conn) (conn_limit conn) [Bytes huge_request] = Panic"
    by (simp add: handle_http_connection_def huge_request_panics)
  with assms(1,2) have "handle_http_connections X (round_connections w) (set_service d) sec = Panic"
    unfolding handle_http_connections_Panic by blast
  moreover have "files (round_others w s) (path_of p) = Some (show_word pid)"
    using assms(4,5) by (simp add: holds_pid_def untouched_def)
  ultimately show ?thesis
    using status_of_pid_file [OF assms(3) _ assms(6,7), of "round_others w s" pid proc] assms(8)
    by (simp add: daemon_round_def)
qed

theorem remote_request_ends_daemon_witness:
  "\<exists>d sec r dg s. daemon_prologue echo_ext demo_startup (demo_config [] True) demo_fs
      = (Inr ((d, sec, demo_pid_path, demo_stop_path, r), dg), s)
    \<and> daemon_loop echo_ext demo_tls_lib d sec demo_pid_path demo_stop_path [quiet_round [\<lparr>conn_plain = [Bytes huge_request],
        conn_tls = (\<lambda>_. None), conn_now = 9, conn_nonce = ''y'', conn_limit = None\<rparr>]] r s = (Panicked, s)
    \<and> status_daemon demo_env no_faults (\<lambda>_. False) ''s'' s = (Inr (StalePidFile 7), s)"
proof (rule demo_prologue)
  fix d dg s
  let ?r = "daemon_start (demo_config [] True) 9"
  let ?conn = "\<lparr>conn_plain = [Bytes huge_request], conn_tls = (\<lambda>_. None), conn_now = 9, conn_nonce = ''y'', conn_limit = None\<rparr>"
  assume prologue: "daemon_prologue echo_ext demo_startup (demo_config [] True) demo_fs
      = (Inr ((d, InsecureNoTls, demo_pid_path, demo_stop_path, ?r), dg), s)"
    and pid: "holds_pid (path_of demo_pid_path) 7 s"
  have "?conn \<in> set (round_connections (quiet_round [?conn]))" "round_others (quiet_round [?conn]) s = s"
    "conn_stream InsecureNoTls ?conn = Some [Bytes huge_request]" "\<not> fails no_faults (Stat (path_of demo_pid_path))"
    "\<not> fails no_faults (ReadToString (path_of demo_pid_path))"
    by (simp_all add: quiet_round_def conn_stream_def no_faults_def)
  with remote_request_ends_daemon [OF this(1,3) demo_control_paths(1) pid demo_untouched this(4,5), of "\<lambda>_. False" echo_ext demo_tls_lib d demo_stop_path "[]" ?r] prologue
  show ?thesis by (auto simp: process_exists_def)
qed

section \<open>The lines that are not managed\<close>

definition keys_text :: "DaemonSetup \<Rightarrow> fs \<Rightarrow> string" where
  "keys_text d s = unwrap_or (files s (path_of (set_authorized_keys_path d))) []"

text \<open>The file is as it was, or it has a block and the lines it had, with the separating blank line.\<close>

definition own_lines_kept :: "DaemonSetup \<Rightarrow> string \<Rightarrow> fs \<Rightarrow> bool" where
  "own_lines_kept d old s \<longleftrightarrow> keys_text d s = old \<or> doc_ok (str_lines (keys_text d s))
     \<and> separator (str_lines (keys_text d s)) = []
     \<and> unmanaged (str_lines (keys_text d s)) = unmanaged (str_lines old) @ separator (str_lines old)"

text \<open>The file is left alone by others during a round, and the check for its existence does not fail.\<close>

definition undisturbed :: "path \<Rightarrow> round \<Rightarrow> bool" where
  "undisturbed p w \<longleftrightarrow> untouched p w \<and> \<not> fails (turn_faults (round_turn w)) (Stat p)"

lemma apply_keeps_own:
  assumes "own_lines_kept d old s" and "doc_ok (str_lines old)" and "\<not> fails os (Stat (path_of (set_authorized_keys_path d)))"
  shows "own_lines_kept d old (snd (apply_managed_block_to_file m os (set_authorized_keys_path d) keys s))"
proof -
  let ?p = "path_of (set_authorized_keys_path d)" and ?s = "snd (apply_managed_block_to_file m os (set_authorized_keys_path d) keys s)"
  have ok: "doc_ok (str_lines (keys_text d s))"
    using assms(1,2) by (auto simp: own_lines_kept_def)
  have "seen_content os ?p s = keys_text d s"
    using assms(3) by (simp add: seen_content_def keys_text_def)
  then consider "files ?s ?p = files s ?p" | new where "upsert_managed_block (keys_text d s) keys = Inr new" "files ?s ?p = Some new"
    using apply_content [of m os "set_authorized_keys_path d" keys s] by auto
  then show ?thesis
  proof cases
    case 1
    with assms(1) show ?thesis by (simp add: own_lines_kept_def keys_text_def)
  next
    case (2 new)
    obtain ns where ns: "list_all ssh.normal ns" and lines: "str_lines new = upsert_lines (str_lines (keys_text d s)) ns"
      using str_lines_upsert [OF ok 2(1)] by auto
    have "unmanaged (str_lines (keys_text d s)) @ separator (str_lines (keys_text d s)) = unmanaged (str_lines old) @ separator (str_lines old)"
      using assms(1) by (auto simp: own_lines_kept_def)
    with 2(2) lines show ?thesis
      using upsert_unmanaged [OF ok ns] block.put_invar [OF ok ns] by (simp add: own_lines_kept_def keys_text_def)
  qed
qed

lemma daemon_turn_keeps_own:
  assumes "own_lines_kept d old s" and "doc_ok (str_lines old)" and "\<not> fails (turn_faults w) (Stat (path_of (set_authorized_keys_path d)))"
  shows "own_lines_kept d old (snd (daemon_turn X d w r s))"
  using daemon_turn_state [of X d w r s] apply_keeps_own [OF assms] assms(1) by metis

lemma release_frame: "x \<noteq> path_of p \<Longrightarrow> x \<noteq> path_of q \<Longrightarrow> files (daemon_release os p q s) x = files s x"
  by (auto simp: daemon_release_def fs_remove_file_def Let_def)

lemma daemon_loop_keeps_own:
  assumes "\<forall>w\<in>set rounds. undisturbed (path_of (set_authorized_keys_path d)) w" and "doc_ok (str_lines old)"
    and "path_of p \<noteq> path_of (set_authorized_keys_path d)" and "path_of q \<noteq> path_of (set_authorized_keys_path d)"
    and "own_lines_kept d old s"
  shows "own_lines_kept d old (snd (daemon_loop X lib d sec p q rounds r s))"
  using assms(1,5)
proof (induction rounds arbitrary: r s)
  case (Cons w ws)
  have others: "own_lines_kept d old (round_others w s)"
    and late: "\<And>t. own_lines_kept d old t \<Longrightarrow> own_lines_kept d old (round_late w t)"
    and stat: "\<not> fails (turn_faults (round_turn w)) (Stat (path_of (set_authorized_keys_path d)))"
    using Cons.prems by (auto simp: own_lines_kept_def keys_text_def undisturbed_def untouched_def)
  then have turn: "own_lines_kept d old (snd (daemon_turn X d (secured_turn lib sec (round_sockets w) (round_turn w)) r (round_others w s)))"
    using assms(2) by (intro daemon_turn_keeps_own) simp_all
  moreover have "own_lines_kept d old t \<Longrightarrow> own_lines_kept d old (daemon_release os p q t)" for os t
    using assms(3,4) by (simp add: own_lines_kept_def keys_text_def release_frame)
  ultimately show ?case
    using Cons.IH Cons.prems others late [OF turn]
    by (auto simp: daemon_round_def Let_def split: outcome.split prod.split sum.split)
qed simp

lemma daemon_setup_path:
  "daemon_setup home rd tls hb ub config = Inr d \<Longrightarrow> set_authorized_keys_path d = expand_home_path home (cfg_authorized_keys_path config)"
  by (auto simp: daemon_setup_def Let_def)

lemma daemon_prologue_frame:
  assumes "control_runtime_root_path (start_env st) = Inr root" and "sid_ok (cfg_sid config)" and "\<not> below (path_of root) x"
  shows "files (snd (daemon_prologue X st config s)) x = files s x"
  using claim_frame [OF assms]
  by (auto simp: daemon_prologue_def Let_def io_bind_snd io_lift_def io_return_def split: sum.split prod.split)

text \<open>C9: The daemon never changes a line outside its block: started with a well formed file, over every
  run, with any peers, any ending and any calls failing but the check for the existence of the file
  itself, the lines of \<open>authorized_keys\<close> that are not managed are the ones that were there before
  the daemon started, followed by the blank line that separates them from a new block once there is
  one, and the file stays well formed. Other processes leave the file alone.\<close>

theorem daemon_keeps_own_lines:
  assumes "control_runtime_root_path (start_env st) = Inr root" and "sid_ok (cfg_sid config)"
    and "p = path_of (expand_home_path (home_dir (start_env st)) (cfg_authorized_keys_path config))"
    and "\<not> below (path_of root) p" and "\<forall>w\<in>set rounds. untouched p w \<and> \<not> fails (turn_faults (round_turn w)) (Stat p)"
    and "old = str_lines (unwrap_or (files s p) [])" and "doc_ok old"
    and "run_daemon X st rounds config s = (result, s')" and "new = str_lines (unwrap_or (files s' p) [])"
  shows "unmanaged new \<in> {unmanaged old, unmanaged old @ separator old} \<and> doc_ok new"
proof -
  let ?old = "unwrap_or (files s p) []"
  have frame: "files (snd (daemon_prologue X st config s)) p = files s p"
    using assms(1,2,4) by (rule daemon_prologue_frame)
  obtain v t where v: "daemon_prologue X st config s = (v, t)" by fastforce
  show ?thesis
  proof (cases v)
    case (Inl e)
    with v assms(6-9) frame show ?thesis by (simp add: run_daemon_def)
  next
    case (Inr ready)
    then obtain d sec pp sp r dg where ready: "v = Inr ((d, sec, pp, sp, r), dg)"
      by (metis prod.collapse)
    note claim = daemon_claim_Inr(1,2) [OF assms(1,2) daemon_prologue_Inr(1) [OF v [unfolded ready]]]
    have path: "path_of (set_authorized_keys_path d) = p"
      using v ready daemon_setup_path assms(3) by (auto simp: daemon_prologue_def Let_def io_bind_Inr)
    have "path_of pp \<noteq> p" "path_of sp \<noteq> p"
      using control_paths(2,3) [OF assms(1,2)] claim assms(4) by auto
    moreover have "own_lines_kept d ?old t"
      using frame v by (simp add: own_lines_kept_def keys_text_def path)
    ultimately have "own_lines_kept d ?old (snd (daemon_loop X (start_tls st) d sec pp sp rounds r t))"
      using assms(5-7) by (intro daemon_loop_keeps_own) (simp_all add: path undisturbed_def)
    with v ready assms(6-9) show ?thesis
      by (auto simp: run_daemon_def own_lines_kept_def keys_text_def path)
  qed
qed

text \<open>A file with a line of the user, and what a daemon without peers makes of it.\<close>

definition user_fs :: fs where
  "user_fs = demo_fs\<lparr>files := (files demo_fs)(path_of ''/h/k'' \<mapsto> ''ssh-rsa M'')\<rparr>"

lemma user_file:
  "files user_fs (path_of ''/h/k'') = Some ''ssh-rsa M''" "utf8_valid ''ssh-rsa M''" "doc_ok (str_lines ''ssh-rsa M'')"
  "upsert_managed_block ''ssh-rsa M'' [] = Inr (''ssh-rsa M'' @ [nl, nl] @ ''# ssh-key-sync begin'' @ [nl] @ ''# ssh-key-sync end'')"
  by (simp add: user_fs_def) code_simp+

lemma user_key: "fs_text no_faults user_fs ''k'' = Some ''ssh-rsa BB''"
  and user_free: "dirs user_fs = {}" "\<forall>x. absolute x \<and> x \<noteq> path_of ''/h/k'' \<longrightarrow> files user_fs x = None"
proof -
  have "path_of ''/h/k'' = \<lparr>absolute = True, components = [''h'', ''k'']\<rparr>"
    by code_simp
  then show "fs_text no_faults user_fs ''k'' = Some ''ssh-rsa BB''"
    by (intro demo_key_file) (simp add: user_fs_def demo_fs_def)
  show "dirs user_fs = {}" "\<forall>x. absolute x \<and> x \<noteq> path_of ''/h/k'' \<longrightarrow> files user_fs x = None"
    by (auto simp: user_fs_def demo_fs_def)
qed

text \<open>A start in a configuration that is not a dry run, and its first round when nobody answers.\<close>

lemma user_run:
  assumes "cfg_sid cfg = ''s''" and "\<not> cfg_dry_run cfg" and "cfg_authorized_keys_path cfg = ''/h/k''"
    and "dirs s0 = {}" and "\<forall>x. absolute x \<and> x \<noteq> path_of ''/h/k'' \<longrightarrow> files s0 x = None"
    and "files s0 (path_of ''/h/k'') = Some ''ssh-rsa M''"
    and "daemon_setup None (fs_text no_faults s0) (Inr ()) True True cfg = Inr d" and "set_local_public_key d = ''ssh-rsa BB''"
    and "build_transport_security demo_tls_lib None (fs_content no_faults s0) cfg = Inr sec"
    and "handle_http_connections echo_ext conns (set_service d) sec = Val answers"
  shows "\<exists>r s'. run_daemon echo_ext demo_startup [quiet_round conns] cfg s0 = (Going r, s')
    \<and> files s' (path_of ''/h/k'') = Some (''ssh-rsa M'' @ [nl, nl] @ ''# ssh-key-sync begin'' @ [nl] @ ''# ssh-key-sync end'')"
proof -
  let ?p = "path_of ''/h/k''" and ?r = "daemon_start cfg 9" and ?w = "quiet_turn sec"
  have p: "?p = \<lparr>absolute = True, components = [''h'', ''k'']\<rparr>" "temp_path_near ?p = \<lparr>absolute = True, components = [''h'', ''k.tmp'']\<rparr>"
    by code_simp+
  have free: "\<forall>x. x \<in> path_ancestors (path_under (path_of ''/r/ssh-key-sync'') [sanitize_for_file ''s'']) \<or> below (path_of ''/r/ssh-key-sync'') x
      \<longrightarrow> files s0 x = None"
    using demo_free assms(5) by blast
  obtain dg s where start: "daemon_prologue echo_ext demo_startup cfg s0 = (Inr ((d, sec, demo_pid_path, demo_stop_path, ?r), dg), s)"
    and dirs: "dirs s = path_ancestors (path_under (path_of ''/r/ssh-key-sync'') [sanitize_for_file ''s''])"
    and stop: "\<not> there s (path_of demo_stop_path)" and files: "\<forall>x. \<not> below (path_of ''/r/ssh-key-sync'') x \<longrightarrow> files s x = files s0 x"
    by (rule demo_start [OF assms(1,4) free assms(7-9)])
  have d: "set_config d = cfg" "set_authorized_keys_path d = ''/h/k''"
    using assms(3,7) by (auto simp: daemon_setup_def Let_def expand_home_path_def)
  have root: "path_of ''/r/ssh-key-sync'' = \<lparr>absolute = True, components = [''r'', ''ssh-key-sync'']\<rparr>" "sanitize_for_file ''s'' = ''s''"
    by code_simp+
  have old: "files s ?p = Some ''ssh-rsa M''"
    using files assms(6) by (simp add: p root below_def path_under_def)
  have "\<not> fails (turn_faults ?w) c" for c
    by (simp add: demo_turn_def)
  moreover have "files s q = None" if "q \<in> path_ancestors ?p" "q \<noteq> ?p" for q
    using that assms(5) files by (auto simp: p root path_ancestors_iff below_def path_under_def take_Cons' split: if_splits)
  ultimately have place: "writable (turn_faults ?w) ?p s"
    using user_file(2) old by (auto simp: writable_def dirs p(1) p(2) [unfolded p(1)] root path_ancestors_iff path_under_def take_Cons')
  have quiet: "run_sync_cycle echo_ext (turn_network ?w) c v e Map.empty = (Inr (), Map.empty)" "turn_key_order ?w = []" "syncs echo_ext ?w ?r" for c v e
    by (simp_all add: run_sync_cycle_def values_in_def secured_turn_def demo_turn_def syncs_def daemon_start_def)
  obtain r' s' where turn: "daemon_turn echo_ext d ?w ?r s = (Inr r', s')" and wr: "write_keys d ?w Map.empty s = (Inr (), s')"
    using demo_first_turn [of ?w d s ?r] place user_file(3) old assms(8) d quiet by (auto simp: daemon_start_def)
  obtain out where out: "apply_managed_block_to_file (turn_mode ?w) (turn_faults ?w) ''/h/k'' [] s = (Inr out, s')"
    using wr assms(2) d quiet(2) by (auto simp: write_keys_def values_in_def io_bind_Inr)
  then have "upsert_managed_block ''ssh-rsa M'' [] = Inr out"
    using apply_returns [OF place refl, of "turn_mode ?w" "[]"] old by (simp add: seen_content_def demo_turn_def)
  moreover from out have "files s' ?p = Some out"
    by (rule apply_Inr)
  ultimately have new: "files s' ?p = Some (''ssh-rsa M'' @ [nl, nl] @ ''# ssh-key-sync begin'' @ [nl] @ ''# ssh-key-sync end'')"
    using user_file(4) by simp
  have "\<not> there s' (path_of demo_stop_path)"
    using daemon_turn_frame(2) [of d "path_of demo_stop_path" echo_ext ?w ?r s] demo_apart [OF d(2)] stop turn by simp
  with start turn assms(10) have "run_daemon echo_ext demo_startup [quiet_round conns] cfg s0 = (Going r', s')"
    by (simp add: run_daemon_def daemon_round_def quiet_round_def demo_startup_def)
  with new show ?thesis by blast
qed

theorem daemon_keeps_own_lines_witness:
  "\<exists>r s'. run_daemon echo_ext demo_startup [quiet_round []] (demo_config [] False) user_fs = (Going r, s')
    \<and> unmanaged (str_lines (unwrap_or (files s' (path_of ''/h/k'')) [])) \<in> {[''ssh-rsa M''], [''ssh-rsa M'', []]}
    \<and> files s' (path_of ''/h/k'') \<noteq> files user_fs (path_of ''/h/k'')"
proof -
  let ?cfg = "demo_config [] False" and ?p = "path_of ''/h/k''" and ?old = "str_lines ''ssh-rsa M''"
  have cfg: "cfg_sid ?cfg = ''s''" "\<not> cfg_dry_run ?cfg" "cfg_authorized_keys_path ?cfg = ''/h/k''" "cfg_public_key_path ?cfg = ''k''"
      "cfg_http_listen_addr ?cfg = ''h:1''" "cfg_udp_announce_addr ?cfg = ''h:2''"
    and sec: "build_transport_security demo_tls_lib None (fs_content no_faults user_fs) ?cfg = Inr InsecureNoTls"
    by (simp_all add: demo_config_def build_transport_security_def)
  obtain d where d: "daemon_setup None (fs_text no_faults user_fs) (Inr ()) True True ?cfg = Inr d" "set_local_public_key d = ''ssh-rsa BB''"
    using user_key cfg(4-6) by (rule demo_setup_any)
  have conns: "handle_http_connections echo_ext [] (set_service d) InsecureNoTls = Val []" by simp
  from user_run [OF cfg(1-3) user_free user_file(1) d sec conns] obtain r s' where
    run: "run_daemon echo_ext demo_startup [quiet_round []] ?cfg user_fs = (Going r, s')"
    and new: "files s' ?p = Some (''ssh-rsa M'' @ [nl, nl] @ ''# ssh-key-sync begin'' @ [nl] @ ''# ssh-key-sync end'')"
    by blast
  have start: "start_env demo_startup = demo_env" "expand_home_path (home_dir demo_env) (cfg_authorized_keys_path ?cfg) = ''/h/k''"
    by (simp_all add: demo_startup_def demo_env_def cfg expand_home_path_def)
  have "\<not> below (path_of ''/r/ssh-key-sync'') ?p"
    using demo_free by blast
  then have "unmanaged (str_lines (unwrap_or (files s' ?p) [])) \<in> {unmanaged ?old, unmanaged ?old @ separator ?old}"
    using daemon_keeps_own_lines [of demo_startup "''/r/ssh-key-sync''" ?cfg ?p "[quiet_round []]" ?old user_fs echo_ext "Going r" s', OF _ _ _ _ _ _ _ run refl]
      demo_root demo_sid_s user_file start cfg(1) by simp
  moreover have "unmanaged ?old = [''ssh-rsa M'']" "separator ?old = [[]]"
    by code_simp+
  ultimately show ?thesis
    using run new user_file(1) by auto
qed

section \<open>An abstract view of the daemon\<close>

text \<open>What a user of the daemon sees: whose keys are known, which keys are in the block, and the other
  lines of the file (with the blank line that separates them from a block, also before there is one). Keys are learnt only when they are good, never forgotten, and the block holds
  exactly the known keys, or is left alone in a dry run.\<close>

record key_view =
  view_known :: "string \<rightharpoonup> string"
  view_block :: "string set"
  view_own :: "string list"

inductive key_spec :: "(string \<Rightarrow> string \<Rightarrow> bool) \<Rightarrow> bool \<Rightarrow> key_view \<Rightarrow> key_view \<Rightarrow> bool" for good dry where
  idle: "key_spec good dry v v"
| publish: "(\<And>k key. known k = Some key \<Longrightarrow> view_known v k = Some key \<or> good k key)
    \<Longrightarrow> dom (view_known v) \<subseteq> dom known
    \<Longrightarrow> key_spec good dry v (v\<lparr>view_known := known, view_block := if dry then view_block v else ran known\<rparr>)"

text \<open>A step relation that simulates another through an abstraction does so over whole runs.\<close>

locale simulation =
  fixes inv :: "'c \<Rightarrow> bool" and cstep :: "'c \<Rightarrow> 'c \<Rightarrow> bool" and abs :: "'c \<Rightarrow> 'a" and astep :: "'a \<Rightarrow> 'a \<Rightarrow> bool"
  assumes step_inv: "inv c \<Longrightarrow> cstep c c' \<Longrightarrow> inv c'"
    and step_sim: "inv c \<Longrightarrow> cstep c c' \<Longrightarrow> astep (abs c) (abs c')"
begin

lemma run_sim: "cstep\<^sup>*\<^sup>* c c' \<Longrightarrow> inv c \<Longrightarrow> astep\<^sup>*\<^sup>* (abs c) (abs c') \<and> inv c'"
  by (induction rule: rtranclp_induct) (auto intro: step_inv step_sim rtranclp.rtrancl_into_rtrancl)

end

inductive round_step ::
  "ext \<Rightarrow> tls_lib \<Rightarrow> DaemonSetup \<Rightarrow> TransportSecurity \<Rightarrow> pathbuf \<Rightarrow> pathbuf \<Rightarrow> DaemonRun \<times> fs \<Rightarrow> DaemonRun \<times> fs \<Rightarrow> bool"
  for X lib d sec p q where
  "daemon_round X lib d sec p q w r s = Inr (r', s') \<Longrightarrow> undisturbed (path_of (set_authorized_keys_path d)) w
   \<Longrightarrow> enumerates (turn_key_order (round_turn w)) (run_managed_keys r')
   \<Longrightarrow> round_step X lib d sec p q (r, s) (r', s')"

inductive_cases round_stepE: "round_step X lib d sec p q c c'"

definition daemon_view :: "DaemonSetup \<Rightarrow> DaemonRun \<times> fs \<Rightarrow> key_view" where
  "daemon_view d c = \<lparr>view_known = run_managed_keys (fst c),
     view_block = set (managed (str_lines (keys_text d (snd c)))),
     view_own = settled (str_lines (keys_text d (snd c)))\<rparr>"

definition daemon_inv :: "ext \<Rightarrow> DaemonSetup \<Rightarrow> DaemonRun \<times> fs \<Rightarrow> bool" where
  "daemon_inv X d c \<longleftrightarrow> keys_ok X d (run_managed_keys (fst c)) \<and> doc_ok (str_lines (keys_text d (snd c)))"

definition good_key :: "ext \<Rightarrow> DaemonSetup \<Rightarrow> string \<Rightarrow> string \<Rightarrow> bool" where
  "good_key X d k key \<longleftrightarrow> k \<noteq> cfg_participant_id (set_config d)
     \<and> (\<exists>e p. verify_and_parse_public_key_response X (set_service d) e = Inr p \<and> key = pkp_public_key p)"

lemma fetch_keys_keeps: "m k \<noteq> None \<Longrightarrow> fetch_keys fetch self eps m k \<noteq> None"
  by (induction fetch self eps m rule: fetch_keys.induct) (simp_all split: sum.split)

lemma run_sync_cycle_dom: "run_sync_cycle X net cfg svc disc m = (v, m') \<Longrightarrow> dom m \<subseteq> dom m'"
  using fetch_keys_keeps [of m] unfolding run_sync_cycle_def Let_def dom_def by blast

lemma daemon_turn_view:
  assumes "daemon_turn X d w r s = (Inr r', s')" and "daemon_inv X d (r, s)"
    and "enumerates (turn_key_order w) (run_managed_keys r')" and "\<not> fails (turn_faults w) (Stat (path_of (set_authorized_keys_path d)))"
  shows "key_spec (good_key X d) (cfg_dry_run (set_config d)) (daemon_view d (r, s)) (daemon_view d (r', s'))
    \<and> daemon_inv X d (r', s')"
proof (cases "syncs X w r")
  case False
  with assms show ?thesis
    by (auto simp: daemon_turn_idle daemon_view_def daemon_inv_def intro: idle)
next
  case True
  let ?p = "path_of (set_authorized_keys_path d)" and ?dry = "cfg_dry_run (set_config d)"
  from True assms(1) obtain m where sync: "run_sync_cycle X (turn_network w) (set_config d) (set_service d)
      (snd (turn_engine X w r)) (run_managed_keys r) = (Inr (), m)"
    and wr: "write_keys d w m s = (Inr (), s')" and m: "run_managed_keys r' = m"
    by (auto elim: daemon_turn_sync)
  have ok: "keys_ok X d m" and doc: "doc_ok (str_lines (unwrap_or (files s ?p) []))"
    using run_sync_cycle_keys_ok [OF sync] assms(2) by (auto simp: daemon_inv_def keys_text_def)
  have "run_managed_keys r k = Some key \<or> good_key X d k key" if "m k = Some key" for k key
    using run_sync_cycle_origin [OF sync that] by (auto simp: good_key_def vouched_def)
  moreover have "dom (run_managed_keys r) \<subseteq> dom m"
    using sync by (rule run_sync_cycle_dom)
  ultimately have step: "key_spec (good_key X d) ?dry (daemon_view d (r, s)) ((daemon_view d (r, s))\<lparr>view_known := m,
      view_block := if ?dry then view_block (daemon_view d (r, s)) else ran m\<rparr>)"
    by (intro publish) (auto simp: daemon_view_def)
  show ?thesis
  proof (cases ?dry)
    case True
    with wr have "s' = s" by (simp add: write_keys_def)
    with True step m ok doc show ?thesis by (simp add: daemon_view_def daemon_inv_def keys_text_def)
  next
    case False
    have "seen_content (turn_faults w) ?p s = unwrap_or (files s ?p) []"
      using assms(4) by (simp add: seen_content_def)
    then obtain new where "files s' ?p = Some new" "set (managed (str_lines new)) = ran m" "doc_ok (str_lines new)"
        "settled (str_lines new) = settled (str_lines (unwrap_or (files s ?p) []))"
      using write_keys_block [OF wr False ok _ refl doc refl] assms(3) m by (auto simp: settled_def)
    with False step m ok show ?thesis by (simp add: daemon_view_def daemon_inv_def keys_text_def)
  qed
qed

interpretation daemon_sim: simulation "daemon_inv X d" "round_step X lib d sec p q" "daemon_view d"
  "key_spec (good_key X d) (cfg_dry_run (set_config d))"
proof -
  have "key_spec (good_key X d) (cfg_dry_run (set_config d)) (daemon_view d c) (daemon_view d c') \<and> daemon_inv X d c'"
    if inv: "daemon_inv X d c" and step: "round_step X lib d sec p q c c'" for c c'
  proof -
    from step obtain w r s r' s' where c: "c = (r, s)" "c' = (r', s')" and round: "daemon_round X lib d sec p q w r s = Inr (r', s')"
      and quiet: "undisturbed (path_of (set_authorized_keys_path d)) w" and order: "enumerates (turn_key_order (round_turn w)) (run_managed_keys r')"
      by (rule round_stepE)
    from round obtain t where t: "daemon_turn X d (secured_turn lib sec (round_sockets w) (round_turn w)) r (round_others w s) = (Inr r', t)" and "s' = round_late w t"
      by (auto simp: daemon_round_def Let_def split: outcome.splits sum.splits prod.splits if_splits)
    moreover have "keys_text d (round_others w s) = keys_text d s" "keys_text d (round_late w t) = keys_text d t"
      using quiet by (simp_all add: keys_text_def undisturbed_def untouched_def)
    moreover have "enumerates (turn_key_order (secured_turn lib sec (round_sockets w) (round_turn w))) (run_managed_keys r')"
      using order by simp
    ultimately show ?thesis
      using daemon_turn_view [OF t] inv c quiet by (simp add: daemon_view_def daemon_inv_def undisturbed_def)
  qed
  then show "simulation (daemon_inv X d) (round_step X lib d sec p q) (daemon_view d) (key_spec (good_key X d) (cfg_dry_run (set_config d)))"
    by unfold_locales blast+
qed

text \<open>C2: The daemon refines the abstract view: over any number of rounds, what is known, what is in the
  block and the other lines of the file change only as the specification allows, where a key is
  good for a participant other than this one when it was read from a response verified with the
  group's token. The file is well formed at the start, other processes leave it alone, and the check
  for its existence does not fail.\<close>

theorem daemon_refines_view:
  assumes "(round_step X lib d sec p q)\<^sup>*\<^sup>* (daemon_start cfg t, s) (r', s')"
    and "doc_ok (str_lines (unwrap_or (files s (path_of (set_authorized_keys_path d))) []))"
  shows "(key_spec (\<lambda>k key. k \<noteq> cfg_participant_id (set_config d)
        \<and> (\<exists>e p. verify_and_parse_public_key_response X (set_service d) e = Inr p \<and> key = pkp_public_key p))
      (cfg_dry_run (set_config d)))\<^sup>*\<^sup>* (daemon_view d (daemon_start cfg t, s)) (daemon_view d (r', s'))"
proof -
  have "daemon_inv X d (daemon_start cfg t, s)"
    using daemon_start_keys_ok assms(2) by (simp add: daemon_inv_def keys_text_def)
  with assms(1) show ?thesis
    using daemon_sim.run_sim [of X lib d sec p q] by (simp add: good_key_def [abs_def])
qed

theorem daemon_refines_view_witness:
  "\<exists>r'. (round_step echo_ext demo_tls_lib (demo_setup [] True) InsecureNoTls ''/p'' ''/q'')\<^sup>*\<^sup>* (daemon_start (demo_config [] True) 9, empty_fs) (r', empty_fs)
    \<and> (key_spec (\<lambda>k key. k \<noteq> cfg_participant_id (set_config (demo_setup [] True))
          \<and> (\<exists>e p. verify_and_parse_public_key_response echo_ext (set_service (demo_setup [] True)) e = Inr p \<and> key = pkp_public_key p)) True)\<^sup>*\<^sup>*
        (daemon_view (demo_setup [] True) (daemon_start (demo_config [] True) 9, empty_fs)) (daemon_view (demo_setup [] True) (r', empty_fs))"
proof -
  let ?d = "demo_setup [] True" and ?r = "daemon_start (demo_config [] True) 9"
  have d: "cfg_dry_run (set_config ?d)" "set_local_public_key ?d = ''ssh-rsa BB''"
    by (simp_all add: demo_setup_def demo_config_def)
  have "\<not> there empty_fs (path_of ''/q'')"
    by (simp add: there_def empty_fs_def)
  obtain r' where round: "daemon_round echo_ext demo_tls_lib ?d InsecureNoTls ''/p'' ''/q'' (quiet_round []) ?r empty_fs = Inr (r', empty_fs)"
    and known: "run_managed_keys r' = run_managed_keys ?r"
    using d \<open>\<not> there empty_fs (path_of ''/q'')\<close> by (rule demo_round)
  have doc: "doc_ok (str_lines (unwrap_or (files empty_fs (path_of (set_authorized_keys_path ?d))) []))"
    by (simp add: empty_fs_def doc_ok_def) code_simp
  have "run_managed_keys r' = Map.empty"
    using known by (simp add: daemon_start_def)
  then have "enumerates (turn_key_order (round_turn (quiet_round []))) (run_managed_keys r')"
    by (simp add: enumerates_def quiet_round_def demo_turn_def)
  with round have "round_step echo_ext demo_tls_lib ?d InsecureNoTls ''/p'' ''/q'' (?r, empty_fs) (r', empty_fs)"
    by (intro round_step.intros) (simp_all add: undisturbed_def)
  then have "(round_step echo_ext demo_tls_lib ?d InsecureNoTls ''/p'' ''/q'')\<^sup>*\<^sup>* (?r, empty_fs) (r', empty_fs)"
    by blast
  with daemon_refines_view [OF this doc] d(1) show ?thesis by auto
qed

section \<open>What plain connections can change\<close>

text \<open>Two rounds that differ only in what goes over plain connections, in either direction.\<close>

definition agree_tls :: "round \<Rightarrow> round \<Rightarrow> bool" where
  "agree_tls w w' \<longleftrightarrow> list_all2 (\<lambda>c c'. c' = c\<lparr>conn_plain := conn_plain c'\<rparr>) (round_connections w) (round_connections w')
     \<and> w' = w\<lparr>round_connections := round_connections w',
         round_sockets := (round_sockets w)\<lparr>plain_io := plain_io (round_sockets w')\<rparr>\<rparr>"

lemma connections_agree:
  assumes "list_all2 (\<lambda>c c'. c' = c\<lparr>conn_plain := conn_plain c'\<rparr>) cs cs'" and "sec \<noteq> InsecureNoTls"
  shows "handle_http_connections X cs svc sec = handle_http_connections X cs' svc sec"
  using assms(1)
proof (induction rule: list_all2_induct)
  case (Cons c cs c' cs')
  then obtain x where "c' = c\<lparr>conn_plain := x\<rparr>" by blast
  with Cons assms(2) show ?case by (cases sec) (simp_all split: option.split outcome.split)
qed simp

lemma daemon_round_agree:
  assumes "agree_tls w w'" and "sec \<noteq> InsecureNoTls"
  shows "daemon_round X lib d sec p q w r s = daemon_round X lib d sec p q w' r s"
proof -
  obtain f cs where w': "w' = w\<lparr>round_connections := cs, round_sockets := (round_sockets w)\<lparr>plain_io := f\<rparr>\<rparr>"
    and "list_all2 (\<lambda>c c'. c' = c\<lparr>conn_plain := conn_plain c'\<rparr>) (round_connections w) cs"
    using assms(1) unfolding agree_tls_def by blast
  then have "handle_http_connections X (round_connections w) svc sec = handle_http_connections X (round_connections w') svc sec" for svc
    using connections_agree assms(2) by simp
  moreover have "connect_exchange lib (round_sockets w') sec = connect_exchange lib (round_sockets w) sec"
    using connect_exchange_plain [OF assms(2)] w' by simp
  then have "secured_turn lib sec (round_sockets w') (round_turn w') = secured_turn lib sec (round_sockets w) (round_turn w)"
    using w' by (simp add: secured_turn_def)
  moreover have "round_others w' = round_others w" "round_turn w' = round_turn w" "round_late w' = round_late w"
    using w' by simp_all
  ultimately show ?thesis by (simp only: daemon_round_def)
qed

lemma daemon_loop_agree:
  assumes "list_all2 agree_tls ws ws'" and "sec \<noteq> InsecureNoTls"
  shows "daemon_loop X lib d sec p q ws r s = daemon_loop X lib d sec p q ws' r s"
  using assms(1)
proof (induction arbitrary: r s rule: list_all2_induct)
  case (Cons w ws w' ws')
  then show ?case
    using daemon_round_agree [OF _ assms(2)] by (simp split: sum.split)
qed simp

text \<open>C10: A daemon that was not started with TLS switched off cannot be influenced over TCP connections
  outside TLS sessions: two runs in which clients send anything else in plain text and in which peers
  answer anything else to plain requests end in the same way with the same files, over any number of
  rounds and also when either of them panics or fails. (Datagrams over UDP are not under TLS; they
  are the same in both runs.)\<close>

theorem daemon_ignores_plain_text:
  assumes "\<not> cfg_insecure_no_tls config" and "list_all2 agree_tls rounds rounds'"
  shows "run_daemon X st rounds config s = run_daemon X st rounds' config s"
proof -
  obtain v t where v: "daemon_prologue X st config s = (v, t)" by fastforce
  show ?thesis
  proof (cases v)
    case (Inr ready)
    then obtain d sec p q r dg where ready: "v = Inr ((d, sec, p, q, r), dg)"
      by (metis prod.collapse)
    then have "sec \<noteq> InsecureNoTls"
      using daemon_prologue_Inr(2) [OF v [unfolded ready]] assms(1) build_transport_security_Tls by blast
    with v ready show ?thesis
      using daemon_loop_agree [OF assms(2)] by (simp add: run_daemon_def)
  qed (simp add: run_daemon_def v)
qed

text \<open>The certificates of a daemon with TLS; and a client that opens a TLS session and closes it, over a
  connection on which anything else arrives outside the session.\<close>

definition tls_fs :: fs where
  "tls_fs = user_fs\<lparr>files := (files user_fs)(\<lparr>absolute = False, components = [''c'']\<rparr> \<mapsto> ''C'', \<lparr>absolute = False, components = [''a'']\<rparr> \<mapsto> ''A'')\<rparr>"

definition closing_client :: "read_result list \<Rightarrow> connection" where
  "closing_client plain = \<lparr>conn_plain = plain, conn_tls = (\<lambda>_. Some []), conn_now = 9, conn_nonce = ''y'', conn_limit = None\<rparr>"

lemma closing_client_served:
  "handle_http_connections X [closing_client plain] svc (Tls server client name) = Val [(TlsStream server, Inl ConnectionClosed, [])]"
  by (simp add: closing_client_def handle_http_connection_def read_http_request_def)

theorem daemon_ignores_plain_text_witness:
  "\<exists>r s'. run_daemon echo_ext demo_startup [quiet_round [closing_client [Bytes huge_request]]] demo_tls_config tls_fs = (Going r, s')
    \<and> run_daemon echo_ext demo_startup [(quiet_round [closing_client []])\<lparr>round_sockets := demo_sockets\<lparr>plain_io := \<lambda>_ _. Inl StreamFailed\<rparr>\<rparr>]
        demo_tls_config tls_fs = (Going r, s')
    \<and> files s' (path_of ''/h/k'') \<noteq> files tls_fs (path_of ''/h/k'')"
proof -
  let ?cfg = demo_tls_config
  have p: "path_of ''/h/k'' = \<lparr>absolute = True, components = [''h'', ''k'']\<rparr>"
    by code_simp
  have cfg: "cfg_sid ?cfg = ''s''" "\<not> cfg_dry_run ?cfg" "cfg_authorized_keys_path ?cfg = ''/h/k''" "cfg_public_key_path ?cfg = ''k''"
      "cfg_http_listen_addr ?cfg = ''h:1''" "cfg_udp_announce_addr ?cfg = ''h:2''"
    by (simp_all add: demo_tls_config_def)
  have fs: "files tls_fs \<lparr>absolute = False, components = [''k'']\<rparr> = Some ''ssh-rsa BB''" "dirs tls_fs = {}"
    "\<forall>x. absolute x \<and> x \<noteq> path_of ''/h/k'' \<longrightarrow> files tls_fs x = None" "files tls_fs (path_of ''/h/k'') = Some ''ssh-rsa M''"
    by (auto simp: tls_fs_def user_fs_def demo_fs_def p)
  obtain d where d: "daemon_setup None (fs_text no_faults tls_fs) (Inr ()) True True ?cfg = Inr d" "set_local_public_key d = ''ssh-rsa BB''"
    using demo_key_file [OF fs(1)] cfg(4-6) by (rule demo_setup_any)
  obtain sec where sec: "build_transport_security demo_tls_lib None (fs_content no_faults tls_fs) ?cfg = Inr sec"
    using fs(1) by (simp add: build_transport_security_def load_cert_chain_def load_private_key_def demo_tls_lib_def demo_tls_config_def
        fs_content_def no_faults_def path_of_name expand_home_path_def) (simp add: tls_fs_def)
  moreover have plain: "\<not> cfg_insecure_no_tls ?cfg"
    by (simp add: demo_tls_config_def)
  ultimately obtain server client name where "sec = Tls server client name"
    by (auto elim: build_transport_security_Tls)
  then have conns: "handle_http_connections echo_ext [closing_client [Bytes huge_request]] (set_service d) sec
      = Val [(TlsStream server, Inl ConnectionClosed, [])]"
    using closing_client_served by simp
  from user_run [OF cfg(1-3) fs(2-4) d sec conns] obtain r s' where
    run: "run_daemon echo_ext demo_startup [quiet_round [closing_client [Bytes huge_request]]] ?cfg tls_fs = (Going r, s')"
    and new: "files s' (path_of ''/h/k'') = Some (''ssh-rsa M'' @ [nl, nl] @ ''# ssh-key-sync begin'' @ [nl] @ ''# ssh-key-sync end'')"
    by blast
  have "list_all2 agree_tls [quiet_round [closing_client [Bytes huge_request]]]
      [(quiet_round [closing_client []])\<lparr>round_sockets := demo_sockets\<lparr>plain_io := \<lambda>_ _. Inl StreamFailed\<rparr>\<rparr>]"
    by (simp add: agree_tls_def quiet_round_def closing_client_def)
  from daemon_ignores_plain_text [OF plain this, of echo_ext demo_startup tls_fs] run
  have "run_daemon echo_ext demo_startup [(quiet_round [closing_client []])\<lparr>round_sockets := demo_sockets\<lparr>plain_io := \<lambda>_ _. Inl StreamFailed\<rparr>\<rparr>]
      ?cfg tls_fs = (Going r, s')"
    by simp
  moreover have "files s' (path_of ''/h/k'') \<noteq> files tls_fs (path_of ''/h/k'')"
    using new fs(4) by simp
  ultimately show ?thesis
    using run by blast
qed

end
