(* ===== verification/Cli.thy ===== *)
theory Cli
  imports Lifecycle
begin

text \<open>
  The command line, \<open>main.rs\<close>: from a parsed command to what is printed, the exit status and the
  file system. Parsing the arguments (\<open>clap\<close>) is not modelled; the environment, the file system,
  the process table, the \<open>kill\<close> program and starting a process are arguments.
\<close>

section \<open>Commands\<close>

record SyncConfigArgs =
  arg_sid :: "string option"
  arg_sid_token :: "string option"
  arg_participant_id :: "string option"
  arg_http_listen_addr :: "string option"
  arg_udp_announce_addr :: "string option"
  arg_bootstrap_peers :: "string option"
  arg_sync_interval_secs :: "u64 option"
  arg_public_key_path :: "string option"
  arg_authorized_keys_path :: "string option"
  arg_tls_cert_path :: "string option"
  arg_tls_key_path :: "string option"
  arg_tls_ca_path :: "string option"
  arg_tls_server_name :: "string option"
  arg_insecure_no_tls :: bool
  arg_dry_run :: bool
  arg_config_path :: "string option"

record StartArgs =
  start_config :: SyncConfigArgs
  start_foreground :: bool

record SyncArgs =
  sync_config :: SyncConfigArgs

record ControlArgs =
  control_sid :: "string option"

datatype Command = Start StartArgs | Stop ControlArgs | Status ControlArgs | Sync SyncArgs

definition config_input_from_args :: "SyncConfigArgs \<Rightarrow> ConfigInput" where
  "config_input_from_args args =
     \<lparr>in_sid = arg_sid args, in_sid_token = arg_sid_token args, in_participant_id = arg_participant_id args,
      in_http_listen_addr = arg_http_listen_addr args, in_udp_announce_addr = arg_udp_announce_addr args,
      in_bootstrap_peers = arg_bootstrap_peers args, in_sync_interval_secs = arg_sync_interval_secs args,
      in_public_key_path = arg_public_key_path args, in_authorized_keys_path = arg_authorized_keys_path args,
      in_tls_cert_path = arg_tls_cert_path args, in_tls_key_path = arg_tls_key_path args,
      in_tls_ca_path = arg_tls_ca_path args, in_tls_server_name = arg_tls_server_name args,
      in_insecure_no_tls = arg_insecure_no_tls args, in_dry_run = arg_dry_run args,
      in_config_path = arg_config_path args\<rparr>"

section \<open>Texts\<close>

fun runtime_error_display :: "RuntimeError \<Rightarrow> string" where
  "runtime_error_display (ReadLocalPublicKey path) = ''Failed to read local public key from '' @ path"
| "runtime_error_display (BindHttp addr) = ''Failed to bind HTTP listener at '' @ addr"
| "runtime_error_display (BindUdp addr) = ''Failed to bind UDP socket at '' @ addr"
| "runtime_error_display (ParseListenAddress addr) = ''Invalid listen address: '' @ addr"
| "runtime_error_display BuildAnnouncement = ''Failed to build startup announcement''"
| "runtime_error_display ParseEnvelope = ''Failed to parse signed envelope''"
| "runtime_error_display HttpRequestFailed = ''Failed to perform HTTP key request''"
| "runtime_error_display VerifyOrParseResponse = ''Failed to verify or parse response''"
| "runtime_error_display (WriteAuthorizedKeys path) = ''Failed to write authorized_keys at '' @ path"
| "runtime_error_display (ControlFile path) = ''Failed to access control file at '' @ path"
| "runtime_error_display (RuntimeDirectory path) = ''Failed to prepare runtime directory at '' @ path"
| "runtime_error_display MissingHomeDir = ''Cannot resolve runtime directory: set XDG_RUNTIME_DIR or HOME''"
| "runtime_error_display (KillProcess pid) = ''Failed to terminate process with pid '' @ show_word pid"
| "runtime_error_display (MissingTlsConfig name) = ''Missing TLS configuration value: '' @ name"
| "runtime_error_display (InvalidTlsConfig message) = ''Invalid TLS configuration: '' @ message"

section \<open>The world of a command\<close>

text \<open>A process to be started: its program, its arguments and its environment. Starting one can fail
  at three calls, each with a message.\<close>

record child =
  child_executable :: string
  child_args :: "string list"
  child_var :: "string \<Rightarrow> string option"

record cli_world =
  cli_args :: "string list"
  cli_var :: "string \<Rightarrow> string option"
  cli_faults :: faults
  cli_listing :: "(unit + string) list"
  cli_procs :: "nat \<Rightarrow> string \<Rightarrow> bool"
  cli_kill :: "u32 \<Rightarrow> unit + bool"
  cli_current_exe :: "string + string"
  cli_try_clone :: "string + unit"
  cli_spawn :: "child \<Rightarrow> string + unit"
  cli_startup :: startup
  cli_rounds :: "round list"
  cli_sockets :: sockets
  cli_turn :: turn

definition cli_env :: "cli_world \<Rightarrow> control_env" where
  "cli_env w = \<lparr>xdg_runtime_dir = cli_var w ''XDG_RUNTIME_DIR'', home_dir = cli_var w ''HOME''\<rparr>"

text \<open>How a command ends: its exit status (none while it runs), the lines that \<open>main.rs\<close> itself
  prints, and the process it has started. What \<open>run_daemon\<close> and \<open>run_single_sync\<close> print is left out.\<close>

record cli_end =
  exit_status :: "nat option"
  out_lines :: "string list"
  err_lines :: "string list"
  spawned :: "child option"

definition said :: "string \<Rightarrow> cli_end" where
  "said line = \<lparr>exit_status = Some 0, out_lines = [line], err_lines = [], spawned = None\<rparr>"

definition failed :: "nat \<Rightarrow> string \<Rightarrow> cli_end" where
  "failed code line = \<lparr>exit_status = Some code, out_lines = [], err_lines = [line], spawned = None\<rparr>"

definition silent :: "nat option \<Rightarrow> cli_end" where
  "silent code = \<lparr>exit_status = code, out_lines = [], err_lines = [], spawned = None\<rparr>"

section \<open>Functions of main.rs\<close>

definition resolve_control_sid :: "cli_world \<Rightarrow> string option \<Rightarrow> (string, string) io" where
  "resolve_control_sid w explicit_sid = (\<lambda>s.
     case Option.bind explicit_sid normalize_non_empty of Some sid \<Rightarrow> (Inr sid, s)
     | None \<Rightarrow>
       (case Option.bind (cli_var w ''SSH_KEY_SYNC_SID'') normalize_non_empty of Some sid \<Rightarrow> (Inr sid, s)
        | None \<Rightarrow>
          (case resolve_current_sid (cli_env w) (cli_faults w) (cli_listing w) s of
             (Inr (Some sid), s) \<Rightarrow> (Inr sid, s)
           | (Inr None, s) \<Rightarrow> (Inl ''Missing SID: use --sid or start daemon first'', s)
           | (Inl error, s) \<Rightarrow> (Inl (runtime_error_display error), s))))"

text \<open>The process that was started is the result here, to be able to speak of it.\<close>

definition spawn_background_start :: "cli_world \<Rightarrow> string \<Rightarrow> (string, child) io" where
  "spawn_background_start w sid =
     io_bind (io_lift (cli_current_exe w)) (\<lambda>executable.
     io_bind (io_map_err runtime_error_display (open_daemon_log_file (cli_env w) (cli_faults w) sid)) (\<lambda>_.
     io_bind (io_lift (cli_try_clone w)) (\<lambda>_.
     let child = \<lparr>child_executable = executable, child_args = cli_args w,
       child_var = (cli_var w)(''SSH_KEY_SYNC_INTERNAL_FOREGROUND'' \<mapsto> ''1'')\<rparr>
     in io_bind (io_lift (cli_spawn w child)) (\<lambda>_. io_return child))))"

definition stop_command :: "cli_world \<Rightarrow> ControlArgs \<Rightarrow> fs \<Rightarrow> cli_end \<times> fs" where
  "stop_command w args s =
     (case resolve_control_sid w (control_sid args) s of
        (Inl error, s) \<Rightarrow> (failed 2 error, s)
      | (Inr sid, s) \<Rightarrow>
          (case stop_daemon (cli_env w) (cli_faults w) (cli_procs w) (cli_kill w) sid s of
             (Inr stopped, s) \<Rightarrow>
               (said (if stopped then ''Stop requested for SID: '' @ sid else ''Daemon is not running for SID: '' @ sid), s)
           | (Inl error, s) \<Rightarrow> (failed 1 (runtime_error_display error), s)))"

definition status_command :: "cli_world \<Rightarrow> ControlArgs \<Rightarrow> fs \<Rightarrow> cli_end \<times> fs" where
  "status_command w args s =
     (case resolve_control_sid w (control_sid args) s of
        (Inl error, s) \<Rightarrow> (failed 2 error, s)
      | (Inr sid, s) \<Rightarrow>
          (case status_daemon (cli_env w) (cli_faults w) (cli_procs w 0) sid s of
             (Inr status, s) \<Rightarrow>
               (said (case status of
                  Running pid \<Rightarrow> ''Daemon is running for SID: '' @ sid @ '' (pid: '' @ show_word pid @ '')''
                | Stopped \<Rightarrow> ''Daemon is stopped for SID: '' @ sid
                | StalePidFile pid \<Rightarrow> ''Daemon is stopped for SID: '' @ sid @ '' (stale pid file: '' @ show_word pid @ '')''), s)
           | (Inl error, s) \<Rightarrow> (failed 1 (runtime_error_display error), s)))"

definition start_background :: "cli_world \<Rightarrow> AppConfig \<Rightarrow> fs \<Rightarrow> cli_end \<times> fs" where
  "start_background w config s =
     (case status_daemon (cli_env w) (cli_faults w) (cli_procs w 0) (cfg_sid config) s of
        (Inr (Running pid), s) \<Rightarrow>
          (said (''Daemon is already running for SID: '' @ cfg_sid config @ '' (pid: '' @ show_word pid @ '')''), s)
      | (Inl error, s) \<Rightarrow> (failed 1 (runtime_error_display error), s)
      | (Inr _, s) \<Rightarrow>
          (case spawn_background_start w (cfg_sid config) s of
             (Inr child, s) \<Rightarrow>
               let log_path = (case daemon_log_file_path (cli_env w) (cfg_sid config) of
                     Inr path \<Rightarrow> path | Inl _ \<Rightarrow> ''<unavailable>'')
               in ((said (''Daemon started in background for SID: '' @ cfg_sid config @ '' (log: '' @ log_path @ '')''))
                    \<lparr>spawned := Some child\<rparr>, s)
           | (Inl error, s) \<Rightarrow> (failed 1 (''Failed to start daemon in background: '' @ error), s)))"

definition start_foreground_daemon :: "ext \<Rightarrow> cli_world \<Rightarrow> AppConfig \<Rightarrow> fs \<Rightarrow> cli_end \<times> fs" where
  "start_foreground_daemon X w config s =
     (case run_daemon X ((cli_startup w)\<lparr>start_env := cli_env w\<rparr>) (cli_rounds w) config s of
        (Exited (Inl error), s) \<Rightarrow> (failed 1 (runtime_error_display error), s)
      | (Exited (Inr _), s) \<Rightarrow> (silent (Some 0), s)
      | (Panicked, s) \<Rightarrow> (silent (Some 101), s)
      | (Going _, s) \<Rightarrow> (silent None, s))"

definition start_command :: "ext \<Rightarrow> cli_world \<Rightarrow> StartArgs \<Rightarrow> fs \<Rightarrow> cli_end \<times> fs" where
  "start_command X w args s =
     (case load_config (fs_text (cli_faults w) s) (cli_var w) (config_input_from_args (start_config args)) RequireSyncConfig of
        Inr (Some config) \<Rightarrow>
          if \<not> start_foreground args \<and> cli_var w ''SSH_KEY_SYNC_INTERNAL_FOREGROUND'' = None
          then start_background w config s
          else start_foreground_daemon X w config s
      | Inr None \<Rightarrow> (failed 2 ''Missing required configuration for start command'', s)
      | Inl error \<Rightarrow> (failed 2 (config_error_display error), s))"

definition sync_command :: "ext \<Rightarrow> cli_world \<Rightarrow> SyncArgs \<Rightarrow> fs \<Rightarrow> cli_end \<times> fs" where
  "sync_command X w args s =
     (case load_config (fs_text (cli_faults w) s) (cli_var w) (config_input_from_args (sync_config args)) RequireSyncConfig of
        Inr (Some config) \<Rightarrow>
          (let home = cli_var w ''HOME'';
               lib = start_tls (cli_startup w);
               security = build_transport_security lib home (fs_content (cli_faults w) s) config;
               turn = (case security of Inl _ \<Rightarrow> cli_turn w | Inr sec \<Rightarrow> secured_turn lib sec (cli_sockets w) (cli_turn w))
           in case run_single_sync X home (fs_text (cli_faults w) s) (and_then security (\<lambda>_. Inr ())) turn config s of
                (Inl error, s) \<Rightarrow> (failed 1 (runtime_error_display error), s)
              | (Inr _, s) \<Rightarrow> (silent (Some 0), s))
      | Inr None \<Rightarrow> (failed 2 ''Missing required configuration for sync command'', s)
      | Inl error \<Rightarrow> (failed 2 (config_error_display error), s))"

definition main :: "ext \<Rightarrow> cli_world \<Rightarrow> Command \<Rightarrow> fs \<Rightarrow> cli_end \<times> fs" where
  "main X w command s =
     (case command of
        Stop args \<Rightarrow> stop_command w args s
      | Status args \<Rightarrow> status_command w args s
      | Start args \<Rightarrow> start_command X w args s
      | Sync args \<Rightarrow> sync_command X w args s)"

section \<open>What the commands change\<close>

lemma end_fields [simp]:
  "exit_status (said l) = Some 0" "exit_status (failed n l) = Some n" "exit_status (silent x) = x"
  "spawned (said l) = None" "spawned (failed n l) = None" "spawned (silent x) = None"
  "out_lines (said l) = [l]" "out_lines (failed n l) = []" "out_lines (silent x) = []"
  "err_lines (said l) = []" "err_lines (failed n l) = [l]" "err_lines (silent x) = []"
  by (simp_all add: said_def failed_def silent_def)

lemma discover_reads_only [simp]: "snd (discover_sid_from_pid_files env os listing s) = s"
  by (auto simp: discover_sid_from_pid_files_def io_bind_snd io_lift_def io_map_err_def fs_read_dir_def split: sum.split)

lemma resolve_current_reads_only [simp]: "snd (resolve_current_sid env os listing s) = s"
  by (auto simp: resolve_current_sid_def io_bind_snd io_lift_def io_map_err_def fs_read_to_string_def io_return_def Let_def
      split: sum.split option.split)

lemma resolve_control_reads_only [simp]: "snd (resolve_control_sid w x s) = s"
proof -
  obtain v t where v: "resolve_current_sid (cli_env w) (cli_faults w) (cli_listing w) s = (v, t)"
    by fastforce
  with resolve_current_reads_only [of "cli_env w" "cli_faults w" "cli_listing w" s] have "t = s" by simp
  with v show ?thesis
    by (auto simp: resolve_control_sid_def split: option.split sum.split)
qed

lemma resolve_control_same: "resolve_control_sid w x s = (v, t) \<Longrightarrow> t = s"
  using resolve_control_reads_only [of w x s] by simp

lemma status_same: "status_daemon env os proc sid s = (v, t) \<Longrightarrow> t = s"
  using status_reads_only [of env os proc sid s] by simp

lemma log_keeps_files: "files s q = Some v \<Longrightarrow> files (snd (open_daemon_log_file env os sid s)) q = Some v"
proof -
  assume "files s q = Some v"
  moreover have "files t q = Some v \<Longrightarrow> files (snd (open_control_file_append os p t)) q = Some v" for p t
    by (auto simp: open_control_file_append_def io_bind_snd fs_open_append_def split: sum.splits)
  ultimately show ?thesis
    by (auto simp: open_daemon_log_file_def io_bind_snd io_lift_def io_return_def split: sum.splits)
qed

lemma start_background_spawned:
  assumes "start_background w config s = (e, s')" and "spawned e = Some c"
  shows "child_args c = cli_args w" and "child_var c = (cli_var w)(''SSH_KEY_SYNC_INTERNAL_FOREGROUND'' \<mapsto> ''1'')"
    and "\<exists>status. status_daemon (cli_env w) (cli_faults w) (cli_procs w 0) (cfg_sid config) s = (Inr status, s)
      \<and> (\<forall>pid. status \<noteq> Running pid)"
    and "files s q = Some v \<Longrightarrow> files s' q = Some v"
proof -
  obtain u t where u: "status_daemon (cli_env w) (cli_faults w) (cli_procs w 0) (cfg_sid config) s = (u, t)"
    by fastforce
  then have t: "t = s" by (rule status_same)
  from assms u t have status: "\<exists>status. u = Inr status \<and> (\<forall>pid. status \<noteq> Running pid)"
    and spawn: "spawn_background_start w (cfg_sid config) s = (Inr c, s')"
    by (auto simp: start_background_def Let_def split: sum.splits DaemonStatus.splits prod.splits)
  then show "\<exists>status. status_daemon (cli_env w) (cli_faults w) (cli_procs w 0) (cfg_sid config) s = (Inr status, s)
      \<and> (\<forall>pid. status \<noteq> Running pid)"
    using u t by auto
  from spawn obtain path where log: "open_daemon_log_file (cli_env w) (cli_faults w) (cfg_sid config) s = (Inr path, s')"
    and c: "child_args c = cli_args w" "child_var c = (cli_var w)(''SSH_KEY_SYNC_INTERNAL_FOREGROUND'' \<mapsto> ''1'')"
    by (auto simp: spawn_background_start_def Let_def io_bind_Inr)
  show "child_args c = cli_args w" and "child_var c = (cli_var w)(''SSH_KEY_SYNC_INTERNAL_FOREGROUND'' \<mapsto> ''1'')"
    by (fact c)+
  show "files s q = Some v \<Longrightarrow> files s' q = Some v"
    using log_keeps_files [of s q v "cli_env w" "cli_faults w" "cfg_sid config"] log by simp
qed

text \<open>Loading reads no file but the one that is named.\<close>

lemma load_config_same_file:
  assumes "load_config rd var input mode = Inr r" and "\<And>path v. rd path = Some v \<Longrightarrow> rd' path = Some v"
  shows "load_config rd' var input mode = Inr r"
proof -
  obtain fd where "read_config_file rd (in_config_path input) = Inr fd"
    using assms(1) by (auto simp: load_config_def load_config_with_sources_def)
  then have "read_config_file rd' (in_config_path input) = read_config_file rd (in_config_path input)"
    using assms(2) by (auto simp: read_config_file_def split: option.splits)
  with assms(1) show ?thesis
    by (simp add: load_config_def load_config_with_sources_def)
qed

lemma foreground_spawns_nothing [simp]: "spawned (fst (start_foreground_daemon X w config s)) = None"
  by (simp add: start_foreground_daemon_def split: prod.split run_result.split sum.split)

lemma stop_spawns_nothing [simp]: "spawned (fst (stop_command w args s)) = None"
  by (simp add: stop_command_def split: prod.split sum.split)

lemma status_spawns_nothing [simp]: "spawned (fst (status_command w args s)) = None"
  by (simp add: status_command_def split: prod.split sum.split)

lemma sync_spawns_nothing [simp]: "spawned (fst (sync_command X w args s)) = None"
  by (simp add: sync_command_def Let_def split: prod.split sum.split option.split)

lemma start_spawned:
  assumes "start_command X w args s = (e, s')" and "spawned e = Some c"
  obtains config where "load_config (fs_text (cli_faults w) s) (cli_var w) (config_input_from_args (start_config args)) RequireSyncConfig
      = Inr (Some config)" and "start_background w config s = (e, s')"
proof -
  have "spawned e = None" if "start_foreground_daemon X w config s = (e, s')" for config
    using foreground_spawns_nothing [of X w config s] that by simp
  with assms that show thesis
    by (auto simp: start_command_def split: sum.splits option.splits if_splits)
qed

lemma collect_env_foreground: "collect_env (var(''SSH_KEY_SYNC_INTERNAL_FOREGROUND'' \<mapsto> v)) = collect_env var"
proof -
  have "''SSH_KEY_SYNC_INTERNAL_FOREGROUND'' \<notin> set env_keys"
    by (simp add: env_keys_def)
  then show ?thesis by (auto simp: collect_env_def)
qed

section \<open>A concrete command\<close>

definition demo_world :: cli_world where
  "demo_world = \<lparr>cli_args = [''start''], cli_var = [''XDG_RUNTIME_DIR'' \<mapsto> ''/r''], cli_faults = no_faults, cli_listing = [],
     cli_procs = (\<lambda>n _. n = 0), cli_kill = (\<lambda>_. Inr True), cli_current_exe = Inr ''/x'', cli_try_clone = Inr (),
     cli_spawn = (\<lambda>_. Inr ()), cli_startup = demo_startup, cli_rounds = [], cli_sockets = demo_sockets, cli_turn = demo_turn []\<rparr>"

definition demo_args :: StartArgs where
  "demo_args = \<lparr>start_config = \<lparr>arg_sid = Some '' g '', arg_sid_token = Some ''t'', arg_participant_id = None,
       arg_http_listen_addr = None, arg_udp_announce_addr = None, arg_bootstrap_peers = None,
       arg_sync_interval_secs = None, arg_public_key_path = None, arg_authorized_keys_path = None,
       arg_tls_cert_path = None, arg_tls_key_path = None, arg_tls_ca_path = None, arg_tls_server_name = None,
       arg_insecure_no_tls = False, arg_dry_run = False, arg_config_path = None\<rparr>, start_foreground = False\<rparr>"

lemma demo_world_facts [simp]:
  "cli_env demo_world = demo_env" "cli_faults demo_world = no_faults" "cli_listing demo_world = []"
  "cli_procs demo_world n x \<longleftrightarrow> n = 0" "cli_var demo_world ''SSH_KEY_SYNC_SID'' = None"
  "cli_var demo_world ''SSH_KEY_SYNC_INTERNAL_FOREGROUND'' = None" "fails no_faults c = False"
  by (simp_all add: demo_world_def cli_env_def demo_env_def no_faults_def)

lemma demo_load:
  obtains config where "load_config rd (cli_var demo_world) (config_input_from_args (start_config demo_args)) RequireSyncConfig
      = Inr (Some config)" and "cfg_sid config = ''g''"
proof
  let ?i = "config_input_from_args (start_config demo_args)" and ?env = "collect_env (cli_var demo_world)"
  have "normalize_non_empty '' g '' = Some ''g''" "normalize_non_empty ''t'' = Some ''t''"
    by code_simp+
  moreover have "?env x = None" for x
    by (auto simp: collect_env_def env_keys_def demo_world_def)
  ultimately show "load_config rd (cli_var demo_world) ?i RequireSyncConfig = Inr (Some (config_of ?i ?env Map.empty ''g'' ''t'' 30))"
    by (simp add: load_config_def load_config_with_sources_def read_config_file_def resolve_string_def resolve_u64_def
        config_input_from_args_def demo_args_def DEFAULT_SYNC_INTERVAL_SECS_def)
  show "cfg_sid (config_of ?i ?env Map.empty ''g'' ''t'' 30) = ''g''"
    by (simp add: config_of_def)
qed

lemma demo_log: "\<exists>p path s. log_file_path demo_env ''g'' = Inr p
    \<and> open_daemon_log_file demo_env no_faults ''g'' empty_fs = (Inr path, s) \<and> files s (path_of p) = Some []"
proof -
  let ?d = "path_under (path_of ''/r/ssh-key-sync'') [sanitize_for_file ''g'']"
  obtain p where p: "log_file_path demo_env ''g'' = Inr p" "path_of p = path_under ?d [LOG_FILE_NAME]"
    using control_paths(4) [OF demo_root demo_sid] by auto
  obtain dir s where s: "ensure_control_runtime_dir_for_sid demo_env no_faults ''g'' empty_fs = (Inr dir, s)"
      "files s = files empty_fs" "dirs s = dirs empty_fs \<union> path_ancestors ?d"
    using ensure_succeeds [OF demo_root demo_sid, of no_faults ?d empty_fs] by (auto simp: empty_fs_def)
  have "path_of p \<notin> dirs s"
    using s(3) p(2) under_not_ancestor [of "[LOG_FILE_NAME]" ?d] by (simp add: empty_fs_def)
  then have "\<exists>t. open_control_file_append no_faults p s = (Inr (), t) \<and> files t (path_of p) = Some []"
    using s(2) by (simp add: open_control_file_append_def fs_ops empty_fs_def)
  with s(1) p(1) show ?thesis
    by (auto simp: open_daemon_log_file_def io_bind_Inr)
qed

section \<open>Properties\<close>

text \<open>C14: Starting in the background is safe and reaches its end: when \<open>start\<close> starts a process, its look
  at the status showed no running daemon and it has changed no file that was there; the process gets
  the arguments that were passed, and run with them in the state that \<open>start\<close> left behind it
  loads the same configuration (if it can read the file), runs the daemon itself and starts no
  further process, whatever command it is given.\<close>

theorem background_start_chain:
  assumes "main X w (Start args) s = (e, s')" and "spawned e = Some c" and "cli_var w' = child_var c"
    and "\<forall>x. \<not> fails (cli_faults w') (ReadToString x)"
  shows "child_args c = cli_args w \<and> (\<forall>q v. files s q = Some v \<longrightarrow> files s' q = Some v)
    \<and> (\<exists>config. load_config (fs_text (cli_faults w) s) (cli_var w) (config_input_from_args (start_config args)) RequireSyncConfig
          = Inr (Some config)
        \<and> main X w' (Start args) s' = start_foreground_daemon X w' config s'
        \<and> (\<forall>pid. fst (status_daemon (cli_env w) (cli_faults w) (cli_procs w 0) (cfg_sid config) s) \<noteq> Inr (Running pid)))
    \<and> (\<forall>command. spawned (fst (main X w' command t)) = None)"
proof -
  have start: "start_command X w args s = (e, s')" using assms(1) by (simp add: main_def)
  then obtain config where config: "load_config (fs_text (cli_faults w) s) (cli_var w) (config_input_from_args (start_config args)) RequireSyncConfig
      = Inr (Some config)" and bg: "start_background w config s = (e, s')"
    using assms(2) by (rule start_spawned)
  note child = start_background_spawned [OF bg assms(2)]
  have var: "cli_var w' = (cli_var w)(''SSH_KEY_SYNC_INTERNAL_FOREGROUND'' \<mapsto> ''1'')"
    using assms(3) child(2) by simp
  have "fs_text (cli_faults w') s' path = Some v" if "fs_text (cli_faults w) s path = Some v" for path v
    using that child(4) assms(4) by (auto simp: fs_text_def fs_read_to_string_def split: option.splits if_splits)
  with config have "load_config (fs_text (cli_faults w') s') (cli_var w) (config_input_from_args (start_config args)) RequireSyncConfig
      = Inr (Some config)"
    by (rule load_config_same_file)
  with var have "main X w' (Start args) s' = start_foreground_daemon X w' config s'"
    by (simp add: main_def start_command_def load_config_def collect_env_foreground)
  moreover have "spawned (fst (start_command X w' args' t)) = None" for args'
    using var by (simp add: start_command_def split: sum.split option.split)
  then have "spawned (fst (main X w' command t)) = None" for command
    by (simp add: main_def split: Command.split)
  ultimately show ?thesis using child(1,3,4) config by auto
qed

text \<open>The process that is started runs in a file system that already has the log file.\<close>

theorem background_start_chain_witness:
  "\<exists>e s' c p. main echo_ext demo_world (Start demo_args) empty_fs = (e, s') \<and> spawned e = Some c \<and> child_args c = [''start'']
    \<and> log_file_path demo_env ''g'' = Inr p \<and> files s' (path_of p) = Some []
    \<and> spawned (fst (main echo_ext (demo_world\<lparr>cli_var := child_var c\<rparr>) (Start demo_args) s')) = None"
proof -
  obtain config where config: "load_config (fs_text no_faults empty_fs) (cli_var demo_world)
      (config_input_from_args (start_config demo_args)) RequireSyncConfig = Inr (Some config)" "cfg_sid config = ''g''"
    by (rule demo_load)
  have status: "status_daemon demo_env no_faults proc ''g'' empty_fs = (Inr Stopped, empty_fs)" for proc
    using demo_paths(1) by (rule status_stopped) (simp add: there_def empty_fs_def)
  obtain p path s' where log: "log_file_path demo_env ''g'' = Inr p" "open_daemon_log_file demo_env no_faults ''g'' empty_fs = (Inr path, s')"
      "files s' (path_of p) = Some []"
    using demo_log by blast
  then obtain c where "spawn_background_start demo_world ''g'' empty_fs = (Inr c, s')"
    by (simp add: spawn_background_start_def io_bind_Inr Let_def) (simp add: demo_world_def)
  with config(2) status obtain e where "start_background demo_world config empty_fs = (e, s')" and c: "spawned e = Some c"
    by (simp add: start_background_def Let_def)
  moreover have "\<not> start_foreground demo_args"
    by (simp add: demo_args_def)
  ultimately have e: "main echo_ext demo_world (Start demo_args) empty_fs = (e, s')"
    using config(1) by (simp add: main_def start_command_def)
  have "child_args c = cli_args demo_world" "spawned (fst (main echo_ext (demo_world\<lparr>cli_var := child_var c\<rparr>) (Start demo_args) s')) = None"
    using background_start_chain [OF e c, of "demo_world\<lparr>cli_var := child_var c\<rparr>" s'] by simp_all
  with e c log show ?thesis
    by (auto simp: demo_world_def)
qed

text \<open>C24: An exit status of 2 says that nothing was done: the command failed before it changed a file or
  started a process, and said why. \<open>status\<close> never changes anything, and a status of 0 comes with
  nothing on the error output.\<close>

theorem exit_status_contract:
  assumes "main X w command s = (e, s')"
  shows "(exit_status e = Some 2 \<longrightarrow> s' = s \<and> spawned e = None \<and> out_lines e = [] \<and> length (err_lines e) = 1)
    \<and> (exit_status e = Some 0 \<longrightarrow> err_lines e = [])
    \<and> (spawned e \<noteq> None \<longrightarrow> exit_status e = Some 0)
    \<and> ((\<exists>args. command = Status args) \<longrightarrow> s' = s)"
proof (cases command)
  case (Start args)
  have "exit_status e \<noteq> Some 2 \<and> (exit_status e = Some 0 \<longrightarrow> err_lines e = []) \<and> (spawned e \<noteq> None \<longrightarrow> exit_status e = Some 0)"
    if "start_background w config s = (e, s')" for config
    using that by (auto simp: start_background_def Let_def split: prod.splits sum.splits DaemonStatus.splits)
  moreover have "exit_status e \<noteq> Some 2 \<and> (exit_status e = Some 0 \<longrightarrow> err_lines e = []) \<and> spawned e = None"
    if "start_foreground_daemon X w config s = (e, s')" for config
    using that by (auto simp: start_foreground_daemon_def split: prod.splits sum.splits run_result.splits)
  ultimately show ?thesis
    using assms Start by (auto simp: main_def start_command_def split: sum.splits option.splits if_splits)
next
  case (Stop args)
  then show ?thesis
    using assms by (auto simp: main_def stop_command_def split: prod.splits sum.splits dest: resolve_control_same)
next
  case (Status args)
  then show ?thesis
    using assms by (auto simp: main_def status_command_def split: prod.splits sum.splits dest: resolve_control_same status_same)
next
  case (Sync args)
  then show ?thesis
    using assms by (auto simp: main_def sync_command_def Let_def split: prod.splits sum.splits option.splits)
qed

theorem exit_status_contract_witness:
  "exit_status (fst (main echo_ext demo_world (Status \<lparr>control_sid = None\<rparr>) empty_fs)) = Some 2
   \<and> snd (main echo_ext demo_world (Status \<lparr>control_sid = None\<rparr>) empty_fs) = empty_fs"
proof -
  have "resolve_current_sid demo_env no_faults [] empty_fs = (Inr None, empty_fs)"
    using control_paths(5) [OF demo_root demo_sid] demo_root
    by (auto simp: resolve_current_sid_def discover_sid_from_pid_files_def there_def empty_fs_def)
  then have "exit_status (fst (main echo_ext demo_world (Status \<lparr>control_sid = None\<rparr>) empty_fs)) = Some 2"
    by (simp add: main_def status_command_def resolve_control_sid_def)
  with exit_status_contract [OF surjective_pairing, of echo_ext demo_world "Status \<lparr>control_sid = None\<rparr>" empty_fs]
  show ?thesis by blast
qed

lemma load_config_sid:
  assumes "load_config rd var input mode = Inr (Some config)"
  shows "cfg_sid config \<noteq> []" and "str_trim (cfg_sid config) = cfg_sid config"
proof -
  from assms obtain fd x sid tok interval where "normalize_non_empty x = Some sid"
      and "config = config_of input (collect_env var) fd sid tok interval"
    by (auto simp: load_config_def load_config_with_sources_def Let_def split: if_splits)
  then show "cfg_sid config \<noteq> []" and "str_trim (cfg_sid config) = cfg_sid config"
    by (auto simp: normalize_non_empty_def config_of_def Let_def split: if_splits)
qed

lemma normalize_trimmed: "str_trim x = sid \<Longrightarrow> sid \<noteq> [] \<Longrightarrow> normalize_non_empty x = Some sid"
  by (simp add: normalize_non_empty_def)

text \<open>C13: The commands find the daemon that was started: once it has taken its control files and while
  its process exists, \<open>status\<close> and \<open>start\<close> report it with its pid and change nothing, and \<open>stop\<close>
  asks that daemon to stop, whether the group is given with or without spaces around it, in the
  environment, or not at all, even if it was set in a configuration file. (The control files can be
  read.)\<close>

theorem commands_find_daemon:
  assumes "load_config rd var input RequireSyncConfig = Inr (Some config)"
    and "daemon_claim (cli_env w) os pid (cfg_sid config) s = (Inr (p, q), s')"
    and "control_runtime_root_path (cli_env w) = Inr root" and "sid_ok (cfg_sid config)" and "utf8_valid (cfg_sid config)"
    and "\<forall>x. \<not> fails (cli_faults w) (ReadToString x) \<and> \<not> fails (cli_faults w) (Stat x)" and "process_exists (cli_procs w 0) pid"
    and "case control_sid args of Some x \<Rightarrow> str_trim x = cfg_sid config
      | None \<Rightarrow> (case cli_var w ''SSH_KEY_SYNC_SID'' of Some x \<Rightarrow> str_trim x \<in> {[], cfg_sid config} | None \<Rightarrow> True)"
  shows "main X w (Status args) s'
      = (said (''Daemon is running for SID: '' @ cfg_sid config @ '' (pid: '' @ show_word pid @ '')''), s')
    \<and> (load_config (fs_text (cli_faults w) s') (cli_var w) (config_input_from_args (start_config sargs)) RequireSyncConfig
          = Inr (Some config) \<and> \<not> start_foreground sargs \<and> cli_var w ''SSH_KEY_SYNC_INTERNAL_FOREGROUND'' = None
        \<longrightarrow> main X w (Start sargs) s'
          = (said (''Daemon is already running for SID: '' @ cfg_sid config @ '' (pid: '' @ show_word pid @ '')''), s'))
    \<and> (\<forall>e s''. main X w (Stop args) s' = (e, s'') \<and> exit_status e = Some 0 \<longrightarrow>
          e = said (''Stop requested for SID: '' @ cfg_sid config) \<and> files s'' = (files s')(path_of q \<mapsto> ''stop''))"
proof -
  note sid = load_config_sid [OF assms(1)]
  note claimed = claimed_daemon_visible [OF assms(3-5) sid(2,1) assms(2,6), of "cli_procs w 0" "cli_listing w"]
  have status: "status_daemon (cli_env w) (cli_faults w) (cli_procs w 0) (cfg_sid config) s' = (Inr (Running pid), s')"
    using claimed assms(7) by simp
  have resolve: "resolve_control_sid w (control_sid args) s' = (Inr (cfg_sid config), s')"
    using assms(8) claimed sid normalize_trimmed
    by (auto simp: resolve_control_sid_def normalize_non_empty_def Let_def split: option.splits)
  from resolve status have "main X w (Status args) s'
      = (said (''Daemon is running for SID: '' @ cfg_sid config @ '' (pid: '' @ show_word pid @ '')''), s')"
    by (simp add: main_def status_command_def)
  moreover have "main X w (Start sargs) s'
      = (said (''Daemon is already running for SID: '' @ cfg_sid config @ '' (pid: '' @ show_word pid @ '')''), s')"
    if "load_config (fs_text (cli_faults w) s') (cli_var w) (config_input_from_args (start_config sargs)) RequireSyncConfig
          = Inr (Some config)" "\<not> start_foreground sargs" "cli_var w ''SSH_KEY_SYNC_INTERNAL_FOREGROUND'' = None"
    using that status by (simp add: main_def start_command_def start_background_def)
  moreover have "e = said (''Stop requested for SID: '' @ cfg_sid config) \<and> files s'' = (files s')(path_of q \<mapsto> ''stop'')"
    if stop: "main X w (Stop args) s' = (e, s'')" "exit_status e = Some 0" for e s''
  proof -
    from stop resolve obtain b where b: "stop_daemon (cli_env w) (cli_faults w) (cli_procs w) (cli_kill w) (cfg_sid config) s' = (Inr b, s'')"
      and e: "e = said (if b then ''Stop requested for SID: '' @ cfg_sid config else ''Daemon is not running for SID: '' @ cfg_sid config)"
      by (auto simp: main_def stop_command_def split: prod.splits sum.splits)
    from b status have True: "b"
      by (auto simp: stop_daemon_def io_bind_Inr)
    with b have "stop_daemon (cli_env w) (cli_faults w) (cli_procs w) (cli_kill w) (cfg_sid config) s' = (Inr True, s'')" by simp
    then have "files s'' = (files s')(path_of q \<mapsto> ''stop'')"
      using daemon_claim_Inr(2) [OF assms(3,4,2)] by (auto elim: stop_daemon_True)
    with True e show ?thesis by simp
  qed
  ultimately show ?thesis by blast
qed

theorem commands_find_daemon_witness:
  "fst (main echo_ext demo_world (Status \<lparr>control_sid = None\<rparr>) claimed_fs) = said ''Daemon is running for SID: g (pid: 7)''
   \<and> fst (main echo_ext demo_world (Start demo_args) claimed_fs) = said ''Daemon is already running for SID: g (pid: 7)''"
proof -
  obtain config where config: "load_config (fs_text no_faults claimed_fs) (cli_var demo_world)
      (config_input_from_args (start_config demo_args)) RequireSyncConfig = Inr (Some config)" "cfg_sid config = ''g''"
    by (rule demo_load)
  have "show_word (7 :: u32) = ''7''"
    by code_simp
  moreover have "utf8_valid ''g''" "\<not> start_foreground demo_args"
    by (simp_all add: rust_str demo_args_def)
  ultimately show ?thesis
    using commands_find_daemon [OF config(1), of demo_world no_faults 7 empty_fs _ _ claimed_fs _ "\<lparr>control_sid = None\<rparr>" echo_ext demo_args]
      demo_claim demo_root demo_sid config by (simp add: process_exists_def)
qed

text \<open>C23: \<open>sync\<close> does what the first turn of the daemon does: with the same network and file system, and
  when no announcement has arrived, a single synchronisation leaves the file system exactly as the
  daemon's first turn, succeeds exactly when that turn does and fails with exactly its error.\<close>

theorem sync_is_first_turn:
  assumes "daemon_setup home rd tls True True config = Inr d" and "turn_datagrams w = []" and "now \<le> turn_now w"
  shows "snd (run_single_sync X home rd tls w config s) = snd (daemon_turn X d w (daemon_start config now) s)
    \<and> fst (run_single_sync X home rd tls w config s) = and_then (fst (daemon_turn X d w (daemon_start config now) s)) (\<lambda>_. Inr ())"
proof -
  let ?r = "daemon_start config now" and ?e = "add_bootstrap_peers (cfg_bootstrap_peers config)
      (engine_new (cfg_sid config) (cfg_sid_token config) TIMESTAMP_SKEW_SECS NONCE_TTL_SECS)"
  have d: "set_config d = config" "set_authorized_keys_path d = expand_home_path home (cfg_authorized_keys_path config)"
    using assms(1) by (auto simp: daemon_setup_def Let_def)
  have due: "syncs X w ?r"
    using assms(3) by (simp add: syncs_def daemon_start_def)
  have "eng_peers (snd (turn_engine X w ?r)) = eng_peers ?e"
    using assms(2) by (simp add: turn_engine_def daemon_start_def take_sync_trigger_def)
  then obtain m where m: "run_sync_cycle X (turn_network w) (set_config d) (set_service d) (snd (turn_engine X w ?r)) (run_managed_keys ?r) = (Inr (), m)"
    and m': "run_sync_cycle X (turn_network w) config (set_service d) ?e Map.empty = (Inr (), m)"
    by (simp add: run_sync_cycle_def d daemon_start_def)
  obtain key where "map_err (\<lambda>_. ReadLocalPublicKey (expand_home_path home (cfg_public_key_path config)))
        (read_local_public_key rd (expand_home_path home (cfg_public_key_path config))) = Inr key"
      and "map_err (\<lambda>_. ReadLocalPublicKey (expand_home_path home (cfg_public_key_path config)))
        (service_new (cfg_sid config) (cfg_sid_token config) (cfg_participant_id config) key) = Inr (set_service d)" and "tls = Inr ()"
    using assms(1) by (auto simp: daemon_setup_def Let_def)
  then have single: "run_single_sync X home rd tls w config = write_keys d w m"
    using m' by (simp add: run_single_sync_def write_keys_def d Let_def)
  obtain v where "send_announcement X (snd (turn_engine X w ?r)) (cfg_participant_id (set_config d)) (set_advertised_address d)
      (set_http_port d) (set_local_public_key d) (set_udp_port d) (turn_announce_now w) (turn_announce_nonce w) = Inr v"
    using assms(1) by (rule setup_announces)
  then obtain r' where "daemon_turn X d w ?r = io_bind (write_keys d w m) (\<lambda>_. io_return r')"
    using due m by (auto simp: daemon_turn_def syncs_def turn_engine_def Let_def split_beta)
  then show ?thesis
    unfolding single by (simp add: io_bind_snd io_bind_fst io_return_def split: sum.split)
qed

theorem sync_is_first_turn_witness:
  "\<exists>d s'. daemon_setup None (fs_text no_faults demo_fs) (Inr ()) True True (demo_config [] False) = Inr d
    \<and> run_single_sync echo_ext None (fs_text no_faults demo_fs) (Inr ()) (demo_turn []) (demo_config [] False) demo_fs = (Inr (), s')
    \<and> snd (daemon_turn echo_ext d (demo_turn []) (daemon_start (demo_config [] False) 9) demo_fs) = s'
    \<and> files s' (path_of ''/h/k'') \<noteq> None"
proof -
  let ?cfg = "demo_config [] False" and ?w = "demo_turn []" and ?r = "daemon_start (demo_config [] False) 9"
  obtain d where d: "daemon_setup None (fs_text no_faults demo_fs) (Inr ()) True True ?cfg = Inr d"
    "set_config d = ?cfg" "set_local_public_key d = ''ssh-rsa BB''" "set_authorized_keys_path d = ''/h/k''"
    by (rule demo_daemon_setup)
  have p: "path_of ''/h/k'' = \<lparr>absolute = True, components = [''h'', ''k'']\<rparr>"
    by code_simp
  have w: "turn_datagrams ?w = []" "9 \<le> turn_now ?w" "turn_key_order ?w = []" "syncs echo_ext ?w ?r"
    "turn_faults ?w = \<lparr>fails = (\<lambda>_. False), written = (\<lambda>_. 0), made = (\<lambda>_. {})\<rparr>"
    by (simp_all add: demo_turn_def syncs_def daemon_start_def)
  have place: "writable (turn_faults ?w) (path_of ''/h/k'') demo_fs"
    by (auto simp: writable_def demo_fs_def w(5) p path_ancestors_iff)
  have doc: "doc_ok (str_lines (unwrap_or (files demo_fs (path_of ''/h/k'')) []))"
    by (simp add: demo_fs_def p doc_ok_def) code_simp
  obtain r' s' where turn: "daemon_turn echo_ext d ?w ?r demo_fs = (Inr r', s')" and wr: "write_keys d ?w Map.empty demo_fs = (Inr (), s')"
    using demo_first_turn [of ?w d demo_fs ?r] place doc w d
    by (auto simp: run_sync_cycle_def values_in_def daemon_start_def demo_turn_def)
  then obtain out where "apply_managed_block_to_file (turn_mode ?w) (turn_faults ?w) ''/h/k'' [] demo_fs = (Inr out, s')"
    using d w(3) by (auto simp: write_keys_def values_in_def io_bind_Inr demo_config_def)
  then have "files s' (path_of ''/h/k'') = Some out"
    by (rule apply_Inr)
  with turn d(1) sync_is_first_turn [OF d(1) w(1,2), of echo_ext demo_fs] show ?thesis
    by (auto simp: prod_eq_iff)
qed

end
