(* ===== verification/Scenarios.thy ===== *)
theory Scenarios
  imports Setting
begin

text \<open>
  The end-to-end scenarios of \<open>e2e.rs\<close>, translated as they are written and run on the definitions of
  the other theories. A scenario is true when every \<open>expect\<close> finds a result and every assertion
  holds; the primitives of the message authentication stay a parameter.
\<close>

section \<open>The scenarios\<close>

definition two_participants_exchange_public_keys :: "ext \<Rightarrow> bool" where
  "two_participants_exchange_public_keys X =
     (case service_new ''group-a'' ''token-a'' ''node-a'' ''ssh-ed25519 AAAA node-a'' of Inl _ \<Rightarrow> False | Inr node_a \<Rightarrow>
     (case service_new ''group-a'' ''token-a'' ''node-b'' ''ssh-ed25519 BBBB node-b'' of Inl _ \<Rightarrow> False | Inr node_b \<Rightarrow>
      let request = build_get_public_key_request X node_a ''node-a'' 1700001000 ''req-1'' in
     (case handle_get_public_key_request X node_b request 1700001001 ''res-1'' of Inl _ \<Rightarrow> False | Inr response \<Rightarrow>
     (case verify_and_parse_public_key_response X node_a response of Inl _ \<Rightarrow> False | Inr payload \<Rightarrow>
        pkp_participant_id payload = ''node-b'' \<and> pkp_public_key payload = ''ssh-ed25519 BBBB node-b''))))"

definition late_joiner_triggers_discovery_sync :: "ext \<Rightarrow> bool" where
  "late_joiner_triggers_discovery_sync X =
     (let node_a = add_bootstrap_peers [''node-b@10.0.0.2:2222''] (engine_new ''group-a'' ''token-a'' 60 120);
          (first_trigger, node_a) = take_sync_trigger node_a;
          node_c = engine_new ''group-a'' ''token-a'' 60 120
      in first_trigger \<and>
     (case build_startup_announcement X node_c ''node-c'' ''10.0.0.3'' 2222 ''ssh-ed25519 CCCC node-c'' 1700001100 ''late-1''
      of Inl _ \<Rightarrow> False | Inr announcement \<Rightarrow>
        let (event, node_a) = process_announcement X announcement 1700001101 node_a
        in event = Inr (PeerAdded ''node-c'') \<and> fst (take_sync_trigger node_a)))"

definition isolation_by_sid_and_sid_token :: "ext \<Rightarrow> bool" where
  "isolation_by_sid_and_sid_token X =
     (let receiver = engine_new ''group-a'' ''token-a'' 60 120;
          wrong_sid_sender = engine_new ''group-b'' ''token-a'' 60 120
      in case build_startup_announcement X wrong_sid_sender ''node-x'' ''10.0.0.9'' 2222 ''ssh-ed25519 XXXX node-x'' 1700001200 ''sid-1''
         of Inl _ \<Rightarrow> False | Inr wrong_sid \<Rightarrow>
      let (sid_event, receiver) = process_announcement X wrong_sid 1700001201 receiver;
          wrong_token_sender = engine_new ''group-a'' ''token-b'' 60 120
      in sid_event = Inr Ignored \<and>
        (case build_startup_announcement X wrong_token_sender ''node-y'' ''10.0.0.10'' 2222 ''ssh-ed25519 YYYY node-y'' 1700001210 ''tok-1''
         of Inl _ \<Rightarrow> False | Inr wrong_token \<Rightarrow>
      let (token_event, receiver) = process_announcement X wrong_token 1700001211 receiver
      in token_event = Inr Ignored))"

definition idempotent_authorized_keys_on_restart :: bool where
  "idempotent_authorized_keys_on_restart =
     (let initial = ''ssh-ed25519 LOCAL local'' @ [nl];
          managed_keys = [''ssh-ed25519 AAAA node-a'', ''ssh-ed25519 BBBB node-b'']
      in case upsert_managed_block initial managed_keys of Inl _ \<Rightarrow> False | Inr first \<Rightarrow>
        (case upsert_managed_block first managed_keys of Inl _ \<Rightarrow> False | Inr second \<Rightarrow> first = second))"

definition publish_flow_accepts_valid_remote_participant :: "ext \<Rightarrow> bool" where
  "publish_flow_accepts_valid_remote_participant X =
     (case service_new ''group-a'' ''token-a'' ''node-a'' ''ssh-ed25519 AAAA node-a'' of Inl _ \<Rightarrow> False | Inr node_a \<Rightarrow>
     (case service_new ''group-a'' ''token-a'' ''node-b'' ''ssh-ed25519 BBBB node-b'' of Inl _ \<Rightarrow> False | Inr node_b \<Rightarrow>
      let publish_request = build_publish_request X node_a ''node-a'' 1700001300 ''pub-1''
            \<lparr>pub_participant_id = ''node-a'', pub_address = ''10.0.0.11'', pub_port = 2222,
             pub_public_key = ''ssh-ed25519 AAAA node-a''\<rparr> in
     (case handle_publish_request X node_b publish_request 1700001301 ''ack-1'' of Inl _ \<Rightarrow> False | Inr response \<Rightarrow>
     (case handle_get_public_key_request X node_b (build_get_public_key_request X node_a ''node-a'' 1700001302 ''req-2'')
        1700001303 ''res-2'' of Inl _ \<Rightarrow> False | Inr get_response \<Rightarrow>
     (case verify_and_parse_public_key_response X node_a get_response of Inl _ \<Rightarrow> False | Inr payload \<Rightarrow>
        pkp_participant_id payload = ''node-b''
        \<and> env_context response = HttpResponse 202 ''/v1/participants/publish'')))))"

section \<open>What they rest on\<close>

lemma node_keys:
  "normalize_public_key ''ssh-ed25519 AAAA node-a'' = Inr ''ssh-ed25519 AAAA node-a''"
  "normalize_public_key ''ssh-ed25519 BBBB node-b'' = Inr ''ssh-ed25519 BBBB node-b''"
  "normalize_public_key ''ssh-ed25519 CCCC node-c'' = Inr ''ssh-ed25519 CCCC node-c''"
  "normalize_public_key ''ssh-ed25519 XXXX node-x'' = Inr ''ssh-ed25519 XXXX node-x''"
  "normalize_public_key ''ssh-ed25519 YYYY node-y'' = Inr ''ssh-ed25519 YYYY node-y''"
  by code_simp+

lemma node_clean [simp]:
  "clean ''group-a''" "clean ''node-a''" "clean ''node-b''" "clean ''node-c''" "clean ''10.0.0.3''" "clean ''10.0.0.11''"
  "clean ''ssh-ed25519 AAAA node-a''" "clean ''ssh-ed25519 BBBB node-b''"
  by (simp_all add: clean_def rust_str)

text \<open>The key of the second participant, asked for by the first.\<close>

lemma node_exchange:
  assumes "mac_ok X" and "service_new ''group-a'' ''token-a'' ''node-a'' ka = Inr node_a"
    and "service_new ''group-a'' ''token-a'' ''node-b'' ''ssh-ed25519 BBBB node-b'' = Inr node_b"
  obtains response where "handle_get_public_key_request X node_b (build_get_public_key_request X node_a who t n) t' n' = Inr response"
    and "verify_and_parse_public_key_response X node_a response
      = Inr \<lparr>pkp_sid = ''group-a'', pkp_participant_id = ''node-b'', pkp_public_key = ''ssh-ed25519 BBBB node-b''\<rparr>"
proof -
  have a: "svc_sid node_a = ''group-a''" "svc_sid_token node_a = ''token-a''"
    using assms(2) by (auto simp: service_new_def)
  have b: "node_b = \<lparr>svc_sid = ''group-a'', svc_sid_token = ''token-a'', svc_participant_id = ''node-b'',
      svc_public_key = ''ssh-ed25519 BBBB node-b''\<rparr>"
    using assms(3) node_keys by (simp add: service_new_def)
  then have "service_ok node_b"
    using node_keys by (simp add: service_ok_def)
  from handle_get_built [OF assms(1), of node_a node_b who t n t' n'] parse_key_response [OF assms(1) this, of node_a t' n'] a b that
  show thesis by simp
qed

text \<open>A peer that was not known before is announced as added and asks for a synchronisation.\<close>

lemma process_new_peer:
  assumes "eng_peers d p = None" and "eng_peers (snd (process_announcement X e t d)) p \<noteq> None"
  shows "fst (process_announcement X e t d) = Inr (PeerAdded p)"
    and "eng_sync_trigger_pending (snd (process_announcement X e t d))"
proof -
  have "eng_peers (listened X e t d) = eng_peers d"
    by (simp add: listened_def)
  then obtain a where a: "news X e t d a"
    using assms process_no_news(1) [of X e t d] by fastforce
  with assms have "ann_participant_id a = p"
    using process_news [OF a] by (auto split: if_splits)
  with assms(1) show "fst (process_announcement X e t d) = Inr (PeerAdded p)"
    and "eng_sync_trigger_pending (snd (process_announcement X e t d))"
    using process_news [OF a] by simp_all
qed

lemma unaccepted_ignored:
  "\<not> accepts X e t (eng_verifier d) \<Longrightarrow> fst (process_announcement X e t d) = Inr Ignored
    \<and> eng_verifier (snd (process_announcement X e t d)) = (if env_context e = UdpAnnouncement then after X e t (eng_verifier d) else eng_verifier d)"
  by (auto simp: process_announcement_def Let_def split_beta is_ok_accepts after_def)

lemma late_joiner_passes:
  assumes "mac_ok X"
  shows "late_joiner_triggers_discovery_sync X"
proof -
  let ?a = "add_bootstrap_peers [''node-b@10.0.0.2:2222''] (engine_new ''group-a'' ''token-a'' 60 120)"
  let ?c = "engine_new ''group-a'' ''token-a'' 60 120" and ?a' = "?a\<lparr>eng_sync_trigger_pending := False\<rparr>"
  have peer: "parse_bootstrap_peer ''node-b@10.0.0.2:2222'' = Some (''node-b'', ''10.0.0.2'', 2222)"
  proof -
    have "show_word (2222 :: u16) = ''2222''"
      by code_simp
    with parse_bootstrap_peer_named [of "''node-b''" "''10.0.0.2''" 2222] show ?thesis by (simp add: rust_str)
  qed
  obtain e where e: "build_startup_announcement X ?c ''node-c'' ''10.0.0.3'' 2222 ''ssh-ed25519 CCCC node-c'' 1700001100 ''late-1'' = Inr e"
    using node_keys by (simp add: build_startup_announcement_def)
  have trigger: "take_sync_trigger ?a = (True, ?a')"
    using peer by (simp add: take_sync_trigger_def engine_new_def)
  have "eng_peers ?a' ''node-c'' = None"
    using peer by (simp add: engine_new_def)
  moreover have "utf8_valid ''ssh-ed25519 CCCC node-c''"
    by (simp add: rust_str)
  then have "eng_peers (snd (process_announcement X e 1700001101 ?a')) ''node-c'' \<noteq> None"
    using process_built_announcement [OF assms e, of ?a' 1700001101] peer
    by (auto simp: engine_new_def verifier_new_def in_window_nat)
  ultimately have "fst (process_announcement X e 1700001101 ?a') = Inr (PeerAdded ''node-c'')"
      "eng_sync_trigger_pending (snd (process_announcement X e 1700001101 ?a'))"
    by (rule process_new_peer)+
  then show ?thesis
    unfolding late_joiner_triggers_discovery_sync_def Let_def trigger
    by (simp add: e split_beta take_sync_trigger_def)
qed

lemma idempotent_passes: "idempotent_authorized_keys_on_restart"
  by code_simp

lemma isolation_passes:
  assumes "mac_ok X"
    and "\<forall>e. build_startup_announcement X (engine_new ''group-a'' ''token-b'' 60 120) ''node-y'' ''10.0.0.10'' 2222
        ''ssh-ed25519 YYYY node-y'' 1700001210 ''tok-1'' = Inr e
      \<longrightarrow> hmac_sha256 X (as_bytes ''token-b'') (as_bytes (envelope_payload X e))
        \<noteq> hmac_sha256 X (as_bytes ''token-a'') (as_bytes (envelope_payload X e))"
  shows "isolation_by_sid_and_sid_token X"
proof -
  let ?d = "engine_new ''group-a'' ''token-a'' 60 120"
  obtain e1 where e1: "build_startup_announcement X (engine_new ''group-b'' ''token-a'' 60 120) ''node-x'' ''10.0.0.9'' 2222
      ''ssh-ed25519 XXXX node-x'' 1700001200 ''sid-1'' = Inr e1" "env_sid e1 = ''group-b''"
    using node_keys by (simp add: build_startup_announcement_def engine_new_def)
  obtain e2 where e2: "build_startup_announcement X (engine_new ''group-a'' ''token-b'' 60 120) ''node-y'' ''10.0.0.10'' 2222
      ''ssh-ed25519 YYYY node-y'' 1700001210 ''tok-1'' = Inr e2"
    and sig: "decode_hex (env_signature_hex e2) = Some (hmac_sha256 X (as_bytes ''token-b'') (as_bytes (envelope_payload X e2)))"
    using node_keys by (simp add: build_startup_announcement_def engine_new_def sign_envelope_signature envelope_payload_sign)
  have "\<not> accepts X e1 t (eng_verifier ?d)" for t
    using e1(2) verify_envelope_iff [OF assms(1)] by (simp add: accepts_iff engine_new_def verifier_new_def)
  from unaccepted_ignored [OF this]
  have first: "fst (process_announcement X e1 t ?d) = Inr Ignored" and "eng_verifier (snd (process_announcement X e1 t ?d))
      = (if env_context e1 = UdpAnnouncement then after X e1 t (eng_verifier ?d) else eng_verifier ?d)" for t
    by blast+
  then have "ver_sid_token (eng_verifier (snd (process_announcement X e1 t ?d))) = ''token-a''" for t
    by (simp add: engine_new_def verifier_new_def)
  moreover have "verify_envelope X e2 ''token-a'' sid \<noteq> Inr ()" for sid
    using assms(2) e2 sig verify_envelope_iff [OF assms(1)] by auto
  ultimately have "\<not> accepts X e2 t' (eng_verifier (snd (process_announcement X e1 t ?d)))" for t t'
    by (simp add: accepts_iff)
  from unaccepted_ignored [OF this] first show ?thesis
    by (simp add: isolation_by_sid_and_sid_token_def Let_def e1(1) e2 split_beta)
qed

lemma exchange_passes: "mac_ok X \<Longrightarrow> two_participants_exchange_public_keys X"
proof -
  assume mac: "mac_ok X"
  obtain node_a node_b where ab: "service_new ''group-a'' ''token-a'' ''node-a'' ''ssh-ed25519 AAAA node-a'' = Inr node_a"
      "service_new ''group-a'' ''token-a'' ''node-b'' ''ssh-ed25519 BBBB node-b'' = Inr node_b"
    using node_keys by (simp add: service_new_def)
  obtain response where "handle_get_public_key_request X node_b
      (build_get_public_key_request X node_a ''node-a'' 1700001000 ''req-1'') 1700001001 ''res-1'' = Inr response"
    "verify_and_parse_public_key_response X node_a response
      = Inr \<lparr>pkp_sid = ''group-a'', pkp_participant_id = ''node-b'', pkp_public_key = ''ssh-ed25519 BBBB node-b''\<rparr>"
    using mac ab by (rule node_exchange)
  with ab show ?thesis by (simp add: two_participants_exchange_public_keys_def)
qed

lemma publish_passes: "mac_ok X \<Longrightarrow> publish_flow_accepts_valid_remote_participant X"
proof -
  assume mac: "mac_ok X"
  let ?p = "\<lparr>pub_participant_id = ''node-a'', pub_address = ''10.0.0.11'', pub_port = 2222, pub_public_key = ''ssh-ed25519 AAAA node-a''\<rparr>"
  obtain node_a node_b where ab: "service_new ''group-a'' ''token-a'' ''node-a'' ''ssh-ed25519 AAAA node-a'' = Inr node_a"
      "service_new ''group-a'' ''token-a'' ''node-b'' ''ssh-ed25519 BBBB node-b'' = Inr node_b"
    using node_keys by (simp add: service_new_def)
  obtain response where r: "handle_get_public_key_request X node_b
      (build_get_public_key_request X node_a ''node-a'' 1700001302 ''req-2'') 1700001303 ''res-2'' = Inr response"
    "verify_and_parse_public_key_response X node_a response
      = Inr \<lparr>pkp_sid = ''group-a'', pkp_participant_id = ''node-b'', pkp_public_key = ''ssh-ed25519 BBBB node-b''\<rparr>"
    using mac ab by (rule node_exchange)
  have "svc_sid node_a = svc_sid node_b" "svc_sid_token node_a = svc_sid_token node_b"
    using ab node_keys by (auto simp: service_new_def)
  then obtain resp where "handle_publish_request X node_b
      (build_publish_request X node_a ''node-a'' 1700001300 ''pub-1'' ?p) 1700001301 ''ack-1'' = Inr resp"
    "env_context resp = HttpResponse 202 PATH_PUBLISH_PARTICIPANT"
    using publish_roundtrip [OF mac, of node_a node_b ?p "''node-a''" 1700001300 "''pub-1''" 1700001301 "''ack-1''"] node_keys(1)
    by (auto split: sum.splits)
  with ab r show ?thesis
    by (simp add: publish_flow_accepts_valid_remote_participant_def PATH_PUBLISH_PARTICIPANT_def)
qed

section \<open>All of them\<close>

text \<open>The one announcement signed with the other token has a different tag.\<close>

definition scenarios_separated :: "ext \<Rightarrow> bool" where
  "scenarios_separated X \<longleftrightarrow> (\<forall>e. build_startup_announcement X (engine_new ''group-a'' ''token-b'' 60 120) ''node-y'' ''10.0.0.10'' 2222
        ''ssh-ed25519 YYYY node-y'' 1700001210 ''tok-1'' = Inr e
      \<longrightarrow> hmac_sha256 X (as_bytes ''token-b'') (as_bytes (envelope_payload X e))
        \<noteq> hmac_sha256 X (as_bytes ''token-a'') (as_bytes (envelope_payload X e)))"

definition e2e_tests :: "ext \<Rightarrow> bool" where
  "e2e_tests X \<longleftrightarrow> two_participants_exchange_public_keys X \<and> late_joiner_triggers_discovery_sync X
     \<and> isolation_by_sid_and_sid_token X \<and> idempotent_authorized_keys_on_restart
     \<and> publish_flow_accepts_valid_remote_participant X"

lemma e2e_tests_pass: "mac_ok X \<Longrightarrow> scenarios_separated X \<Longrightarrow> e2e_tests X"
  using exchange_passes [of X] late_joiner_passes [of X] isolation_passes [of X] idempotent_passes publish_passes [of X]
  unfolding e2e_tests_def scenarios_separated_def by blast

lemma scenarios_separated_echo: "scenarios_separated echo_ext"
  by (simp add: scenarios_separated_def echo_ext_def as_bytes_def byte_of_def)

end
