(* ===== verification/Freshness.thy ===== *)
theory Freshness
  imports Runtime
begin

text \<open>
  The clock and the nonces of \<open>runtime.rs\<close> together with the memory of the verifier: what a daemon
  announces at different times is not taken for a replay by members that run the same program. Nonces
  are the nanoseconds of the clock, so this is where the program relies on the clock.
\<close>

section \<open>Nonces\<close>

lemma next_nonce_colon: "CHR '':'' \<notin> set (next_nonce clock)"
  using show_nat_chars [of "CHR '':''" "unwrap_or clock 0"] by (auto simp: next_nonce_def)

lemma next_nonce_inject [simp]: "next_nonce c = next_nonce c' \<longleftrightarrow> unwrap_or c 0 = unwrap_or c' 0"
  by (simp add: next_nonce_def)

text \<open>The key under which a nonce is remembered gives back sender and nonce, because these nonces have
  no colon.\<close>

lemma nonce_key_next:
  "env_nonce e = next_nonce c' \<Longrightarrow>
    nonce_key e = p @ '':'' @ next_nonce c \<longleftrightarrow> env_sender_id e = p \<and> unwrap_or c' 0 = unwrap_or c 0"
  using rsep_append_eq [OF next_nonce_colon next_nonce_colon, of "env_sender_id e" c' p c]
  by (auto simp: nonce_key_def)

section \<open>What the verifier remembers\<close>

lemma after_remembers:
  "ver_seen_nonces (after X e t v) k \<noteq> None \<Longrightarrow>
    ver_seen_nonces v k \<noteq> None \<or> k = nonce_key e \<and> verify_envelope X e (ver_sid_token v) (ver_expected_sid v) = Inr ()"
proof -
  have "ver_seen_nonces (prune_nonces t v) k \<noteq> None \<Longrightarrow> ver_seen_nonces v k \<noteq> None"
    using prune_nonces_Some [of t v k] by auto
  then show "ver_seen_nonces (after X e t v) k \<noteq> None \<Longrightarrow> ?thesis"
    by (auto simp: after_def verifier_verify_cases split: sum.splits if_splits)
qed

text \<open>Only announcements that were signed for the group are remembered.\<close>

lemma run_remembers:
  "ver_seen_nonces (eng_verifier (engine_run X ops (engine_new sid tok skew ttl))) k \<noteq> None \<Longrightarrow>
    \<exists>e t. Announce e t \<in> set ops \<and> verify_envelope X e tok sid = Inr () \<and> k = nonce_key e"
proof (induction ops rule: rev_induct)
  case (snoc op ops)
  let ?d = "engine_run X ops (engine_new sid tok skew ttl)"
  let ?v = "eng_verifier ?d"
  note settings = engine_settings [of ?d, OF refl]
  have "ver_seen_nonces ?v k \<noteq> None \<or> (\<exists>e t. op = Announce e t \<and> verify_envelope X e tok sid = Inr () \<and> k = nonce_key e)"
  proof (cases op)
    case (Announce e t)
    with snoc.prems have "ver_seen_nonces (after X e t ?v) k \<noteq> None \<or> ver_seen_nonces ?v k \<noteq> None"
      using eng_verifier_exec [of X op ?d] by (auto split: if_splits)
    with Announce show ?thesis
      using after_remembers [of X e t ?v k] settings(3,4) by auto
  qed (use snoc.prems eng_verifier_exec [of X op ?d] in simp_all)
  with snoc.IH show ?case by auto
qed (simp add: engine_new_def verifier_new_def)

section \<open>Properties\<close>

text \<open>C18: What a daemon announces is not mistaken for a replay. An announcement made with the time and
  the nonce of one clock reading, which arrives at an engine of the group within 60 seconds of
  that time, is accepted and makes its sender known with its address, port and key, whatever the
  engine has heard before, provided that every earlier announcement that was signed for the group
  has a nonce the program makes and, if it came from the same sender, one of another clock reading.
  The nonces of other senders and anything not signed for the group do not matter.\<close>

theorem announcements_not_replays:
  assumes "mac_ok X" and "d = engine_run X ops (engine_new sid tok TIMESTAMP_SKEW_SECS NONCE_TTL_SECS)"
    and "build_startup_announcement X (engine_new sid tok skew ttl) p adr port key (now_secs c) (next_nonce c) = Inr e"
    and "\<forall>e' t'. Announce e' t' \<in> set ops \<and> verify_envelope X e' tok sid = Inr () \<longrightarrow>
      (\<exists>c'. env_nonce e' = next_nonce c' \<and> (env_sender_id e' = p \<longrightarrow> unwrap_or c' 0 \<noteq> unwrap_or c 0))"
    and "clean sid" "sid \<noteq> []" "clean p" "p \<noteq> []" "clean adr" "adr \<noteq> []" "utf8_valid key"
    and "unat now - 60 \<le> unat (now_secs c)" and "unat (now_secs c) \<le> unat now + 60"
  shows "\<exists>nkey. normalize_public_key key = Inr nkey
    \<and> eng_peers (snd (process_announcement X e now d)) p
      = Some \<lparr>peer_participant_id = p, peer_address = adr, peer_port = port, peer_public_key = nkey\<rparr>"
proof (rule process_built_announcement [OF assms(1,3)])
  have d: "eng_sid d = sid" "ver_sid_token (eng_verifier d) = tok" "ver_expected_sid (eng_verifier d) = sid"
      "ver_timestamp_skew_secs (eng_verifier d) = 60"
    using engine_settings [OF assms(2)] by (simp_all add: TIMESTAMP_SKEW_SECS_def)
  show "ver_seen_nonces (eng_verifier d) (p @ '':'' @ next_nonce c) = None"
  proof (rule ccontr)
    assume "ver_seen_nonces (eng_verifier d) (p @ '':'' @ next_nonce c) \<noteq> None"
    then obtain e' t' where "Announce e' t' \<in> set ops" "verify_envelope X e' tok sid = Inr ()" "nonce_key e' = p @ '':'' @ next_nonce c"
      using run_remembers [of X ops sid tok] by (force simp: assms(2))
    with assms(4) nonce_key_next show False by blast
  qed
  show "in_window (ver_timestamp_skew_secs (eng_verifier d)) now (now_secs c)"
    using assms(12,13) by (simp add: in_window_nat d)
qed (use assms(5-11) engine_settings [OF assms(2)] in \<open>simp_all add: engine_new_def\<close>)

theorem announcements_not_replays_witness:
  "\<exists>e. build_startup_announcement echo_ext (engine_new ''s'' ''t'' 60 120) ''n'' ''h'' 22 ''ssh-rsa AA''
      (now_secs (Some 5000000001)) (next_nonce (Some 5000000001)) = Inr e
    \<and> eng_peers (snd (process_announcement echo_ext e 7 (engine_run echo_ext
        [Announce (sign_envelope echo_ext ''s'' ''t'' ''n'' 5 (next_nonce (Some 5000000000)) UdpAnnouncement []) 6,
         Announce (sign_envelope echo_ext ''z'' ''t'' ''n'' 5 (next_nonce (Some 5000000001)) UdpAnnouncement []) 6]
        (engine_new ''s'' ''t'' TIMESTAMP_SKEW_SECS NONCE_TTL_SECS)))) ''n''
      = Some \<lparr>peer_participant_id = ''n'', peer_address = ''h'', peer_port = 22, peer_public_key = ''ssh-rsa AA''\<rparr>"
proof -
  let ?ops = "[Announce (sign_envelope echo_ext ''s'' ''t'' ''n'' 5 (next_nonce (Some 5000000000)) UdpAnnouncement []) 6,
         Announce (sign_envelope echo_ext ''z'' ''t'' ''n'' 5 (next_nonce (Some 5000000001)) UdpAnnouncement []) 6]"
  have key: "normalize_public_key ''ssh-rsa AA'' = Inr ''ssh-rsa AA''"
    by code_simp
  then obtain e where e: "build_startup_announcement echo_ext (engine_new ''s'' ''t'' 60 120) ''n'' ''h'' 22 ''ssh-rsa AA''
      (now_secs (Some 5000000001)) (next_nonce (Some 5000000001)) = Inr e"
    by (simp add: build_startup_announcement_def)
  have "clean ''s''" "clean ''n''" "clean ''h''" "utf8_valid ''ssh-rsa AA''"
    by (simp_all add: clean_def rust_str)
  moreover have "now_secs (Some 5000000001) = 5"
    by (simp add: now_secs_def)
  moreover have "\<forall>e' t'. Announce e' t' \<in> set ?ops \<and> verify_envelope echo_ext e' ''t'' ''s'' = Inr () \<longrightarrow>
      (\<exists>c'. env_nonce e' = next_nonce c' \<and> (env_sender_id e' = ''n'' \<longrightarrow> unwrap_or c' 0 \<noteq> unwrap_or (Some 5000000001) 0))"
  proof (intro allI impI)
    fix e' t'
    assume "Announce e' t' \<in> set ?ops \<and> verify_envelope echo_ext e' ''t'' ''s'' = Inr ()"
    then have "env_nonce e' = next_nonce (Some 5000000000)"
      by (auto simp: verify_envelope_def)
    then show "\<exists>c'. env_nonce e' = next_nonce c' \<and> (env_sender_id e' = ''n'' \<longrightarrow> unwrap_or c' 0 \<noteq> unwrap_or (Some 5000000001) 0)"
      by (intro exI [of _ "Some 5000000000"]) simp
  qed
  ultimately show ?thesis
    using announcements_not_replays [OF mac_ok_echo refl e, of ?ops 7] key e by simp
qed

end
