(* ===== verification/ConfigFile.thy ===== *)
theory ConfigFile
  imports Config Payload
begin

text \<open>
  The configuration file of \<open>config.rs\<close> as a format: what a file made of entries, comments and blank
  lines is read as.
\<close>

section \<open>Lines of a configuration file\<close>

datatype config_item = Entry string string | Comment string | Blank

fun item_line :: "config_item \<Rightarrow> string" where
  "item_line (Entry key value) = key @ ''='' @ value"
| "item_line (Comment c) = ''#'' @ c"
| "item_line Blank = []"

fun item_entries :: "config_item \<Rightarrow> (string \<times> string) list" where
  "item_entries (Entry key value) = [(key, value)]"
| "item_entries (Comment c) = []"
| "item_entries Blank = []"

fun item_ok :: "config_item \<Rightarrow> bool" where
  "item_ok (Entry key value) \<longleftrightarrow> clean_entry (key, value) \<and> key \<noteq> [] \<and> hd key \<noteq> CHR ''#''"
| "item_ok (Comment c) \<longleftrightarrow> line_ok (''#'' @ c)"
| "item_ok Blank \<longleftrightarrow> True"

definition config_text :: "config_item list \<Rightarrow> string" where
  "config_text items = concat (map (\<lambda>item. item_line item @ [nl]) items)"

lemma entry_trim:
  assumes "clean k" and "clean v"
  shows "str_trim (k @ CHR ''='' # v) = k @ CHR ''='' # v"
  using assms by (cases "k = []"; cases "v = []") (auto simp: clean_def str_trim_id_iff str_chars_mid)

lemma comment_trim: "str_trim (CHR ''#'' # c) \<noteq> [] \<and> hd (str_trim (CHR ''#'' # c)) = CHR ''#''"
proof -
  have "trim_by is_whitespace ([CHR ''#''] # xs) = [CHR ''#''] # rev (dropWhile is_whitespace (rev xs))" for xs
    by (simp add: trim_by_def dropWhile_append3 del: is_whitespace_ascii) (simp add: dropWhile_append)
  then show ?thesis by (simp add: str_trim_def)
qed

lemma config_lines_item:
  assumes "item_ok item"
  shows "config_lines m (item_line item # ls) = config_lines (m ++ map_of (item_entries item)) ls"
proof (cases item)
  case (Entry k v)
  with assms have "split_once (CHR ''='') (k @ CHR ''='' # v) = Some (k, v)" "str_trim k = k" "str_trim v = v"
    by (simp_all add: clean_entry_def clean_def split_once_append)
  moreover have "str_trim (k @ CHR ''='' # v) = k @ CHR ''='' # v"
    using assms Entry by (intro entry_trim) (simp_all add: clean_entry_def)
  ultimately show ?thesis
    using assms Entry by simp
next
  case (Comment c)
  then show ?thesis using comment_trim [of c] by simp
qed simp

lemma config_lines_items:
  "list_all item_ok items \<Longrightarrow>
    config_lines m (map item_line items) = m ++ map_of (rev (concat (map item_entries items)))"
proof (induction items arbitrary: m)
  case (Cons item items)
  then have "config_lines m (map item_line (item # items))
      = (m ++ map_of (item_entries item)) ++ map_of (rev (concat (map item_entries items)))"
    using config_lines_item [of item m] by simp
  moreover have "map_of (rev (item_entries item)) = map_of (item_entries item)"
    by (cases item) simp_all
  ultimately show ?case by (simp add: map_add_assoc)
qed simp

lemma item_line_ok: "item_ok item \<Longrightarrow> line_ok (item_line item)"
  using clean_entry_line_ok by (cases item) (simp_all add: line_ok_def [of "[]"])

lemma str_lines_items: "list_all item_ok items \<Longrightarrow> str_lines (config_text items) = map item_line items"
  using str_lines_concat [of "map item_line items"] item_line_ok
  by (auto simp: list_all_iff config_text_def comp_def)

section \<open>Properties\<close>

text \<open>C36: A configuration file is read as it was written: from any sequence of \<open>KEY=VALUE\<close> lines, comments and
  blank lines exactly the values of the entries are loaded, the last one of each key. (Keys and
  values are trimmed and on one line, and a key has no equals sign and does not begin as a comment.)\<close>

theorem config_file_roundtrip:
  assumes "list_all item_ok items" and "rd path = Some (config_text items)"
  shows "read_config_file rd (Some path) = Inr (map_of (rev (concat (map item_entries items))))"
  using str_lines_items [OF assms(1)] config_lines_items [OF assms(1), of Map.empty] assms(2)
  by (simp add: read_config_file_def parse_config_key_values_def)

theorem config_file_roundtrip_witness:
  "read_config_file [''c'' \<mapsto> ''SID=a'' @ [nl] @ ''# note'' @ [nl] @ [nl] @ ''SID=b'' @ [nl]] (Some ''c'') = Inr [''SID'' \<mapsto> ''b'']"
proof -
  let ?items = "[Entry ''SID'' ''a'', Comment '' note'', Blank, Entry ''SID'' ''b'']"
  have "list_all item_ok ?items"
    by (simp add: clean_entry_def clean_def line_ok_def rust_str)
  moreover have "config_text ?items = ''SID=a'' @ [nl] @ ''# note'' @ [nl] @ [nl] @ ''SID=b'' @ [nl]"
    by (simp add: config_text_def)
  ultimately show ?thesis
    using config_file_roundtrip [of ?items "[''c'' \<mapsto> config_text ?items]" "''c''"] by simp
qed

end
