(* ===== verification/TestsFiles.thy ===== *)
theory TestsFiles
  imports Lifecycle
begin

text \<open>
  The unit tests of \<open>ssh_keys.rs\<close>, \<open>authorized_keys.rs\<close> and \<open>runtime.rs\<close>, translated as they are
  written. The faults of the operating system, the mode it gives to new files, the temporary
  directory, the clock and the file system at the start are arguments. Two paths are equal when
  their components are.
\<close>

section \<open>Tests of ssh\_keys.rs\<close>

definition parses_valid_public_key :: bool where
  "parses_valid_public_key \<longleftrightarrow>
     expecting (parse_public_key ''ssh-ed25519 AAAAC3NzaC1lZDI1NTE5AAAAIB1 node-a'') (\<lambda>parsed.
       algorithm parsed = ''ssh-ed25519'' \<and> key_data parsed = ''AAAAC3NzaC1lZDI1NTE5AAAAIB1''
       \<and> comment parsed = Some ''node-a'')"

definition rejects_empty_input :: bool where
  "rejects_empty_input \<longleftrightarrow> parse_public_key ''   '' = Inl EmptyInput"

definition rejects_invalid_format :: bool where
  "rejects_invalid_format \<longleftrightarrow> parse_public_key ''ssh-ed25519'' = Inl InvalidFormat"

definition rejects_unsupported_algorithm :: bool where
  "rejects_unsupported_algorithm \<longleftrightarrow> parse_public_key ''ssh-dss AAAAC3Nza comment'' = Inl UnsupportedAlgorithm"

definition normalizes_whitespace :: bool where
  "normalizes_whitespace \<longleftrightarrow>
     expecting (normalize_public_key ''  ssh-ed25519   AAAAC3Nza    node-a  '') (\<lambda>normalized.
       normalized = ''ssh-ed25519 AAAAC3Nza node-a'')"

definition temp_file_path :: "pathbuf \<Rightarrow> nat \<Rightarrow> string \<Rightarrow> pathbuf" where
  "temp_file_path temp_dir timestamp prefix =
     pathbuf_join temp_dir (''ssh-key-sync-'' @ prefix @ ''-'' @ show_nat timestamp @ ''.tmp'')"

definition reads_and_normalizes_local_key_file :: "nat \<Rightarrow> faults \<Rightarrow> pathbuf \<Rightarrow> nat \<Rightarrow> fs \<Rightarrow> bool" where
  "reads_and_normalizes_local_key_file default_mode os temp_dir timestamp s0 \<longleftrightarrow>
     (let path = temp_file_path temp_dir timestamp ''public-key'';
          (result, s1) = fs_write default_mode os (path_of path) (''  ssh-ed25519   AAAAC3Nza    node-a  '' @ [nl]) s0
      in expecting result (\<lambda>_.
         expecting (read_local_public_key (fs_text os s1) (path_display path)) (\<lambda>normalized.
           normalized = ''ssh-ed25519 AAAAC3Nza node-a'' \<and> is_ok (fst (fs_remove_file os (path_of path) s1)))))"

definition fails_when_local_key_file_is_missing :: "faults \<Rightarrow> pathbuf \<Rightarrow> nat \<Rightarrow> fs \<Rightarrow> bool" where
  "fails_when_local_key_file_is_missing os temp_dir timestamp s0 \<longleftrightarrow>
     (let path = temp_file_path temp_dir timestamp ''missing''
      in read_local_public_key (fs_text os s0) (path_display path) = Inl (KeyReadFailed (path_display path)))"

section \<open>Tests of authorized\_keys.rs\<close>

definition appends_new_managed_block_when_absent :: bool where
  "appends_new_managed_block_when_absent \<longleftrightarrow>
     expecting (upsert_managed_block ''ssh-ed25519 AAAA user@host''
         [''ssh-ed25519 BBBB node-b'', ''ssh-ed25519 CCCC node-c'']) (\<lambda>updated.
       str_contains updated ''ssh-ed25519 AAAA user@host'' \<and> str_contains updated ''# ssh-key-sync begin''
       \<and> str_contains updated ''ssh-ed25519 BBBB node-b'' \<and> str_contains updated ''ssh-ed25519 CCCC node-c''
       \<and> str_contains updated ''# ssh-key-sync end'')"

definition replaces_existing_managed_block_only :: bool where
  "replaces_existing_managed_block_only \<longleftrightarrow>
     expecting (upsert_managed_block (''ssh-ed25519 AAAA user@host'' @ [nl] @ ''# ssh-key-sync begin'' @ [nl]
           @ ''ssh-ed25519 OLD old'' @ [nl] @ ''# ssh-key-sync end'' @ [nl] @ ''ssh-ed25519 DDDD manual'')
         [''ssh-ed25519 BBBB node-b'']) (\<lambda>updated.
       str_contains updated ''ssh-ed25519 AAAA user@host'' \<and> str_contains updated ''ssh-ed25519 DDDD manual''
       \<and> str_contains updated ''ssh-ed25519 BBBB node-b'' \<and> \<not> str_contains updated ''ssh-ed25519 OLD old'')"

definition rejects_invalid_managed_key :: bool where
  "rejects_invalid_managed_key \<longleftrightarrow>
     upsert_managed_block [] [''invalid''] = Inl AuthorizedKeysError.InvalidPublicKey"

definition rejects_missing_block_end :: bool where
  "rejects_missing_block_end \<longleftrightarrow>
     upsert_managed_block (''ssh-ed25519 AAAA user@host'' @ [nl] @ ''# ssh-key-sync begin'' @ [nl] @ ''ssh-ed25519 OLD old'')
       [''ssh-ed25519 BBBB node-b''] = Inl MissingManagedEnd"

definition temp_test_dir :: "faults \<Rightarrow> pathbuf \<Rightarrow> nat \<Rightarrow> string \<Rightarrow> (unit, pathbuf) io" where
  "temp_test_dir os temp_dir timestamp prefix =
     (let path = pathbuf_join temp_dir (''ssh-key-sync-'' @ prefix @ ''-'' @ show_nat timestamp)
      in io_bind (fs_create_dir_all os (path_of path)) (\<lambda>_. io_return path))"

definition applies_managed_block_to_new_file :: "nat \<Rightarrow> faults \<Rightarrow> pathbuf \<Rightarrow> nat \<Rightarrow> fs \<Rightarrow> bool" where
  "applies_managed_block_to_new_file default_mode os temp_dir timestamp s0 \<longleftrightarrow>
     (let (result, s1) = temp_test_dir os temp_dir timestamp ''apply-new'' s0
      in expecting result (\<lambda>base.
         let ssh_dir = pathbuf_join base ''.ssh''; key_file = pathbuf_join ssh_dir ''authorized_keys'';
             (applied, s2) = apply_managed_block_to_file default_mode os (path_display key_file) [''ssh-ed25519 BBBB node-b''] s1
         in expecting applied (\<lambda>updated.
            expecting (fst (fs_read_to_string os (path_of key_file) s2)) (\<lambda>disk.
              updated = disk \<and> str_contains disk ''# ssh-key-sync begin'' \<and> str_contains disk ''ssh-ed25519 BBBB node-b''
              \<and> str_contains disk ''# ssh-key-sync end'' \<and> is_ok (fst (fs_remove_dir_all os (path_of base) s2))))))"

definition keeps_manual_lines_while_updating_managed_block_on_disk ::
  "nat \<Rightarrow> faults \<Rightarrow> pathbuf \<Rightarrow> nat \<Rightarrow> fs \<Rightarrow> bool" where
  "keeps_manual_lines_while_updating_managed_block_on_disk default_mode os temp_dir timestamp s0 \<longleftrightarrow>
     (let (result, s1) = temp_test_dir os temp_dir timestamp ''apply-existing'' s0
      in expecting result (\<lambda>base.
         let ssh_dir = pathbuf_join base ''.ssh''; (created, s2) = fs_create_dir_all os (path_of ssh_dir) s1;
             key_file = pathbuf_join ssh_dir ''authorized_keys'';
             (seeded, s3) = fs_write default_mode os (path_of key_file) (''ssh-ed25519 AAAA user@host'' @ [nl]
               @ ''# ssh-key-sync begin'' @ [nl] @ ''ssh-ed25519 OLD old'' @ [nl] @ ''# ssh-key-sync end'' @ [nl]) s2;
             (applied, s4) = apply_managed_block_to_file default_mode os (path_display key_file) [''ssh-ed25519 BBBB node-b''] s3
         in is_ok created \<and> is_ok seeded \<and> expecting applied (\<lambda>updated.
              str_contains updated ''ssh-ed25519 AAAA user@host'' \<and> str_contains updated ''ssh-ed25519 BBBB node-b''
              \<and> \<not> str_contains updated ''ssh-ed25519 OLD old'' \<and> is_ok (fst (fs_remove_dir_all os (path_of base) s4)))))"

definition fails_when_managed_key_is_invalid_before_write :: "nat \<Rightarrow> faults \<Rightarrow> pathbuf \<Rightarrow> nat \<Rightarrow> fs \<Rightarrow> bool" where
  "fails_when_managed_key_is_invalid_before_write default_mode os temp_dir timestamp s0 \<longleftrightarrow>
     (let (result, s1) = temp_test_dir os temp_dir timestamp ''invalid-before-write'' s0
      in expecting result (\<lambda>base.
         let key_file = pathbuf_join (pathbuf_join base ''.ssh'') ''authorized_keys'';
             (applied, s2) = apply_managed_block_to_file default_mode os (path_display key_file) [''invalid''] s1
         in applied = Inl AuthorizedKeysError.InvalidPublicKey \<and> \<not> fs_exists os s2 (path_of key_file)
           \<and> is_ok (fst (fs_remove_dir_all os (path_of base) s2))))"

section \<open>Tests of runtime.rs\<close>

definition control_runtime_dir_with_env :: "string \<Rightarrow> string option \<Rightarrow> string option \<Rightarrow> RuntimeError + pathbuf" where
  "control_runtime_dir_with_env sid xdg home =
     and_then (control_runtime_root_with_env xdg home) (\<lambda>root. Inr (pathbuf_join root (sanitize_for_file sid)))"

definition runtime_dir_uses_xdg_when_present :: bool where
  "runtime_dir_uses_xdg_when_present \<longleftrightarrow>
     expecting (control_runtime_dir_with_env ''group-a'' (Some ''/run/user/1000'') (Some ''/home/a'')) (\<lambda>dir.
       path_of dir = path_of ''/run/user/1000/ssh-key-sync/group-a'')"

definition runtime_dir_falls_back_to_home_local_run :: bool where
  "runtime_dir_falls_back_to_home_local_run \<longleftrightarrow>
     expecting (control_runtime_dir_with_env ''group-a'' None (Some ''/home/a'')) (\<lambda>dir.
       path_of dir = path_of ''/home/a/.local/run/ssh-key-sync/group-a'')"

definition runtime_root_uses_xdg_when_present :: bool where
  "runtime_root_uses_xdg_when_present \<longleftrightarrow>
     expecting (control_runtime_root_with_env (Some ''/run/user/1000'') (Some ''/home/a'')) (\<lambda>root.
       path_of root = path_of ''/run/user/1000/ssh-key-sync'')"

definition unique_temp_path :: "pathbuf \<Rightarrow> nat \<Rightarrow> string \<Rightarrow> pathbuf" where
  "unique_temp_path temp_dir now prefix = pathbuf_join temp_dir (''ssh-key-sync-'' @ prefix @ ''-'' @ show_nat now)"

text \<open>The permission bits \<open>metadata(p)?.permissions().mode() & 0o777\<close>.\<close>

definition permission_bits :: "faults \<Rightarrow> fs \<Rightarrow> pathbuf \<Rightarrow> nat option" where
  "permission_bits os s p = (if fs_exists os s (path_of p) then map_option (\<lambda>bits. bits mod 512) (modes s (path_of p)) else None)"

definition control_dir_and_files_have_private_permissions :: "faults \<Rightarrow> pathbuf \<Rightarrow> nat \<Rightarrow> fs \<Rightarrow> bool" where
  "control_dir_and_files_have_private_permissions os temp_dir now s0 \<longleftrightarrow>
     (let base = unique_temp_path temp_dir now ''runtime-perms'';
          control_dir = pathbuf_join (pathbuf_join base ''ssh-key-sync'') ''group-a'';
          (r1, s1) = ensure_private_dir os control_dir s0;
          pid_path = pathbuf_join control_dir ''daemon.pid'';
          (r2, s2) = write_control_file os pid_path ''123'' s1;
          log_path = pathbuf_join control_dir ''daemon.log'';
          (r3, s3) = open_control_file_append os log_path s2
      in is_ok r1 \<and> is_ok r2 \<and> is_ok r3 \<and> permission_bits os s3 control_dir = Some mode_0700
        \<and> permission_bits os s3 pid_path = Some mode_0600 \<and> permission_bits os s3 log_path = Some mode_0600
        \<and> is_ok (fst (fs_remove_dir_all os (path_of base) s3)))"

section \<open>They pass\<close>

lemma ssh_key_tests_pass:
  "parses_valid_public_key" "rejects_empty_input" "rejects_invalid_format" "rejects_unsupported_algorithm" "normalizes_whitespace"
  by code_simp+

lemma upsert_tests_pass:
  "appends_new_managed_block_when_absent" "replaces_existing_managed_block_only" "rejects_invalid_managed_key"
  "rejects_missing_block_end"
  by code_simp+

lemma runtime_dir_tests_pass:
  "runtime_dir_uses_xdg_when_present" "runtime_dir_falls_back_to_home_local_run" "runtime_root_uses_xdg_when_present"
  by code_simp+

subsection \<open>Temporary files\<close>

text \<open>Paths made by joining names one after the other.\<close>

lemma joined_path:
  "components (path_of p) \<noteq> [] \<Longrightarrow> \<forall>n\<in>set ns. CHR ''/'' \<notin> set n \<and> n \<noteq> [] \<and> n \<noteq> ''.'' \<Longrightarrow>
   path_of (foldl pathbuf_join p ns) = path_under (path_of p) ns"
proof (induction ns rule: rev_induct)
  case Nil
  then show ?case by (simp add: path_under_def)
next
  case (snoc n ns)
  then show ?case by (simp add: path_of_child)
qed

lemma joined_display:
  "utf8_valid p \<Longrightarrow> \<forall>n\<in>set ns. utf8_valid n \<Longrightarrow> path_display (foldl pathbuf_join p ns) = foldl pathbuf_join p ns"
proof -
  assume "utf8_valid p" and "\<forall>n\<in>set ns. utf8_valid n"
  then have "utf8_valid (foldl pathbuf_join p ns)"
    by (induction ns rule: rev_induct) (auto simp: pathbuf_join_def intro!: utf8_valid_append)
  then show ?thesis
    by (simp add: path_display_def utf8_lossy_valid)
qed

lemma ancestors_path_under:
  assumes "q \<in> path_ancestors (path_under p (x # xs))"
  shows "q \<in> path_ancestors p \<or> (\<exists>k\<le>length xs. q = path_under p (x # take k xs))"
proof -
  from assms obtain n where n: "n \<le> length (components p) + Suc (length xs)"
    and q: "q = (path_under p (x # xs))\<lparr>components := take n (components p @ x # xs)\<rparr>"
    by (auto simp: path_ancestors_iff)
  show ?thesis
  proof (cases "n \<le> length (components p)")
    case True
    with q show ?thesis by (auto simp: path_ancestors_iff path_under_def)
  next
    case False
    then obtain k where "n = length (components p) + Suc k"
      by (auto simp: not_le less_iff_Suc_add)
    with n q show ?thesis by (auto simp: path_under_def)
  qed
qed

text \<open>A temporary directory the tests can use: no call fails, no file is in its way, and nothing in it
  has one of the names the tests choose.\<close>

definition temp_name :: "string \<Rightarrow> bool" where
  "temp_name n \<longleftrightarrow> take 13 n = ''ssh-key-sync-'' \<and> CHR ''/'' \<notin> set n \<and> list_all is_ascii n"

definition usable_temp :: "faults \<Rightarrow> pathbuf \<Rightarrow> fs \<Rightarrow> bool" where
  "usable_temp os temp_dir s \<longleftrightarrow> (\<forall>c. \<not> fails os c) \<and> utf8_valid temp_dir \<and> components (path_of temp_dir) \<noteq> []
     \<and> (\<forall>q\<in>path_ancestors (path_of temp_dir). files s q = None)
     \<and> (\<forall>n ns. temp_name n \<longrightarrow> files s (path_under (path_of temp_dir) (n # ns)) = None
          \<and> path_under (path_of temp_dir) (n # ns) \<notin> dirs s)"

lemma temp_nameI:
  "CHR ''/'' \<notin> set prefix \<Longrightarrow> CHR ''/'' \<notin> set ext \<Longrightarrow> list_all is_ascii prefix \<Longrightarrow> list_all is_ascii ext \<Longrightarrow>
   temp_name (''ssh-key-sync-'' @ prefix @ ''-'' @ show_nat t @ ext)"
  using show_nat_chars [of _ t] show_nat_digits [of "CHR ''/''" t] by (auto simp: temp_name_def list_all_iff digit_val_def)

lemma temp_paths:
  assumes "usable_temp os temp_dir s" and "temp_name n" and "\<forall>m\<in>set ns. CHR ''/'' \<notin> set m \<and> m \<noteq> [] \<and> m \<noteq> ''.'' \<and> list_all is_ascii m"
  shows "path_of (foldl pathbuf_join temp_dir (n # ns)) = path_under (path_of temp_dir) (n # ns)"
    and "path_display (foldl pathbuf_join temp_dir (n # ns)) = foldl pathbuf_join temp_dir (n # ns)"
proof -
  have "n \<noteq> [] \<and> n \<noteq> ''.''"
    using assms(2) by (auto simp: temp_name_def)
  then show "path_of (foldl pathbuf_join temp_dir (n # ns)) = path_under (path_of temp_dir) (n # ns)"
    using assms by (intro joined_path) (auto simp: usable_temp_def temp_name_def)
  show "path_display (foldl pathbuf_join temp_dir (n # ns)) = foldl pathbuf_join temp_dir (n # ns)"
    using assms by (intro joined_display) (auto simp: usable_temp_def temp_name_def intro: utf8_valid_ascii)
qed

lemma temp_free:
  assumes "usable_temp os temp_dir s" and "temp_name n" and "q \<in> path_ancestors (path_under (path_of temp_dir) (n # ns))"
  shows "files s q = None"
  using ancestors_path_under [OF assms(3)] assms(1,2) by (auto simp: usable_temp_def)

lemma path_ancestors_self [simp]: "p \<in> path_ancestors p"
  unfolding path_ancestors_iff by (intro exI [of _ "length (components p)"]) simp

lemma path_ancestors_length: "q \<in> path_ancestors p \<Longrightarrow> length (components q) \<le> length (components p)"
  by (auto simp: path_ancestors_iff)

lemma deeper_not_ancestor: "length ns < length ms \<Longrightarrow> path_under p ms \<notin> path_ancestors (path_under p ns)"
  using path_ancestors_length [of "path_under p ms" "path_under p ns"] by auto

lemma key_file_tests_pass:
  assumes "usable_temp os temp_dir s"
  shows "reads_and_normalizes_local_key_file m os temp_dir now s" "fails_when_local_key_file_is_missing os temp_dir now s"
proof -
  let ?n = "''ssh-key-sync-'' @ ''public-key'' @ ''-'' @ show_nat now @ ''.tmp''"
  let ?key = "''  ssh-ed25519   AAAAC3Nza    node-a  '' @ [nl]"
  have n: "temp_name ?n"
    by (rule temp_nameI) simp_all
  have key: "normalize_public_key ?key = Inr ''ssh-ed25519 AAAAC3Nza node-a''" "utf8_valid ?key"
    by code_simp+
  have path: "temp_file_path temp_dir now ''public-key'' = pathbuf_join temp_dir ?n"
    by (simp add: temp_file_path_def)
  then show "reads_and_normalizes_local_key_file m os temp_dir now s"
    using temp_paths [OF assms n, of "[]"] n key assms unfolding path reads_and_normalizes_local_key_file_def
    by (simp add: read_local_public_key_def fs_text_def fs_write_def fs_ops usable_temp_def)
  let ?n = "''ssh-key-sync-'' @ ''missing'' @ ''-'' @ show_nat now @ ''.tmp''"
  have n: "temp_name ?n"
    by (rule temp_nameI) simp_all
  have "temp_file_path temp_dir now ''missing'' = pathbuf_join temp_dir ?n"
    by (simp add: temp_file_path_def)
  then show "fails_when_local_key_file_is_missing os temp_dir now s"
    using temp_paths [OF assms n, of "[]"] n assms
    by (simp add: fails_when_local_key_file_is_missing_def read_local_public_key_def fs_text_def fs_ops usable_temp_def)
qed

subsection \<open>Updates on disk\<close>

lemma temp_near_authorized_keys:
  "components p \<noteq> [] \<Longrightarrow> temp_path_near (path_under p (ns @ [''authorized_keys''])) = path_under p (ns @ [''authorized_keys.tmp''])"
  by (simp add: temp_path_near_def path_with_file_name_def path_file_name_def path_join_def path_under_def path_of_name butlast_append)

lemma temp_test_dir_made:
  assumes "usable_temp os temp_dir s" and "temp_name n" and "n = ''ssh-key-sync-'' @ prefix @ ''-'' @ show_nat now"
  shows "temp_test_dir os temp_dir now prefix s = (Inr (pathbuf_join temp_dir n),
    s\<lparr>dirs := dirs s \<union> path_ancestors (path_under (path_of temp_dir) [n])\<rparr>)"
proof -
  have "path_of (pathbuf_join temp_dir n) = path_under (path_of temp_dir) [n]"
    using temp_paths [OF assms(1,2), of "[]"] by simp
  moreover have "\<forall>q\<in>path_ancestors (path_under (path_of temp_dir) [n]). files s q = None"
    using temp_free [OF assms(1,2)] by blast
  ultimately show ?thesis
    using assms(1) unfolding temp_test_dir_def assms(3) [symmetric] Let_def by (simp add: fs_ops usable_temp_def)
qed

text \<open>An update of \<open>.ssh/authorized_keys\<close> in a directory of a test, whose file may have been written before.\<close>

lemma temp_apply:
  assumes "usable_temp os temp_dir s" and "temp_name n"
    and "base = path_under (path_of temp_dir) [n]" and "p = path_under (path_of temp_dir) [n, ''.ssh'', ''authorized_keys'']"
    and "\<forall>q. q \<noteq> p \<longrightarrow> files s1 q = files s q" and "\<forall>c. files s1 p = Some c \<longrightarrow> utf8_valid c"
    and "dirs s1 \<subseteq> dirs s \<union> path_ancestors (path_under (path_of temp_dir) [n, ''.ssh''])" and "base \<in> dirs s1"
    and "apply_managed_block_to_file m os (path_display (pathbuf_join (pathbuf_join (pathbuf_join temp_dir n) ''.ssh'') ''authorized_keys''))
      keys s1 = (r, s2)"
  shows "r = upsert_managed_block (unwrap_or (files s1 p) []) keys" and "base \<in> dirs s2"
    and "p \<notin> dirs s2" and "is_ok (fst (fs_remove_dir_all os base s2))"
    and "files s2 p = (case r of Inl _ \<Rightarrow> files s1 p | Inr new \<Rightarrow> Some new)"
proof -
  let ?name = "pathbuf_join (pathbuf_join (pathbuf_join temp_dir n) ''.ssh'') ''authorized_keys''"
  have name: "path_of ?name = p" "path_display ?name = ?name"
    using temp_paths [OF assms(1,2), of "[''.ssh'', ''authorized_keys'']"] assms(4) by simp_all
  have free: "path_under (path_of temp_dir) (n # ns) \<notin> dirs s1" if "length ns = 2" for ns
    using assms(1,2,7) that deeper_not_ancestor [of "[n, ''.ssh'']" "n # ns" "path_of temp_dir"] by (auto simp: usable_temp_def)
  have "p \<notin> dirs s1" "temp_path_near p \<notin> dirs s1"
    using free [of "[''.ssh'', ''authorized_keys'']"] free [of "[''.ssh'', ''authorized_keys.tmp'']"]
      temp_near_authorized_keys [of "path_of temp_dir" "[n, ''.ssh'']"] assms(1,4) by (simp_all add: usable_temp_def)
  moreover have "\<forall>q\<in>path_ancestors p. q \<noteq> p \<longrightarrow> files s1 q = None"
    using temp_free [OF assms(1,2)] assms(4,5) by metis
  ultimately have "writable os p s1"
    using assms(1,4,6) by (simp add: writable_def usable_temp_def)
  from apply_returns [OF this name(1) [symmetric], of m keys]
  have result: "r = upsert_managed_block (unwrap_or (files s1 p) []) keys"
    using assms(1,9) name(2) by (simp add: seen_content_def usable_temp_def)
  show "r = upsert_managed_block (unwrap_or (files s1 p) []) keys" by (rule result)
  have d: "path_parent p = Some (path_under (path_of temp_dir) [n, ''.ssh''])"
    by (simp add: assms(4) path_parent_def path_under_def butlast_append)
  have own: "p \<notin> path_ancestors (path_under (path_of temp_dir) [n, ''.ssh''])"
    using under_not_ancestor [of "[''authorized_keys'']" "path_under (path_of temp_dir) [n, ''.ssh'']"] by (simp add: assms(4))
  show "p \<notin> dirs s2"
    using apply_dirs_parent [of ?name, OF _ own, of m os keys s1] d \<open>p \<notin> dirs s1\<close> assms(9) name by simp
  show base: "base \<in> dirs s2"
    using apply_dirs_mono [of s1 m os ?name keys] assms(8,9) name by auto
  then show "is_ok (fst (fs_remove_dir_all os base s2))"
    using assms(1) by (simp add: fs_remove_dir_all_def usable_temp_def)
  show "files s2 p = (case r of Inl _ \<Rightarrow> files s1 p | Inr new \<Rightarrow> Some new)"
  proof (cases r)
    case (Inl e)
    with result have "upsert_managed_block (unwrap_or (files s1 p) []) keys = Inl e" by simp
    with apply_content [of m os ?name keys s1] assms(1,9) name Inl show ?thesis by (simp add: seen_content_def usable_temp_def)
  next
    case (Inr new)
    with assms(9) name have "apply_managed_block_to_file m os ?name keys s1 = (Inr new, s2)" by simp
    then have "files s2 (path_of ?name) = Some new" by (rule apply_Inr)
    with Inr name show ?thesis by simp
  qed
qed

lemma update_texts:
  "upsert_managed_block [] [''ssh-ed25519 BBBB node-b'']
     = Inr (''# ssh-key-sync begin'' @ [nl] @ ''ssh-ed25519 BBBB node-b'' @ [nl] @ ''# ssh-key-sync end'')"
  "upsert_managed_block (''ssh-ed25519 AAAA user@host'' @ [nl] @ ''# ssh-key-sync begin'' @ [nl] @ ''ssh-ed25519 OLD old'' @ [nl]
       @ ''# ssh-key-sync end'' @ [nl]) [''ssh-ed25519 BBBB node-b'']
     = Inr (''ssh-ed25519 AAAA user@host'' @ [nl] @ ''# ssh-key-sync begin'' @ [nl] @ ''ssh-ed25519 BBBB node-b'' @ [nl] @ ''# ssh-key-sync end'')"
  by code_simp+

lemma fresh_update:
  assumes "usable_temp os temp_dir s" and "temp_name n"
    and "s1 = s\<lparr>dirs := dirs s \<union> path_ancestors (path_under (path_of temp_dir) [n])\<rparr>"
    and "key_file = pathbuf_join (pathbuf_join (pathbuf_join temp_dir n) ''.ssh'') ''authorized_keys''"
    and "apply_managed_block_to_file m os (path_display key_file) keys s1 = (r, s2)"
  shows "r = upsert_managed_block [] keys" and "path_of key_file \<notin> dirs s2"
    and "is_ok (fst (fs_remove_dir_all os (path_of (pathbuf_join temp_dir n)) s2))"
    and "files s2 (path_of key_file) = (case r of Inl _ \<Rightarrow> None | Inr new \<Rightarrow> Some new)"
proof -
  let ?T = "path_under (path_of temp_dir)"
  have paths: "path_of (pathbuf_join temp_dir n) = ?T [n]" "path_of key_file = ?T [n, ''.ssh'', ''authorized_keys'']"
    using temp_paths(1) [OF assms(1,2), of "[]"] temp_paths(1) [OF assms(1,2), of "[''.ssh'', ''authorized_keys'']"] assms(4) by simp_all
  have absent: "files s1 (?T [n, ''.ssh'', ''authorized_keys'']) = None"
    using assms(1-3) by (simp add: usable_temp_def)
  have "?T [n] \<in> dirs s1"
    using assms(3) by simp
  moreover have "dirs s1 \<subseteq> dirs s \<union> path_ancestors (?T [n, ''.ssh''])"
    using ancestors_under [of "?T [n]" "[''.ssh'']"] assms(3) by auto
  ultimately show "r = upsert_managed_block [] keys" "path_of key_file \<notin> dirs s2"
    "is_ok (fst (fs_remove_dir_all os (path_of (pathbuf_join temp_dir n)) s2))"
    "files s2 (path_of key_file) = (case r of Inl _ \<Rightarrow> None | Inr new \<Rightarrow> Some new)"
    using temp_apply [OF assms(1,2) refl refl _ _ _ _ assms(5) [unfolded assms(4)]] absent assms(3)
    by (simp_all add: paths cong: sum.case_cong)
qed

lemma update_tests_pass:
  assumes "usable_temp os temp_dir s"
  shows "applies_managed_block_to_new_file m os temp_dir now s" "fails_when_managed_key_is_invalid_before_write m os temp_dir now s"
proof -
  let ?s1 = "\<lambda>n. s\<lparr>dirs := dirs s \<union> path_ancestors (path_under (path_of temp_dir) [n])\<rparr>"
  let ?file = "\<lambda>n. pathbuf_join (pathbuf_join (pathbuf_join temp_dir n) ''.ssh'') ''authorized_keys''"
  define n where "n = ''ssh-key-sync-'' @ ''apply-new'' @ ''-'' @ show_nat now"
  have n: "temp_name n"
    using temp_nameI [of "''apply-new''" "[]" now] by (simp add: n_def)
  obtain r s2 where upd: "apply_managed_block_to_file m os (path_display (?file n)) [''ssh-ed25519 BBBB node-b''] (?s1 n) = (r, s2)"
    by fastforce
  have "utf8_valid (''# ssh-key-sync begin'' @ [nl] @ ''ssh-ed25519 BBBB node-b'' @ [nl] @ ''# ssh-key-sync end'')"
    by simp
  then show "applies_managed_block_to_new_file m os temp_dir now s"
    using fresh_update [OF assms n refl refl upd] update_texts(1) assms
    by (simp add: applies_managed_block_to_new_file_def temp_test_dir_made [OF assms n n_def] upd fs_read_to_string_def
        usable_temp_def Let_def)
  define n' where "n' = ''ssh-key-sync-'' @ ''invalid-before-write'' @ ''-'' @ show_nat now"
  have n': "temp_name n'"
    using temp_nameI [of "''invalid-before-write''" "[]" now] by (simp add: n'_def)
  obtain r' s2' where upd': "apply_managed_block_to_file m os (path_display (?file n')) [''invalid''] (?s1 n') = (r', s2')"
    by fastforce
  show "fails_when_managed_key_is_invalid_before_write m os temp_dir now s"
    using fresh_update [OF assms n' refl refl upd'] upsert_tests_pass(3)
    by (simp add: fails_when_managed_key_is_invalid_before_write_def temp_test_dir_made [OF assms n' n'_def] upd' fs_exists_def there_def
        rejects_invalid_managed_key_def Let_def)
qed

lemma seeded_update_test_passes:
  assumes "usable_temp os temp_dir s"
  shows "keeps_manual_lines_while_updating_managed_block_on_disk m os temp_dir now s"
proof -
  define n where "n = ''ssh-key-sync-'' @ ''apply-existing'' @ ''-'' @ show_nat now"
  have n: "temp_name n"
    using temp_nameI [of "''apply-existing''" "[]" now] by (simp add: n_def)
  let ?T = "path_under (path_of temp_dir)"
  let ?base = "pathbuf_join temp_dir n"
  let ?file = "pathbuf_join (pathbuf_join ?base ''.ssh'') ''authorized_keys''"
  let ?seed = "''ssh-ed25519 AAAA user@host'' @ [nl] @ ''# ssh-key-sync begin'' @ [nl] @ ''ssh-ed25519 OLD old'' @ [nl] @ ''# ssh-key-sync end'' @ [nl]"
  have paths: "path_of ?base = ?T [n]" "path_of (pathbuf_join ?base ''.ssh'') = ?T [n, ''.ssh'']"
    "path_of ?file = ?T [n, ''.ssh'', ''authorized_keys'']"
    using temp_paths(1) [OF assms n, of "[]"] temp_paths(1) [OF assms n, of "[''.ssh'']"]
      temp_paths(1) [OF assms n, of "[''.ssh'', ''authorized_keys'']"] by simp_all
  define s2 where "s2 = s\<lparr>dirs := dirs s \<union> path_ancestors (?T [n]) \<union> path_ancestors (?T [n, ''.ssh''])\<rparr>"
  have made: "fs_create_dir_all os (?T [n, ''.ssh'']) (s\<lparr>dirs := dirs s \<union> path_ancestors (?T [n])\<rparr>) = (Inr (), s2)"
    using temp_free [OF assms n] assms by (auto simp: fs_create_dir_all_def usable_temp_def s2_def)
  have out: "?T [n, ''.ssh'', ''authorized_keys''] \<notin> dirs s2"
    using assms n by (simp add: s2_def usable_temp_def deeper_not_ancestor)
  obtain s3 where seed: "fs_write m os (?T [n, ''.ssh'', ''authorized_keys'']) ?seed s2 = (Inr (), s3)"
    and s3: "files s3 = (files s)(?T [n, ''.ssh'', ''authorized_keys''] \<mapsto> ?seed)" "dirs s3 = dirs s2"
    using assms out by (simp add: fs_write_def fs_ops usable_temp_def) (simp add: s2_def)
  obtain r s4 where upd: "apply_managed_block_to_file m os (path_display ?file) [''ssh-ed25519 BBBB node-b''] s3 = (r, s4)"
    by fastforce
  have "utf8_valid ?seed" by simp
  moreover have "?T [n] \<in> dirs s3"
    by (simp add: s3 s2_def)
  moreover have "dirs s3 \<subseteq> dirs s \<union> path_ancestors (?T [n, ''.ssh''])"
    using ancestors_under [of "?T [n]" "[''.ssh'']"] by (auto simp: s3 s2_def)
  ultimately have "r = upsert_managed_block ?seed [''ssh-ed25519 BBBB node-b'']" "is_ok (fst (fs_remove_dir_all os (?T [n]) s4))"
    using temp_apply [OF assms n refl refl _ _ _ _ upd] by (simp_all add: s3)
  then show ?thesis
    using update_texts(2)
    by (simp add: keeps_manual_lines_while_updating_managed_block_on_disk_def temp_test_dir_made [OF assms n n_def] paths made
        seed [simplified] upd Let_def)
qed

lemma permissions_test_passes:
  assumes "usable_temp os temp_dir s"
  shows "control_dir_and_files_have_private_permissions os temp_dir now s"
proof -
  define n where "n = ''ssh-key-sync-'' @ ''runtime-perms'' @ ''-'' @ show_nat now"
  have n: "temp_name n"
    using temp_nameI [of "''runtime-perms''" "[]" now] by (simp add: n_def)
  let ?T = "path_under (path_of temp_dir)"
  let ?dir = "pathbuf_join (pathbuf_join (pathbuf_join temp_dir n) ''ssh-key-sync'') ''group-a''"
  let ?d = "?T [n, ''ssh-key-sync'', ''group-a'']"
  have base: "unique_temp_path temp_dir now ''runtime-perms'' = pathbuf_join temp_dir n"
    by (simp add: unique_temp_path_def n_def)
  have paths: "path_of (pathbuf_join temp_dir n) = ?T [n]" "path_of ?dir = ?d"
    "path_of (pathbuf_join ?dir ''daemon.pid'') = ?T [n, ''ssh-key-sync'', ''group-a'', ''daemon.pid'']"
    "path_of (pathbuf_join ?dir ''daemon.log'') = ?T [n, ''ssh-key-sync'', ''group-a'', ''daemon.log'']"
    using temp_paths(1) [OF assms n, of "[]"] temp_paths(1) [OF assms n, of "[''ssh-key-sync'', ''group-a'']"]
      temp_paths(1) [OF assms n, of "[''ssh-key-sync'', ''group-a'', ''daemon.pid'']"]
      temp_paths(1) [OF assms n, of "[''ssh-key-sync'', ''group-a'', ''daemon.log'']"] by simp_all
  have free: "\<forall>q\<in>path_ancestors ?d. files s q = None" "?T [n, ''ssh-key-sync'', ''group-a'', x] \<notin> path_ancestors ?d"
    "?T [n, ''ssh-key-sync'', ''group-a'', x] \<notin> dirs s" "files s (?T [n, ''ssh-key-sync'', ''group-a'', x]) = None" for x
    using temp_free [OF assms n, of _ "[''ssh-key-sync'', ''group-a'']"] assms n by (auto simp: usable_temp_def deeper_not_ancestor)
  have inside: "?T [n] \<in> path_ancestors ?d" "?d \<in> path_ancestors ?d"
    using subsetD [OF ancestors_under [of "?T [n]" "[''ssh-key-sync'', ''group-a'']"], of "?T [n]"] by simp_all
  show ?thesis
    using assms free inside
    by (simp add: control_dir_and_files_have_private_permissions_def base ensure_private_dir_def write_control_file_def
        open_control_file_append_def paths fs_ops permission_bits_def fs_exists_def there_def fs_remove_dir_all_def
        usable_temp_def Let_def)
qed

section \<open>All of them\<close>

definition ssh_key_tests :: "nat \<Rightarrow> faults \<Rightarrow> pathbuf \<Rightarrow> nat \<Rightarrow> fs \<Rightarrow> bool" where
  "ssh_key_tests default_mode os temp_dir timestamp s \<longleftrightarrow> parses_valid_public_key \<and> rejects_empty_input
     \<and> rejects_invalid_format \<and> rejects_unsupported_algorithm \<and> normalizes_whitespace
     \<and> reads_and_normalizes_local_key_file default_mode os temp_dir timestamp s
     \<and> fails_when_local_key_file_is_missing os temp_dir timestamp s"

definition authorized_keys_tests :: "nat \<Rightarrow> faults \<Rightarrow> pathbuf \<Rightarrow> nat \<Rightarrow> fs \<Rightarrow> bool" where
  "authorized_keys_tests default_mode os temp_dir timestamp s \<longleftrightarrow> appends_new_managed_block_when_absent
     \<and> replaces_existing_managed_block_only \<and> rejects_invalid_managed_key \<and> rejects_missing_block_end
     \<and> applies_managed_block_to_new_file default_mode os temp_dir timestamp s
     \<and> keeps_manual_lines_while_updating_managed_block_on_disk default_mode os temp_dir timestamp s
     \<and> fails_when_managed_key_is_invalid_before_write default_mode os temp_dir timestamp s"

definition runtime_tests :: "faults \<Rightarrow> pathbuf \<Rightarrow> nat \<Rightarrow> fs \<Rightarrow> bool" where
  "runtime_tests os temp_dir now s \<longleftrightarrow> runtime_dir_uses_xdg_when_present \<and> runtime_dir_falls_back_to_home_local_run
     \<and> runtime_root_uses_xdg_when_present \<and> control_dir_and_files_have_private_permissions os temp_dir now s"

lemma file_tests_pass:
  assumes "usable_temp os temp_dir s"
  shows "ssh_key_tests m os temp_dir now s" "authorized_keys_tests m os temp_dir now s" "runtime_tests os temp_dir now s"
  using ssh_key_tests_pass key_file_tests_pass [OF assms] upsert_tests_pass update_tests_pass [OF assms]
    seeded_update_test_passes [OF assms] runtime_dir_tests_pass permissions_test_passes [OF assms]
  by (simp_all add: ssh_key_tests_def authorized_keys_tests_def runtime_tests_def)

lemma usable_temp_demo: "usable_temp no_faults ''/t'' empty_fs"
proof -
  have "path_of ''/t'' = \<lparr>absolute = True, components = [''t'']\<rparr>"
    by code_simp
  then show ?thesis by (simp add: usable_temp_def no_faults_def empty_fs_def)
qed

end
