(* ===== verification/TestsConfig.thy ===== *)
theory TestsConfig
  imports ConfigFile TestsFiles
begin

text \<open>
  The unit tests of \<open>config.rs\<close>, translated as they are written. A test is true when every \<open>expect\<close>
  finds a result and every assertion holds. The environment of the process that runs the tests is an
  argument, and so are how Rust quotes a string, what reading a file gives and, in the tests that
  write a file, the temporary directory, the clock, the file system and its faults.
\<close>

section \<open>Tests of config.rs\<close>

definition base_input :: ConfigInput where
  "base_input = \<lparr>in_sid = Some ''group-a'', in_sid_token = Some ''secret-token'', in_participant_id = None,
     in_http_listen_addr = None, in_udp_announce_addr = None, in_bootstrap_peers = None, in_sync_interval_secs = None,
     in_public_key_path = None, in_authorized_keys_path = None, in_tls_cert_path = None, in_tls_key_path = None,
     in_tls_ca_path = None, in_tls_server_name = None, in_insecure_no_tls = False, in_dry_run = False,
     in_config_path = None\<rparr>"

definition create_temp_config :: "nat \<Rightarrow> faults \<Rightarrow> pathbuf \<Rightarrow> nat \<Rightarrow> string \<Rightarrow> (unit, string) io" where
  "create_temp_config default_mode os temp_dir timestamp content =
     (let path = pathbuf_join temp_dir (''ssh-key-sync-config-'' @ show_nat timestamp @ ''.env'')
      in io_bind (fs_write default_mode os (path_of path) content) (\<lambda>_. io_return (path_display path)))"

type_synonym file_reader = "string \<Rightarrow> string option"

type_synonym test_env = "string \<Rightarrow> string option"

definition requires_sid_when_mode_is_strict :: "file_reader \<Rightarrow> test_env \<Rightarrow> bool" where
  "requires_sid_when_mode_is_strict rd env \<longleftrightarrow>
     load_config rd env (base_input\<lparr>in_sid := None\<rparr>) RequireSyncConfig = Inl MissingSid"

definition requires_sid_token_when_mode_is_strict :: "file_reader \<Rightarrow> test_env \<Rightarrow> bool" where
  "requires_sid_token_when_mode_is_strict rd env \<longleftrightarrow>
     load_config rd env (base_input\<lparr>in_sid_token := None\<rparr>) RequireSyncConfig = Inl MissingSidToken"

definition rejects_empty_sid :: "file_reader \<Rightarrow> test_env \<Rightarrow> bool" where
  "rejects_empty_sid rd env \<longleftrightarrow>
     load_config rd env (base_input\<lparr>in_sid := Some ''   ''\<rparr>) RequireSyncConfig = Inl InvalidSid"

definition rejects_empty_sid_token :: "file_reader \<Rightarrow> test_env \<Rightarrow> bool" where
  "rejects_empty_sid_token rd env \<longleftrightarrow>
     load_config rd env (base_input\<lparr>in_sid_token := Some ''  ''\<rparr>) RequireSyncConfig = Inl InvalidSidToken"

definition accepts_values_from_args :: "file_reader \<Rightarrow> test_env \<Rightarrow> bool" where
  "accepts_values_from_args rd env =
     (case load_config rd env base_input RequireSyncConfig of
        Inr (Some config) \<Rightarrow> cfg_sid config = ''group-a''
          \<and> cfg_sid_token config = ''secret-token''
          \<and> cfg_sync_interval_secs config = 30
      | _ \<Rightarrow> False)"

definition allows_missing_config_in_optional_mode :: "file_reader \<Rightarrow> test_env \<Rightarrow> bool" where
  "allows_missing_config_in_optional_mode rd env \<longleftrightarrow>
     load_config rd env (base_input\<lparr>in_sid := None, in_sid_token := None\<rparr>) AllowMissing = Inr None"

definition does_not_allow_partial_config_in_optional_mode :: "file_reader \<Rightarrow> test_env \<Rightarrow> bool" where
  "does_not_allow_partial_config_in_optional_mode rd env \<longleftrightarrow>
     load_config rd env (base_input\<lparr>in_sid_token := None\<rparr>) AllowMissing = Inl MissingSidToken"

definition rejects_zero_sync_interval :: "file_reader \<Rightarrow> test_env \<Rightarrow> bool" where
  "rejects_zero_sync_interval rd env \<longleftrightarrow>
     load_config rd env (base_input\<lparr>in_sync_interval_secs := Some 0\<rparr>) RequireSyncConfig = Inl InvalidSyncInterval"

definition masks_sid_token_in_debug_output :: "(string \<Rightarrow> string) \<Rightarrow> file_reader \<Rightarrow> test_env \<Rightarrow> bool" where
  "masks_sid_token_in_debug_output quoted rd env =
     (case load_config rd env base_input RequireSyncConfig of
        Inr (Some config) \<Rightarrow> str_contains (app_config_debug quoted config) (''sid_token: '' @ [CHR 0x22] @ ''***'' @ [CHR 0x22])
          \<and> \<not> str_contains (app_config_debug quoted config) ''secret-token''
      | _ \<Rightarrow> False)"

definition reads_values_from_config_file ::
  "nat \<Rightarrow> faults \<Rightarrow> pathbuf \<Rightarrow> nat \<Rightarrow> fs \<Rightarrow> test_env \<Rightarrow> bool" where
  "reads_values_from_config_file default_mode os temp_dir timestamp s0 env =
     (let (created, s1) = create_temp_config default_mode os temp_dir timestamp (
        ''SID=file-group'' @ [nl]
        @ ''SID_TOKEN=file-token'' @ [nl]
        @ ''PARTICIPANT_ID=file-node'' @ [nl]
        @ ''HTTP_LISTEN_ADDR=127.0.0.1:1234'' @ [nl]
        @ ''UDP_ANNOUNCE_ADDR=127.0.0.1:1235'' @ [nl]
        @ ''BOOTSTRAP_PEERS=node-a:1,node-b:2'' @ [nl]
        @ ''SYNC_INTERVAL_SECS=45'' @ [nl]
        @ ''PUBLIC_KEY_PATH=/tmp/key.pub'' @ [nl]
        @ ''AUTHORIZED_KEYS_PATH=/tmp/authorized_keys'' @ [nl]
        @ ''TLS_CERT_PATH=/tmp/tls.crt'' @ [nl]
        @ ''TLS_KEY_PATH=/tmp/tls.key'' @ [nl]
        @ ''TLS_CA_PATH=/tmp/ca.crt'' @ [nl]
        @ ''TLS_SERVER_NAME=node-a.local'' @ [nl]
        @ ''INSECURE_NO_TLS=false'' @ [nl]
        @ ''DRY_RUN=true'' @ [nl]) s0
      in expecting created (\<lambda>config_path. case load_config (fs_text os s1) env (base_input\<lparr>in_sid := None, in_sid_token := None, in_config_path := Some config_path\<rparr>) RequireSyncConfig of
        Inr (Some config) \<Rightarrow> cfg_sid config = ''file-group''
          \<and> cfg_sid_token config = ''file-token''
          \<and> cfg_participant_id config = ''file-node''
          \<and> cfg_http_listen_addr config = ''127.0.0.1:1234''
          \<and> cfg_udp_announce_addr config = ''127.0.0.1:1235''
          \<and> cfg_bootstrap_peers config = [''node-a:1'', ''node-b:2'']
          \<and> cfg_sync_interval_secs config = 45
          \<and> cfg_public_key_path config = ''/tmp/key.pub''
          \<and> cfg_authorized_keys_path config = ''/tmp/authorized_keys''
          \<and> cfg_tls_cert_path config = Some ''/tmp/tls.crt''
          \<and> cfg_tls_key_path config = Some ''/tmp/tls.key''
          \<and> cfg_tls_ca_path config = Some ''/tmp/ca.crt''
          \<and> cfg_tls_server_name config = Some ''node-a.local''
          \<and> \<not> cfg_insecure_no_tls config
          \<and> cfg_dry_run config
          \<and> is_ok (fst (fs_remove_file os (path_of config_path) s1))
      | _ \<Rightarrow> False))"

definition cli_values_override_config_file ::
  "nat \<Rightarrow> faults \<Rightarrow> pathbuf \<Rightarrow> nat \<Rightarrow> fs \<Rightarrow> test_env \<Rightarrow> bool" where
  "cli_values_override_config_file default_mode os temp_dir timestamp s0 env =
     (let (created, s1) = create_temp_config default_mode os temp_dir timestamp (
        ''SID=file-group'' @ [nl]
        @ ''SID_TOKEN=file-token'' @ [nl]
        @ ''SYNC_INTERVAL_SECS=90'' @ [nl]) s0
      in expecting created (\<lambda>config_path. case load_config (fs_text os s1) env (base_input\<lparr>in_config_path := Some config_path, in_sync_interval_secs := Some 10\<rparr>) RequireSyncConfig of
        Inr (Some config) \<Rightarrow> cfg_sid config = ''group-a''
          \<and> cfg_sid_token config = ''secret-token''
          \<and> cfg_sync_interval_secs config = 10
          \<and> is_ok (fst (fs_remove_file os (path_of config_path) s1))
      | _ \<Rightarrow> False))"

definition normalizes_and_deduplicates_bootstrap_peers :: "file_reader \<Rightarrow> test_env \<Rightarrow> bool" where
  "normalizes_and_deduplicates_bootstrap_peers rd env =
     (case load_config rd env (base_input\<lparr>in_bootstrap_peers := Some '' node-a:1, node-b:2, node-a:1 , node-c:3 ''\<rparr>) RequireSyncConfig of
        Inr (Some config) \<Rightarrow> cfg_bootstrap_peers config = [''node-a:1'', ''node-b:2'', ''node-c:3'']
      | _ \<Rightarrow> False)"

definition reads_values_from_env_sources :: "file_reader \<Rightarrow> bool" where
  "reads_values_from_env_sources rd =
     (case load_config_with_sources rd (base_input\<lparr>in_sid := None, in_sid_token := None\<rparr>) RequireSyncConfig
       [''SSH_KEY_SYNC_SID'' \<mapsto> ''env-group'',
        ''SSH_KEY_SYNC_SID_TOKEN'' \<mapsto> ''env-token'',
        ''SSH_KEY_SYNC_PARTICIPANT_ID'' \<mapsto> ''env-node'',
        ''SSH_KEY_SYNC_BOOTSTRAP_PEERS'' \<mapsto> ''peer-a:1,peer-b:2'',
        ''SSH_KEY_SYNC_SYNC_INTERVAL_SECS'' \<mapsto> ''75'',
        ''SSH_KEY_SYNC_TLS_CERT_PATH'' \<mapsto> ''/env/tls.crt'',
        ''SSH_KEY_SYNC_TLS_KEY_PATH'' \<mapsto> ''/env/tls.key'',
        ''SSH_KEY_SYNC_TLS_CA_PATH'' \<mapsto> ''/env/ca.crt'',
        ''SSH_KEY_SYNC_TLS_SERVER_NAME'' \<mapsto> ''peer.env.local'',
        ''SSH_KEY_SYNC_INSECURE_NO_TLS'' \<mapsto> ''false'',
        ''SSH_KEY_SYNC_DRY_RUN'' \<mapsto> ''true''] of
        Inr (Some config) \<Rightarrow> cfg_sid config = ''env-group''
          \<and> cfg_sid_token config = ''env-token''
          \<and> cfg_participant_id config = ''env-node''
          \<and> cfg_bootstrap_peers config = [''peer-a:1'', ''peer-b:2'']
          \<and> cfg_sync_interval_secs config = 75
          \<and> cfg_tls_cert_path config = Some ''/env/tls.crt''
          \<and> cfg_tls_key_path config = Some ''/env/tls.key''
          \<and> cfg_tls_ca_path config = Some ''/env/ca.crt''
          \<and> cfg_tls_server_name config = Some ''peer.env.local''
          \<and> \<not> cfg_insecure_no_tls config
          \<and> cfg_dry_run config
      | _ \<Rightarrow> False)"

definition cli_values_override_env_sources :: "file_reader \<Rightarrow> bool" where
  "cli_values_override_env_sources rd =
     (case load_config_with_sources rd base_input RequireSyncConfig
       [''SSH_KEY_SYNC_SID'' \<mapsto> ''env-group'',
        ''SSH_KEY_SYNC_SID_TOKEN'' \<mapsto> ''env-token'',
        ''SSH_KEY_SYNC_SYNC_INTERVAL_SECS'' \<mapsto> ''75''] of
        Inr (Some config) \<Rightarrow> cfg_sid config = ''group-a''
          \<and> cfg_sid_token config = ''secret-token''
          \<and> cfg_sync_interval_secs config = 75
      | _ \<Rightarrow> False)"

section \<open>They pass\<close>

text \<open>An environment in which none of the program's variables is set.\<close>

definition unset :: "test_env \<Rightarrow> bool" where
  "unset env \<longleftrightarrow> (\<forall>key\<in>set env_keys. env key = None)"

lemma unset_collect: "unset env \<Longrightarrow> collect_env env = Map.empty"
  by (auto simp: unset_def collect_env_def)

lemma test_values:
  "normalize_non_empty ''group-a'' = Some ''group-a''" "normalize_non_empty ''secret-token'' = Some ''secret-token''"
  "normalize_non_empty ''   '' = None" "normalize_non_empty ''  '' = None"
  "normalize_non_empty ''file-group'' = Some ''file-group''" "normalize_non_empty ''file-token'' = Some ''file-token''"
  "normalize_non_empty ''env-group'' = Some ''env-group''" "normalize_non_empty ''env-token'' = Some ''env-token''"
  "parse_csv '' node-a:1, node-b:2, node-a:1 , node-c:3 '' = [''node-a:1'', ''node-b:2'', ''node-c:3'']"
  "parse_csv ''node-a:1,node-b:2'' = [''node-a:1'', ''node-b:2'']" "parse_csv ''peer-a:1,peer-b:2'' = [''peer-a:1'', ''peer-b:2'']"
  "parse_bool ''false'' = Some False" "parse_bool ''true'' = Some True"
  by code_simp+

lemma test_numbers: "parse_u64 ''75'' = Some 75" "parse_u64 ''45'' = Some 45" "parse_u64 ''90'' = Some 90"
proof -
  have "show_word (75 :: u64) = ''75''" "show_word (45 :: u64) = ''45''" "show_word (90 :: u64) = ''90''"
    by code_simp+
  then show "parse_u64 ''75'' = Some 75" "parse_u64 ''45'' = Some 45" "parse_u64 ''90'' = Some 90"
    using parse_u64_show [of 75] parse_u64_show [of 45] parse_u64_show [of 90] by simp_all
qed

lemmas load_defs = load_config_def load_config_with_sources_def read_config_file_def base_input_def resolve_string_def
  resolve_u64_def resolve_bool_def config_of_def DEFAULT_SYNC_INTERVAL_SECS_def

lemma config_error_tests_pass:
  assumes "unset env"
  shows "requires_sid_when_mode_is_strict rd env" "requires_sid_token_when_mode_is_strict rd env" "rejects_empty_sid rd env"
    "rejects_empty_sid_token rd env" "allows_missing_config_in_optional_mode rd env"
    "does_not_allow_partial_config_in_optional_mode rd env" "rejects_zero_sync_interval rd env"
  using unset_collect [OF assms] test_values
  by (simp_all add: requires_sid_when_mode_is_strict_def requires_sid_token_when_mode_is_strict_def rejects_empty_sid_def
      rejects_empty_sid_token_def allows_missing_config_in_optional_mode_def
      does_not_allow_partial_config_in_optional_mode_def rejects_zero_sync_interval_def load_defs)

text \<open>How \<open>{:?}\<close> quotes a string of printable ASCII characters that need no escape.\<close>

definition quotes_plain :: "(string \<Rightarrow> string) \<Rightarrow> bool" where
  "quotes_plain quoted \<longleftrightarrow> (\<forall>s. list_all (\<lambda>c. (0x20::nat) \<le> of_char c \<and> of_char c < (0x7F::nat) \<and> c \<noteq> CHR 0x22 \<and> c \<noteq> CHR 0x5C) s
     \<longrightarrow> quoted s = [CHR 0x22] @ s @ [CHR 0x22])"

lemma config_value_tests_pass:
  assumes "unset env"
  shows "accepts_values_from_args rd env" "normalizes_and_deduplicates_bootstrap_peers rd env"
    "reads_values_from_env_sources rd" "cli_values_override_env_sources rd"
  using unset_collect [OF assms] test_values test_numbers
  by (simp_all add: accepts_values_from_args_def normalizes_and_deduplicates_bootstrap_peers_def
      reads_values_from_env_sources_def cli_values_override_env_sources_def load_defs)

lemma temp_config_made:
  assumes "usable_temp os temp_dir s" and "utf8_valid content"
  obtains path s1 where "create_temp_config m os temp_dir now content s = (Inr path, s1)"
    and "fs_text os s1 path = Some content" and "is_ok (fst (fs_remove_file os (path_of path) s1))"
proof -
  define n where "n = ''ssh-key-sync-config-'' @ show_nat now @ ''.env''"
  have n: "temp_name n"
    using temp_nameI [of "''config''" "''.env''" now] by (simp add: n_def)
  define p where "p = path_under (path_of temp_dir) [n]"
  have path: "path_of (pathbuf_join temp_dir n) = p" "path_display (pathbuf_join temp_dir n) = pathbuf_join temp_dir n"
    using temp_paths [OF assms(1) n, of "[]"] by (simp_all add: p_def)
  have free: "files s p = None" "p \<notin> dirs s" "\<forall>c. \<not> fails os c"
    using assms(1) n by (simp_all add: p_def usable_temp_def)
  obtain s1 where s1: "fs_write m os p content s = (Inr (), s1)" "files s1 p = Some content"
    using free by (simp add: fs_write_def fs_ops)
  have "create_temp_config m os temp_dir now content s = (Inr (pathbuf_join temp_dir n), s1)"
    unfolding create_temp_config_def n_def [symmetric] Let_def path using s1 by (simp add: io_bind_def io_return_def)
  moreover have "fs_text os s1 (pathbuf_join temp_dir n) = Some content"
    using s1 free assms(2) by (simp add: fs_text_def fs_read_to_string_def path)
  moreover have "is_ok (fst (fs_remove_file os (path_of (pathbuf_join temp_dir n)) s1))"
    using s1 free by (simp add: fs_remove_file_def path)
  ultimately show thesis by (rule that)
qed

lemma temp_config_read:
  assumes "list_all item_ok items" and "rd path = Some (config_text items)"
  shows "read_config_file rd (Some path) = Inr (map_of (rev (concat (map item_entries items))))"
  using str_lines_items [OF assms(1)] config_lines_items [OF assms(1), of Map.empty] assms(2)
  by (simp add: read_config_file_def parse_config_key_values_def)

lemmas item_ok_defs = clean_entry_def clean_def line_ok_def rust_str

lemma config_file_tests_pass:
  assumes "unset env" and "usable_temp os temp_dir s"
  shows "reads_values_from_config_file m os temp_dir now s env" "cli_values_override_config_file m os temp_dir now s env"
proof -
  let ?long = "[Entry ''SID'' ''file-group'', Entry ''SID_TOKEN'' ''file-token'', Entry ''PARTICIPANT_ID'' ''file-node'',
    Entry ''HTTP_LISTEN_ADDR'' ''127.0.0.1:1234'', Entry ''UDP_ANNOUNCE_ADDR'' ''127.0.0.1:1235'',
    Entry ''BOOTSTRAP_PEERS'' ''node-a:1,node-b:2'', Entry ''SYNC_INTERVAL_SECS'' ''45'',
    Entry ''PUBLIC_KEY_PATH'' ''/tmp/key.pub'', Entry ''AUTHORIZED_KEYS_PATH'' ''/tmp/authorized_keys'',
    Entry ''TLS_CERT_PATH'' ''/tmp/tls.crt'', Entry ''TLS_KEY_PATH'' ''/tmp/tls.key'', Entry ''TLS_CA_PATH'' ''/tmp/ca.crt'',
    Entry ''TLS_SERVER_NAME'' ''node-a.local'', Entry ''INSECURE_NO_TLS'' ''false'', Entry ''DRY_RUN'' ''true'']"
  let ?short = "[Entry ''SID'' ''file-group'', Entry ''SID_TOKEN'' ''file-token'', Entry ''SYNC_INTERVAL_SECS'' ''90'']"
  have ok: "list_all item_ok ?long" "list_all item_ok ?short"
    by (simp_all add: item_ok_defs)
  have valid: "utf8_valid (config_text ?long)" "utf8_valid (config_text ?short)"
    by (simp_all add: config_text_def)
  note facts = unset_collect [OF assms(1)] test_values test_numbers
  note defs = load_config_def load_config_with_sources_def base_input_def resolve_string_def resolve_u64_def resolve_bool_def
    config_of_def
  obtain path s1 where long: "create_temp_config m os temp_dir now (config_text ?long) s = (Inr path, s1)"
    and "fs_text os s1 path = Some (config_text ?long)" and clean: "is_ok (fst (fs_remove_file os (path_of path) s1))"
    using assms(2) valid(1) by (rule temp_config_made)
  from temp_config_read [OF ok(1), of "fs_text os s1" path, OF this(2)] facts long clean show "reads_values_from_config_file m os temp_dir now s env"
    by (simp add: reads_values_from_config_file_def defs config_text_def)
  obtain path s1 where short: "create_temp_config m os temp_dir now (config_text ?short) s = (Inr path, s1)"
    and "fs_text os s1 path = Some (config_text ?short)" and clean: "is_ok (fst (fs_remove_file os (path_of path) s1))"
    using assms(2) valid(2) by (rule temp_config_made)
  from temp_config_read [OF ok(2), of "fs_text os s1" path, OF this(2)] facts short clean show "cli_values_override_config_file m os temp_dir now s env"
    by (simp add: cli_values_override_config_file_def defs config_text_def)
qed

lemma masks_test_passes:
  assumes "unset env" and "quotes_plain quoted"
  shows "masks_sid_token_in_debug_output quoted rd env"
proof -
  let ?q = "\<lambda>s. CHR 0x22 # s @ [CHR 0x22]"
  let ?text = "''AppConfig { sid: '' @ ?q ''group-a'' @ '', sid_token: '' @ ?q ''***'' @ '', participant_id: '' @ ?q ''unknown-participant''
    @ '', http_listen_addr: '' @ ?q ''0.0.0.0:9922'' @ '', udp_announce_addr: '' @ ?q ''0.0.0.0:9923'' @ '', bootstrap_peers: [], sync_interval_secs: 30, public_key_path: ''
    @ ?q ''~/.ssh/id_ed25519.pub'' @ '', authorized_keys_path: '' @ ?q ''~/.ssh/authorized_keys''
    @ '', tls_cert_path: None, tls_key_path: None, tls_ca_path: None, tls_server_name: None, insecure_no_tls: false, dry_run: false }''"
  have quoted: "quoted s = ?q s" if "list_all (\<lambda>c. (0x20::nat) \<le> of_char c \<and> of_char c < (0x7F::nat) \<and> c \<noteq> CHR 0x22 \<and> c \<noteq> CHR 0x5C) s" for s
    using assms(2) that by (simp add: quotes_plain_def)
  have "quoted ''group-a'' = ?q ''group-a''" "quoted ''***'' = ?q ''***''" "quoted ''unknown-participant'' = ?q ''unknown-participant''"
    "quoted ''0.0.0.0:9922'' = ?q ''0.0.0.0:9922''" "quoted ''0.0.0.0:9923'' = ?q ''0.0.0.0:9923''"
    "quoted ''~/.ssh/id_ed25519.pub'' = ?q ''~/.ssh/id_ed25519.pub''" "quoted ''~/.ssh/authorized_keys'' = ?q ''~/.ssh/authorized_keys''"
    by (rule quoted, simp)+
  moreover have "show_word (30 :: u64) = ''30''" by code_simp
  moreover have "str_contains ?text (''sid_token: '' @ [CHR 0x22] @ ''***'' @ [CHR 0x22])" "\<not> str_contains ?text ''secret-token''"
    by simp_all
  ultimately show ?thesis
    using unset_collect [OF assms(1)] test_values
    by (simp add: masks_sid_token_in_debug_output_def load_defs app_config_debug_def debug_option_def debug_bool_def
        DEFAULT_HTTP_LISTEN_ADDR_def DEFAULT_UDP_ANNOUNCE_ADDR_def DEFAULT_PUBLIC_KEY_PATH_def DEFAULT_AUTHORIZED_KEYS_PATH_def)
qed

section \<open>All of them\<close>

definition config_tests ::
  "(string \<Rightarrow> string) \<Rightarrow> file_reader \<Rightarrow> test_env \<Rightarrow> nat \<Rightarrow> faults \<Rightarrow> pathbuf \<Rightarrow> nat \<Rightarrow> fs \<Rightarrow> bool" where
  "config_tests quoted rd env default_mode os temp_dir timestamp s \<longleftrightarrow> requires_sid_when_mode_is_strict rd env
     \<and> requires_sid_token_when_mode_is_strict rd env \<and> rejects_empty_sid rd env \<and> rejects_empty_sid_token rd env
     \<and> accepts_values_from_args rd env \<and> allows_missing_config_in_optional_mode rd env
     \<and> does_not_allow_partial_config_in_optional_mode rd env \<and> rejects_zero_sync_interval rd env
     \<and> masks_sid_token_in_debug_output quoted rd env
     \<and> reads_values_from_config_file default_mode os temp_dir timestamp s env
     \<and> cli_values_override_config_file default_mode os temp_dir timestamp s env
     \<and> normalizes_and_deduplicates_bootstrap_peers rd env
     \<and> reads_values_from_env_sources rd \<and> cli_values_override_env_sources rd"

lemma config_tests_pass:
  "unset env \<Longrightarrow> quotes_plain quoted \<Longrightarrow> usable_temp os temp_dir s \<Longrightarrow> config_tests quoted rd env m os temp_dir now s"
  using config_error_tests_pass config_value_tests_pass config_file_tests_pass masks_test_passes
  by (simp add: config_tests_def)

end
