(* ===== verification/TestsMessages.thy ===== *)
theory TestsMessages
  imports Discovery Transport
begin

text \<open>
  The unit tests of \<open>auth.rs\<close>, \<open>discovery.rs\<close> and \<open>transport.rs\<close>, translated as they are written. A
  test is true when every \<open>expect\<close> finds a result and every assertion holds. Two kinds of test
  compare signatures that must differ; they hold because the few texts these tests sign have
  different tags (\<open>tests_separated\<close>), which is all the tests ask of SHA-256 and HMAC.
\<close>

section \<open>Tests of auth.rs\<close>

definition signs_and_verifies_envelope :: "ext \<Rightarrow> bool" where
  "signs_and_verifies_envelope X \<longleftrightarrow>
     (let envelope = sign_envelope X ''group-a'' ''secret-token'' ''node-1'' 1781771000 ''nonce-1'' UdpAnnouncement
            (as_bytes (''{'' @ [CHR 0x22] @ ''addr'' @ [CHR 0x22] @ '':'' @ [CHR 0x22] @ ''10.0.0.2'' @ [CHR 0x22] @ ''}''))
      in verify_envelope X envelope ''secret-token'' ''group-a'' = Inr ())"

definition rejects_sid_mismatch :: "ext \<Rightarrow> bool" where
  "rejects_sid_mismatch X \<longleftrightarrow>
     (let envelope = sign_envelope X ''group-a'' ''secret-token'' ''node-1'' 1781771000 ''nonce-1'' UdpAnnouncement
            (as_bytes ''payload'')
      in verify_envelope X envelope ''secret-token'' ''group-b'' = Inl SidMismatch)"

definition rejects_tampered_body :: "ext \<Rightarrow> bool" where
  "rejects_tampered_body X \<longleftrightarrow>
     (let envelope = sign_envelope X ''group-a'' ''secret-token'' ''node-1'' 1781771000 ''nonce-1'' UdpAnnouncement
            (as_bytes ''payload'');
          envelope = envelope\<lparr>env_body := as_bytes ''modified''\<rparr>
      in verify_envelope X envelope ''secret-token'' ''group-a'' = Inl InvalidSignature)"

definition rejects_invalid_signature_encoding :: "ext \<Rightarrow> bool" where
  "rejects_invalid_signature_encoding X \<longleftrightarrow>
     (let envelope = sign_envelope X ''group-a'' ''secret-token'' ''node-1'' 1781771000 ''nonce-1'' UdpAnnouncement
            (as_bytes ''payload'');
          envelope = envelope\<lparr>env_signature_hex := ''not-hex''\<rparr>
      in verify_envelope X envelope ''secret-token'' ''group-a'' = Inl InvalidSignatureEncoding)"

definition canonical_signature_is_stable_for_same_payload :: "ext \<Rightarrow> bool" where
  "canonical_signature_is_stable_for_same_payload X \<longleftrightarrow>
     (let first = sign_envelope X ''group-a'' ''secret-token'' ''node-1'' 1781771000 ''nonce-1''
            (HttpRequest ''POST'' ''/v1/keys'') (as_bytes ''payload'');
          second = sign_envelope X ''group-a'' ''secret-token'' ''node-1'' 1781771000 ''nonce-1''
            (HttpRequest ''POST'' ''/v1/keys'') (as_bytes ''payload'')
      in env_signature_hex first = env_signature_hex second)"

definition different_contexts_produce_different_signatures :: "ext \<Rightarrow> bool" where
  "different_contexts_produce_different_signatures X \<longleftrightarrow>
     (let request = sign_envelope X ''group-a'' ''secret-token'' ''node-1'' 1781771000 ''nonce-1''
            (HttpRequest ''GET'' ''/v1/keys'') (as_bytes ''payload'');
          response = sign_envelope X ''group-a'' ''secret-token'' ''node-1'' 1781771000 ''nonce-1''
            (HttpResponse 200 ''/v1/keys'') (as_bytes ''payload'');
          announcement = sign_envelope X ''group-a'' ''secret-token'' ''node-1'' 1781771000 ''nonce-1''
            UdpAnnouncement (as_bytes ''payload'')
      in env_signature_hex request \<noteq> env_signature_hex response
        \<and> env_signature_hex request \<noteq> env_signature_hex announcement
        \<and> env_signature_hex response \<noteq> env_signature_hex announcement)"

definition verifier_rejects_outside_timestamp_window :: "ext \<Rightarrow> bool" where
  "verifier_rejects_outside_timestamp_window X \<longleftrightarrow>
     (let verifier = verifier_new ''secret-token'' ''group-a'' 30 120;
          envelope = sign_envelope X ''group-a'' ''secret-token'' ''node-1'' 1000 ''nonce-1'' UdpAnnouncement
            (as_bytes ''payload'');
          (result, verifier) = verifier_verify X envelope 2000 verifier
      in result = Inl TimestampOutsideWindow)"

definition verifier_rejects_replayed_nonce_inside_ttl :: "ext \<Rightarrow> bool" where
  "verifier_rejects_replayed_nonce_inside_ttl X \<longleftrightarrow>
     (let verifier = verifier_new ''secret-token'' ''group-a'' 30 120;
          envelope = sign_envelope X ''group-a'' ''secret-token'' ''node-1'' 1000 ''nonce-1'' UdpAnnouncement
            (as_bytes ''payload'');
          (first, verifier) = verifier_verify X envelope 1005 verifier;
          (second, verifier) = verifier_verify X envelope 1010 verifier
      in first = Inr () \<and> second = Inl ReplayNonce)"

definition verifier_accepts_same_nonce_after_ttl_expiry :: "ext \<Rightarrow> bool" where
  "verifier_accepts_same_nonce_after_ttl_expiry X \<longleftrightarrow>
     (let verifier = verifier_new ''secret-token'' ''group-a'' 300 5;
          envelope = sign_envelope X ''group-a'' ''secret-token'' ''node-1'' 1000 ''nonce-1'' UdpAnnouncement
            (as_bytes ''payload'');
          (first, verifier) = verifier_verify X envelope 1002 verifier;
          (second, verifier) = verifier_verify X envelope 1010 verifier
      in first = Inr () \<and> second = Inr ())"

section \<open>Tests of discovery.rs\<close>

definition loads_bootstrap_peers_and_sets_trigger :: bool where
  "loads_bootstrap_peers_and_sets_trigger \<longleftrightarrow>
     (let engine = engine_new ''group-a'' ''secret-token'' 60 120;
          engine = add_bootstrap_peers [''node-a@10.0.0.2:2222'', ''10.0.0.3:2222'', ''invalid''] engine;
          (first, after_first) = take_sync_trigger engine;
          (second, after_second) = take_sync_trigger after_first
      in eng_peers engine ''node-a'' \<noteq> None \<and> eng_peers engine ''10.0.0.3:2222'' \<noteq> None \<and> first \<and> \<not> second)"

definition accepts_valid_announcement_and_adds_peer :: "ext \<Rightarrow> bool" where
  "accepts_valid_announcement_and_adds_peer X \<longleftrightarrow>
     (let receiver = engine_new ''group-a'' ''secret-token'' 60 120;
          sender = engine_new ''group-a'' ''secret-token'' 60 120
      in expecting (build_startup_announcement X sender ''node-b'' ''10.0.0.5'' 2222
           ''ssh-ed25519 AAAAB3Nza node-b'' 1700000000 ''n-1'') (\<lambda>envelope.
         let (event, receiver) = process_announcement X envelope 1700000010 receiver
         in expecting event (\<lambda>event. event = PeerAdded ''node-b'' \<and> eng_peers receiver ''node-b'' \<noteq> None
              \<and> fst (take_sync_trigger receiver))))"

definition ignores_announcement_with_wrong_sid_token :: "ext \<Rightarrow> bool" where
  "ignores_announcement_with_wrong_sid_token X \<longleftrightarrow>
     (let receiver = engine_new ''group-a'' ''secret-token'' 60 120;
          sender = engine_new ''group-a'' ''wrong-token'' 60 120
      in expecting (build_startup_announcement X sender ''node-b'' ''10.0.0.5'' 2222
           ''ssh-ed25519 AAAAB3Nza node-b'' 1700000000 ''n-1'') (\<lambda>envelope.
         let (event, receiver) = process_announcement X envelope 1700000010 receiver
         in expecting event (\<lambda>event. event = Ignored \<and> eng_peers receiver ''node-b'' = None
              \<and> \<not> fst (take_sync_trigger receiver))))"

definition ignores_announcement_with_other_sid :: "ext \<Rightarrow> bool" where
  "ignores_announcement_with_other_sid X \<longleftrightarrow>
     (let receiver = engine_new ''group-a'' ''secret-token'' 60 120;
          sender = engine_new ''group-b'' ''secret-token'' 60 120
      in expecting (build_startup_announcement X sender ''node-b'' ''10.0.0.5'' 2222
           ''ssh-ed25519 AAAAB3Nza node-b'' 1700000000 ''n-1'') (\<lambda>envelope.
         let (event, receiver) = process_announcement X envelope 1700000010 receiver
         in expecting event (\<lambda>event. event = Ignored)))"

definition rejects_malformed_payload :: "ext \<Rightarrow> bool" where
  "rejects_malformed_payload X \<longleftrightarrow>
     (let receiver = engine_new ''group-a'' ''secret-token'' 60 120;
          sender = engine_new ''group-a'' ''secret-token'' 60 120
      in expecting (build_startup_announcement X sender ''node-b'' ''10.0.0.5'' 2222
           ''ssh-ed25519 AAAAB3Nza node-b'' 1700000000 ''n-1'') (\<lambda>envelope.
         let envelope = envelope\<lparr>env_body := as_bytes (''sid=group-a'' @ [nl] @ ''participant_id=node-b'' @ [nl]
               @ ''address=10.0.0.5'' @ [nl] @ ''port=bad'' @ [nl])\<rparr>;
             envelope = envelope\<lparr>env_signature_hex := env_signature_hex (sign_envelope X ''group-a'' ''secret-token''
               ''node-b'' (env_timestamp_secs envelope) (env_nonce envelope) UdpAnnouncement (env_body envelope))\<rparr>;
             (event, receiver) = process_announcement X envelope 1700000010 receiver
         in event = Inl InvalidAnnouncementPayload))"

definition updates_existing_peer_and_triggers_sync :: "ext \<Rightarrow> bool" where
  "updates_existing_peer_and_triggers_sync X \<longleftrightarrow>
     (let receiver = engine_new ''group-a'' ''secret-token'' 60 120;
          sender = engine_new ''group-a'' ''secret-token'' 60 120
      in expecting (build_startup_announcement X sender ''node-b'' ''10.0.0.5'' 2222
           ''ssh-ed25519 AAAAB3Nza node-b'' 1700000000 ''n-1'') (\<lambda>first.
         expecting (build_startup_announcement X sender ''node-b'' ''10.0.0.6'' 2222
           ''ssh-ed25519 AAAAB3Nza node-b'' 1700000001 ''n-2'') (\<lambda>second.
         let (event1, receiver) = process_announcement X first 1700000005 receiver;
             (trigger1, receiver) = take_sync_trigger receiver;
             (event2, receiver) = process_announcement X second 1700000006 receiver;
             (trigger2, receiver) = take_sync_trigger receiver
         in expecting event1 (\<lambda>event. event = PeerAdded ''node-b'') \<and> trigger1
           \<and> expecting event2 (\<lambda>event. event = PeerUpdated ''node-b'') \<and> trigger2)))"

definition ignores_replayed_nonce :: "ext \<Rightarrow> bool" where
  "ignores_replayed_nonce X \<longleftrightarrow>
     (let receiver = engine_new ''group-a'' ''secret-token'' 60 120;
          sender = engine_new ''group-a'' ''secret-token'' 60 120
      in expecting (build_startup_announcement X sender ''node-b'' ''10.0.0.5'' 2222
           ''ssh-ed25519 AAAAB3Nza node-b'' 1700000000 ''n-replay'') (\<lambda>envelope.
         let (event1, receiver) = process_announcement X envelope 1700000005 receiver;
             (event2, receiver) = process_announcement X envelope 1700000006 receiver
         in expecting event1 (\<lambda>event. event = PeerAdded ''node-b'')
           \<and> expecting event2 (\<lambda>event. event = Ignored)))"

section \<open>Tests of transport.rs\<close>

definition signs_and_verifies_http_request_envelope :: "ext \<Rightarrow> bool" where
  "signs_and_verifies_http_request_envelope X \<longleftrightarrow>
     (let request = \<lparr>req_path = ''/v1/keys'', req_sender_id = ''node-a'', req_timestamp_secs = 1781771234,
            req_nonce = ''req-1'', req_body = as_bytes ''public_key=ssh-ed25519 AAAA node-a''\<rparr>;
          envelope = sign_http_request X ''group-a'' ''secret-token'' request
      in verify_http_request X envelope ''secret-token'' ''group-a'' = Inr ())"

definition signs_and_verifies_http_response_envelope :: "ext \<Rightarrow> bool" where
  "signs_and_verifies_http_response_envelope X \<longleftrightarrow>
     (let response = \<lparr>resp_path = ''/v1/keys'', resp_status_code = 200, resp_sender_id = ''node-b'',
            resp_timestamp_secs = 1781771240, resp_nonce = ''res-1'',
            resp_body = as_bytes ''public_key=ssh-ed25519 BBBB node-b''\<rparr>;
          envelope = sign_http_response X ''group-a'' ''secret-token'' response
      in verify_http_response X envelope ''secret-token'' ''group-a'' = Inr ())"

definition rejects_http_request_with_wrong_sid_token :: "ext \<Rightarrow> bool" where
  "rejects_http_request_with_wrong_sid_token X \<longleftrightarrow>
     (let request = \<lparr>req_path = ''/v1/keys'', req_sender_id = ''node-a'', req_timestamp_secs = 1781771234,
            req_nonce = ''req-1'', req_body = as_bytes ''public_key=ssh-ed25519 AAAA node-a''\<rparr>;
          envelope = sign_http_request X ''group-a'' ''secret-token'' request
      in verify_http_request X envelope ''wrong-token'' ''group-a'' = Inl InvalidSignature)"

definition handles_get_public_key_request_and_response_without_secret_leak :: "ext \<Rightarrow> bool" where
  "handles_get_public_key_request_and_response_without_secret_leak X \<longleftrightarrow>
     expecting (service_new ''group-a'' ''secret-token'' ''node-local'' ''ssh-ed25519 AAAA node-local'') (\<lambda>service.
       let request = build_get_public_key_request X service ''node-remote'' 1700000000 ''req-1''
       in expecting (handle_get_public_key_request X service request 1700000001 ''res-1'') (\<lambda>response.
          expecting (verify_and_parse_public_key_response X service response) (\<lambda>payload.
            pkp_sid payload = ''group-a'' \<and> pkp_participant_id payload = ''node-local''
            \<and> pkp_public_key payload = ''ssh-ed25519 AAAA node-local''
            \<and> (case from_utf8 (env_body response) of None \<Rightarrow> False
               | Some body_text \<Rightarrow> \<not> str_contains body_text ''secret-token''))))"

definition handles_publish_request_with_valid_key :: "ext \<Rightarrow> bool" where
  "handles_publish_request_with_valid_key X \<longleftrightarrow>
     expecting (service_new ''group-a'' ''secret-token'' ''node-local'' ''ssh-ed25519 AAAA node-local'') (\<lambda>service.
       let request = build_publish_request X service ''node-remote'' 1700000010 ''pub-1''
             \<lparr>pub_participant_id = ''node-remote'', pub_address = ''10.0.0.5'', pub_port = 2222,
              pub_public_key = ''ssh-ed25519 BBBB node-remote''\<rparr>
       in expecting (handle_publish_request X service request 1700000011 ''ack-1'') (\<lambda>response.
            verify_http_response X response ''secret-token'' ''group-a'' = Inr ()
            \<and> env_context response = HttpResponse 202 PATH_PUBLISH_PARTICIPANT))"

definition rejects_publish_request_with_invalid_public_key :: "ext \<Rightarrow> bool" where
  "rejects_publish_request_with_invalid_public_key X \<longleftrightarrow>
     expecting (service_new ''group-a'' ''secret-token'' ''node-local'' ''ssh-ed25519 AAAA node-local'') (\<lambda>service.
       let request = build_publish_request X service ''node-remote'' 1700000010 ''pub-1''
             \<lparr>pub_participant_id = ''node-remote'', pub_address = ''10.0.0.5'', pub_port = 2222,
              pub_public_key = ''invalid''\<rparr>
       in handle_publish_request X service request 1700000011 ''ack-1'' = Inl InvalidPayload)"

definition rejects_get_public_key_request_with_wrong_context_path :: "ext \<Rightarrow> bool" where
  "rejects_get_public_key_request_with_wrong_context_path X \<longleftrightarrow>
     expecting (service_new ''group-a'' ''secret-token'' ''node-local'' ''ssh-ed25519 AAAA node-local'') (\<lambda>service.
       let request = \<lparr>req_path = ''/v1/other'', req_sender_id = ''node-remote'', req_timestamp_secs = 1700000000,
             req_nonce = ''req-1'', req_body = as_bytes ''request=public_key''\<rparr>;
           envelope = sign_http_request X ''group-a'' ''secret-token'' request
       in handle_get_public_key_request X service envelope 1700000001 ''res-1'' = Inl UnexpectedContext)"

section \<open>They pass\<close>

subsection \<open>The texts the tests sign\<close>

definition auth_text :: "ext \<Rightarrow> MessageContext \<Rightarrow> string \<Rightarrow> string" where
  "auth_text X c body = canonical_payload X ''group-a'' ''node-1'' 1781771000 ''nonce-1'' c (as_bytes body)"

definition request_text :: "ext \<Rightarrow> string" where
  "request_text X = canonical_payload X ''group-a'' ''node-a'' 1781771234 ''req-1'' (HttpRequest ''POST'' ''/v1/keys'')
     (as_bytes ''public_key=ssh-ed25519 AAAA node-a'')"

definition announcement_body :: "string \<Rightarrow> string \<Rightarrow> bytes" where
  "announcement_body sid address = discovery_serialize_payload [(''sid'', sid), (''participant_id'', ''node-b''),
     (''address'', address), (''port'', show_word (2222 :: u16)), (''public_key'', ''ssh-ed25519 AAAAB3Nza node-b'')]"

definition announcement_text :: "ext \<Rightarrow> string" where
  "announcement_text X = canonical_payload X ''group-a'' ''node-b'' 1700000000 ''n-1'' UdpAnnouncement
     (announcement_body ''group-a'' ''10.0.0.5'')"

definition signed_texts :: "ext \<Rightarrow> (string \<times> string) set" where
  "signed_texts X = {(''secret-token'', auth_text X UdpAnnouncement ''payload''),
     (''secret-token'', auth_text X UdpAnnouncement ''modified''),
     (''secret-token'', auth_text X (HttpRequest ''GET'' ''/v1/keys'') ''payload''),
     (''secret-token'', auth_text X (HttpResponse 200 ''/v1/keys'') ''payload''),
     (''secret-token'', request_text X), (''wrong-token'', request_text X),
     (''secret-token'', announcement_text X), (''wrong-token'', announcement_text X)}"

definition tests_separated :: "ext \<Rightarrow> bool" where
  "tests_separated X \<longleftrightarrow> sha256 X (as_bytes ''payload'') \<noteq> sha256 X (as_bytes ''modified'')
     \<and> inj_on (\<lambda>(token, text). hmac_sha256 X (as_bytes token) (as_bytes text)) (signed_texts X)"

lemma separated_tags:
  assumes "tests_separated X" and "(tok, s) \<in> signed_texts X" and "(tok', s') \<in> signed_texts X"
  shows "hmac_sha256 X (as_bytes tok) (as_bytes s) = hmac_sha256 X (as_bytes tok') (as_bytes s') \<longleftrightarrow> tok = tok' \<and> s = s'"
  using inj_onD [of "\<lambda>(token, text). hmac_sha256 X (as_bytes token) (as_bytes text)" "signed_texts X" "(tok, s)" "(tok', s')"]
    assms by (auto simp: tests_separated_def)

lemma tests_separated_echo: "tests_separated echo_ext"
proof -
  have keys: "tok \<in> {''secret-token'', ''wrong-token''}" if "(tok, s) \<in> signed_texts echo_ext" for tok s
    using that by (auto simp: signed_texts_def)
  have same: "tok = tok' \<and> s = s'" if "as_bytes tok @ as_bytes s = as_bytes tok' @ as_bytes s'"
    and "tok \<in> {''secret-token'', ''wrong-token''}" and "tok' \<in> {''secret-token'', ''wrong-token''}" for tok s tok' s'
  proof -
    have "tok @ s = tok' @ s'"
      using that(1) by (metis as_bytes_append as_bytes_inject)
    with that(2,3) show ?thesis by auto
  qed
  have "inj_on (\<lambda>(token, text). as_bytes token @ as_bytes text) (signed_texts echo_ext)"
  proof (rule inj_onI, clarify)
    fix tok s tok' s'
    assume "(tok, s) \<in> signed_texts echo_ext" "(tok', s') \<in> signed_texts echo_ext"
      "as_bytes tok @ as_bytes s = as_bytes tok' @ as_bytes s'"
    from same [OF this(3) keys [OF this(1)] keys [OF this(2)]] show "tok = tok' \<and> s = s'" .
  qed
  then show ?thesis
    by (simp add: tests_separated_def echo_ext_def)
qed

subsection \<open>auth.rs\<close>

lemma auth_text_eq:
  assumes "separable_context X c" and "separable_context X c'"
  shows "auth_text X c b = auth_text X c' b' \<longleftrightarrow> same_context X c c' \<and> sha256 X (as_bytes b) = sha256 X (as_bytes b')"
  using envelope_payload_eq [of X "sign_envelope X ''group-a'' tok ''node-1'' 1781771000 ''nonce-1'' c (as_bytes b)"
      "sign_envelope X ''group-a'' tok ''node-1'' 1781771000 ''nonce-1'' c' (as_bytes b')" for tok] assms
  by (simp add: auth_text_def envelope_payload_sign separable_def)

lemma auth_tests_pass:
  assumes "mac_ok X" and "tests_separated X"
  shows "signs_and_verifies_envelope X" "rejects_sid_mismatch X" "rejects_tampered_body X"
    "rejects_invalid_signature_encoding X" "canonical_signature_is_stable_for_same_payload X"
    "different_contexts_produce_different_signatures X"
proof -
  note tags = separated_tags [OF assms(2)]
  have "to_uppercase X ''GET'' = ''GET''"
    by (simp add: to_uppercase_def ascii_upper_def)
  then have contexts: "separable_context X (HttpRequest ''GET'' ''/v1/keys'')"
    by simp
  have "auth_text X UdpAnnouncement ''payload'' \<noteq> auth_text X UdpAnnouncement ''modified''"
    using assms(2) by (simp add: auth_text_eq tests_separated_def)
  then have "hmac_sha256 X (as_bytes ''secret-token'') (as_bytes (auth_text X UdpAnnouncement ''payload''))
      \<noteq> hmac_sha256 X (as_bytes ''secret-token'') (as_bytes (auth_text X UdpAnnouncement ''modified''))"
    using tags [of "''secret-token''" _ "''secret-token''"] by (simp add: signed_texts_def)
  then show "rejects_tampered_body X"
    using assms(1) by (simp add: rejects_tampered_body_def verify_envelope_def mac_ok_def sign_envelope_signature
        envelope_payload_def auth_text_def)
  show "signs_and_verifies_envelope X" "canonical_signature_is_stable_for_same_payload X"
    using assms(1) by (simp_all add: signs_and_verifies_envelope_def canonical_signature_is_stable_for_same_payload_def
        Let_def del: as_bytes_append)
  show "rejects_sid_mismatch X"
    by (simp add: rejects_sid_mismatch_def verify_envelope_def)
  have "decode_hex ''not-hex'' = None"
    by code_simp
  then show "rejects_invalid_signature_encoding X"
    by (simp add: rejects_invalid_signature_encoding_def verify_envelope_def)
  show "different_contexts_produce_different_signatures X"
    using tags [of "''secret-token''" _ "''secret-token''"] contexts
    by (simp add: different_contexts_produce_different_signatures_def sign_envelope_def hmac_signature_hex_def
        auth_hex.enc_inject signed_texts_def auth_text_eq flip: auth_text_def)
qed

lemma verifier_tests_pass:
  assumes "mac_ok X"
  shows "verifier_rejects_outside_timestamp_window X" "verifier_rejects_replayed_nonce_inside_ttl X"
    "verifier_accepts_same_nonce_after_ttl_expiry X"
  using assms
  by (simp_all add: verifier_rejects_outside_timestamp_window_def verifier_rejects_replayed_nonce_inside_ttl_def
      verifier_accepts_same_nonce_after_ttl_expiry_def verifier_verify_cases verifier_new_def in_window_nat
      nonce_key_def domIff prune_nonces_def retain_def saturating_sub_def)

subsection \<open>discovery.rs\<close>

lemma test_strings:
  "clean ''group-a''" "clean ''group-b''" "clean ''node-b''" "clean ''10.0.0.5''" "clean ''10.0.0.6''"
  "clean ''ssh-ed25519 AAAAB3Nza node-b''" "clean ''node-local''" "clean ''node-remote''"
  "clean ''ssh-ed25519 BBBB node-remote''" "clean ''invalid''"
  by (simp_all add: clean_def rust_str)

lemma test_keys:
  "normalize_public_key ''ssh-ed25519 AAAAB3Nza node-b'' = Inr ''ssh-ed25519 AAAAB3Nza node-b''"
  "normalize_public_key ''ssh-ed25519 AAAA node-local'' = Inr ''ssh-ed25519 AAAA node-local''"
  "normalize_public_key ''ssh-ed25519 BBBB node-remote'' = Inr ''ssh-ed25519 BBBB node-remote''"
  by code_simp+

lemma invalid_key: "normalize_public_key ''invalid'' \<noteq> Inr k"
proof -
  have "\<not> is_ok (normalize_public_key ''invalid'')" by code_simp
  then show ?thesis by (auto simp: is_ok_iff)
qed

lemma announcement_built:
  "build_startup_announcement X (engine_new sid tok skew ttl) ''node-b'' address 2222 ''ssh-ed25519 AAAAB3Nza node-b'' ts n
     = Inr (sign_envelope X sid tok ''node-b'' ts n UdpAnnouncement (announcement_body sid address))"
  by (simp add: build_startup_announcement_def test_keys engine_new_def announcement_body_def)

lemma announcement_parsed:
  assumes "clean address" and "address \<noteq> []"
  shows "parse_announcement_payload (announcement_body ''group-a'' address) = Inr \<lparr>ann_sid = ''group-a'',
    ann_participant_id = ''node-b'', ann_address = address, ann_port = 2222, ann_public_key = ''ssh-ed25519 AAAAB3Nza node-b''\<rparr>"
  using assms unfolding announcement_body_def by (intro parse_built_payload) (simp_all add: test_strings test_keys)

text \<open>An engine of the group in the tests, and what it has heard.\<close>

definition group_engine :: "DiscoveryEngine \<Rightarrow> bool" where
  "group_engine d \<longleftrightarrow> eng_sid d = ''group-a'' \<and> ver_sid_token (eng_verifier d) = ''secret-token''
     \<and> ver_expected_sid (eng_verifier d) = ''group-a'' \<and> ver_timestamp_skew_secs (eng_verifier d) = 60
     \<and> ver_nonce_ttl_secs (eng_verifier d) = 120"

lemma engine_new_group [simp]: "group_engine (engine_new ''group-a'' ''secret-token'' 60 120)"
  by (simp add: group_engine_def engine_new_def verifier_new_def)

lemma announcement_heard:
  assumes "mac_ok X" and "group_engine d" and "clean address" and "address \<noteq> []" and "in_window 60 now ts"
    and "ver_seen_nonces (eng_verifier d) (''node-b:'' @ n) = None"
    and "map_option peer_address (eng_peers d ''node-b'') \<noteq> Some address"
  shows "process_announcement X (sign_envelope X ''group-a'' ''secret-token'' ''node-b'' ts n UdpAnnouncement
      (announcement_body ''group-a'' address)) now d = (Inr ((if eng_peers d ''node-b'' = None then PeerAdded else PeerUpdated) ''node-b''),
     (listened X (sign_envelope X ''group-a'' ''secret-token'' ''node-b'' ts n UdpAnnouncement
      (announcement_body ''group-a'' address)) now d)\<lparr>eng_peers := (eng_peers d)(''node-b'' \<mapsto> \<lparr>peer_participant_id = ''node-b'', peer_address = address,
        peer_port = 2222, peer_public_key = ''ssh-ed25519 AAAAB3Nza node-b''\<rparr>), eng_sync_trigger_pending := True\<rparr>)"
proof -
  let ?a = "\<lparr>ann_sid = ''group-a'', ann_participant_id = ''node-b'', ann_address = address, ann_port = 2222,
    ann_public_key = ''ssh-ed25519 AAAAB3Nza node-b''\<rparr>"
  let ?e = "sign_envelope X ''group-a'' ''secret-token'' ''node-b'' ts n UdpAnnouncement (announcement_body ''group-a'' address)"
  have "accepts X ?e now (eng_verifier d)"
    using assms by (simp add: accepts_iff group_engine_def nonce_key_def)
  moreover have "str_trim ''node-b'' = ''node-b''"
    using test_strings(3) by (simp add: clean_def)
  ultimately have "news X ?e now d ?a"
    using assms announcement_parsed [OF assms(3,4)] by (auto simp: news_def group_engine_def announcement_record_def)
  from process_news [OF this] show ?thesis
    by (simp add: announcement_record_def)
qed

lemma announcement_unheard:
  assumes "env_context e = UdpAnnouncement" and "\<not> accepts X e now (eng_verifier d)"
  shows "process_announcement X e now d = (Inr Ignored, listened X e now d)"
  using assms by (simp add: process_announcement_def listened_def after_def Let_def split_beta is_ok_accepts)

lemma announcement_malformed:
  assumes "env_context e = UdpAnnouncement" and "accepts X e now (eng_verifier d)"
    and "parse_announcement_payload (env_body e) = Inl err"
  shows "process_announcement X e now d = (Inl err, listened X e now d)"
  using assms by (simp add: process_announcement_def listened_def after_def Let_def split_beta is_ok_accepts)

lemma signed_again:
  "(sign_envelope X sid tok who ts n c b)\<lparr>env_body := b', env_signature_hex := env_signature_hex (sign_envelope X sid tok who ts n c b')\<rparr>
     = sign_envelope X sid tok who ts n c b'"
  by (simp add: sign_envelope_def Let_def)

lemma first_heard:
  assumes "mac_ok X" and "in_window 60 now ts"
  shows "ver_seen_nonces (after X (sign_envelope X ''group-a'' ''secret-token'' ''node-b'' ts n c b) now
    (verifier_new ''secret-token'' ''group-a'' 60 120)) = [''node-b:'' @ n \<mapsto> now]"
  using assms by (auto simp: after_def verifier_verify_cases verifier_new_def prune_nonces_def retain_def nonce_key_def)

lemma listened_group [simp]: "group_engine (listened X e now d) \<longleftrightarrow> group_engine d"
  by (simp add: listened_def group_engine_def)

lemma listened_verifier [simp]:
  "env_context e = UdpAnnouncement \<Longrightarrow> eng_verifier (listened X e now d) = after X e now (eng_verifier d)"
  by (simp add: listened_def)

lemma group_engine_update [simp]:
  "group_engine (d\<lparr>eng_peers := ps\<rparr>) \<longleftrightarrow> group_engine d" "group_engine (d\<lparr>eng_sync_trigger_pending := b\<rparr>) \<longleftrightarrow> group_engine d"
  by (simp_all add: group_engine_def)

lemma malformed_body:
  "parse_announcement_payload (as_bytes (''sid=group-a'' @ [nl] @ ''participant_id=node-b'' @ [nl]
     @ ''address=10.0.0.5'' @ [nl] @ ''port=bad'' @ [nl])) = Inl InvalidAnnouncementPayload"
proof -
  let ?es = "[(''sid'', ''group-a''), (''participant_id'', ''node-b''), (''address'', ''10.0.0.5''), (''port'', ''bad'')]"
  have bytes: "as_bytes (''sid=group-a'' @ [nl] @ ''participant_id=node-b'' @ [nl] @ ''address=10.0.0.5'' @ [nl] @ ''port=bad'' @ [nl])
      = discovery_serialize_payload ?es"
    by (simp add: discovery_serialize_payload_def entry_line_def)
  have "clean ''bad''"
    by (simp add: clean_def rust_str)
  then have "list_all clean_entry ?es"
    using test_strings by (simp add: clean_entry_def)
  moreover have "parse_u16 ''bad'' = None"
    by (simp add: parse_u16_def parse_uint_def strip_plus_def digit_val_def)
  ultimately show ?thesis
    unfolding bytes using disc.par_ser [of ?es] by (simp add: parse_announcement_payload_def)
qed

lemma engine_new_facts:
  "eng_peers (engine_new ''group-a'' ''secret-token'' 60 120) = Map.empty" "ver_seen_nonces (eng_verifier (engine_new ''group-a'' ''secret-token'' 60 120)) = Map.empty"
  "ver_sid_token (eng_verifier (engine_new ''group-a'' ''secret-token'' 60 120)) = ''secret-token''" "ver_expected_sid (eng_verifier (engine_new ''group-a'' ''secret-token'' 60 120)) = ''group-a''"
  "\<not> eng_sync_trigger_pending (engine_new ''group-a'' ''secret-token'' 60 120)" "eng_verifier (engine_new ''group-a'' ''secret-token'' 60 120) = verifier_new ''secret-token'' ''group-a'' 60 120"
  "ver_nonce_ttl_secs (verifier_new ''secret-token'' ''group-a'' 60 120) = 120"
  "ver_timestamp_skew_secs (verifier_new ''secret-token'' ''group-a'' 60 120) = 60"
  by (simp_all add: engine_new_def verifier_new_def)

lemma discovery_tests_pass:
  assumes "mac_ok X" and "tests_separated X"
  shows "accepts_valid_announcement_and_adds_peer X" "ignores_announcement_with_wrong_sid_token X"
    "ignores_announcement_with_other_sid X" "rejects_malformed_payload X"
    "updates_existing_peer_and_triggers_sync X" "ignores_replayed_nonce X"
proof -
  note new = engine_new_facts
  have "hmac_sha256 X (as_bytes ''wrong-token'') (as_bytes (announcement_text X))
      \<noteq> hmac_sha256 X (as_bytes ''secret-token'') (as_bytes (announcement_text X))"
    using separated_tags [OF assms(2), of "''wrong-token''" "announcement_text X" "''secret-token''" "announcement_text X"]
    by (simp add: signed_texts_def)
  then show "ignores_announcement_with_wrong_sid_token X"
    using assms(1) new
    by (simp add: ignores_announcement_with_wrong_sid_token_def announcement_built announcement_unheard accepts_iff
        verify_envelope_iff sign_envelope_signature envelope_payload_sign listened_def take_sync_trigger_def
        flip: announcement_text_def)
  show "ignores_announcement_with_other_sid X"
    using assms(1) new
    by (simp add: ignores_announcement_with_other_sid_def announcement_built announcement_unheard accepts_iff verify_envelope_iff)
  show "accepts_valid_announcement_and_adds_peer X"
    using assms(1) new
    by (simp add: accepts_valid_announcement_and_adds_peer_def announcement_built announcement_heard test_strings
        in_window_nat take_sync_trigger_def)
  show "ignores_replayed_nonce X"
    using assms(1) new first_heard [OF assms(1)]
    by (simp add: listened_def accepts_iff nonce_key_def ignores_replayed_nonce_def announcement_built announcement_heard test_strings in_window_nat
        announcement_unheard)
  show "updates_existing_peer_and_triggers_sync X"
    using assms(1) new first_heard [OF assms(1)]
    by (simp add: updates_existing_peer_and_triggers_sync_def announcement_built announcement_heard test_strings in_window_nat
        take_sync_trigger_def)
  show "rejects_malformed_payload X"
    using assms(1) malformed_body new
    by (simp add: rejects_malformed_payload_def announcement_built signed_again announcement_malformed accepts_iff in_window_nat)
qed

lemma bootstrap_test_passes: "loads_bootstrap_peers_and_sets_trigger"
proof -
  have port: "show_word (2222 :: u16) = ''2222''"
    by code_simp
  have trims: "str_trim ''node-a'' = ''node-a''" "str_trim ''10.0.0.2'' = ''10.0.0.2''" "str_trim ''10.0.0.3'' = ''10.0.0.3''"
    by code_simp+
  have "parse_bootstrap_peer ''node-a@10.0.0.2:2222'' = Some (''node-a'', ''10.0.0.2'', 2222)"
    using parse_bootstrap_peer_named [of "''node-a''" "''10.0.0.2''" 2222] trims port by simp
  moreover have "parse_bootstrap_peer ''10.0.0.3:2222'' = Some (''10.0.0.3:2222'', ''10.0.0.3'', 2222)"
    using parse_bootstrap_peer_plain [of "''10.0.0.3''" 2222] trims port by simp
  moreover have "parse_bootstrap_peer ''invalid'' = None"
    by code_simp
  ultimately show ?thesis
    by (simp add: loads_bootstrap_peers_and_sets_trigger_def engine_new_def take_sync_trigger_def)
qed

subsection \<open>transport.rs\<close>

lemma transport_signature_tests_pass:
  assumes "mac_ok X" and "tests_separated X"
  shows "signs_and_verifies_http_request_envelope X" "signs_and_verifies_http_response_envelope X"
    "rejects_http_request_with_wrong_sid_token X"
proof -
  show "signs_and_verifies_http_request_envelope X" "signs_and_verifies_http_response_envelope X"
    using assms(1) by (simp_all add: signs_and_verifies_http_request_envelope_def signs_and_verifies_http_response_envelope_def
        sign_http_request_def sign_http_response_def verify_http_request_def verify_http_response_def)
  have "hmac_sha256 X (as_bytes ''secret-token'') (as_bytes (request_text X))
      \<noteq> hmac_sha256 X (as_bytes ''wrong-token'') (as_bytes (request_text X))"
    using separated_tags [OF assms(2), of "''secret-token''" "request_text X" "''wrong-token''" "request_text X"]
    by (simp add: signed_texts_def)
  then show "rejects_http_request_with_wrong_sid_token X"
    using assms(1) by (simp add: rejects_http_request_with_wrong_sid_token_def verify_http_request_def sign_http_request_def
        verify_envelope_def sign_envelope_signature envelope_payload_sign mac_ok_def flip: request_text_def)
qed

definition test_service :: HttpKeyExchangeService where
  "test_service = \<lparr>svc_sid = ''group-a'', svc_sid_token = ''secret-token'', svc_participant_id = ''node-local'',
     svc_public_key = ''ssh-ed25519 AAAA node-local''\<rparr>"

lemma test_service:
  "service_new ''group-a'' ''secret-token'' ''node-local'' ''ssh-ed25519 AAAA node-local'' = Inr test_service"
  "service_ok test_service"
  "svc_sid test_service = ''group-a''" "svc_sid_token test_service = ''secret-token''"
  "svc_participant_id test_service = ''node-local''" "svc_public_key test_service = ''ssh-ed25519 AAAA node-local''"
proof -
  have "clean ''ssh-ed25519 AAAA node-local''"
    by (simp add: clean_def rust_str)
  then show "service_ok test_service"
    by (simp add: service_ok_def test_strings test_keys test_service_def)
qed (simp_all add: service_new_def test_keys test_service_def)

lemma service_tests_pass:
  assumes "mac_ok X"
  shows "handles_get_public_key_request_and_response_without_secret_leak X"
    "handles_publish_request_with_valid_key X" "rejects_publish_request_with_invalid_public_key X"
    "rejects_get_public_key_request_with_wrong_context_path X"
proof -
  let ?pay = "[(''sid'', ''group-a''), (''participant_id'', ''node-local''), (''public_key'', ''ssh-ed25519 AAAA node-local'')]"
  have utf8: "from_utf8 (transport_serialize_payload ?pay) = Some (concat (map entry_line ?pay))"
    by (simp add: transport_serialize_payload_def entry_line_def rust_str del: as_bytes_append)
  have leak: "\<not> str_contains (concat (map entry_line ?pay)) ''secret-token''"
    by (simp add: entry_line_def)
  have "handle_get_public_key_request X test_service (build_get_public_key_request X test_service ''node-remote'' 1700000000 ''req-1'')
      1700000001 ''res-1'' = Inr (key_response X test_service 1700000001 ''res-1'')"
    using assms by (simp add: handle_get_Inr build_get_public_key_request_def sign_http_request_def)
  moreover have "env_body (key_response X test_service 1700000001 ''res-1'') = transport_serialize_payload ?pay"
    by (simp add: key_response_def test_service)
  ultimately show "handles_get_public_key_request_and_response_without_secret_leak X"
    using assms test_service utf8 leak parse_key_response [OF assms test_service(2), of test_service]
    by (simp add: handles_get_public_key_request_and_response_without_secret_leak_def)
  show "handles_publish_request_with_valid_key X"
    using publish_roundtrip [OF assms, of test_service test_service "\<lparr>pub_participant_id = ''node-remote'', pub_address = ''10.0.0.5'',
        pub_port = 2222, pub_public_key = ''ssh-ed25519 BBBB node-remote''\<rparr>" "''node-remote''" 1700000010 "''pub-1''" 1700000011 "''ack-1''"] test_service test_strings test_keys
    by (simp add: handles_publish_request_with_valid_key_def expecting_iff verify_http_response_def split: sum.splits)
  show "rejects_publish_request_with_invalid_public_key X"
    using publish_roundtrip [OF assms, of test_service test_service "\<lparr>pub_participant_id = ''node-remote'', pub_address = ''10.0.0.5'',
        pub_port = 2222, pub_public_key = ''invalid''\<rparr>" "''node-remote''" 1700000010 "''pub-1''" 1700000011 "''ack-1''"] test_service test_strings invalid_key
    by (simp add: rejects_publish_request_with_invalid_public_key_def expecting_iff split: sum.splits)
  show "rejects_get_public_key_request_with_wrong_context_path X"
    using assms test_service
    by (simp add: rejects_get_public_key_request_with_wrong_context_path_def handle_get_public_key_request_def
        verify_http_request_def sign_http_request_def expect_http_request_context_def PATH_GET_PUBLIC_KEY_def)
qed

section \<open>All of them\<close>

definition auth_tests :: "ext \<Rightarrow> bool" where
  "auth_tests X \<longleftrightarrow> signs_and_verifies_envelope X \<and> rejects_sid_mismatch X \<and> rejects_tampered_body X
     \<and> rejects_invalid_signature_encoding X \<and> canonical_signature_is_stable_for_same_payload X
     \<and> different_contexts_produce_different_signatures X \<and> verifier_rejects_outside_timestamp_window X
     \<and> verifier_rejects_replayed_nonce_inside_ttl X \<and> verifier_accepts_same_nonce_after_ttl_expiry X"

definition discovery_tests :: "ext \<Rightarrow> bool" where
  "discovery_tests X \<longleftrightarrow> loads_bootstrap_peers_and_sets_trigger \<and> accepts_valid_announcement_and_adds_peer X
     \<and> ignores_announcement_with_wrong_sid_token X \<and> ignores_announcement_with_other_sid X
     \<and> rejects_malformed_payload X \<and> updates_existing_peer_and_triggers_sync X \<and> ignores_replayed_nonce X"

definition transport_tests :: "ext \<Rightarrow> bool" where
  "transport_tests X \<longleftrightarrow> signs_and_verifies_http_request_envelope X \<and> signs_and_verifies_http_response_envelope X
     \<and> rejects_http_request_with_wrong_sid_token X \<and> handles_get_public_key_request_and_response_without_secret_leak X
     \<and> handles_publish_request_with_valid_key X \<and> rejects_publish_request_with_invalid_public_key X
     \<and> rejects_get_public_key_request_with_wrong_context_path X"

lemma message_tests_pass:
  assumes "mac_ok X" and "tests_separated X"
  shows "auth_tests X" "discovery_tests X" "transport_tests X"
  using auth_tests_pass [OF assms] verifier_tests_pass [OF assms(1)] discovery_tests_pass [OF assms] bootstrap_test_passes
    transport_signature_tests_pass [OF assms] service_tests_pass [OF assms(1)]
  by (simp_all add: auth_tests_def discovery_tests_def transport_tests_def)

end
