(* ===== verification/Daemon.thy ===== *)
theory Daemon
  imports Prelude
begin

text \<open>
  The module \<open>daemon.rs\<close>: the scheduling state of the daemon. The methods are functions on a
  record; any call of any of its public methods is a step, and the invariants are proved by
  induction over all sequences of calls.
  Sums of \<open>u64\<close> wrap, as in a release build.
\<close>

section \<open>Data\<close>

datatype DaemonMode = Running | Stopping | Stopped

datatype PeerSyncErrorKind = AuthFailed | Unreachable | InvalidPayload

record PeerSyncError =
  pse_participant_id :: string
  pse_kind :: PeerSyncErrorKind
  pse_message :: string

record SyncCycleResult =
  completed_at_secs :: u64
  peer_errors :: "PeerSyncError list"

datatype SyncExecution = Success SyncCycleResult | CriticalFailure string

record DaemonState =
  mode :: DaemonMode
  known_peers_count :: usize
  sync_trigger_pending :: bool
  next_sync_due_secs :: u64
  in_flight_sync :: bool
  last_successful_sync_at_secs :: "u64 option"
  last_peer_errors :: "PeerSyncError list"
  last_critical_error :: "string option"

record DaemonLoop =
  sync_interval_secs :: u64
  jitter_secs :: u64
  shutdown_requested :: bool
  state :: DaemonState

section \<open>Operations\<close>

definition loop_new :: "u64 \<Rightarrow> u64 \<Rightarrow> u64 \<Rightarrow> DaemonLoop" where
  "loop_new started_at_secs sync_interval jitter =
     (let sync_interval = max sync_interval 1;
          next_sync_due = started_at_secs + sync_interval + jitter
      in \<lparr>sync_interval_secs = sync_interval, jitter_secs = jitter, shutdown_requested = False,
          state = \<lparr>mode = Running, known_peers_count = 0, sync_trigger_pending = False,
            next_sync_due_secs = next_sync_due, in_flight_sync = False,
            last_successful_sync_at_secs = None, last_peer_errors = [], last_critical_error = None\<rparr>\<rparr>)"

definition set_known_peers_count :: "usize \<Rightarrow> DaemonLoop \<Rightarrow> DaemonLoop" where
  "set_known_peers_count count l = l\<lparr>state := (state l)\<lparr>known_peers_count := count\<rparr>\<rparr>"

definition trigger_sync_from_discovery :: "DaemonLoop \<Rightarrow> DaemonLoop" where
  "trigger_sync_from_discovery l =
     (if mode (state l) = Running then l\<lparr>state := (state l)\<lparr>sync_trigger_pending := True\<rparr>\<rparr> else l)"

definition request_shutdown :: "DaemonLoop \<Rightarrow> DaemonLoop" where
  "request_shutdown l =
     (let l = l\<lparr>shutdown_requested := True\<rparr> in
      if mode (state l) = Stopped then l
      else if in_flight_sync (state l) then l\<lparr>state := (state l)\<lparr>mode := Stopping\<rparr>\<rparr>
      else l\<lparr>state := (state l)\<lparr>mode := Stopped\<rparr>\<rparr>)"

definition should_start_sync :: "u64 \<Rightarrow> DaemonLoop \<Rightarrow> bool" where
  "should_start_sync now_secs l =
     (if mode (state l) = Stopped \<or> shutdown_requested l \<or> in_flight_sync (state l) then False
      else sync_trigger_pending (state l) \<or> next_sync_due_secs (state l) \<le> now_secs)"

definition start_sync :: "u64 \<Rightarrow> DaemonLoop \<Rightarrow> bool \<times> DaemonLoop" where
  "start_sync now_secs l =
     (if \<not> should_start_sync now_secs l then (False, l)
      else (True, l\<lparr>state := (state l)\<lparr>in_flight_sync := True\<rparr>\<rparr>))"

definition finish_sync :: "SyncExecution \<Rightarrow> u64 \<Rightarrow> DaemonLoop \<Rightarrow> DaemonLoop" where
  "finish_sync execution now_secs l =
     (let s = (state l)\<lparr>in_flight_sync := False, sync_trigger_pending := False\<rparr> in
      case execution of
        Success result \<Rightarrow>
          l\<lparr>state := s\<lparr>last_successful_sync_at_secs := Some (completed_at_secs result),
             last_peer_errors := peer_errors result, last_critical_error := None,
             next_sync_due_secs := now_secs + sync_interval_secs l + jitter_secs l,
             mode := (if shutdown_requested l then Stopped else Running)\<rparr>\<rparr>
      | CriticalFailure message \<Rightarrow>
          l\<lparr>state := s\<lparr>last_critical_error := Some message, mode := Stopped\<rparr>\<rparr>)"

definition run_startup_sync :: "SyncExecution \<Rightarrow> u64 \<Rightarrow> DaemonLoop \<Rightarrow> DaemonLoop" where
  "run_startup_sync execution now_secs l =
     (let (started, l) = start_sync now_secs l;
          l = (if \<not> started then l\<lparr>state := (state l)\<lparr>in_flight_sync := True\<rparr>\<rparr> else l)
      in finish_sync execution now_secs l)"

lemmas loop_defs [step_defs] = loop_new_def set_known_peers_count_def trigger_sync_from_discovery_def
  request_shutdown_def should_start_sync_def start_sync_def finish_sync_def run_startup_sync_def

section \<open>The order of the modes\<close>

fun mode_rank :: "DaemonMode \<Rightarrow> nat" where
  "mode_rank Running = 0"
| "mode_rank Stopping = 1"
| "mode_rank Stopped = 2"

instantiation DaemonMode :: linorder
begin

definition less_eq_DaemonMode :: "DaemonMode \<Rightarrow> DaemonMode \<Rightarrow> bool" where
  "less_eq_DaemonMode m m' \<longleftrightarrow> mode_rank m \<le> mode_rank m'"

definition less_DaemonMode :: "DaemonMode \<Rightarrow> DaemonMode \<Rightarrow> bool" where
  "less_DaemonMode m m' \<longleftrightarrow> mode_rank m < mode_rank m'"

instance
proof
  fix x y :: DaemonMode
  show "x \<le> y \<Longrightarrow> y \<le> x \<Longrightarrow> x = y"
    by (cases x; cases y) (simp_all add: less_eq_DaemonMode_def)
qed (auto simp: less_eq_DaemonMode_def less_DaemonMode_def)

end

section \<open>Systems with an invariant and a rank\<close>

text \<open>A step relation that keeps an invariant and never lowers a rank: what it promises of one
  step holds of whole runs.\<close>

locale ranked_system =
  fixes start :: "'s \<Rightarrow> bool" and step :: "'s \<Rightarrow> 's \<Rightarrow> bool" and inv :: "'s \<Rightarrow> bool"
    and rank :: "'s \<Rightarrow> 'r::linorder"
  assumes start_inv: "start s \<Longrightarrow> inv s"
    and step_inv: "inv s \<Longrightarrow> step s t \<Longrightarrow> inv t"
    and step_rank: "inv s \<Longrightarrow> step s t \<Longrightarrow> rank s \<le> rank t"
begin

lemma steps_inv: "step\<^sup>*\<^sup>* s t \<Longrightarrow> inv s \<Longrightarrow> inv t"
  by (induction rule: rtranclp_induct) (auto intro: step_inv)

lemma reach_inv: "start s \<Longrightarrow> step\<^sup>*\<^sup>* s t \<Longrightarrow> inv t"
  using start_inv steps_inv by blast

lemma reach_rank: "start s \<Longrightarrow> step\<^sup>*\<^sup>* s t \<Longrightarrow> step\<^sup>*\<^sup>* t u \<Longrightarrow> rank t \<le> rank u"
proof -
  assume "start s" and "step\<^sup>*\<^sup>* s t" and "step\<^sup>*\<^sup>* t u"
  have "inv t" using \<open>start s\<close> \<open>step\<^sup>*\<^sup>* s t\<close> by (rule reach_inv)
  from \<open>step\<^sup>*\<^sup>* t u\<close> this show ?thesis
  proof (induction rule: rtranclp_induct)
    case (step u v)
    then have "inv u" using steps_inv by blast
    with step show ?case using step_rank [of u v] by auto
  qed simp
qed

end

section \<open>Calls of the public methods\<close>

text \<open>Any method, in any state and with any arguments. (The method \<open>state\<close> only reads.)\<close>

inductive loop_call :: "DaemonLoop \<Rightarrow> DaemonLoop \<Rightarrow> bool" where
  peers: "loop_call l (set_known_peers_count count l)"
| trigger: "loop_call l (trigger_sync_from_discovery l)"
| shutdown: "loop_call l (request_shutdown l)"
| begin_sync: "loop_call l (snd (start_sync now l))"
| end_sync: "loop_call l (finish_sync execution now l)"
| startup: "loop_call l (run_startup_sync execution now l)"

inductive_cases loop_callE: "loop_call l l'"

definition initial :: "DaemonLoop \<Rightarrow> bool" where
  "initial l \<longleftrightarrow> (\<exists>t0 interval jitter. l = loop_new t0 interval jitter)"

definition loop_inv :: "DaemonLoop \<Rightarrow> bool" where
  "loop_inv l \<longleftrightarrow>
     (mode (state l) = Stopping \<longleftrightarrow> shutdown_requested l \<and> in_flight_sync (state l))
     \<and> (shutdown_requested l \<longrightarrow> mode (state l) \<noteq> Running)
     \<and> (in_flight_sync (state l) \<longrightarrow> mode (state l) \<noteq> Stopped)
     \<and> 1 \<le> sync_interval_secs l"

text \<open>How far a shutdown has got: nowhere before it is requested.\<close>

definition shutdown_progress :: "DaemonLoop \<Rightarrow> DaemonMode" where
  "shutdown_progress l = (if shutdown_requested l then mode (state l) else Running)"

lemma finish_sync_inv: "1 \<le> sync_interval_secs l \<Longrightarrow> loop_inv (finish_sync execution now l)"
  by (cases execution) (simp_all add: loop_inv_def finish_sync_def)

lemma run_startup_sync_inv: "1 \<le> sync_interval_secs l \<Longrightarrow> loop_inv (run_startup_sync execution now l)"
  by (simp add: run_startup_sync_def start_sync_def finish_sync_inv split: prod.split)

lemma initial_inv: "initial l \<Longrightarrow> loop_inv l"
  by (auto simp: initial_def loop_inv_def loop_new_def Let_def)

lemma loop_call_inv:
  assumes "loop_inv l" and "loop_call l l'"
  shows "loop_inv l'"
proof -
  have "1 \<le> sync_interval_secs l"
    using assms(1) by (simp add: loop_inv_def)
  then have ends: "loop_inv (finish_sync execution now l)" "loop_inv (run_startup_sync execution now l)" for execution now
    by (rule finish_sync_inv run_startup_sync_inv)+
  from assms(2) show ?thesis
    by (rule loop_callE) (use assms(1) ends in \<open>auto simp: loop_inv_def set_known_peers_count_def trigger_sync_from_discovery_def
        request_shutdown_def start_sync_def should_start_sync_def Let_def split: if_splits\<close>)
qed

lemma run_startup_sync_requested: "shutdown_requested (run_startup_sync execution now l) = shutdown_requested l"
  by (simp add: step_defs Let_def split: SyncExecution.split)

lemma finish_sync_requested:
  "shutdown_requested l \<Longrightarrow> mode (state (finish_sync execution now l)) = Stopped"
  by (cases execution) (simp_all add: finish_sync_def)

lemma loop_call_progress: "loop_inv l \<Longrightarrow> loop_call l l' \<Longrightarrow> shutdown_progress l \<le> shutdown_progress l'"
proof (erule loop_callE)
  fix execution now
  assume "l' = run_startup_sync execution now l"
  moreover from this have "mode (state l') = Stopped" if "shutdown_requested l"
    using that by (simp add: run_startup_sync_def start_sync_def should_start_sync_def finish_sync_requested)
  ultimately show "shutdown_progress l \<le> shutdown_progress l'"
    using run_startup_sync_requested [of execution now l]
    by (cases "mode (state l)") (auto simp: shutdown_progress_def less_eq_DaemonMode_def)
qed (cases "mode (state l)"; auto simp: shutdown_progress_def loop_inv_def less_eq_DaemonMode_def step_defs Let_def
    split: SyncExecution.splits if_splits)+

interpretation dl: ranked_system initial loop_call loop_inv shutdown_progress
  by unfold_locales (fact initial_inv loop_call_inv loop_call_progress)+

lemma shutdown_kept: "loop_call\<^sup>*\<^sup>* l l' \<Longrightarrow> shutdown_requested l \<Longrightarrow> shutdown_requested l' \<and> (in_flight_sync (state l') \<longrightarrow> in_flight_sync (state l))"
proof (induction rule: rtranclp_induct)
  case (step l1 l2)
  then have "shutdown_requested l1" "in_flight_sync (state l1) \<longrightarrow> in_flight_sync (state l)" by auto
  with step(2) show ?case
    by (auto elim!: loop_callE simp: step_defs Let_def split: SyncExecution.splits if_splits)
qed simp

section \<open>Properties\<close>

text \<open>In every state that calls of the methods can reach: it is stopping exactly while a
  synchronisation is in flight after a shutdown request, it is not running once a shutdown was
  requested, no synchronisation is in flight when it is stopped, and the interval is at least one
  second.\<close>

lemma daemon_invariant:
  assumes "initial l0" and "loop_call\<^sup>*\<^sup>* l0 l"
  shows "(mode (state l) = Stopping \<longleftrightarrow> shutdown_requested l \<and> in_flight_sync (state l))
    \<and> (shutdown_requested l \<longrightarrow> mode (state l) \<noteq> Running)
    \<and> (in_flight_sync (state l) \<longrightarrow> mode (state l) \<noteq> Stopped)
    \<and> 1 \<le> sync_interval_secs l"
  using dl.reach_inv [OF assms] by (simp add: loop_inv_def)

text \<open>C34: A requested shutdown is final: after it, whatever public methods are called in whatever order,
  the loop never runs again and its mode only grows from stopping to stopped, where it stays; no
  synchronisation is due or can be started any more, and none is in flight but one that was so
  at the request. (A stop after a critical failure is not: see \<open>critical_failure_is_not_final\<close>.)\<close>

theorem shutdown_is_final:
  assumes "loop_call\<^sup>*\<^sup>* (loop_new t0 interval jitter) l" and "shutdown_requested l" and "loop_call\<^sup>*\<^sup>* l l'"
  shows "mode (state l') \<noteq> Running \<and> mode (state l) \<le> mode (state l')
    \<and> \<not> should_start_sync now l' \<and> start_sync now l' = (False, l')
    \<and> (in_flight_sync (state l') \<longrightarrow> in_flight_sync (state l)) \<and> (\<not> in_flight_sync (state l') \<longrightarrow> mode (state l') = Stopped)"
proof -
  have init: "initial (loop_new t0 interval jitter)"
    by (auto simp: initial_def)
  have kept: "shutdown_requested l'" "in_flight_sync (state l') \<longrightarrow> in_flight_sync (state l)"
    using shutdown_kept [OF assms(3,2)] by auto
  then have "mode (state l) \<le> mode (state l')"
    using dl.reach_rank [OF init assms(1,3)] assms(2) by (simp add: shutdown_progress_def)
  moreover have "loop_inv l'"
    using dl.reach_inv [OF init] assms(1,3) by (meson rtranclp_trans)
  then have "mode (state l') \<noteq> Running" "\<not> in_flight_sync (state l') \<longrightarrow> mode (state l') = Stopped"
    using kept(1) by (cases "mode (state l')"; simp add: loop_inv_def)+
  moreover have "\<not> should_start_sync now l'" "start_sync now l' = (False, l')"
    using kept(1) by (simp_all add: start_sync_def should_start_sync_def)
  ultimately show ?thesis using kept(2) by blast
qed

theorem shutdown_is_final_witness:
  "start_sync 100 (run_startup_sync (Success \<lparr>completed_at_secs = 9, peer_errors = []\<rparr>) 9 (request_shutdown (loop_new 5 10 0)))
    = (False, run_startup_sync (Success \<lparr>completed_at_secs = 9, peer_errors = []\<rparr>) 9 (request_shutdown (loop_new 5 10 0)))"
proof -
  let ?l = "request_shutdown (loop_new 5 10 0)"
  have "loop_call\<^sup>*\<^sup>* (loop_new 5 10 0) ?l"
    by (intro r_into_rtranclp shutdown)
  moreover have "loop_call\<^sup>*\<^sup>* ?l (run_startup_sync (Success \<lparr>completed_at_secs = 9, peer_errors = []\<rparr>) 9 ?l)"
    by (intro r_into_rtranclp startup)
  moreover have "shutdown_requested ?l"
    by (simp add: request_shutdown_def Let_def)
  ultimately show ?thesis
    using shutdown_is_final by blast
qed

text \<open>Without a request, a loop that stopped after a critical failure runs again after the next
  successful synchronisation that is reported to it.\<close>

lemma critical_failure_is_not_final:
  assumes "\<not> shutdown_requested l"
  shows "mode (state (finish_sync (CriticalFailure message) now l)) = Stopped
    \<and> mode (state (run_startup_sync (Success result) now' (finish_sync (CriticalFailure message) now l))) = Running"
  using assms by (simp add: step_defs Let_def)

text \<open>After a successful synchronisation of a running daemon the next one starts exactly when it
  is triggered or the interval and the jitter have passed, provided that time fits in 64 bits.\<close>

lemma next_sync_schedule:
  assumes "\<not> shutdown_requested l"
    and "unat now + unat (sync_interval_secs l) + unat (jitter_secs l) < 2 ^ 64"
    and "l' = finish_sync (Success result) now l"
  shows "(should_start_sync t l' \<longleftrightarrow> unat now + unat (sync_interval_secs l) + unat (jitter_secs l) \<le> unat t)
    \<and> should_start_sync t (trigger_sync_from_discovery l')
    \<and> last_successful_sync_at_secs (state l') = Some (completed_at_secs result)"
proof -
  have "unat (now + sync_interval_secs l + jitter_secs l)
      = unat now + unat (sync_interval_secs l) + unat (jitter_secs l)"
    using assms(2) by (simp add: unat_word_ariths)
  then show ?thesis
    using assms(1,3)
    by (simp add: finish_sync_def should_start_sync_def trigger_sync_from_discovery_def word_le_nat_alt)
qed

text \<open>A trigger that arrives while a synchronisation is in flight is lost: when that
  synchronisation ends, successfully or not, no other one starts before the next due time,
  although the trigger would have started one had it arrived a moment later.\<close>

lemma trigger_in_flight_is_lost:
  assumes "in_flight_sync (state l)" and "mode (state l) = Running"
    and "t < now + sync_interval_secs l + jitter_secs l"
  shows "\<not> should_start_sync t (finish_sync execution now (trigger_sync_from_discovery l))
    \<and> (shutdown_requested l
       \<or> should_start_sync t (trigger_sync_from_discovery (finish_sync (Success result) now l)))"
  using assms
  by (cases execution) (auto simp: step_defs Let_def)

end
