(* ===== verification/TestsDaemon.thy ===== *)
theory TestsDaemon
  imports Daemon
begin

text \<open>
  The unit tests of \<open>daemon.rs\<close>, translated as they are written. A test is true when every assertion
  holds.
\<close>

section \<open>Tests of daemon.rs\<close>

definition startup_sync_sets_success_state :: bool where
  "startup_sync_sets_success_state \<longleftrightarrow>
     (let daemon = run_startup_sync (Success \<lparr>completed_at_secs = 1001, peer_errors = []\<rparr>) 1001 (loop_new 1000 30 5)
      in mode (state daemon) = Running \<and> last_successful_sync_at_secs (state daemon) = Some 1001
        \<and> next_sync_due_secs (state daemon) = 1001 + 30 + 5)"

definition discovery_trigger_starts_sync_before_poll_due :: bool where
  "discovery_trigger_starts_sync_before_poll_due \<longleftrightarrow>
     (let daemon = loop_new 1000 30 0; triggered = trigger_sync_from_discovery daemon
      in \<not> should_start_sync 1010 daemon \<and> should_start_sync 1010 triggered \<and> fst (start_sync 1010 triggered))"

definition peer_errors_do_not_stop_daemon :: bool where
  "peer_errors_do_not_stop_daemon \<longleftrightarrow>
     (let (started, daemon) = start_sync 1031 (loop_new 1000 30 0);
          daemon = finish_sync (Success \<lparr>completed_at_secs = 1032, peer_errors =
            [\<lparr>pse_participant_id = ''node-b'', pse_kind = Unreachable, pse_message = ''connection timeout''\<rparr>]\<rparr>) 1032 daemon
      in started \<and> mode (state daemon) = Running \<and> length (last_peer_errors (state daemon)) = 1
        \<and> last_critical_error (state daemon) = None)"

definition critical_error_stops_daemon :: bool where
  "critical_error_stops_daemon \<longleftrightarrow>
     (let (started, daemon) = start_sync 1030 (loop_new 1000 30 0);
          daemon = finish_sync (CriticalFailure ''failed to update authorized_keys'') 1031 daemon
      in started \<and> mode (state daemon) = Stopped
        \<and> last_critical_error (state daemon) = Some ''failed to update authorized_keys'')"

definition graceful_shutdown_waits_for_inflight_sync :: bool where
  "graceful_shutdown_waits_for_inflight_sync \<longleftrightarrow>
     (let (started, daemon) = start_sync 1030 (loop_new 1000 30 0);
          requested = request_shutdown daemon;
          finished = finish_sync (Success \<lparr>completed_at_secs = 1031, peer_errors = []\<rparr>) 1031 requested
      in started \<and> mode (state requested) = Stopping \<and> mode (state finished) = Stopped)"

definition shutdown_without_inflight_sync_stops_immediately :: bool where
  "shutdown_without_inflight_sync_stops_immediately \<longleftrightarrow>
     (let daemon = request_shutdown (loop_new 1000 30 0)
      in mode (state daemon) = Stopped \<and> \<not> should_start_sync 2000 daemon)"

definition poll_interval_triggers_sync_when_due :: bool where
  "poll_interval_triggers_sync_when_due \<longleftrightarrow>
     \<not> should_start_sync 1029 (loop_new 1000 30 0) \<and> should_start_sync 1030 (loop_new 1000 30 0)"

section \<open>They pass\<close>

definition daemon_tests :: bool where
  "daemon_tests \<longleftrightarrow> startup_sync_sets_success_state \<and> discovery_trigger_starts_sync_before_poll_due
     \<and> peer_errors_do_not_stop_daemon \<and> critical_error_stops_daemon \<and> graceful_shutdown_waits_for_inflight_sync
     \<and> shutdown_without_inflight_sync_stops_immediately \<and> poll_interval_triggers_sync_when_due"

lemma daemon_tests_pass: "daemon_tests"
  by (simp add: daemon_tests_def startup_sync_sets_success_state_def discovery_trigger_starts_sync_before_poll_due_def
      peer_errors_do_not_stop_daemon_def critical_error_stops_daemon_def graceful_shutdown_waits_for_inflight_sync_def
      shutdown_without_inflight_sync_stops_immediately_def poll_interval_triggers_sync_when_due_def step_defs Let_def)

end
