(* ===== verification/Spec2Isabelle.thy ===== *)
theory Spec2Isabelle
  imports Cli Scenarios Freshness TestsConfig TestsMessages TestsDaemon
begin

text \<open>
  A verification library for ssh-key-sync, the program under \<open>src/\<close>: a daemon that exchanges the
  public SSH keys of the participants who share a \<open>sid\<close> and a secret token, and writes the keys it
  has received into a marked block of \<open>authorized_keys\<close>.

  \<^bold>\<open>The program and its parts.\<close> A daemon (\<open>runtime.rs\<close>) is started with a configuration
  (\<open>config.rs\<close>) and its own public key (\<open>ssh_keys.rs\<close>). It broadcasts announcements over UDP and
  learns of peers from those of others (\<open>discovery.rs\<close>); it asks each peer for its key over HTTP and
  answers such requests (\<open>transport.rs\<close>). Every message is an envelope signed with an HMAC
  (\<open>auth.rs\<close>), written to the wire as text (\<open>runtime.rs\<close>). The keys that were received go to the
  managed block of the file (\<open>authorized_keys.rs\<close>). The commands of \<open>main.rs\<close> start the daemon, in
  the foreground or as a process of its own, and find, question and stop it through its control
  files: the pid file, the stop request and a marker with the current \<open>sid\<close> (\<open>runtime.rs\<close>).
  \<open>daemon.rs\<close> holds a scheduling state machine
  that the loop of \<open>runtime.rs\<close> does not use.

  \<^bold>\<open>Theories.\<close>
  \<^item> \<open>Prelude\<close>: machine integers, \<open>Result\<close> as a sum (\<open>Inl\<close> the error), saturating arithmetic, hash
    maps as partial functions whose order of traversal is an argument, list lemmas.
  \<^item> \<open>RustStr\<close>, \<open>RustText\<close>: the functions of Rust's \<open>str\<close> the code calls. A string is the list of
    its UTF-8 bytes; \<open>trim\<close>, \<open>split_whitespace\<close>, \<open>lines\<close>, \<open>split_once\<close>, \<open>parse\<close>, \<open>to_string\<close> of numbers
    and UTF-8 validity are defined on it, with their round trips.
  \<^item> \<open>SshKeys\<close> (\<open>ssh_keys.rs\<close>): parsing and normalisation. The locale \<open>key_normalizer\<close> is what the
    other modules rely on: a normal key is a fixed point, one line, and no comment or marker.
  \<^item> \<open>FileSys\<close>: paths and a file system as a record; every system call can fail, by an oracle that is
    an argument, the \<open>stat\<close> behind \<open>exists()\<close> and \<open>is_dir()\<close> included, which then answer false; a failing
    write can leave any prefix. The oracle is asked once for each different call of an operation or round,
    so two equal calls in one have the same fate. The operations are state passing, with
    pre- and postconditions (\<open>io_spec\<close>) whose rules are collected in \<open>io_rules\<close>.
  \<^item> \<open>AuthorizedKeys\<close> (\<open>authorized_keys.rs\<close>): the text update \<open>upsert_managed_block\<close> as a lens (locale
    \<open>managed_doc\<close>), and the file update over \<open>FileSys\<close> (locale \<open>atomic_replacer\<close>).
  \<^item> \<open>Hex\<close>: the two hexadecimal codecs of \<open>auth.rs\<close> and \<open>runtime.rs\<close> (locale \<open>hex_codec\<close>), with the
    panic of an index out of range as a value.
  \<^item> \<open>Auth\<close> (\<open>auth.rs\<close>): canonical text, signing, verifying, and the verifier with its memory of
    nonces (locale \<open>replay_guard\<close>).
  \<^item> \<open>Payload\<close>: the \<open>key=value\<close> bodies of \<open>discovery.rs\<close> and \<open>transport.rs\<close> (locale \<open>payload_codec\<close>).
  \<^item> \<open>Discovery\<close> (\<open>discovery.rs\<close>): the engine as a record, its methods, its life as a list of operations.
  \<^item> \<open>Transport\<close> (\<open>transport.rs\<close>): the key exchange service and its messages.
  \<^item> \<open>Daemon\<close> (\<open>daemon.rs\<close>): the loop state and its public methods, called in any order (locale
    \<open>ranked_system\<close>).
  \<^item> \<open>Envelope\<close>, \<open>Http\<close>, \<open>Runtime\<close> (\<open>runtime.rs\<close>): wire form, HTTP messages read from a stream that
    is cut into arbitrary reads, and the synchronisation cycle, the handlers and the turn of the loop.
  \<^item> \<open>Config\<close> (\<open>config.rs\<close>): options, environment, file and defaults, and the texts of errors.
  \<^item> \<open>ConfigFile\<close>: the configuration file as a format of entries, comments and blank lines.
  \<^item> \<open>Freshness\<close>: the clock and the nonces made from it (\<open>runtime.rs\<close>) against the memory of nonces.
  \<^item> \<open>Control\<close> (\<open>runtime.rs\<close>): where the control files are, how they are written and removed, how the
    current daemon is found, \<open>status_daemon\<close>, \<open>stop_daemon\<close> with its waiting loop, and what
    \<open>run_daemon\<close> does with these files; a step relation for any sequence of such operations.
  \<^item> \<open>TlsConfig\<close> (\<open>runtime.rs\<close>): loading the certificates, the choice between TLS and plain connections,
    outgoing connections with the list of what was sent on the socket, in the clear or in a session, and
    the loop over incoming ones with the stream each was served on. \<open>secured_turn\<close> is a turn whose requests go
    out this way; the rounds of a daemon and the command \<open>sync\<close> run such turns.
  \<^item> \<open>Setting\<close>: a server at the other end of a connection, and the concrete values of the witnesses.
  \<^item> \<open>Lifecycle\<close> (\<open>runtime.rs\<close>): the whole of \<open>run_daemon\<close> as a function of its start and of a list of
    rounds, each with what other processes and the network do; an abstract specification
    \<open>key_spec\<close> and the simulation (locale \<open>simulation\<close>) of it by the rounds.
  \<^item> \<open>Cli\<close> (\<open>main.rs\<close>): the commands, from their parsed arguments to the exit status.
  \<^item> \<open>Scenarios\<close> (\<open>e2e.rs\<close>), \<open>TestsMessages\<close> (\<open>auth.rs\<close>, \<open>discovery.rs\<close>, \<open>transport.rs\<close>), \<open>TestsFiles\<close>
    (\<open>ssh_keys.rs\<close>, \<open>authorized_keys.rs\<close>, \<open>runtime.rs\<close>), \<open>TestsConfig\<close> and \<open>TestsDaemon\<close>: the end-to-end
    scenarios and the unit tests at the end of each module, run on the model.
  \<^item> this theory: properties that span components.

  \<^bold>\<open>What is shown.\<close> Of the file: it is replaced in one step or not touched, whatever call fails; for
  a well formed file (\<open>doc_ok\<close>: both markers in order or none, no stray carriage return, no blank last
  line) the lines outside the block are kept, the block holds exactly the normalised keys, and repeated
  updates do not accumulate. And where the update is not what one would expect: a check for the existence
  of the file that fails makes it look empty, and the user's lines are lost; an end marker before the begin
  marker; blank lines at the end. Of the messages: signatures cover every field; no accepted envelope is
  accepted again by the same verifier, when its memory outlasts the window of times it accepts; the four
  kinds of message cannot be taken for one another; all formats round trip, a configuration file included;
  and requests for a key, which are checked without such a memory, can be replayed. Of the engine: peers
  come only from bootstrap entries or verified announcements, an announcement acts at most once, and one
  made with a new reading of the clock is not taken for a replay.
  Of the daemon: its rounds refine an abstract view in which only verified keys are learnt and the
  block holds exactly what is known; a synchronising turn succeeds when no file operation fails and the
  file is well formed; a run keeps the lines outside the block of a well formed file unless an existence
  check fails; a key can be fetched and an announcement received from end to end; one malformed request
  ends it; and a start without any reachable peer empties the block. Of the control files: they are
  private to the owner after any sequence of operations with any failures, the status is right at every
  stage of a daemon's life, a stop request is seen by the next round that can look, waiting for a process
  is bounded, and when two groups share their files. Of the transport: without the option to turn TLS off
  all that is sent or served on a TCP connection is in a TLS session, and what arrives on TCP outside a
  session has no influence on a daemon (two runs that differ only there are the same); announcements
  go over UDP, signed but not in a session. Of the commands: they find the daemon that was started, a
  background start starts one process that becomes the daemon, the exit status 2 means that nothing was
  done, and \<open>sync\<close> has the result and the effects of the first turn of a daemon. Of the HTTP layer:
  requests are read independently of how they are cut, and the one way in which reading panics. Of the
  scheduling state machine of \<open>daemon.rs\<close>: once it has been told to shut down it never runs again. The
  tests of the repository, run on the model, pass (\<open>test_suite_passes\<close>), for all values of what they
  leave to the machine they run on.

  \<^bold>\<open>Parameters.\<close> SHA-256, HMAC and the upper case table beyond ASCII are the record \<open>ext\<close>;
  \<open>mac_ok\<close>, the documented behaviour of \<open>verify_slice\<close>, is a named hypothesis, and that HMAC does not
  collide is assumed only of the texts in question. \<open>rustls\<close>, the PEM reader and name resolution
  are the record \<open>tls_lib\<close>. The network, the clock, nonces, the environment, the process table, the
  \<open>kill\<close> program, what other processes do to the file system between the steps of a daemon, and the
  outcome of system calls are arguments.

  \<^bold>\<open>Bounds.\<close> No definition uses fuel: loops over a stream recurse on the list of reads, whose end is
  the end of the stream, the loop of \<open>run_daemon\<close> recurses on the list of its rounds, whose end
  means that the daemon is still running, \<open>stop_wait\<close> has a termination proof, and all functions
  are total. Sums of \<open>u64\<close> and \<open>usize\<close> wrap as in a release
  build. Lengths below \<open>2 ^ 63\<close> are those a Rust value can have.

  \<^bold>\<open>Not modelled.\<close> What happens inside a TLS session (\<open>rustls\<close>), the parsing of arguments (\<open>clap\<close>),
  sleeping between rounds and what \<open>run_daemon\<close> and \<open>run_single_sync\<close> print, and variants for systems
  other than Unix. The statements
  about control files are about groups whose name is a directory of its own below the control
  root (\<open>sid_ok\<close>), and those about a daemon's rounds assume that other processes leave the files
  in question alone (\<open>untouched\<close>).
\<close>

section \<open>Properties across components\<close>

text \<open>C4: From end to end: asking a peer for its key over HTTP gives the normalised key of that peer,
  when the peer runs the same program with the same \<open>sid\<close> and token, however the network cuts
  the request into pieces.\<close>

theorem key_fetch_end_to_end:
  assumes "mac_ok X" and "service_new sid tok p key = Inr server"
    and "clean sid" and "clean p" and "utf8_valid key"
    and "svc_sid client = sid" and "svc_sid_token client = tok"
    and "clean (ep_participant_id ep)" and "clean nonce" and "clean nonce'"
    and "cr \<notin> set (ep_address ep)" and "nl \<notin> set (ep_address ep)" and "utf8_valid (ep_address ep)"
    and "length (ep_address ep) \<le> 60000"
    and "length (serialize_envelope (build_get_public_key_request X client (ep_participant_id ep) now nonce)) < 2 ^ 63"
    and "\<And>b. concat (pieces b) = b" and "\<And>b. list_all (\<lambda>q. q \<noteq> []) (pieces b)"
  shows "\<exists>nkey. normalize_public_key key = Inr nkey
    \<and> request_public_key X (serve X server now' nonce' pieces) now nonce client ep = Inr nkey"
proof -
  have ok: "service_ok server"
    using service_new_ok [OF assms(2-5)] .
  have server: "svc_sid server = sid" "svc_sid_token server = tok" "normalize_public_key key = Inr (svc_public_key server)"
    using assms(2) by (auto simp: service_new_def)
  let ?body = "serialize_envelope (build_get_public_key_request X client (ep_participant_id ep) now nonce)"
  let ?resp = "key_response X server now' nonce'"
  have wire: "wire_ok ?resp"
    using ok assms(10) by (rule wire_ok_key_response)
  have "send_http_post (serve X server now' nonce' pieces) (ep_address ep) (ep_port ep) PATH_GET_PUBLIC_KEY ?body
      = Inr (serialize_envelope ?resp)"
  proof (rule send_post_answered [where status = 200, OF utf8_valid_serialize_envelope [OF wire]])
    show "serve X server now' nonce' pieces (ep_address ep) (ep_port ep)
        (as_bytes (http_post_text (ep_address ep) (ep_port ep) PATH_GET_PUBLIC_KEY ?body))
      = Inr (write_http_response 200 (as_bytes (serialize_envelope ?resp)))"
      using assms(6-17) server by (intro serve_get_request [OF assms(1) ok]) simp_all
  qed
  then show ?thesis
    using parse_serialize_envelope [OF wire] parse_key_response [OF assms(1) ok, of client now' nonce'] assms(6,7) server
    by (simp add: request_public_key_def Let_def)
qed

theorem key_fetch_end_to_end_witness:
  "request_public_key echo_ext (serve echo_ext demo_service 9 ''y'' (map (\<lambda>b. [b]))) 7 ''x'' demo_service
     \<lparr>ep_participant_id = ''n'', ep_address = ''h'', ep_port = 22\<rparr> = Inr ''ssh-rsa AA''"
proof -
  let ?ep = "\<lparr>ep_participant_id = ''n'', ep_address = ''h'', ep_port = 22\<rparr>"
  have "\<exists>nkey. normalize_public_key ''ssh-rsa AA'' = Inr nkey
      \<and> request_public_key echo_ext (serve echo_ext demo_service 9 ''y'' (map (\<lambda>b. [b]))) 7 ''x'' demo_service ?ep = Inr nkey"
    by (rule key_fetch_end_to_end [OF mac_ok_echo demo_new])
      (use demo_request_small in \<open>simp_all add: demo_service_def list_all_iff\<close>)
  with demo_keys show ?thesis by simp
qed

text \<open>Every key the daemon manages, after any number of turns, belongs to another participant, is
  in normal form, and was read from a response that verified with the \<open>sid\<close> and the token of
  the daemon's service.\<close>

lemma managed_keys_verified:
  assumes "daemon_turns X d ws (daemon_start cfg t) s = (Inr r, s')" and "run_managed_keys r k = Some key"
  shows "k \<noteq> cfg_participant_id (set_config d) \<and> normalize_public_key key = Inr key
    \<and> (\<exists>e p. verify_and_parse_public_key_response X (set_service d) e = Inr p \<and> key = pkp_public_key p)"
proof -
  have "keys_ok X d (run_managed_keys r)"
    using assms(1) daemon_start_keys_ok by (rule daemon_turns_keys_ok)
  with assms(2) have "k \<noteq> cfg_participant_id (set_config d)" and "vouched X (set_service d) key"
    by (auto simp: keys_ok_def)
  moreover from this(2) have "normalize_public_key key = Inr key"
    using vouched_normal ssh.normal_fixed by blast
  ultimately show ?thesis
    by (auto simp: vouched_def)
qed

text \<open>C1: When a daemon that is not on a dry run synchronises in a turn, over a well formed file
  (\<open>doc_ok\<close>), and the turn reports success, whichever of its system calls failed on the way, then the
  managed block of \<open>authorized_keys\<close> holds exactly the keys of the participants it knows, each once,
  and the lines outside the block are what they were, with a blank line after them where the block is
  new; or they are gone, when the check for the existence of the file failed.\<close>

theorem daemon_turn_publishes_keys:
  assumes "daemon_turns X d ws (daemon_start cfg t) s0 = (Inr r, s)"
    and "daemon_turn X d w r s = (Inr r', s')" and "syncs X w r" and "\<not> cfg_dry_run (set_config d)"
    and "enumerates (turn_key_order w) (run_managed_keys r')"
    and "p = path_of (set_authorized_keys_path d)" and "doc_ok (str_lines (unwrap_or (files s p) []))"
    and "old = (if fails (turn_faults w) (Stat p) then [] else str_lines (unwrap_or (files s p) []))"
  shows "\<exists>new. files s' p = Some new \<and> set (managed (str_lines new)) = ran (run_managed_keys r')
    \<and> distinct (managed (str_lines new))
    \<and> unmanaged (str_lines new) = unmanaged old @ separator old
    \<and> doc_ok (str_lines new)"
proof -
  have ok: "keys_ok X d (run_managed_keys r)"
    using assms(1) daemon_start_keys_ok by (rule daemon_turns_keys_ok)
  from assms(3,2) obtain m where "run_sync_cycle X (turn_network w) (set_config d) (set_service d)
      (snd (turn_engine X w r)) (run_managed_keys r) = (Inr (), m)" and wr: "write_keys d w m s = (Inr (), s')"
    and r': "r' = \<lparr>run_discovery = snd (turn_engine X w r), run_managed_keys = m,
      run_next_sync_at = turn_now w + max (cfg_sync_interval_secs (set_config d)) 1\<rparr>"
    by (rule daemon_turn_sync)
  moreover have "keys_ok X d (run_managed_keys r')"
    using assms(2) ok by (rule daemon_turn_keys_ok)
  moreover have "old = str_lines (seen_content (turn_faults w) p s)"
    using assms(8) by (simp add: seen_content_def)
  ultimately show ?thesis
    using write_keys_block [OF wr assms(4) _ _ assms(6,7) refl, of X] assms(5) by auto
qed

lemma demo_doc: "doc_ok (str_lines (unwrap_or (files \<lparr>files = Map.empty, modes = Map.empty, dirs = {}\<rparr> p) []))"
  by (simp add: doc_ok_def) code_simp

lemma demo_turn_fields:
  "turn_key_order (demo_turn []) = []" "turn_now (demo_turn []) = 9"
  "turn_faults (demo_turn []) = \<lparr>fails = (\<lambda>_. False), written = (\<lambda>_. 0), made = (\<lambda>_. {})\<rparr>"
  "net_peer_order (turn_network (demo_turn [])) = []" "net_endpoint_order (turn_network (demo_turn [])) = []"
  by (simp_all add: demo_turn_def)

theorem daemon_turn_publishes_keys_witness:
  "\<exists>r' s' new. daemon_turn echo_ext (demo_setup [] False) (demo_turn []) (daemon_start (demo_config [] False) 9)
      \<lparr>files = Map.empty, modes = Map.empty, dirs = {}\<rparr> = (Inr r', s')
    \<and> files s' (path_of ''/h/k'') = Some new \<and> set (managed (str_lines new)) = ran (run_managed_keys r')"
proof -
  let ?d = "demo_setup [] False" and ?w = "demo_turn []" and ?r = "daemon_start (demo_config [] False) 9"
  let ?s = "\<lparr>files = Map.empty, modes = Map.empty, dirs = {}\<rparr>"
  have syncs: "syncs echo_ext ?w ?r"
    by (simp add: syncs_def demo_turn_fields daemon_start_def)
  have "run_sync_cycle echo_ext (turn_network ?w) (set_config ?d) (set_service ?d) e Map.empty = (Inr (), Map.empty)" for e
    by (simp add: run_sync_cycle_def values_in_def demo_turn_fields)
  then obtain r' s' where "daemon_turn echo_ext ?d ?w ?r ?s = (Inr r', s')" "run_managed_keys r' = Map.empty"
    using demo_first_turn [of ?w ?d ?s ?r] demo_writable demo_doc syncs
    by (auto simp: demo_turn_fields demo_setup_def daemon_start_def)
  moreover have "set_authorized_keys_path ?d = ''/h/k''" "\<not> cfg_dry_run (set_config ?d)"
    by (simp_all add: demo_setup_def demo_config_def)
  ultimately show ?thesis
    using daemon_turn_publishes_keys [of echo_ext ?d "[]" "demo_config [] False" 9 ?s ?r ?s ?w r' s' "path_of ''/h/k''", OF _ _ _ _ _ _ _ refl] demo_doc syncs
    by (auto simp: io_return_def enumerates_def demo_turn_fields)
qed

text \<open>C3: A synchronising turn gets its work done: for a daemon that was set up and is not on a dry run,
  when no call on the file system fails, nothing is in the way of the file (\<open>writable\<close>) and the file is
  well formed (\<open>doc_ok\<close>: its markers are in order or absent, no stray carriage return, no blank last
  line), the turn succeeds, whatever the network does, and leaves in the managed block exactly the keys of
  the participants it then knows, and the other lines as they were, with a blank line after them where
  the block is new.\<close>

theorem sync_turn_succeeds:
  assumes "daemon_setup home rd tls hb ub config = Inr d"
    and "daemon_turns X d ws (daemon_start cfg t) s0 = (Inr r, s)" and "syncs X w r" and "\<not> cfg_dry_run (set_config d)"
    and "p = path_of (set_authorized_keys_path d)" and "writable (turn_faults w) p s"
    and "\<not> fails (turn_faults w) (Stat p)" and "old = str_lines (unwrap_or (files s p) [])" and "doc_ok old"
    and "enumerates (turn_key_order w) (snd (run_sync_cycle X (turn_network w) (set_config d) (set_service d)
      (snd (turn_engine X w r)) (run_managed_keys r)))"
  shows "\<exists>r' s' new. daemon_turn X d w r s = (Inr r', s') \<and> files s' p = Some new
    \<and> set (managed (str_lines new)) = ran (run_managed_keys r') \<and> distinct (managed (str_lines new))
    \<and> unmanaged (str_lines new) = unmanaged old @ separator old"
proof -
  have doc: "doc_ok (str_lines (unwrap_or (files s p) []))" and old: "old = str_lines (seen_content (turn_faults w) p s)"
    using assms(7-9) by (simp_all add: seen_content_def)
  obtain m where m: "run_sync_cycle X (turn_network w) (set_config d) (set_service d) (snd (turn_engine X w r)) (run_managed_keys r)
      = (Inr (), m)"
    by (simp add: run_sync_cycle_def Let_def)
  have "keys_ok X d (run_managed_keys r)"
    using assms(2) daemon_start_keys_ok by (rule daemon_turns_keys_ok)
  with run_sync_cycle_keys_ok m have ok: "keys_ok X d m"
    by fastforce
  obtain s' where wr: "write_keys d w m s = (Inr (), s')"
    using write_keys_succeeds [OF ok _ assms(5,6) doc] assms(10) m by auto
  obtain v where "send_announcement X (snd (turn_engine X w r)) (cfg_participant_id (set_config d))
      (set_advertised_address d) (set_http_port d) (set_local_public_key d) (set_udp_port d)
      (turn_announce_now w) (turn_announce_nonce w) = Inr v"
    using setup_announces [OF assms(1)] .
  from daemon_turn_syncI [OF assms(3) m wr this] write_keys_block [OF wr assms(4) ok _ assms(5) doc refl] assms(10) m old
  show ?thesis by auto
qed

theorem sync_turn_succeeds_witness:
  "\<exists>d r' s'. daemon_setup None (\<lambda>_. Some ''ssh-rsa BB'') (Inr ()) True True (demo_config [] False) = Inr d
    \<and> daemon_turn echo_ext d (demo_turn []) (daemon_start (demo_config [] False) 9)
      \<lparr>files = Map.empty, modes = Map.empty, dirs = {}\<rparr> = (Inr r', s')
    \<and> files s' (path_of ''/h/k'') \<noteq> None"
proof -
  let ?w = "demo_turn []" and ?r = "daemon_start (demo_config [] False) 9"
  let ?s = "\<lparr>files = Map.empty, modes = Map.empty, dirs = {}\<rparr>"
  have "parse_port ''h:1'' = Inr 1" "parse_port ''h:2'' = Inr 2"
    by (simp_all add: parse_port_def rust_str)
  then obtain d where d: "daemon_setup None (\<lambda>_. Some ''ssh-rsa BB'') (Inr ()) True True (demo_config [] False) = Inr d"
    and fields: "set_config d = demo_config [] False" "set_authorized_keys_path d = ''/h/k''"
    using demo_keys by (auto simp: daemon_setup_def read_local_public_key_def service_new_def demo_config_def expand_home_path_def)
  have "syncs echo_ext ?w ?r"
    by (simp add: syncs_def demo_turn_fields daemon_start_def)
  moreover have "snd (run_sync_cycle echo_ext (turn_network ?w) (set_config d) (set_service d) e (run_managed_keys ?r)) = Map.empty" for e
    by (simp add: run_sync_cycle_def values_in_def daemon_start_def demo_turn_fields)
  moreover have "\<not> cfg_dry_run (set_config d)"
    by (simp add: fields demo_config_def)
  ultimately show ?thesis
    using sync_turn_succeeds [OF d, of echo_ext "[]" "demo_config [] False" 9 ?s ?r ?s ?w, OF _ _ _ refl _ _ refl] demo_writable demo_doc
      d fields by (fastforce simp: io_return_def enumerates_def demo_turn_fields)
qed

text \<open>C5: From end to end over UDP: the datagram a participant broadcasts makes every other participant
  of the same \<open>sid\<close> and token that receives it in time know its address, port and normalised key.\<close>

theorem announcement_end_to_end:
  assumes "mac_ok X" and "send_announcement X d1 p adr port key udp_port ts n = Inr (target, datagram)"
    and "eng_sid d1 = eng_sid d2" and "eng_sid_token d1 = ver_sid_token (eng_verifier d2)"
    and "ver_expected_sid (eng_verifier d2) = eng_sid d2"
    and "clean (eng_sid d1)" "eng_sid d1 \<noteq> []" "clean p" "p \<noteq> []" "clean adr" "adr \<noteq> []" "utf8_valid key"
    and "clean n" and "length datagram \<le> 8192"
    and "in_window (ver_timestamp_skew_secs (eng_verifier d2)) now ts"
    and "ver_seen_nonces (eng_verifier d2) (p @ '':'' @ n) = None"
  shows "\<exists>nkey. normalize_public_key key = Inr nkey
    \<and> eng_peers (handle_udp_announcements X [(datagram, now)] d2) p
      = Some \<lparr>peer_participant_id = p, peer_address = adr, peer_port = port, peer_public_key = nkey\<rparr>"
proof -
  from assms(2) obtain e where e: "build_startup_announcement X d1 p adr port key ts n = Inr e"
    and dg: "datagram = as_bytes (serialize_envelope e)"
    by (auto simp: send_announcement_def)
  from e have "wire_ok e"
    using assms(6,8,13) by (auto simp: build_startup_announcement_def Let_def wire_ok_sign)
  then have "handle_udp_announcements X [(datagram, now)] d2 = snd (process_announcement X e now d2)"
    using parse_serialize_envelope utf8_valid_serialize_envelope assms(14) by (simp add: dg)
  with process_built_announcement [OF assms(1) e assms(3-12) assms(15,16)] show ?thesis
    by simp
qed

theorem announcement_end_to_end_witness:
  "\<exists>target datagram. send_announcement echo_ext (engine_new ''s'' ''t'' 60 120) ''n'' ''h'' 22 ''ssh-rsa AA'' 2 9 ''x''
      = Inr (target, datagram)
    \<and> eng_peers (handle_udp_announcements echo_ext [(datagram, 7)] (engine_new ''s'' ''t'' 60 120)) ''n''
      = Some \<lparr>peer_participant_id = ''n'', peer_address = ''h'', peer_port = 22, peer_public_key = ''ssh-rsa AA''\<rparr>"
proof -
  let ?d = "engine_new ''s'' ''t'' 60 120"
  obtain target datagram where send: "send_announcement echo_ext ?d ''n'' ''h'' 22 ''ssh-rsa AA'' 2 9 ''x'' = Inr (target, datagram)"
    using demo_keys by (simp add: send_announcement_def build_startup_announcement_def)
  then have "length datagram \<le> 8192"
    using demo_keys show_digits
    by (auto simp: send_announcement_def build_startup_announcement_def wire_lengths discovery_serialize_payload_def
        engine_new_def)
  moreover have "utf8_valid ''ssh-rsa AA''"
    by simp
  ultimately show ?thesis
    using announcement_end_to_end [OF mac_ok_echo send, of ?d 7] demo_keys send
    by (simp add: engine_new_def verifier_new_def in_window_nat)
qed

section \<open>A daemon that starts while its peers are away\<close>

lemma fetch_keys_all_fail:
  "\<forall>ep. \<exists>e. fetch ep = Inl e \<Longrightarrow> fetch_keys fetch self eps m = m"
proof (induction eps)
  case (Cons ep eps)
  then obtain e where "fetch ep = Inl e" by blast
  with Cons show ?case by simp
qed simp

text \<open>A first turn in which no peer answers, and a file with the block of an earlier run.\<close>

definition offline_turn :: turn where
  "offline_turn = (demo_turn [])\<lparr>turn_network := (turn_network (demo_turn []))\<lparr>net_exchange := (\<lambda>_ _ _. Inl StreamFailed),
     net_peer_order := [''p''], net_endpoint_order := [''p'']\<rparr>\<rparr>"

definition earlier_block :: string where
  "earlier_block = ''# ssh-key-sync begin'' @ [nl] @ ''ssh-rsa AA'' @ [nl] @ ''# ssh-key-sync end''"

text \<open>C38: The keys of earlier runs are not kept: when the first turn of a daemon that is not on a dry run
  reaches none of its peers and succeeds, over a well formed file (\<open>doc_ok\<close>), the managed block is empty
  after it.\<close>

theorem offline_restart_empties_block:
  assumes "daemon_turn X d w (daemon_start cfg t) s = (Inr r', s')" and "syncs X w (daemon_start cfg t)"
    and "\<forall>ep. \<exists>e. fetch_from X (turn_network w) (set_service d) ep = Inl e"
    and "\<not> cfg_dry_run (set_config d)" and "turn_key_order w = []"
    and "p = path_of (set_authorized_keys_path d)" and "doc_ok (str_lines (unwrap_or (files s p) []))"
  shows "\<exists>new. files s' p = Some new \<and> managed (str_lines new) = []"
proof -
  from assms(2,1) obtain m where m: "run_sync_cycle X (turn_network w) (set_config d) (set_service d)
      (snd (turn_engine X w (daemon_start cfg t))) (run_managed_keys (daemon_start cfg t)) = (Inr (), m)"
    and wr: "write_keys d w m s = (Inr (), s')"
    and "r' = \<lparr>run_discovery = snd (turn_engine X w (daemon_start cfg t)), run_managed_keys = m,
      run_next_sync_at = turn_now w + max (cfg_sync_interval_secs (set_config d)) 1\<rparr>"
    by (rule daemon_turn_sync)
  then have empty: "m = Map.empty"
    using fetch_keys_all_fail [OF assms(3)] by (simp add: run_sync_cycle_def Let_def daemon_start_def)
  show ?thesis
    using write_keys_block [OF wr assms(4) _ _ assms(6,7) refl, of X] assms(5)
    by (auto simp: empty keys_ok_def enumerates_def)
qed

theorem offline_restart_empties_block_witness:
  "\<exists>r' s' new. daemon_turn echo_ext (demo_setup [''p@h:1''] False) offline_turn (daemon_start (demo_config [''p@h:1''] False) 9)
      \<lparr>files = [path_of ''/h/k'' \<mapsto> earlier_block], modes = Map.empty, dirs = {}\<rparr> = (Inr r', s')
    \<and> managed (str_lines earlier_block) = [''ssh-rsa AA''] \<and> files s' (path_of ''/h/k'') = Some new \<and> managed (str_lines new) = []"
proof -
  let ?d = "demo_setup [''p@h:1''] False" and ?cfg = "demo_config [''p@h:1''] False"
  let ?s = "\<lparr>files = [path_of ''/h/k'' \<mapsto> earlier_block], modes = Map.empty, dirs = {}\<rparr>"
  have doc: "doc_ok (str_lines earlier_block)" and block: "managed (str_lines earlier_block) = [''ssh-rsa AA'']"
    and valid: "utf8_valid earlier_block"
    by code_simp+
  have "path_of ''/h/k'' = \<lparr>absolute = True, components = [''h'', ''k'']\<rparr>"
    by code_simp
  then have place: "writable (turn_faults offline_turn) (path_of ''/h/k'') ?s"
    using valid by (simp add: writable_def offline_turn_def demo_turn_fields)
  have syncs: "syncs echo_ext offline_turn (daemon_start ?cfg 9)" and order: "turn_key_order offline_turn = []"
    by (simp_all add: syncs_def offline_turn_def demo_turn_fields daemon_start_def)
  have fail: "\<forall>ep. \<exists>e. fetch_from echo_ext (turn_network offline_turn) svc ep = Inl e" for svc
    by (simp add: fetch_from_def request_public_key_def send_http_post_def offline_turn_def Let_def)
  then have "run_sync_cycle echo_ext (turn_network offline_turn) (set_config ?d) (set_service ?d) e Map.empty = (Inr (), Map.empty)" for e
    using fetch_keys_all_fail [OF fail] by (simp add: run_sync_cycle_def)
  then obtain r' s' where turn: "daemon_turn echo_ext ?d offline_turn (daemon_start ?cfg 9) ?s = (Inr r', s')"
    using demo_first_turn [of offline_turn ?d ?s "daemon_start ?cfg 9"] place order syncs doc
    by (auto simp: demo_setup_def daemon_start_def)
  from offline_restart_empties_block [OF turn syncs fail _ order refl] doc block turn show ?thesis
    by (auto simp: demo_setup_def demo_config_def)
qed

section \<open>The tests of the repository\<close>

text \<open>The unit tests of the eight modules and the end-to-end scenarios, as definitions of the test
  theories, pass on the model: for every authentication code that verifies exactly its own tags and
  gives different tags to the few texts the tests compare, in a process whose environment has none
  of the program's variables, with a temporary directory that can be used. This is a check of the
  definitions against what the authors expect of them.\<close>

lemma test_suite_passes:
  assumes "mac_ok X" and "tests_separated X" and "scenarios_separated X" and "unset env" and "quotes_plain quoted"
    and "usable_temp os temp_dir s"
  shows "auth_tests X \<and> discovery_tests X \<and> transport_tests X \<and> config_tests quoted rd env m os temp_dir now s \<and> daemon_tests
    \<and> ssh_key_tests m os temp_dir now s \<and> authorized_keys_tests m os temp_dir now s \<and> runtime_tests os temp_dir now s
    \<and> e2e_tests X"
  using message_tests_pass [OF assms(1,2)] config_tests_pass [OF assms(4-6)] daemon_tests_pass file_tests_pass [OF assms(6)]
    e2e_tests_pass [OF assms(1,3)] by simp

end
